(* ===== verification/Glob.thy ===== *)
theory Glob
  imports Prelude
begin

text \<open>
  \<open>path.Match\<close> of the Go standard library, which decides every authorization pattern of
  the kernel (\<open>internal/authz/authz.go\<close>, \<open>match\<close>). The result is None for
  \<open>ErrBadPattern\<close>. A character stands for one byte, so the model is exact on ASCII
  patterns and names, which is what contract names and policies use.

  The lemmas characterise the two shapes of pattern a policy holds: a plain capability name
  matches itself only, and one star stands for any text without a slash.
\<close>

abbreviation bslash :: char where "bslash \<equiv> CHR 0x5C"

section \<open>Character classes\<close>

definition getEsc :: "string \<Rightarrow> (char \<times> string) option" where
  "getEsc chunk =
     (case chunk of
        [] \<Rightarrow> None
      | c # cs \<Rightarrow>
          if c = CHR ''-'' \<or> c = CHR '']'' then None
          else (case (if c = bslash then cs else c # cs) of
                  [] \<Rightarrow> None
                | r # rest \<Rightarrow> if rest = [] then None else Some (r, rest)))"

lemma getEsc_length: "getEsc chunk = Some (r, rest) \<Longrightarrow> length rest < length chunk"
  by (auto simp: getEsc_def split: list.splits if_splits)

text \<open>
  The loop over the ranges of a class: \<open>r\<close> is the character tested, \<open>some\<close> whether a
  range was read (\<open>nrange > 0\<close>), \<open>m\<close> whether one matched.
\<close>

function matchRanges :: "char \<Rightarrow> bool \<Rightarrow> bool \<Rightarrow> string \<Rightarrow> (bool \<times> string) option" where
  "matchRanges r some m chunk =
     (if some \<and> chunk \<noteq> [] \<and> hd chunk = CHR '']'' then Some (m, tl chunk)
      else (case getEsc chunk of
              None \<Rightarrow> None
            | Some (lo, chunk1) \<Rightarrow>
                if hd chunk1 = CHR ''-''
                then (case getEsc (tl chunk1) of
                        None \<Rightarrow> None
                      | Some (hi, chunk2) \<Rightarrow> matchRanges r True (m \<or> lo \<le> r \<and> r \<le> hi) chunk2)
                else matchRanges r True (m \<or> lo \<le> r \<and> r \<le> lo) chunk1))"
  by pat_completeness auto
termination
  by (relation "measure (\<lambda>(r, some, m, chunk). length chunk)")
    (auto dest!: getEsc_length)

declare matchRanges.simps [simp del]

lemma matchRanges_length:
  "matchRanges r some m chunk = Some (b, rest) \<Longrightarrow> length rest \<le> length chunk"
proof (induction r some m chunk rule: matchRanges.induct)
  case (1 r some m chunk)
  show ?case
  proof (cases "some \<and> chunk \<noteq> [] \<and> hd chunk = CHR '']''")
    case True
    then have "matchRanges r some m chunk = Some (m, tl chunk)"
      by (subst matchRanges.simps) simp
    with "1.prems" show ?thesis by auto
  next
    case False
    with "1.prems" obtain lo chunk1 where lo: "getEsc chunk = Some (lo, chunk1)"
      by (auto simp: matchRanges.simps [of r some m chunk] split: option.splits if_splits)
    then have len: "length chunk1 < length chunk" by (rule getEsc_length)
    show ?thesis
    proof (cases "hd chunk1 = CHR ''-''")
      case True
      with "1.prems" False lo obtain hi chunk2 where hi: "getEsc (tl chunk1) = Some (hi, chunk2)"
        by (auto simp: matchRanges.simps [of r some m chunk] split: option.splits if_splits)
      with "1.IH"(1) [OF False lo refl True hi refl] "1.prems" False lo True len getEsc_length [OF hi]
      show ?thesis by (auto simp: matchRanges.simps [of r some m chunk])
    next
      case notDash: False
      with "1.IH"(2) [OF False lo refl notDash] "1.prems" False lo len
      show ?thesis by (auto simp: matchRanges.simps [of r some m chunk])
    qed
  qed
qed

section \<open>One chunk\<close>

text \<open>
  \<open>matchChunk\<close>: None is a bad pattern, \<open>Some None\<close> no match, \<open>Some (Some t)\<close> a match
  with \<open>t\<close> left of the name. After a failure the loop only checks the pattern's syntax.
\<close>

definition stepLit :: "bool \<Rightarrow> char \<Rightarrow> string \<Rightarrow> bool \<times> string" where
  "stepLit failed c s = (if failed then (True, s) else (c \<noteq> hd s, tl s))"

definition splitNeg :: "string \<Rightarrow> bool \<times> string" where
  "splitNeg cs = (if cs \<noteq> [] \<and> hd cs = CHR ''^'' then (True, tl cs) else (False, cs))"

lemma splitNeg_length: "(n, body) = splitNeg cs \<Longrightarrow> length body \<le> length cs"
  by (auto simp: splitNeg_def split: if_splits)

function matchChunk :: "bool \<Rightarrow> string \<Rightarrow> string \<Rightarrow> string option option" where
  "matchChunk failed [] s = Some (if failed then None else Some s)"
| "matchChunk failed (c # cs) s =
     (let failed1 = (failed \<or> s = []) in
      if c = CHR ''['' then
        (case splitNeg cs of (negated, body) \<Rightarrow>
         (case matchRanges (if failed1 then CHR 0x00 else hd s) False False body of
            None \<Rightarrow> None
          | Some (m, rest) \<Rightarrow>
              matchChunk (failed1 \<or> m = negated) rest (if failed1 then s else tl s)))
      else if c = CHR ''?'' then
        matchChunk (failed1 \<or> hd s = CHR ''/'') cs (if failed1 then s else tl s)
      else if c = bslash then
        (case cs of
           [] \<Rightarrow> None
         | d # ds \<Rightarrow> (case stepLit failed1 d s of (f, t) \<Rightarrow> matchChunk f ds t))
      else (case stepLit failed1 c s of (f, t) \<Rightarrow> matchChunk f cs t))"
  by pat_completeness auto
termination
  by (relation "measure (\<lambda>(failed, chunk, s). length chunk)")
    (fastforce dest!: matchRanges_length splitNeg_length)+

declare matchChunk.simps(2) [simp del]

section \<open>The whole pattern\<close>

fun scan :: "bool \<Rightarrow> string \<Rightarrow> string \<times> string" where
  "scan inrange [] = ([], [])"
| "scan inrange [c] =
     (if c = CHR ''*'' \<and> \<not> inrange then ([], [c]) else ([c], []))"
| "scan inrange (c # d # cs) =
     (if c = bslash then (case scan inrange cs of (a, b) \<Rightarrow> (c # d # a, b))
      else if c = CHR ''*'' \<and> \<not> inrange then ([], c # d # cs)
      else (case scan (if c = CHR ''['' then True else if c = CHR '']'' then False else inrange)
                   (d # cs) of (a, b) \<Rightarrow> (c # a, b)))"

definition scanChunk :: "string \<Rightarrow> bool \<times> string \<times> string" where
  "scanChunk pattern =
     (case scan False (dropWhile (\<lambda>c. c = CHR ''*'') pattern) of
        (chunk, rest) \<Rightarrow> (pattern \<noteq> [] \<and> hd pattern = CHR ''*'', chunk, rest))"

lemma scan_append: "scan b p = (x, y) \<Longrightarrow> x @ y = p"
  by (induction b p arbitrary: x y rule: scan.induct) (auto split: if_splits prod.splits)

lemma scan_progress: "scan False p = (x, y) \<Longrightarrow> p \<noteq> [] \<Longrightarrow> hd p \<noteq> CHR ''*'' \<Longrightarrow> x \<noteq> []"
  by (induction False p rule: scan.induct) (auto split: if_splits prod.splits)

lemma scanChunk_length:
  assumes "scanChunk p = (star, chunk, rest)" and "p \<noteq> []"
  shows "length rest < length p"
proof -
  let ?q = "dropWhile (\<lambda>c. c = CHR ''*'') p"
  from assms have s: "scan False ?q = (chunk, rest)"
    by (auto simp: scanChunk_def split: prod.splits)
  show ?thesis
  proof (cases "hd p = CHR ''*''")
    case True
    with assms(2) have "length ?q < length p"
      by (cases p) (auto simp: le_imp_less_Suc length_dropWhile_le)
    with scan_append [OF s] show ?thesis by (metis length_append le_add2 le_less_trans)
  next
    case False
    with assms(2) have "?q = p" by (cases p) auto
    with scan_progress [OF s] scan_append [OF s] False assms(2) show ?thesis by auto
  qed
qed

fun skip_match :: "string \<Rightarrow> bool \<Rightarrow> string \<Rightarrow> string option option" where
  "skip_match chunk last_chunk [] = Some None"
| "skip_match chunk last_chunk (c # cs) =
     (if c = CHR ''/'' then Some None
      else (case matchChunk False chunk cs of
              None \<Rightarrow> None
            | Some None \<Rightarrow> skip_match chunk last_chunk cs
            | Some (Some t) \<Rightarrow>
                if last_chunk \<and> t \<noteq> [] then skip_match chunk last_chunk cs else Some (Some t)))"

function rest_valid :: "string \<Rightarrow> bool" where
  "rest_valid pattern =
     (if pattern = [] then True
      else (case scanChunk pattern of (star, chunk, rest) \<Rightarrow>
              matchChunk False chunk [] \<noteq> None \<and> rest_valid rest))"
  by pat_completeness auto
termination
  by (relation "measure length") (auto dest: scanChunk_length [OF sym])

declare rest_valid.simps [simp del]

function path_match :: "string \<Rightarrow> string \<Rightarrow> bool option" where
  "path_match pattern name =
     (if pattern = [] then Some (name = [])
      else (case scanChunk pattern of (star, chunk, rest) \<Rightarrow>
        if star \<and> chunk = [] then Some (CHR ''/'' \<notin> set name)
        else (case matchChunk False chunk name of
                None \<Rightarrow> None
              | Some r \<Rightarrow>
                  (case (case r of
                           Some t \<Rightarrow> if t = [] \<or> rest \<noteq> [] then Some (Some t)
                                     else if star then skip_match chunk (rest = []) name
                                     else Some None
                         | None \<Rightarrow> if star then skip_match chunk (rest = []) name else Some None) of
                     None \<Rightarrow> None
                   | Some (Some t) \<Rightarrow> path_match rest t
                   | Some None \<Rightarrow> if rest_valid rest then Some False else None))))"
  by pat_completeness auto
termination
  by (relation "measure (\<lambda>(p, n). length p)") (auto dest: scanChunk_length [OF sym])

declare path_match.simps [simp del]

section \<open>Patterns without metacharacters\<close>

definition metachars :: "char set" where
  "metachars = {CHR ''*'', CHR ''?'', CHR ''['', bslash}"

definition literal :: "string \<Rightarrow> bool" where
  "literal p = (\<forall>c \<in> set p. c \<notin> metachars)"

lemma literal_simps [simp]:
  "literal []"
  "literal (c # cs) \<longleftrightarrow> c \<notin> metachars \<and> literal cs"
  "literal (a @ b) \<longleftrightarrow> literal a \<and> literal b"
  by (auto simp: literal_def)

lemma scan_literal: "literal p \<Longrightarrow> scan r p = (p, [])"
  by (induction r p rule: scan.induct) (auto simp: metachars_def)

lemma scan_literal_star: "literal p \<Longrightarrow> scan False (p @ CHR ''*'' # q) = (p, CHR ''*'' # q)"
proof (induction p)
  case Nil
  then show ?case by (cases q) auto
next
  case (Cons c p)
  then show ?case by (cases p) (auto simp: metachars_def)
qed

lemma matchChunk_failed_literal: "literal p \<Longrightarrow> matchChunk True p s = Some None"
  by (induction p arbitrary: s) (auto simp: matchChunk.simps(2) metachars_def stepLit_def Let_def)

lemma matchChunk_literal:
  "literal p \<Longrightarrow>
   matchChunk False p s = Some (if hasPrefix s p then Some (drop (length p) s) else None)"
proof (induction p arbitrary: s)
  case Nil
  then show ?case by (simp add: hasPrefix_def)
next
  case (Cons c p)
  then have "literal p" by simp
  with Cons show ?case
    by (cases s; cases "c = hd s")
      (auto simp: matchChunk.simps(2) metachars_def stepLit_def Let_def hasPrefix_def
        matchChunk_failed_literal)
qed

lemma dropWhile_star_literal:
  "literal p \<Longrightarrow> dropWhile (\<lambda>c. c = CHR ''*'') p = p"
  "literal p \<Longrightarrow> p \<noteq> [] \<Longrightarrow> hd p \<noteq> CHR ''*''"
  "literal p \<Longrightarrow> p \<noteq> [] \<Longrightarrow> dropWhile (\<lambda>c. c = CHR ''*'') (p @ q) = p @ q"
  by (cases p; auto simp: metachars_def)+

lemma rest_valid_Nil [simp]: "rest_valid []"
  by (simp add: rest_valid.simps)

lemma path_match_Nil [simp]: "path_match [] n = Some (n = [])"
  by (simp add: path_match.simps)

lemma path_match_literal: "literal p \<Longrightarrow> path_match p n = Some (n = p)"
  by (cases "p = []")
    (auto simp: path_match.simps [of p n] scanChunk_def scan_literal dropWhile_star_literal
      matchChunk_literal hasPrefix_iff)

definition star_tail :: "string \<Rightarrow> string \<Rightarrow> bool" where
  "star_tail p n = (\<exists>c m. n = c # m @ p \<and> CHR ''/'' \<notin> set (c # m))"

lemma star_tail_simps:
  "\<not> star_tail p []"
  "star_tail p (c # n) \<longleftrightarrow> c \<noteq> CHR ''/'' \<and> (n = p \<or> star_tail p n)"
proof -
  show "\<not> star_tail p []" by (simp add: star_tail_def)
  have "(\<exists>m. n = m @ p \<and> CHR ''/'' \<notin> set m) \<longleftrightarrow> n = p \<or> star_tail p n"
    unfolding star_tail_def by (metis append_Cons append_Nil list.exhaust set_empty empty_iff empty_set)
  then show "star_tail p (c # n) \<longleftrightarrow> c \<noteq> CHR ''/'' \<and> (n = p \<or> star_tail p n)"
    by (auto simp: star_tail_def)
qed

lemma skip_match_literal:
  assumes "literal p" and "p \<noteq> []"
  shows "skip_match p True n = Some (if star_tail p n then Some [] else None)"
  by (induction n)
    (use assms in \<open>auto simp: star_tail_simps matchChunk_literal hasPrefix_iff\<close>)

text \<open>A star followed by literal text: any slash-free text, then exactly that.\<close>

lemma path_match_star:
  assumes "literal b"
  shows "path_match (CHR ''*'' # b) n = Some (\<exists>m. n = m @ b \<and> CHR ''/'' \<notin> set m)"
proof (cases "b = []")
  case True
  then show ?thesis
    by (subst path_match.simps) (simp add: scanChunk_def)
next
  case False
  have sc: "scanChunk (CHR ''*'' # b) = (True, b, [])"
    using assms by (simp add: scanChunk_def scan_literal dropWhile_star_literal)
  have ex: "(\<exists>m. n = m @ b \<and> CHR ''/'' \<notin> set m) \<longleftrightarrow> n = b \<or> star_tail b n"
    unfolding star_tail_def by (metis append_Cons append_Nil list.exhaust set_empty empty_iff empty_set)
  show ?thesis
    unfolding ex using assms False
    by (auto simp: path_match.simps [of "CHR ''*'' # b"] sc matchChunk_literal
        skip_match_literal hasPrefix_iff star_tail_simps)
qed

lemma rest_valid_star: "literal b \<Longrightarrow> rest_valid (CHR ''*'' # b)"
  by (simp add: rest_valid.simps [of "CHR ''*'' # b"] scanChunk_def scan_literal
      dropWhile_star_literal matchChunk_literal)

lemma path_match_infix_star:
  assumes "literal a" and "literal b"
  shows "path_match (a @ CHR ''*'' # b) n = Some (\<exists>m. n = a @ m @ b \<and> CHR ''/'' \<notin> set m)"
proof (cases "a = []")
  case True
  with path_match_star [OF assms(2)] show ?thesis by simp
next
  case False
  have sc: "scanChunk (a @ CHR ''*'' # b) = (False, a, CHR ''*'' # b)"
    using assms False
    by (simp add: scanChunk_def scan_literal_star dropWhile_star_literal hd_append)
  show ?thesis
    using assms False path_match_star [OF assms(2)] rest_valid_star [OF assms(2)]
    by (auto simp: path_match.simps [of "a @ CHR ''*'' # b"] sc matchChunk_literal hasPrefix_iff)
qed

end
