(* ===== verification/Protocol.thy ===== *)
theory Protocol
  imports Prelude
begin

text \<open>
  The wire protocol of the kernel (\<open>kernel/sdk/go/protocol/protocol.go\<close>): message kinds,
  the envelope every message is, protocol errors, and \<open>ValidateEnvelope\<close>, the first check
  of every routed call.

  The payload's type is a parameter of the envelope: the kernel forwards it without looking
  inside, and a plugin's handler receives what \<open>json.Unmarshal\<close> made of it.
\<close>

datatype kind =
    KindHello | KindReady | KindPing | KindPong | KindCommand | KindQuery | KindResult
  | KindError | KindEvent | KindCancel | KindStreamOpen | KindStreamData | KindStreamClose
  | KindOther string

text \<open>The string a kind is on the wire.\<close>

fun kind_name :: "kind \<Rightarrow> string" where
  "kind_name KindHello = ''hello''"
| "kind_name KindReady = ''ready''"
| "kind_name KindPing = ''ping''"
| "kind_name KindPong = ''pong''"
| "kind_name KindCommand = ''command''"
| "kind_name KindQuery = ''query''"
| "kind_name KindResult = ''result''"
| "kind_name KindError = ''error''"
| "kind_name KindEvent = ''event''"
| "kind_name KindCancel = ''cancel''"
| "kind_name KindStreamOpen = ''stream.open''"
| "kind_name KindStreamData = ''stream.data''"
| "kind_name KindStreamClose = ''stream.close''"
| "kind_name (KindOther s) = s"

record Error =
  errCode :: string
  errMessage :: string
  errRetryable :: bool
  errDetails :: string

text \<open>
  \<open>Details\<close> is kept as the bytes of its JSON; empty is the nil map.
\<close>

record 'p Envelope =
  eProtocol :: int
  eMessageID :: string
  eKind :: kind
  eCapability :: string
  eMajor :: int
  eContract :: string
  eCaller :: string
  ePrincipal :: string
  eActorChain :: "string list"
  eDelegationID :: string
  eProviderHint :: string
  eService :: string
  eAuthority :: string
  eFencingEpoch :: int
  eReplyTo :: string
  eReplyRuntime :: string
  eTargetRuntime :: string
  eTraceID :: string
  eCorrelationID :: string
  eCausationID :: string
  eDeadline :: string
  eIdempotencyKey :: string
  eStreamID :: string
  ePayload :: "'p"
  eError :: "Error option"

text \<open>The zero value \<open>protocol.Envelope{}\<close>, over a given zero payload and kind.\<close>

definition zero_envelope :: "'p \<Rightarrow> 'p Envelope" where
  "zero_envelope p =
     \<lparr> eProtocol = 0, eMessageID = [], eKind = KindOther [], eCapability = [], eMajor = 0,
       eContract = [], eCaller = [], ePrincipal = [], eActorChain = [], eDelegationID = [],
       eProviderHint = [], eService = [], eAuthority = [], eFencingEpoch = 0, eReplyTo = [],
       eReplyRuntime = [], eTargetRuntime = [], eTraceID = [], eCorrelationID = [],
       eCausationID = [], eDeadline = [], eIdempotencyKey = [], eStreamID = [],
       ePayload = p, eError = None \<rparr>"

datatype envelope_error =
    UnsupportedProtocol int
  | MessageIDRequired
  | CapabilityRequired
  | EventNameRequired
  | ReplyToRequired
  | CancelTargetRequired
  | StreamIDRequired
  | UnsupportedKind kind

definition ValidateEnvelope :: "'p Envelope \<Rightarrow> envelope_error option" where
  "ValidateEnvelope e =
     (if eProtocol e \<noteq> 1 then Some (UnsupportedProtocol (eProtocol e))
      else if eMessageID e = [] then Some MessageIDRequired
      else (case eKind e of
              KindCommand \<Rightarrow>
                if eCapability e = [] \<or> eMajor e \<le> 0 then Some CapabilityRequired else None
            | KindQuery \<Rightarrow>
                if eCapability e = [] \<or> eMajor e \<le> 0 then Some CapabilityRequired else None
            | KindEvent \<Rightarrow>
                if eCapability e = [] \<or> eMajor e \<le> 0 then Some EventNameRequired else None
            | KindResult \<Rightarrow> if eReplyTo e = [] then Some ReplyToRequired else None
            | KindError \<Rightarrow> if eReplyTo e = [] then Some ReplyToRequired else None
            | KindPong \<Rightarrow> if eReplyTo e = [] then Some ReplyToRequired else None
            | KindCancel \<Rightarrow>
                if eStreamID e = [] \<and> eReplyTo e = [] then Some CancelTargetRequired else None
            | KindStreamOpen \<Rightarrow> if eStreamID e = [] then Some StreamIDRequired else None
            | KindStreamData \<Rightarrow> if eStreamID e = [] then Some StreamIDRequired else None
            | KindStreamClose \<Rightarrow> if eStreamID e = [] then Some StreamIDRequired else None
            | KindHello \<Rightarrow> None
            | KindReady \<Rightarrow> None
            | KindPing \<Rightarrow> None
            | KindOther k \<Rightarrow> Some (UnsupportedKind (KindOther k))))"

text \<open>
  \<open>ParseDeadline\<close>: no deadline, a parse error, or an instant. The RFC 3339 parser
  \<open>time.Parse\<close> is the argument \<open>parse_time\<close>, into nanoseconds since the epoch.
\<close>

datatype deadline = NoDeadline | BadDeadline | DeadlineAt int

definition ParseDeadline :: "(string \<Rightarrow> int option) \<Rightarrow> string \<Rightarrow> deadline" where
  "ParseDeadline parse_time s =
     (if s = [] then NoDeadline
      else (case parse_time s of None \<Rightarrow> BadDeadline | Some t \<Rightarrow> DeadlineAt t))"

text \<open>\<open>RemoteError.Error\<close> and \<open>NewRemoteError\<close>: None is the nil error.\<close>

definition NewRemoteError :: "Error option \<Rightarrow> Error option" where
  "NewRemoteError e = (case e of None \<Rightarrow> None | Some x \<Rightarrow> Some x)"

definition RemoteError_Error :: "Error option \<Rightarrow> string" where
  "RemoteError_Error e =
     (case e of
        None \<Rightarrow> ''<nil>''
      | Some r \<Rightarrow> if errCode r = [] then errMessage r else errCode r @ '': '' @ errMessage r)"

section \<open>What a valid envelope is\<close>

definition is_request :: "kind \<Rightarrow> bool" where
  "is_request k \<longleftrightarrow> k = KindCommand \<or> k = KindQuery"

lemma ValidateEnvelope_request:
  "is_request (eKind e) \<Longrightarrow>
   ValidateEnvelope e = None \<longleftrightarrow>
     eProtocol e = 1 \<and> eMessageID e \<noteq> [] \<and> eCapability e \<noteq> [] \<and> 0 < eMajor e"
  by (auto simp: is_request_def ValidateEnvelope_def)

lemma ValidateEnvelope_common:
  "ValidateEnvelope e = None \<Longrightarrow> eProtocol e = 1 \<and> eMessageID e \<noteq> []"
  by (auto simp: ValidateEnvelope_def split: if_splits)

text \<open>
  Messages of every kind can be correlated: a valid request names a capability, a valid
  reply names its request, a valid stream frame its stream, a valid cancel one of the two.
\<close>

lemma ValidateEnvelope_correlated:
  assumes "ValidateEnvelope e = None"
  shows "(eKind e = KindCommand \<or> eKind e = KindQuery \<or> eKind e = KindEvent \<longrightarrow>
            eCapability e \<noteq> [] \<and> 0 < eMajor e)
       \<and> (eKind e = KindResult \<or> eKind e = KindError \<or> eKind e = KindPong \<longrightarrow> eReplyTo e \<noteq> [])
       \<and> (eKind e = KindStreamOpen \<or> eKind e = KindStreamData \<or> eKind e = KindStreamClose \<longrightarrow>
            eStreamID e \<noteq> [])
       \<and> (eKind e = KindCancel \<longrightarrow> eStreamID e \<noteq> [] \<or> eReplyTo e \<noteq> [])"
  using assms by (auto simp: ValidateEnvelope_def split: if_splits)

end
