(* ===== verification/Manifest.thy ===== *)
theory Manifest
  imports Protocol
begin

text \<open>
  Plugin manifests (\<open>kernel/internal/manifest/manifest.go\<close>): the records, the Unix
  \<open>filepath.Clean\<close> its namespace check uses, \<open>Validate\<close> with every error it returns in
  the source's order, and capability lookup. \<open>Validate\<close> is shown equivalent to a
  declarative well-formedness predicate, and an accepted data namespace is shown to stay
  below the data root.
\<close>

record Capability =
  cName :: string
  cMajor :: int
  cContract :: string
  cMode :: string
  cService :: string
  cAuthority :: string
  cPriority :: int

record Runtime =
  rtProtocol :: string
  rtExecutable :: string
  rtArgs :: "string list"
  rtIsolation :: string
  rtDataNamespace :: string

record RestartPolicy =
  rpMode :: string
  rpMaxAttempts :: int
  rpCooldownMS :: int

record ResourcePolicy =
  resMemoryMB :: int
  resCPUWeight :: int

record Manifest =
  mManifestVersion :: int
  mPluginID :: string
  mPluginVersion :: string
  mRuntime :: Runtime
  mExports :: "Capability list"
  mRequired :: "Capability list"
  mOptional :: "Capability list"
  mPublishes :: "Capability list"
  mSubscribes :: "Capability list"
  mPermissions :: "string list"
  mRestart :: RestartPolicy
  mResources :: ResourcePolicy

definition RuntimeProtocol :: string where
  "RuntimeProtocol = ''vibe-plugin/1''"

text \<open>An empty mode means stateless, wherever the kernel reads it.\<close>

definition norm_mode :: "string \<Rightarrow> string" where
  "norm_mode m = (if m = [] then ''stateless'' else m)"

section \<open>Lexical paths\<close>

fun split_on :: "char \<Rightarrow> string \<Rightarrow> string list" where
  "split_on c [] = [[]]"
| "split_on c (x # xs) =
     (if x = c then [] # split_on c xs
      else (case split_on c xs of [] \<Rightarrow> [[x]] | w # ws \<Rightarrow> (x # w) # ws))"

fun join_with :: "char \<Rightarrow> string list \<Rightarrow> string" where
  "join_with c [] = []"
| "join_with c [w] = w"
| "join_with c (w # v # ws) = w @ c # join_with c (v # ws)"

text \<open>One element of \<open>filepath.Clean\<close>; the stack holds the elements kept so far, last first.\<close>

definition clean_step :: "bool \<Rightarrow> string list \<Rightarrow> string \<Rightarrow> string list" where
  "clean_step rooted stack w =
     (if w = [] \<or> w = ''.'' then stack
      else if w = ''..'' then
        (if stack \<noteq> [] \<and> hd stack \<noteq> ''..'' then tl stack
         else if rooted then stack else w # stack)
      else w # stack)"

definition isAbs :: "string \<Rightarrow> bool" where
  "isAbs p = (p \<noteq> [] \<and> hd p = CHR ''/'')"

definition clean_elems :: "string \<Rightarrow> string list" where
  "clean_elems p = rev (foldl (clean_step (isAbs p)) [] (split_on (CHR ''/'') p))"

definition filepath_Clean :: "string \<Rightarrow> string" where
  "filepath_Clean p =
     (let body = join_with (CHR ''/'') (clean_elems p)
      in if isAbs p then CHR ''/'' # body else if body = [] then ''.'' else body)"

definition bad_namespace :: "string \<Rightarrow> bool" where
  "bad_namespace ns =
     (let c = filepath_Clean ns in isAbs ns \<or> c = ''..'' \<or> hasPrefix c ''../'')"

section \<open>Validation\<close>

datatype manifest_error =
    UnsupportedManifestVersion int
  | PluginIdentityRequired
  | RuntimeRequired
  | RuntimeProtocolMismatch string
  | InvalidNamespace string
  | InvalidExport
  | ExportContractMismatch Capability
  | InvalidMode Capability
  | StatefulIncomplete Capability
  | DuplicateExport string
  | StatefulNamespaceRequired string
  | NegativeMemory
  | CPUWeightRange
  | InvalidDeclared Capability
  | DuplicatePermission string

definition export_key :: "Capability \<Rightarrow> string" where
  "export_key c =
     canonical (cName c) (cMajor c) @ CHR ''/'' # cService c @ CHR ''/'' # cAuthority c"

definition check_export :: "Capability \<Rightarrow> manifest_error option" where
  "check_export c =
     (if cName c = [] \<or> cMajor c \<le> 0 then Some InvalidExport
      else if cContract c \<noteq> canonical (cName c) (cMajor c) then Some (ExportContractMismatch c)
      else if norm_mode (cMode c) \<noteq> ''stateless'' \<and> norm_mode (cMode c) \<noteq> ''stateful''
      then Some (InvalidMode c)
      else if norm_mode (cMode c) = ''stateful'' \<and> (cService c = [] \<or> cAuthority c = [])
      then Some (StatefulIncomplete c)
      else None)"

text \<open>The loop over the exports: \<open>seen\<close> keys and \<open>hasStateful\<close> are its variables.\<close>

fun check_exports ::
  "string set \<Rightarrow> bool \<Rightarrow> Capability list \<Rightarrow> (manifest_error, bool) result" where
  "check_exports seen hasStateful [] = Ok hasStateful"
| "check_exports seen hasStateful (c # cs) =
     (case check_export c of
        Some e \<Rightarrow> Err e
      | None \<Rightarrow>
          if export_key c \<in> seen then Err (DuplicateExport (export_key c))
          else check_exports (insert (export_key c) seen)
                 (hasStateful \<or> norm_mode (cMode c) = ''stateful'') cs)"

definition check_declared :: "Capability \<Rightarrow> manifest_error option" where
  "check_declared c =
     (if cName c = [] \<or> cMajor c \<le> 0 \<or> cContract c \<noteq> canonical (cName c) (cMajor c)
      then Some (InvalidDeclared c) else None)"

text \<open>The scan of the sorted permissions for two equal neighbours.\<close>

fun adjacent_dup :: "string list \<Rightarrow> string option" where
  "adjacent_dup (x # y # ys) = (if y = x then Some y else adjacent_dup (y # ys))"
| "adjacent_dup _ = None"

definition declared :: "Manifest \<Rightarrow> Capability list" where
  "declared m = mRequired m @ mOptional m @ mPublishes m @ mSubscribes m"

definition Validate :: "Manifest \<Rightarrow> manifest_error option" where
  "Validate m =
     (if mManifestVersion m \<noteq> 1 then Some (UnsupportedManifestVersion (mManifestVersion m))
      else if mPluginID m = [] \<or> mPluginVersion m = [] then Some PluginIdentityRequired
      else if rtProtocol (mRuntime m) = [] \<or> rtExecutable (mRuntime m) = [] then Some RuntimeRequired
      else if rtProtocol (mRuntime m) \<noteq> RuntimeProtocol
      then Some (RuntimeProtocolMismatch (rtProtocol (mRuntime m)))
      else if rtDataNamespace (mRuntime m) \<noteq> [] \<and> bad_namespace (rtDataNamespace (mRuntime m))
      then Some (InvalidNamespace (rtDataNamespace (mRuntime m)))
      else (case check_exports {} False (mExports m) of
              Inl e \<Rightarrow> Some e
            | Inr hasStateful \<Rightarrow>
                if hasStateful \<and> rtDataNamespace (mRuntime m) = []
                then Some (StatefulNamespaceRequired (mPluginID m))
                else if resMemoryMB (mResources m) < 0 then Some NegativeMemory
                else if resCPUWeight (mResources m) < 0 \<or> resCPUWeight (mResources m) > 100
                then Some CPUWeightRange
                else (case first_err check_declared (declared m) of
                        Some e \<Rightarrow> Some e
                      | None \<Rightarrow>
                          map_option DuplicatePermission (adjacent_dup (sort (mPermissions m))))))"

definition HasCapability :: "Capability list \<Rightarrow> string \<Rightarrow> int \<Rightarrow> bool" where
  "HasCapability cs name major = list_ex (\<lambda>c. cName c = name \<and> cMajor c = major) cs"

definition FindCapability :: "Capability list \<Rightarrow> string \<Rightarrow> int \<Rightarrow> Capability option" where
  "FindCapability cs name major = find (\<lambda>c. cName c = name \<and> cMajor c = major) cs"

lemma HasCapability_iff:
  "HasCapability cs n m \<longleftrightarrow> (\<exists>c \<in> set cs. cName c = n \<and> cMajor c = m)"
  by (auto simp: HasCapability_def list_ex_iff)

lemma FindCapability_None: "FindCapability cs n m = None \<longleftrightarrow> \<not> HasCapability cs n m"
  by (auto simp: FindCapability_def HasCapability_iff find_None)

section \<open>What a valid manifest is\<close>

definition stateful_export :: "Capability \<Rightarrow> bool" where
  "stateful_export c \<longleftrightarrow> norm_mode (cMode c) = ''stateful''"

definition wf_export :: "Capability \<Rightarrow> bool" where
  "wf_export c \<longleftrightarrow>
     cName c \<noteq> [] \<and> 0 < cMajor c \<and> cContract c = canonical (cName c) (cMajor c)
     \<and> norm_mode (cMode c) \<in> {''stateless'', ''stateful''}
     \<and> (stateful_export c \<longrightarrow> cService c \<noteq> [] \<and> cAuthority c \<noteq> [])"

definition wf_declared :: "Capability \<Rightarrow> bool" where
  "wf_declared c \<longleftrightarrow>
     cName c \<noteq> [] \<and> 0 < cMajor c \<and> cContract c = canonical (cName c) (cMajor c)"

definition wf_manifest :: "Manifest \<Rightarrow> bool" where
  "wf_manifest m \<longleftrightarrow>
     mManifestVersion m = 1 \<and> mPluginID m \<noteq> [] \<and> mPluginVersion m \<noteq> []
     \<and> rtProtocol (mRuntime m) = RuntimeProtocol \<and> rtExecutable (mRuntime m) \<noteq> []
     \<and> (rtDataNamespace (mRuntime m) \<noteq> [] \<longrightarrow> \<not> bad_namespace (rtDataNamespace (mRuntime m)))
     \<and> list_all wf_export (mExports m) \<and> distinct (map export_key (mExports m))
     \<and> (list_ex stateful_export (mExports m) \<longrightarrow> rtDataNamespace (mRuntime m) \<noteq> [])
     \<and> 0 \<le> resMemoryMB (mResources m)
     \<and> 0 \<le> resCPUWeight (mResources m) \<and> resCPUWeight (mResources m) \<le> 100
     \<and> list_all wf_declared (declared m) \<and> distinct (mPermissions m)"

lemma check_export_None: "check_export c = None \<longleftrightarrow> wf_export c"
  by (auto simp: check_export_def wf_export_def stateful_export_def)

lemma check_declared_None: "check_declared c = None \<longleftrightarrow> wf_declared c"
  by (auto simp: check_declared_def wf_declared_def)

lemma check_exports_Ok:
  "check_exports seen hs cs = Inr b \<longleftrightarrow>
     list_all wf_export cs \<and> distinct (map export_key cs) \<and> export_key ` set cs \<inter> seen = {}
     \<and> b = (hs \<or> list_ex stateful_export cs)"
  by (induction cs arbitrary: seen hs)
    (auto simp: check_export_None [symmetric] stateful_export_def split: option.splits)

lemma adjacent_dup_sorted: "sorted xs \<Longrightarrow> adjacent_dup xs = None \<longleftrightarrow> distinct xs"
  by (induction xs rule: adjacent_dup.induct) (auto simp: order_le_less)

lemma adjacent_dup_sort: "adjacent_dup (sort xs) = None \<longleftrightarrow> distinct xs"
  using adjacent_dup_sorted [of "sort xs"] by simp

lemma RuntimeProtocol_nonempty [simp]: "RuntimeProtocol \<noteq> []"
  by (simp add: RuntimeProtocol_def)

lemma Validate_iff: "Validate m = None \<longleftrightarrow> wf_manifest m"
proof (cases "check_exports {} False (mExports m)")
  case (Inl e)
  then have "\<not> (list_all wf_export (mExports m) \<and> distinct (map export_key (mExports m)))"
    using check_exports_Ok [of "{}" False "mExports m"] by auto
  with Inl show ?thesis by (auto simp: Validate_def wf_manifest_def)
next
  case (Inr hs)
  then have "list_all wf_export (mExports m)" "distinct (map export_key (mExports m))"
    "hs = list_ex stateful_export (mExports m)"
    by (auto simp: check_exports_Ok)
  with Inr show ?thesis
    by (auto simp: Validate_def wf_manifest_def first_err_None check_declared_None
        adjacent_dup_sort list_all_iff split: option.splits)
      (metis first_err_None check_declared_None option.distinct(1))+
qed

section \<open>An accepted data namespace stays below the data root\<close>

lemma clean_step_dots:
  "''..'' \<notin> set (clean_step r st w) \<Longrightarrow> ''..'' \<notin> set st"
  by (cases st) (auto simp: clean_step_def split: if_splits)

lemma clean_step_append:
  "''..'' \<notin> set (clean_step False st w) \<Longrightarrow>
   clean_step r (st @ base) w = clean_step False st w @ base"
  by (cases st) (auto simp: clean_step_def split: if_splits)

lemma foldl_clean_append:
  "''..'' \<notin> set (foldl (clean_step False) [] ws) \<Longrightarrow>
   foldl (clean_step r) base ws = foldl (clean_step False) [] ws @ base"
proof (induction ws rule: rev_induct)
  case (snoc w ws)
  then show ?case
    using clean_step_append [of "foldl (clean_step False) [] ws" w r base]
      clean_step_dots [of False "foldl (clean_step False) [] ws" w] by simp
qed simp

text \<open>The stack holds its parent references at the bottom.\<close>

definition dots_last :: "string list \<Rightarrow> bool" where
  "dots_last st \<longleftrightarrow> (\<exists>ws k. st = ws @ replicate k ''..'' \<and> ''..'' \<notin> set ws)"

lemma dots_lastE:
  assumes "dots_last st"
  obtains ws k where "st = ws @ replicate k ''..''" and "''..'' \<notin> set ws"
  using assms by (auto simp: dots_last_def)

lemma clean_step_dots_last: "dots_last st \<Longrightarrow> dots_last (clean_step r st w)"
proof (erule dots_lastE)
  fix ws k
  assume st: "st = ws @ replicate k ''..''" "''..'' \<notin> set ws"
  have push: "w \<noteq> ''..'' \<Longrightarrow> dots_last (w # st)"
    unfolding dots_last_def st(1) by (rule exI [of _ "w # ws"]) (use st(2) in auto)
  have keep: "dots_last st"
    unfolding dots_last_def using st by blast
  have under: "ws = [] \<Longrightarrow> dots_last (''..'' # st)"
    unfolding dots_last_def st(1) by (rule exI [of _ "[]"], rule exI [of _ "Suc k"]) simp
  have pop: "ws \<noteq> [] \<Longrightarrow> dots_last (tl st)"
    unfolding dots_last_def st(1) by (rule exI [of _ "tl ws"]) (use st(2) in \<open>cases ws; auto\<close>)
  show ?thesis
    using push keep under pop st by (cases ws; cases k) (auto simp: clean_step_def)
qed

lemma foldl_clean_dots_last: "dots_last st \<Longrightarrow> dots_last (foldl (clean_step r) st ws)"
  by (induction ws arbitrary: st) (auto intro: clean_step_dots_last)

lemma join_dots:
  "join_with (CHR ''/'') (''..'' # ws) = ''..''
   \<or> hasPrefix (join_with (CHR ''/'') (''..'' # ws)) ''../''"
  by (cases ws) (auto simp: hasPrefix_def)

lemma good_namespace_no_dots:
  assumes "\<not> bad_namespace ns"
  shows "\<not> isAbs ns \<and> ''..'' \<notin> set (clean_elems ns)"
proof -
  let ?st = "foldl (clean_step False) [] (split_on (CHR ''/'') ns)"
  have rel: "\<not> isAbs ns" using assms by (simp add: bad_namespace_def Let_def)
  have "dots_last []" by (simp add: dots_last_def)
  then have "dots_last ?st" by (rule foldl_clean_dots_last)
  then obtain ws k where st: "?st = ws @ replicate k ''..''" "''..'' \<notin> set ws"
    by (rule dots_lastE)
  have "k = 0"
  proof (rule ccontr)
    assume "k \<noteq> 0"
    then obtain j where "k = Suc j" by (cases k) auto
    then have "clean_elems ns = ''..'' # (replicate j ''..'' @ rev ws)"
      using rel st by (simp add: clean_elems_def flip: replicate_append_same)
    moreover have "\<not> hasPrefix [] ''../''" by (simp add: hasPrefix_def)
    ultimately show False using join_dots [of "replicate j ''..'' @ rev ws"] rel assms
      by (auto simp: bad_namespace_def filepath_Clean_def Let_def split: if_splits)
  qed
  with rel st show ?thesis by (simp add: clean_elems_def)
qed

lemma split_on_nonempty [simp]: "split_on c s \<noteq> []"
  by (cases s) (auto split: list.splits)

lemma split_on_append: "split_on c (a @ c # b) = split_on c a @ split_on c b"
  by (induction a) (auto split: list.splits simp: append_eq_Cons_conv)

lemma clean_elems_join:
  assumes "\<not> bad_namespace ns"
  shows "clean_elems (root @ CHR ''/'' # ns) = clean_elems (if root = [] then ''/'' else root) @ clean_elems ns"
proof -
  let ?r = "isAbs (root @ CHR ''/'' # ns)"
  let ?base = "foldl (clean_step ?r) [] (split_on (CHR ''/'') root)"
  from good_namespace_no_dots [OF assms]
  have nd: "''..'' \<notin> set (foldl (clean_step False) [] (split_on (CHR ''/'') ns))"
    and rel: "\<not> isAbs ns" by (auto simp: clean_elems_def)
  have "clean_elems (root @ CHR ''/'' # ns) = rev ?base @ clean_elems ns"
    using foldl_clean_append [OF nd, of ?r ?base] rel
    by (simp add: clean_elems_def split_on_append)
  moreover have "rev ?base = clean_elems (if root = [] then ''/'' else root)"
    by (cases root) (auto simp: clean_elems_def isAbs_def clean_step_def)
  ultimately show ?thesis by simp
qed

end
