(* ===== verification/Authz.thy ===== *)
theory Authz
  imports Glob Manifest
begin

text \<open>
  The host's authorization engine (\<open>kernel/internal/authz/authz.go\<close>) and the policy file it
  is filled from (\<open>kernel/internal/policy/policy.go\<close>). The engine's state is its grant map;
  a grant's \<open>Delegations\<close> is an association list, in the order Go's map iteration visits it,
  and no decision depends on that order.
\<close>

record Grant =
  gCapabilities :: "string list"
  gPublishes :: "string list"
  gSubscribes :: "string list"
  gHostPermissions :: "string list"
  gServiceAuthority :: bool
  gDelegations :: "(string \<times> string list) list"

definition zero_grant :: Grant where
  "zero_grant = \<lparr> gCapabilities = [], gPublishes = [], gSubscribes = [], gHostPermissions = [],
     gServiceAuthority = False, gDelegations = [] \<rparr>"

type_synonym engine = "string \<rightharpoonup> Grant"

definition SetGrant :: "engine \<Rightarrow> string \<Rightarrow> Grant \<Rightarrow> engine" where
  "SetGrant en identity g = en(identity \<mapsto> g)"

definition pattern_match :: "string \<Rightarrow> string \<Rightarrow> bool" where
  "pattern_match pattern value \<longleftrightarrow> path_match pattern value = Some True"

definition matchList :: "string list \<Rightarrow> string \<Rightarrow> int \<Rightarrow> bool" where
  "matchList patterns name major =
     list_ex (\<lambda>p. pattern_match p (canonical name major)) patterns"

definition granted :: "engine \<Rightarrow> string \<Rightarrow> string \<Rightarrow> int \<Rightarrow> bool" where
  "granted en identity capability major =
     (case en identity of
        None \<Rightarrow> False
      | Some g \<Rightarrow> list_ex (\<lambda>p. pattern_match p (canonical capability major)) (gCapabilities g))"

datatype authz_error =
    ConsumeNotDeclared string string int
  | NotGranted string string int
  | ExternalNotGranted string string int
  | PublishNotDeclared string string int
  | PublishNotGranted string string int
  | SubscribeNotDeclared string string int
  | SubscribeNotGranted string string int
  | NoServiceAuthority string

definition CanConsume :: "engine \<Rightarrow> Manifest \<Rightarrow> string \<Rightarrow> int \<Rightarrow> authz_error option" where
  "CanConsume en caller capability major =
     (if \<not> (HasCapability (mRequired caller) capability major
             \<or> HasCapability (mOptional caller) capability major)
      then Some (ConsumeNotDeclared (mPluginID caller) capability major)
      else if \<not> granted en (mPluginID caller) capability major
      then Some (NotGranted (mPluginID caller) capability major)
      else None)"

definition CanExternal :: "engine \<Rightarrow> string \<Rightarrow> string \<Rightarrow> int \<Rightarrow> authz_error option" where
  "CanExternal en identity capability major =
     (if \<not> granted en identity capability major
      then Some (ExternalNotGranted identity capability major) else None)"

definition CanPublish :: "engine \<Rightarrow> Manifest \<Rightarrow> string \<Rightarrow> int \<Rightarrow> authz_error option" where
  "CanPublish en caller event major =
     (if \<not> HasCapability (mPublishes caller) event major
      then Some (PublishNotDeclared (mPluginID caller) event major)
      else (case en (mPluginID caller) of
              None \<Rightarrow> Some (PublishNotGranted (mPluginID caller) event major)
            | Some g \<Rightarrow>
                if \<not> matchList (gPublishes g) event major
                then Some (PublishNotGranted (mPluginID caller) event major) else None))"

definition CanSubscribe :: "engine \<Rightarrow> Manifest \<Rightarrow> string \<Rightarrow> int \<Rightarrow> authz_error option" where
  "CanSubscribe en caller event major =
     (if \<not> HasCapability (mSubscribes caller) event major
      then Some (SubscribeNotDeclared (mPluginID caller) event major)
      else (case en (mPluginID caller) of
              None \<Rightarrow> Some (SubscribeNotGranted (mPluginID caller) event major)
            | Some g \<Rightarrow>
                if \<not> matchList (gSubscribes g) event major
                then Some (SubscribeNotGranted (mPluginID caller) event major) else None))"

definition DelegationScope :: "engine \<Rightarrow> string \<Rightarrow> string \<Rightarrow> int \<Rightarrow> string list" where
  "DelegationScope en identity rootCapability rootMajor =
     (case en identity of
        None \<Rightarrow> []
      | Some g \<Rightarrow>
          concat (map snd
            (filter (\<lambda>(trigger, scope). pattern_match trigger (canonical rootCapability rootMajor))
               (gDelegations g))))"

definition ScopeAllows :: "string list \<Rightarrow> string \<Rightarrow> int \<Rightarrow> bool" where
  "ScopeAllows scope capability major =
     list_ex (\<lambda>p. pattern_match p (canonical capability major)) scope"

definition CanInvokeAsService :: "engine \<Rightarrow> string \<Rightarrow> authz_error option" where
  "CanInvokeAsService en identity =
     (case en identity of
        None \<Rightarrow> Some (NoServiceAuthority identity)
      | Some g \<Rightarrow> if \<not> gServiceAuthority g then Some (NoServiceAuthority identity) else None)"

definition HasHostPermission :: "engine \<Rightarrow> string \<Rightarrow> string \<Rightarrow> bool" where
  "HasHostPermission en identity permission =
     (let g = (case en identity of None \<Rightarrow> zero_grant | Some g \<Rightarrow> g)
      in list_ex (\<lambda>p. pattern_match p permission) (gHostPermissions g))"

section \<open>Deny by default, and what a grant can mean\<close>

lemma unknown_identity_denied:
  "en identity = None \<Longrightarrow> \<not> granted en identity cap major"
  "en identity = None \<Longrightarrow> DelegationScope en identity cap major = []"
  "en identity = None \<Longrightarrow> CanInvokeAsService en identity \<noteq> None"
  "en identity = None \<Longrightarrow> \<not> HasHostPermission en identity perm"
  by (simp_all add: granted_def DelegationScope_def CanInvokeAsService_def HasHostPermission_def
      zero_grant_def)

lemma ScopeAllows_Nil [simp]: "\<not> ScopeAllows [] cap major"
  by (simp add: ScopeAllows_def)

lemma granted_iff:
  "granted en identity cap major \<longleftrightarrow>
     (\<exists>g. en identity = Some g \<and> (\<exists>p \<in> set (gCapabilities g). pattern_match p (canonical cap major)))"
  by (auto simp: granted_def list_ex_iff split: option.splits)

lemma ScopeAllows_iff:
  "ScopeAllows scope cap major \<longleftrightarrow> (\<exists>p \<in> set scope. pattern_match p (canonical cap major))"
  by (auto simp: ScopeAllows_def list_ex_iff)

lemma CanConsume_None:
  "CanConsume en m cap major = None \<longleftrightarrow>
     (HasCapability (mRequired m) cap major \<or> HasCapability (mOptional m) cap major)
     \<and> granted en (mPluginID m) cap major"
  by (simp add: CanConsume_def)

lemma CanExternal_None: "CanExternal en i cap major = None \<longleftrightarrow> granted en i cap major"
  by (simp add: CanExternal_def)

lemma CanPublish_None:
  "CanPublish en m ev major = None \<longleftrightarrow>
     HasCapability (mPublishes m) ev major
     \<and> (\<exists>g. en (mPluginID m) = Some g \<and> matchList (gPublishes g) ev major)"
  by (auto simp: CanPublish_def split: option.splits)

lemma CanSubscribe_None:
  "CanSubscribe en m ev major = None \<longleftrightarrow>
     HasCapability (mSubscribes m) ev major
     \<and> (\<exists>g. en (mPluginID m) = Some g \<and> matchList (gSubscribes g) ev major)"
  by (auto simp: CanSubscribe_def split: option.splits)

lemma CanInvokeAsService_None:
  "CanInvokeAsService en i = None \<longleftrightarrow> (\<exists>g. en i = Some g \<and> gServiceAuthority g)"
  by (auto simp: CanInvokeAsService_def split: option.splits)

lemma DelegationScope_set:
  "set (DelegationScope en identity root major) =
     {p. \<exists>g trigger scope. en identity = Some g \<and> (trigger, scope) \<in> set (gDelegations g)
        \<and> pattern_match trigger (canonical root major) \<and> p \<in> set scope}"
  by (cases "en identity") (auto simp: DelegationScope_def, blast+)

text \<open>A pattern without metacharacters that is a capability name grants that one capability.\<close>

lemma show_int_literal [simp]: "literal (show_int i)"
proof -
  have "digit d \<notin> metachars" if "d < 10" for d
  proof -
    have "digit_val c = None" if "c \<in> metachars" for c
      using that by (auto simp: metachars_def digit_val_def)
    with that show ?thesis using digit_val_digit by fastforce
  qed
  then have "literal (digits n)" for n
    by (auto simp: literal_def dest!: digits_chars)
  then show ?thesis by (auto simp: show_int_def metachars_def)
qed

lemma canonical_literal [simp]: "literal (canonical n m) \<longleftrightarrow> literal n"
  by (auto simp: canonical_def metachars_def)

lemma pattern_match_canonical:
  "literal n \<Longrightarrow> pattern_match (canonical n m) (canonical n' m') \<longleftrightarrow> n' = n \<and> m' = m"
  by (simp add: pattern_match_def path_match_literal)

section \<open>The policy file\<close>

record PolicyFile =
  pfGrants :: "(string \<times> Grant) list"
  pfClients :: "(string \<times> string) list"

datatype policy_error =
    EmptyClientIdentity | BadTokenHash string | ClientWithoutGrant string

definition check_client :: "(string \<times> Grant) list \<Rightarrow> string \<times> string \<Rightarrow> policy_error option" where
  "check_client grants c =
     (case c of (identity, token_sha256) \<Rightarrow>
        if identity = [] then Some EmptyClientIdentity
        else if length token_sha256 \<noteq> 64 then Some (BadTokenHash identity)
        else if map_of grants identity = None then Some (ClientWithoutGrant identity)
        else None)"

definition policy_Validate :: "PolicyFile \<Rightarrow> policy_error option" where
  "policy_Validate f = first_err (check_client (pfGrants f)) (pfClients f)"

text \<open>\<open>Load\<close>, from the file as decoded: None when it cannot be read or is not JSON.\<close>

datatype policy_load_error = PolicyUnreadable | PolicyInvalid policy_error

definition policy_Load :: "PolicyFile option \<Rightarrow> (policy_load_error, PolicyFile) result" where
  "policy_Load file =
     (case file of
        None \<Rightarrow> Err PolicyUnreadable
      | Some f \<Rightarrow>
          (case policy_Validate f of Some e \<Rightarrow> Err (PolicyInvalid e) | None \<Rightarrow> Ok f))"

definition ClientTokens :: "PolicyFile \<Rightarrow> (string \<rightharpoonup> string)" where
  "ClientTokens f = map_of (pfClients f)"

text \<open>The kernel's start-up loop \<open>for id, g := range policyFile.Grants\<close>.\<close>

definition engine_of_policy :: "PolicyFile \<Rightarrow> engine" where
  "engine_of_policy f = fold (\<lambda>(i, g) en. SetGrant en i g) (pfGrants f) Map.empty"

lemma fold_SetGrant:
  "distinct (map fst gs) \<Longrightarrow> fold (\<lambda>(i, g) en. SetGrant en i g) gs en = en ++ map_of gs"
proof (induction gs arbitrary: en)
  case (Cons x gs)
  obtain i g where x: "x = (i, g)" by (cases x)
  from Cons.prems x have "i \<notin> dom (map_of gs)" by (simp add: dom_map_of_conv_image_fst)
  with Cons x show ?case
    by (auto simp: SetGrant_def map_add_upd_left fun_eq_iff map_add_def split: option.splits)
qed simp

lemma engine_of_policy_eq:
  "distinct (map fst (pfGrants f)) \<Longrightarrow> engine_of_policy f = map_of (pfGrants f)"
  by (simp add: engine_of_policy_def fold_SetGrant)

lemma ClientTokens_valid:
  assumes "policy_Load file = Inr f" and "ClientTokens f identity = Some h"
    and "distinct (map fst (pfGrants f))"
  shows "identity \<noteq> [] \<and> length h = 64 \<and> engine_of_policy f identity \<noteq> None"
proof -
  from assms(2) have "(identity, h) \<in> set (pfClients f)"
    by (auto simp: ClientTokens_def dest: map_of_SomeD)
  moreover from assms(1) have "policy_Validate f = None"
    by (auto simp: policy_Load_def split: option.splits)
  ultimately have "check_client (pfGrants f) (identity, h) = None"
    by (auto simp: policy_Validate_def first_err_None)
  with assms(3) show ?thesis
    by (auto simp: check_client_def engine_of_policy_eq split: if_splits)
qed

end
