(* ===== verification/ContractMeta.thy ===== *)
theory ContractMeta
  imports Protocol
begin

text \<open>
  The contract catalog (\<open>kernel/internal/contractmeta/catalog.go\<close>). \<open>Load\<close> reads the
  catalog file, then one schema per capability, in the order Go's map iteration visits the
  catalog; each schema is given as what reading and decoding it made of it.
\<close>

record Metadata =
  mdContract :: string
  mdVersion :: string
  mdKind :: kind

record Catalog =
  ByCapability :: "string \<rightharpoonup> Metadata"
  ByContract :: "string \<rightharpoonup> Metadata"

datatype schema_file = SchemaUnreadable | SchemaNotJSON | Schema Metadata

datatype catalog_error =
    CatalogUnreadable
  | SchemaReadError string
  | SchemaDecodeError string
  | MissingMetadata string
  | DuplicateContract string

fun load_schemas :: "Catalog \<Rightarrow> (string \<times> schema_file) list \<Rightarrow> (catalog_error, Catalog) result" where
  "load_schemas c [] = Ok c"
| "load_schemas c ((capKey, sf) # rest) =
     (case sf of
        SchemaUnreadable \<Rightarrow> Err (SchemaReadError capKey)
      | SchemaNotJSON \<Rightarrow> Err (SchemaDecodeError capKey)
      | Schema m \<Rightarrow>
          if mdContract m = []
             \<or> (mdKind m \<noteq> KindCommand \<and> mdKind m \<noteq> KindQuery \<and> mdKind m \<noteq> KindEvent)
          then Err (MissingMetadata capKey)
          else if ByContract c (mdContract m) \<noteq> None
          then Err (DuplicateContract (mdContract m))
          else load_schemas
                 (c\<lparr> ByCapability := (ByCapability c)(capKey \<mapsto> m),
                     ByContract := (ByContract c)(mdContract m \<mapsto> m) \<rparr>) rest)"

definition catalog_Load :: "(string \<times> schema_file) list option \<Rightarrow> (catalog_error, Catalog) result" where
  "catalog_Load paths =
     (case paths of
        None \<Rightarrow> Err CatalogUnreadable
      | Some ps \<Rightarrow> load_schemas \<lparr> ByCapability = Map.empty, ByContract = Map.empty \<rparr> ps)"

text \<open>\<open>Catalog.Metadata\<close>; a nil catalog has no metadata.\<close>

definition catalog_Metadata :: "Catalog option \<Rightarrow> string \<Rightarrow> Metadata option" where
  "catalog_Metadata c contract =
     (case c of None \<Rightarrow> None | Some cat \<Rightarrow> ByContract cat contract)"

definition wf_catalog :: "Catalog \<Rightarrow> bool" where
  "wf_catalog c \<longleftrightarrow>
     (\<forall>k m. ByContract c k = Some m \<longrightarrow>
        mdContract m = k \<and> k \<noteq> [] \<and> mdKind m \<in> {KindCommand, KindQuery, KindEvent})
     \<and> (\<forall>k m. ByCapability c k = Some m \<longrightarrow> ByContract c (mdContract m) = Some m)"

lemma wf_catalog_add:
  assumes "wf_catalog c" and "mdContract m \<noteq> []" and "ByContract c (mdContract m) = None"
    and "mdKind m \<in> {KindCommand, KindQuery, KindEvent}"
  shows "wf_catalog (c\<lparr> ByCapability := (ByCapability c)(k \<mapsto> m),
                        ByContract := (ByContract c)(mdContract m \<mapsto> m) \<rparr>)"
  unfolding wf_catalog_def
proof (intro conjI allI impI, goal_cases)
  case (1 k' m')
  with assms show ?case by (auto simp: wf_catalog_def split: if_splits)
next
  case (2 k' m')
  with assms show ?case by (auto simp: wf_catalog_def split: if_splits)
next
  case (3 k' m')
  with assms show ?case by (auto simp: wf_catalog_def split: if_splits)
next
  case (4 k' m')
  show ?case
  proof (cases "k' = k")
    case False
    with 4 assms(1) have "ByContract c (mdContract m') = Some m'" by (simp add: wf_catalog_def)
    with assms(3) show ?thesis by auto
  qed (use 4 in simp)
qed

lemma load_schemas_wf:
  "load_schemas c ps = Inr c' \<Longrightarrow> wf_catalog c \<Longrightarrow> wf_catalog c'"
proof (induction c ps rule: load_schemas.induct)
  case (2 c capKey sf rest)
  show ?case
  proof (cases sf)
    case (Schema m)
    with 2 show ?thesis
      by (simp add: wf_catalog_add split: if_splits)
  qed (use 2 in simp_all)
qed simp

lemma catalog_Load_wf: "catalog_Load ps = Inr c \<Longrightarrow> wf_catalog c"
proof -
  have "wf_catalog \<lparr> ByCapability = Map.empty, ByContract = Map.empty \<rparr>"
    by (simp add: wf_catalog_def)
  then show "catalog_Load ps = Inr c \<Longrightarrow> wf_catalog c"
    by (auto simp: catalog_Load_def intro: load_schemas_wf split: option.splits)
qed

lemma catalog_Metadata_wf:
  "wf_catalog c \<Longrightarrow> catalog_Metadata (Some c) k = Some m \<Longrightarrow> mdContract m = k \<and> k \<noteq> []"
  by (auto simp: catalog_Metadata_def wf_catalog_def)

end
