(* ===== verification/Fencing.thy ===== *)
theory Fencing
  imports Protocol
begin

text \<open>
  Writer fencing as a plugin sees it (\<open>kernel/sdk/go/fencing/fencing.go\<close>). The host keeps
  one lease file per authority under the fence root; \<open>WithWriteFence\<close> runs a plugin's
  mutation under the lease's lock, only if the lease still names this runtime and the epoch
  the request was stamped with. The host's promotion takes the same lock, so the check and
  the mutation are one atomic step.

  The lease files are a map from the file's base name to its contents, None for a file that
  does not decode. The root directory is the same for the host and its plugins
  (\<open>VIBE_FENCE_ROOT\<close>, set by the supervisor), so base names identify files.
\<close>

record Lease =
  lService :: string
  lAuthority :: string
  lRuntimeID :: string
  lEpoch :: int

type_synonym fences = "string \<rightharpoonup> Lease option"

definition safe_char :: "char \<Rightarrow> char" where
  "safe_char c = (if c = CHR ''/'' \<or> c = CHR 0x5C \<or> c = CHR '':'' then CHR ''_'' else c)"

definition fence_safe :: "string \<Rightarrow> string" where
  "fence_safe s = map safe_char s"

definition fence_base :: "string \<Rightarrow> string \<Rightarrow> string" where
  "fence_base service authority = fence_safe service @ ''--'' @ fence_safe authority"

text \<open>\<open>Paths\<close>: the lease file and the lock file.\<close>

definition fence_Paths :: "string \<Rightarrow> string \<Rightarrow> string \<Rightarrow> string \<times> string" where
  "fence_Paths root service authority =
     (let base = root @ ''/'' @ fence_base service authority in (base @ ''.json'', base @ ''.lock''))"

text \<open>
  What the environment decides: whether the root is configured, this process's runtime id
  (\<open>VIBE_RUNTIME_ID\<close>), and whether creating the directory, opening and locking succeed.
\<close>

record fence_env =
  feRootConfigured :: bool
  feRuntimeID :: string
  feLockOk :: bool

datatype fence_error =
    MissingFencingMetadata
  | FenceRootNotConfigured
  | FenceLockFailed
  | LeaseUnreadable
  | LeaseUndecodable
  | StaleWriterFence Lease string int

definition check_fence :: "fence_env \<Rightarrow> fences \<Rightarrow> 'p Envelope \<Rightarrow> fence_error option" where
  "check_fence env fs e =
     (if eFencingEpoch e \<le> 0 \<or> eService e = [] \<or> eAuthority e = [] then Some MissingFencingMetadata
      else if \<not> feRootConfigured env then Some FenceRootNotConfigured
      else if \<not> feLockOk env then Some FenceLockFailed
      else (case fs (fence_base (eService e) (eAuthority e)) of
              None \<Rightarrow> Some LeaseUnreadable
            | Some None \<Rightarrow> Some LeaseUndecodable
            | Some (Some l) \<Rightarrow>
                if lRuntimeID l \<noteq> feRuntimeID env \<or> lEpoch l \<noteq> eFencingEpoch e
                then Some (StaleWriterFence l (feRuntimeID env) (eFencingEpoch e)) else None))"

datatype 'e write_error = FenceErr fence_error | FnErr 'e

text \<open>The mutation \<open>fn\<close> is a state transformer that may fail.\<close>

definition WithWriteFence ::
  "fence_env \<Rightarrow> fences \<Rightarrow> 'p Envelope \<Rightarrow> ('s \<Rightarrow> ('e, 'a) result \<times> 's) \<Rightarrow> 's
   \<Rightarrow> ('e write_error, 'a) result \<times> 's" where
  "WithWriteFence env fs e fn s =
     (case check_fence env fs e of
        Some fe \<Rightarrow> (Err (FenceErr fe), s)
      | None \<Rightarrow> (case fn s of
                   (Inl er, s') \<Rightarrow> (Err (FnErr er), s')
                 | (Inr a, s') \<Rightarrow> (Ok a, s')))"

lemma check_fence_None:
  "check_fence env fs e = None \<longleftrightarrow>
     0 < eFencingEpoch e \<and> eService e \<noteq> [] \<and> eAuthority e \<noteq> []
     \<and> feRootConfigured env \<and> feLockOk env
     \<and> (\<exists>l. fs (fence_base (eService e) (eAuthority e)) = Some (Some l)
           \<and> lRuntimeID l = feRuntimeID env \<and> lEpoch l = eFencingEpoch e)"
  by (auto simp: check_fence_def split: option.splits)

lemma WithWriteFence_rejected:
  "check_fence env fs e = Some fe \<Longrightarrow> WithWriteFence env fs e fn s = (Err (FenceErr fe), s)"
  by (simp add: WithWriteFence_def)

lemma WithWriteFence_Ok:
  "WithWriteFence env fs e fn s = (Inr a, s') \<longleftrightarrow>
     check_fence env fs e = None \<and> fn s = (Inr a, s')"
  by (auto simp: WithWriteFence_def split: option.splits sum.splits prod.splits)

lemma WithWriteFence_changed:
  "snd (WithWriteFence env fs e fn s) \<noteq> s \<Longrightarrow> check_fence env fs e = None"
  by (auto simp: WithWriteFence_def split: option.splits)

text \<open>
  Base names without separators are unambiguous; separators and double dashes in a service
  or authority name can make two authorities share one lease file.
\<close>

lemma fence_base_collisions:
  "fence_base ''a/b'' c = fence_base ''a_b'' c"
  "fence_base ''a--b'' ''c'' = fence_base ''a'' ''b--c''"
  by (simp_all add: fence_base_def fence_safe_def safe_char_def)

end
