(* ===== verification/Registry.thy ===== *)
theory Registry
  imports Authz ContractMeta Fencing "HOL-Library.AList"
begin

text \<open>
  The kernel's registry (\<open>kernel/internal/registry/registry.go\<close>): admission of manifests,
  registration of runtimes, health and circuit breaking, and the resolution of a capability
  to a provider with single-writer fencing for stateful commands.

  Go maps the code iterates over (providers, admitted plugins) are association lists, whose
  order no result depends on; maps it only looks up are HOL maps. Epochs are 64-bit.
\<close>

record Provider =
  pPluginID :: string
  pRuntimeID :: string
  pWriterEpoch :: int
  pFailureCount :: int
  pHeartbeatFailures :: int
  pProcessHealthy :: bool
  pDependenciesHealthy :: bool
  pCircuitOpen :: bool
  pHealthy :: bool
  pManifest :: Manifest
  pExport :: Capability

type_synonym cap_key = "string \<times> int"
type_synonym authority_key = "string \<times> string"

record Binding =
  bService :: string
  bAuthority :: string
  bProvider :: string

record writerLease =
  wRuntimeID :: string
  wEpoch :: int

record Registry =
  rProviders :: "(cap_key \<times> Provider list) list"
  rByPlugin :: "(string \<times> Manifest) list"
  rBindings :: "cap_key \<rightharpoonup> Binding"
  rAuthorityStorage :: "authority_key \<rightharpoonup> string"
  rContracts :: "Catalog option"
  rWriters :: "authority_key \<rightharpoonup> writerLease"
  rFenceRoot :: string

definition registry_New :: Registry where
  "registry_New = \<lparr> rProviders = [], rByPlugin = [], rBindings = Map.empty,
     rAuthorityStorage = Map.empty, rContracts = None, rWriters = Map.empty, rFenceRoot = [] \<rparr>"

definition providers_at :: "Registry \<Rightarrow> cap_key \<Rightarrow> Provider list" where
  "providers_at r k = (case map_of (rProviders r) k of None \<Rightarrow> [] | Some ps \<Rightarrow> ps)"

definition all_providers :: "Registry \<Rightarrow> Provider list" where
  "all_providers r = concat (map snd (rProviders r))"

text \<open>\<open>epoch++\<close> on an \<open>int64\<close>.\<close>

definition inc64 :: "int \<Rightarrow> int" where
  "inc64 e = (if e = max_int then min_int else e + 1)"

section \<open>The fence root\<close>

datatype fence_file = FenceUnreadable | FenceUndecodable | FenceLease Lease

datatype fence_root_error = MkdirFailed | FenceReadFailed string | FenceDecodeFailed string

text \<open>
  Runtime ownership never survives a host restart, the epoch does. The loop over the lease
  files keeps what it loaded before an error.
\<close>

fun load_fences ::
  "(authority_key \<rightharpoonup> writerLease) \<Rightarrow> (string \<times> fence_file) list
   \<Rightarrow> fence_root_error option \<times> (authority_key \<rightharpoonup> writerLease)" where
  "load_fences ws [] = (None, ws)"
| "load_fences ws ((p, f) # rest) =
     (case f of
        FenceUnreadable \<Rightarrow> (Some (FenceReadFailed p), ws)
      | FenceUndecodable \<Rightarrow> (Some (FenceDecodeFailed p), ws)
      | FenceLease l \<Rightarrow>
          load_fences
            (if lService l \<noteq> [] \<and> lAuthority l \<noteq> []
             then ws((lService l, lAuthority l) \<mapsto> \<lparr> wRuntimeID = [], wEpoch = lEpoch l \<rparr>)
             else ws) rest)"

definition SetFenceRoot ::
  "Registry \<Rightarrow> string \<Rightarrow> bool \<Rightarrow> (string \<times> fence_file) list
   \<Rightarrow> fence_root_error option \<times> Registry" where
  "SetFenceRoot r root mkdirOk files =
     (let r1 = r\<lparr> rFenceRoot := root \<rparr>
      in if \<not> mkdirOk then (Some MkdirFailed, r1)
         else (case load_fences (rWriters r) files of
                 (err, ws) \<Rightarrow> (err, r1\<lparr> rWriters := ws \<rparr>)))"

text \<open>
  \<open>persistFenceLocked\<close>: the lease is written to a temporary file and renamed, so a
  failure of any step leaves the old lease.
\<close>

definition persistFenceLocked ::
  "Registry \<Rightarrow> fences \<Rightarrow> bool \<Rightarrow> authority_key \<Rightarrow> writerLease \<Rightarrow> (unit, fences) result" where
  "persistFenceLocked r fs ioOk ak l =
     (if rFenceRoot r = [] then Err ()
      else if \<not> ioOk then Err ()
      else Ok (fs(fence_base (fst ak) (snd ak) \<mapsto>
             Some \<lparr> lService = fst ak, lAuthority = snd ak,
                    lRuntimeID = wRuntimeID l, lEpoch = wEpoch l \<rparr>)))"

definition SetContractCatalog :: "Registry \<Rightarrow> Catalog \<Rightarrow> Registry" where
  "SetContractCatalog r c = r\<lparr> rContracts := Some c \<rparr>"

definition ContractMetadata :: "Registry \<Rightarrow> string \<Rightarrow> Metadata option" where
  "ContractMetadata r contract = catalog_Metadata (rContracts r) contract"

section \<open>Admission\<close>

datatype admit_error =
    DuplicatePluginID string
  | CatalogNotConfigured
  | UnknownContract Capability
  | ContractMismatch Capability
  | MixedModes Capability
  | StatefulRequirements string Capability
  | AuthorityStorageConflict authority_key string string
  | ManifestStorageConflict authority_key
  | UnknownDeclared Capability
  | DeclaredMismatch Capability
  | EventContractRequired Capability
  | EventNotConsumable Capability

definition mixed_mode :: "Registry \<Rightarrow> Capability \<Rightarrow> bool" where
  "mixed_mode r c =
     list_ex (\<lambda>(_, other). list_ex (\<lambda>oc. cName oc = cName c \<and> cMajor oc = cMajor c
        \<and> norm_mode (cMode oc) \<noteq> norm_mode (cMode c)) (mExports other)) (rByPlugin r)"

fun admit_exports ::
  "Registry \<Rightarrow> Manifest \<Rightarrow> (authority_key \<rightharpoonup> string) \<Rightarrow> Capability list
   \<Rightarrow> (admit_error, authority_key \<rightharpoonup> string) result" where
  "admit_exports r m pending [] = Ok pending"
| "admit_exports r m pending (c # cs) =
     (case ContractMetadata r (cContract c) of
        None \<Rightarrow> Err (UnknownContract c)
      | Some md \<Rightarrow>
          if cContract c \<noteq> canonical (cName c) (cMajor c)
             \<or> mdContract md \<noteq> canonical (cName c) (cMajor c)
          then Err (ContractMismatch c)
          else if mixed_mode r c then Err (MixedModes c)
          else if norm_mode (cMode c) = ''stateful'' then
            let ns = rtDataNamespace (mRuntime m); ak = (cService c, cAuthority c)
            in if cService c = [] \<or> cAuthority c = [] \<or> ns = []
               then Err (StatefulRequirements (mPluginID m) c)
               else if (case rAuthorityStorage r ak of None \<Rightarrow> False | Some x \<Rightarrow> x \<noteq> ns)
               then Err (AuthorityStorageConflict ak (the (rAuthorityStorage r ak)) ns)
               else if (case pending ak of None \<Rightarrow> False | Some x \<Rightarrow> x \<noteq> ns)
               then Err (ManifestStorageConflict ak)
               else admit_exports r m (pending(ak \<mapsto> ns)) cs
          else admit_exports r m pending cs)"

definition admit_declared :: "Registry \<Rightarrow> bool \<Rightarrow> Capability \<Rightarrow> admit_error option" where
  "admit_declared r wantEvent c =
     (case ContractMetadata r (cContract c) of
        None \<Rightarrow> Some (UnknownDeclared c)
      | Some md \<Rightarrow>
          if cContract c \<noteq> canonical (cName c) (cMajor c)
             \<or> mdContract md \<noteq> canonical (cName c) (cMajor c)
          then Some (DeclaredMismatch c)
          else if wantEvent \<and> mdKind md \<noteq> KindEvent then Some (EventContractRequired c)
          else if \<not> wantEvent \<and> mdKind md = KindEvent then Some (EventNotConsumable c)
          else None)"

definition admit_groups :: "Registry \<Rightarrow> Manifest \<Rightarrow> admit_error option" where
  "admit_groups r m =
     first_err (\<lambda>(wantEvent, c). admit_declared r wantEvent c)
       (map (Pair False) (mRequired m) @ map (Pair False) (mOptional m)
        @ map (Pair True) (mPublishes m) @ map (Pair True) (mSubscribes m))"

definition AddManifest :: "Registry \<Rightarrow> Manifest \<Rightarrow> (admit_error, Registry) result" where
  "AddManifest r m =
     (if map_of (rByPlugin r) (mPluginID m) \<noteq> None then Err (DuplicatePluginID (mPluginID m))
      else if rContracts r = None then Err CatalogNotConfigured
      else (case admit_exports r m Map.empty (mExports m) of
              Inl e \<Rightarrow> Err e
            | Inr pending \<Rightarrow>
                (case admit_groups r m of
                   Some e \<Rightarrow> Err e
                 | None \<Rightarrow>
                     Ok (r\<lparr> rByPlugin := (mPluginID m, m) # rByPlugin r,
                            rAuthorityStorage := rAuthorityStorage r ++ pending \<rparr>))))"

definition SetBinding :: "Registry \<Rightarrow> string \<Rightarrow> int \<Rightarrow> Binding \<Rightarrow> Registry" where
  "SetBinding r name major b = r\<lparr> rBindings := (rBindings r)((name, major) \<mapsto> b) \<rparr>"

section \<open>Runtimes\<close>

datatype register_error = RuntimeStorageConflict authority_key string

definition storage_conflict :: "Registry \<Rightarrow> Manifest \<Rightarrow> Capability \<Rightarrow> register_error option" where
  "storage_conflict r m c =
     (if norm_mode (cMode c) \<noteq> ''stateful'' then None
      else (case rAuthorityStorage r (cService c, cAuthority c) of
              None \<Rightarrow> None
            | Some existing \<Rightarrow>
                if existing \<noteq> rtDataNamespace (mRuntime m)
                then Some (RuntimeStorageConflict (cService c, cAuthority c) existing) else None))"

definition reserve_storage ::
  "Manifest \<Rightarrow> Capability \<Rightarrow> (authority_key \<rightharpoonup> string) \<Rightarrow> (authority_key \<rightharpoonup> string)" where
  "reserve_storage m c st =
     (if norm_mode (cMode c) = ''stateful''
      then st((cService c, cAuthority c) \<mapsto> rtDataNamespace (mRuntime m)) else st)"

text \<open>Higher priority first, then plugin id.\<close>

definition provider_less :: "Provider \<Rightarrow> Provider \<Rightarrow> bool" where
  "provider_less a b =
     (if cPriority (pExport a) \<noteq> cPriority (pExport b)
      then cPriority (pExport a) > cPriority (pExport b)
      else pPluginID a < pPluginID b)"

definition new_provider :: "Manifest \<Rightarrow> string \<Rightarrow> Capability \<Rightarrow> Provider" where
  "new_provider m runtimeID c =
     \<lparr> pPluginID = mPluginID m, pRuntimeID = runtimeID, pWriterEpoch = 0, pFailureCount = 0,
       pHeartbeatFailures = 0, pProcessHealthy = True, pDependenciesHealthy = True,
       pCircuitOpen = False, pHealthy = True, pManifest = m,
       pExport = c\<lparr> cMode := norm_mode (cMode c) \<rparr> \<rparr>"

definition add_provider :: "Manifest \<Rightarrow> string \<Rightarrow> Capability \<Rightarrow> Registry \<Rightarrow> Registry" where
  "add_provider m runtimeID c r =
     (let k = (cName c, cMajor c)
      in r\<lparr> rProviders := AList.update k
              (stable_sort provider_less (providers_at r k @ [new_provider m runtimeID c]))
              (rProviders r) \<rparr>)"

definition RegisterRuntime :: "Registry \<Rightarrow> Manifest \<Rightarrow> string \<Rightarrow> (register_error, Registry) result" where
  "RegisterRuntime r m runtimeID =
     (case first_err (storage_conflict r m) (mExports m) of
        Some e \<Rightarrow> Err e
      | None \<Rightarrow>
          Ok (fold (add_provider m runtimeID) (mExports m)
                (r\<lparr> rAuthorityStorage :=
                     fold (reserve_storage m) (mExports m) (rAuthorityStorage r) \<rparr>)))"

section \<open>Health\<close>

definition recomputeHealth :: "Provider \<Rightarrow> Provider" where
  "recomputeHealth p =
     p\<lparr> pHealthy := (pProcessHealthy p \<and> pDependenciesHealthy p \<and> \<not> pCircuitOpen p
                     \<and> pHeartbeatFailures p < 3) \<rparr>"

definition clearWriter :: "string \<Rightarrow> Registry \<Rightarrow> Registry" where
  "clearWriter runtimeID r =
     r\<lparr> rWriters := (\<lambda>ak. map_option
          (\<lambda>l. if wRuntimeID l = runtimeID then l\<lparr> wRuntimeID := [] \<rparr> else l) (rWriters r ak)) \<rparr>"

definition RemoveRuntime :: "Registry \<Rightarrow> string \<Rightarrow> Registry" where
  "RemoveRuntime r runtimeID =
     clearWriter runtimeID
       (r\<lparr> rProviders :=
            filter (\<lambda>(k, ps). ps \<noteq> [])
              (map (\<lambda>(k, ps). (k, filter (\<lambda>p. pRuntimeID p \<noteq> runtimeID) ps)) (rProviders r)) \<rparr>)"

text \<open>The loop every health operation has: update this runtime's providers in place.\<close>

definition on_runtime :: "string \<Rightarrow> (Provider \<Rightarrow> Provider) \<Rightarrow> Registry \<Rightarrow> Registry" where
  "on_runtime runtimeID f r =
     r\<lparr> rProviders :=
          map (\<lambda>(k, ps). (k, map (\<lambda>p. if pRuntimeID p = runtimeID then f p else p) ps))
            (rProviders r) \<rparr>"

definition runtime_providers :: "Registry \<Rightarrow> string \<Rightarrow> Provider list" where
  "runtime_providers r runtimeID = filter (\<lambda>p. pRuntimeID p = runtimeID) (all_providers r)"

definition unhealthy_after :: "(Provider \<Rightarrow> Provider) \<Rightarrow> Registry \<Rightarrow> string \<Rightarrow> bool" where
  "unhealthy_after f r runtimeID = list_ex (\<lambda>p. \<not> pHealthy (f p)) (runtime_providers r runtimeID)"

definition update_and_clear :: "string \<Rightarrow> (Provider \<Rightarrow> Provider) \<Rightarrow> Registry \<Rightarrow> Registry" where
  "update_and_clear runtimeID f r =
     (let r' = on_runtime runtimeID f r
      in if unhealthy_after f r runtimeID then clearWriter runtimeID r' else r')"

definition mark_process :: "bool \<Rightarrow> Provider \<Rightarrow> Provider" where
  "mark_process healthy p = recomputeHealth (p\<lparr> pProcessHealthy := healthy \<rparr>)"

definition MarkHealth :: "Registry \<Rightarrow> string \<Rightarrow> bool \<Rightarrow> Registry" where
  "MarkHealth r runtimeID healthy = update_and_clear runtimeID (mark_process healthy) r"

definition mark_dependencies :: "bool \<Rightarrow> Provider \<Rightarrow> Provider" where
  "mark_dependencies healthy p = recomputeHealth (p\<lparr> pDependenciesHealthy := healthy \<rparr>)"

definition MarkDependencyHealth :: "Registry \<Rightarrow> string \<Rightarrow> bool \<Rightarrow> bool \<times> Registry" where
  "MarkDependencyHealth r runtimeID healthy =
     (let mine = runtime_providers r runtimeID;
          changed = list_ex (\<lambda>p. pDependenciesHealthy p \<noteq> healthy) mine;
          becameUnhealthy = list_ex (\<lambda>p. pHealthy p \<and> \<not> pHealthy (mark_dependencies healthy p)) mine;
          r' = on_runtime runtimeID (mark_dependencies healthy) r
      in (changed, if becameUnhealthy then clearWriter runtimeID r' else r'))"

definition RuntimeHealthy :: "Registry \<Rightarrow> string \<Rightarrow> bool" where
  "RuntimeHealthy r runtimeID =
     (let mine = runtime_providers r runtimeID in mine \<noteq> [] \<and> list_all pHealthy mine)"

definition count_failure :: "Provider \<Rightarrow> Provider" where
  "count_failure p =
     (let n = pFailureCount p + 1
      in recomputeHealth (p\<lparr> pFailureCount := n, pCircuitOpen := pCircuitOpen p \<or> n \<ge> 3 \<rparr>))"

definition RecordFailure :: "Registry \<Rightarrow> string \<Rightarrow> Registry" where
  "RecordFailure r runtimeID = update_and_clear runtimeID count_failure r"

definition count_success :: "Provider \<Rightarrow> Provider" where
  "count_success p = recomputeHealth (p\<lparr> pFailureCount := 0, pCircuitOpen := False \<rparr>)"

definition RecordSuccess :: "Registry \<Rightarrow> string \<Rightarrow> Registry" where
  "RecordSuccess r runtimeID = on_runtime runtimeID count_success r"

definition heartbeat_failed :: "Provider \<Rightarrow> Provider" where
  "heartbeat_failed p = recomputeHealth (p\<lparr> pHeartbeatFailures := pHeartbeatFailures p + 1 \<rparr>)"

definition RecordHeartbeatFailure :: "Registry \<Rightarrow> string \<Rightarrow> Registry" where
  "RecordHeartbeatFailure r runtimeID = update_and_clear runtimeID heartbeat_failed r"

definition heartbeat_ok :: "Provider \<Rightarrow> Provider" where
  "heartbeat_ok p = recomputeHealth (p\<lparr> pHeartbeatFailures := 0 \<rparr>)"

definition RecordHeartbeatSuccess :: "Registry \<Rightarrow> string \<Rightarrow> Registry" where
  "RecordHeartbeatSuccess r runtimeID = on_runtime runtimeID heartbeat_ok r"

section \<open>Resolution\<close>

datatype resolve_error =
    NoProvider string int
  | AllUnhealthyOrFiltered
  | AuthorityBindingRequired nat
  | AuthorityUnavailable string string
  | ProviderUnavailable string
  | HintNotActiveWriter string
  | PersistWriterFence

definition fill_hint :: "string \<Rightarrow> string \<Rightarrow> string" where
  "fill_hint hint dflt = (if hint = [] then dflt else hint)"

definition zero_binding :: Binding where
  "zero_binding = \<lparr> bService = [], bAuthority = [], bProvider = [] \<rparr>"

definition zero_lease :: writerLease where
  "zero_lease = \<lparr> wRuntimeID = [], wEpoch = 0 \<rparr>"

definition export_authority :: "Provider \<Rightarrow> authority_key" where
  "export_authority p = (cService (pExport p), cAuthority (pExport p))"

definition hint_ok :: "string \<Rightarrow> Provider \<Rightarrow> bool" where
  "hint_ok providerHint p \<longleftrightarrow> providerHint = [] \<or> pPluginID p = providerHint"

text \<open>The end of a stateful command: the current writer, or the promotion of a new one.\<close>

definition resolve_writer ::
  "Registry \<Rightarrow> fences \<Rightarrow> bool \<Rightarrow> authority_key \<Rightarrow> string \<Rightarrow> Provider list
   \<Rightarrow> (resolve_error, Provider) result \<times> Registry \<times> fences" where
  "resolve_writer r fs ioOk ak providerHint candidates =
     (let lease = (case rWriters r ak of None \<Rightarrow> zero_lease | Some l \<Rightarrow> l);
          active = (if wRuntimeID lease \<noteq> []
                    then find (\<lambda>p. pRuntimeID p = wRuntimeID lease) candidates else None)
      in case active of
           Some p \<Rightarrow>
             (if \<not> hint_ok providerHint p then Err (HintNotActiveWriter providerHint)
              else Ok (p\<lparr> pWriterEpoch := wEpoch lease \<rparr>), r, fs)
         | None \<Rightarrow>
             (case find (hint_ok providerHint) candidates of
                None \<Rightarrow> (Err (ProviderUnavailable providerHint), r, fs)
              | Some chosen \<Rightarrow>
                  let lease' = \<lparr> wRuntimeID = pRuntimeID chosen, wEpoch = inc64 (wEpoch lease) \<rparr>
                  in case persistFenceLocked r fs ioOk ak lease' of
                       Inl _ \<Rightarrow> (Err PersistWriterFence, r, fs)
                     | Inr fs' \<Rightarrow>
                         (Ok (chosen\<lparr> pWriterEpoch := wEpoch lease' \<rparr>),
                          r\<lparr> rWriters := (rWriters r)(ak \<mapsto> lease') \<rparr>, fs')))"

definition ResolveForKind ::
  "Registry \<Rightarrow> fences \<Rightarrow> bool \<Rightarrow> string \<Rightarrow> int \<Rightarrow> string \<Rightarrow> string \<Rightarrow> string \<Rightarrow> kind
   \<Rightarrow> (resolve_error, Provider) result \<times> Registry \<times> fences" where
  "ResolveForKind r fs ioOk name major providerHint serviceHint authorityHint kd =
     (let ps = providers_at r (name, major)
      in if ps = [] then (Err (NoProvider name major), r, fs)
         else
           let b = (case rBindings r (name, major) of None \<Rightarrow> zero_binding | Some b \<Rightarrow> b);
               serviceHint = fill_hint serviceHint (bService b);
               authorityHint = fill_hint authorityHint (bAuthority b);
               providerHint = fill_hint providerHint (bProvider b)
           in if cMode (pExport (hd ps)) \<noteq> ''stateful'' then
                (case find (\<lambda>p. pHealthy p \<and> hint_ok providerHint p) ps of
                   Some p \<Rightarrow> (Ok p, r, fs)
                 | None \<Rightarrow> (Err AllUnhealthyOrFiltered, r, fs))
              else
                let pairs = remdups (map export_authority ps)
                in if (serviceHint = [] \<or> authorityHint = []) \<and> length pairs \<noteq> 1
                   then (Err (AuthorityBindingRequired (length pairs)), r, fs)
                   else
                     let sh = fill_hint serviceHint (fst (hd pairs));
                         ah = fill_hint authorityHint (snd (hd pairs));
                         candidates = filter (\<lambda>p. pHealthy p \<and> export_authority p = (sh, ah)) ps
                     in if candidates = [] then (Err (AuthorityUnavailable sh ah), r, fs)
                        else if kd \<noteq> KindCommand then
                          (case find (hint_ok providerHint) candidates of
                             Some p \<Rightarrow> (Ok p, r, fs)
                           | None \<Rightarrow> (Err (ProviderUnavailable providerHint), r, fs))
                        else resolve_writer r fs ioOk (sh, ah) providerHint candidates)"

definition Resolve ::
  "Registry \<Rightarrow> fences \<Rightarrow> bool \<Rightarrow> string \<Rightarrow> int \<Rightarrow> string \<Rightarrow> string \<Rightarrow> string
   \<Rightarrow> (resolve_error, Provider) result \<times> Registry \<times> fences" where
  "Resolve r fs ioOk name major ph sh ah = ResolveForKind r fs ioOk name major ph sh ah KindQuery"

section \<open>Lookups and dependencies\<close>

definition registry_Manifest :: "Registry \<Rightarrow> string \<Rightarrow> Manifest option" where
  "registry_Manifest r pluginID = map_of (rByPlugin r) pluginID"

definition registry_Providers :: "Registry \<Rightarrow> string \<Rightarrow> int \<Rightarrow> Provider list" where
  "registry_Providers r name major = providers_at r (name, major)"

definition healthy_provider :: "Registry \<Rightarrow> Capability \<Rightarrow> bool" where
  "healthy_provider r need = list_ex pHealthy (providers_at r (cName need, cMajor need))"

definition MissingHealthyRequired :: "Registry \<Rightarrow> Manifest \<Rightarrow> Capability list" where
  "MissingHealthyRequired r m = filter (\<lambda>need. \<not> healthy_provider r need) (mRequired m)"

definition MissingHealthyOptional :: "Registry \<Rightarrow> Manifest \<Rightarrow> Capability list" where
  "MissingHealthyOptional r m = filter (\<lambda>need. \<not> healthy_provider r need) (mOptional m)"

definition MissingRequired :: "Manifest \<Rightarrow> Manifest list \<Rightarrow> Capability list" where
  "MissingRequired m installed =
     filter (\<lambda>need. \<not> list_ex (\<lambda>c. HasCapability (mExports c) (cName need) (cMajor need)) installed)
       (mRequired m)"

section \<open>Bootstrap\<close>

text \<open>
  \<open>LoadAndAdmit\<close> (\<open>kernel/internal/bootstrap/bootstrap.go\<close>) and \<open>manifest.Load\<close>: a file is
  given by its path, its decoded manifest (None when it cannot be read or is not JSON) and the
  hash of its bytes.
\<close>

datatype load_error = ManifestUnreadable | ManifestInvalid manifest_error

definition manifest_Load ::
  "(Manifest \<times> string) option \<Rightarrow> (load_error, Manifest \<times> string) result" where
  "manifest_Load f =
     (case f of
        None \<Rightarrow> Err ManifestUnreadable
      | Some (m, hash) \<Rightarrow>
          (case Validate m of Some e \<Rightarrow> Err (ManifestInvalid e) | None \<Rightarrow> Ok (m, hash)))"

datatype reject_reason = LoadRejected load_error | AdmitRejected admit_error

record Loaded =
  ldManifest :: Manifest
  ldPath :: string
  ldHash :: string

record Failed =
  flPath :: string
  flPluginID :: string
  flReason :: reject_reason

fun LoadAndAdmit ::
  "Registry \<Rightarrow> (string \<times> (Manifest \<times> string) option) list
   \<Rightarrow> Loaded list \<times> Failed list \<times> Registry" where
  "LoadAndAdmit r [] = ([], [], r)"
| "LoadAndAdmit r ((path, f) # rest) =
     (case manifest_Load f of
        Inl e \<Rightarrow>
          (case LoadAndAdmit r rest of (ls, fl, r') \<Rightarrow>
             (ls, \<lparr> flPath = path, flPluginID = [], flReason = LoadRejected e \<rparr> # fl, r'))
      | Inr (m, hash) \<Rightarrow>
          (case AddManifest r m of
             Inl e \<Rightarrow>
               (case LoadAndAdmit r rest of (ls, fl, r') \<Rightarrow>
                  (ls, \<lparr> flPath = path, flPluginID = mPluginID m,
                         flReason = AdmitRejected e \<rparr> # fl, r'))
           | Inr r1 \<Rightarrow>
               (case LoadAndAdmit r1 rest of (ls, fl, r') \<Rightarrow>
                  (\<lparr> ldManifest = m, ldPath = path, ldHash = hash \<rparr> # ls, fl, r'))))"

end
