(* ===== verification/RegistryFacts.thy ===== *)
theory RegistryFacts
  imports Registry
begin

text \<open>
  The lemmas about the registry: the provider invariant (lists sorted, health computed from
  its inputs, the circuit breaker open exactly from three failures on), the writer invariant
  (an active writer is a healthy runtime), what resolution returns, and what admission
  guarantees about storage.
\<close>

section \<open>Providers and the shape of the operations\<close>

lemma all_providers_iff: "p \<in> set (all_providers r) \<longleftrightarrow> (\<exists>k ps. (k, ps) \<in> set (rProviders r) \<and> p \<in> set ps)"
  by (force simp: all_providers_def)

lemma providers_at_subset: "set (providers_at r k) \<subseteq> set (all_providers r)"
proof (cases "map_of (rProviders r) k")
  case (Some ps)
  then have "(k, ps) \<in> set (rProviders r)" by (rule map_of_SomeD)
  with Some show ?thesis by (auto simp: providers_at_def all_providers_def intro: bexI [of _ "(k, ps)"])
qed (simp add: providers_at_def)

lemma all_providers_on_runtime:
  "all_providers (on_runtime rid f r) =
     map (\<lambda>p. if pRuntimeID p = rid then f p else p) (all_providers r)"
proof -
  have "concat (map snd (map (\<lambda>(k, ps). (k, map g ps)) xs)) = map g (concat (map snd xs))"
    for g :: "Provider \<Rightarrow> Provider" and xs :: "(cap_key \<times> Provider list) list"
    by (induction xs) auto
  then show ?thesis by (simp add: all_providers_def on_runtime_def)
qed

lemma clearWriter_frame [frame_simps]:
  "rProviders (clearWriter rid r) = rProviders r"
  "rByPlugin (clearWriter rid r) = rByPlugin r"
  "rAuthorityStorage (clearWriter rid r) = rAuthorityStorage r"
  "rContracts (clearWriter rid r) = rContracts r"
  "rBindings (clearWriter rid r) = rBindings r"
  "rFenceRoot (clearWriter rid r) = rFenceRoot r"
  "all_providers (clearWriter rid r) = all_providers r"
  by (simp_all add: clearWriter_def all_providers_def)

lemma on_runtime_frame [frame_simps]:
  "rWriters (on_runtime rid f r) = rWriters r"
  "rByPlugin (on_runtime rid f r) = rByPlugin r"
  "rAuthorityStorage (on_runtime rid f r) = rAuthorityStorage r"
  "rContracts (on_runtime rid f r) = rContracts r"
  "rBindings (on_runtime rid f r) = rBindings r"
  "rFenceRoot (on_runtime rid f r) = rFenceRoot r"
  by (simp_all add: on_runtime_def)

lemma update_and_clear_frame [frame_simps]:
  "rByPlugin (update_and_clear rid f r) = rByPlugin r"
  "rAuthorityStorage (update_and_clear rid f r) = rAuthorityStorage r"
  "rContracts (update_and_clear rid f r) = rContracts r"
  "rBindings (update_and_clear rid f r) = rBindings r"
  "rFenceRoot (update_and_clear rid f r) = rFenceRoot r"
  "rProviders (update_and_clear rid f r) = rProviders (on_runtime rid f r)"
  by (simp_all add: update_and_clear_def Let_def frame_simps)

text \<open>Every health update keeps a provider's identity and recomputes its health.\<close>

definition keeps_identity :: "(Provider \<Rightarrow> Provider) \<Rightarrow> bool" where
  "keeps_identity f \<longleftrightarrow>
     (\<forall>p. pPluginID (f p) = pPluginID p \<and> pRuntimeID (f p) = pRuntimeID p
        \<and> pExport (f p) = pExport p \<and> pManifest (f p) = pManifest p)"

definition health_ok :: "Provider \<Rightarrow> bool" where
  "health_ok p \<longleftrightarrow>
     pHealthy p = (pProcessHealthy p \<and> pDependenciesHealthy p \<and> \<not> pCircuitOpen p
                   \<and> pHeartbeatFailures p < 3)
     \<and> pCircuitOpen p = (pFailureCount p \<ge> 3)
     \<and> 0 \<le> pFailureCount p \<and> 0 \<le> pHeartbeatFailures p"

lemmas provider_updates =
  mark_process_def mark_dependencies_def count_failure_def count_success_def
  heartbeat_failed_def heartbeat_ok_def recomputeHealth_def Let_def

lemma provider_updates_identity:
  "keeps_identity (mark_process b)" "keeps_identity (mark_dependencies b)"
  "keeps_identity count_failure" "keeps_identity count_success"
  "keeps_identity heartbeat_failed" "keeps_identity heartbeat_ok"
  by (simp_all add: keeps_identity_def provider_updates)

lemma provider_updates_health:
  "health_ok p \<Longrightarrow> health_ok (mark_process b p)"
  "health_ok p \<Longrightarrow> health_ok (mark_dependencies b p)"
  "health_ok p \<Longrightarrow> health_ok (count_failure p)"
  "health_ok p \<Longrightarrow> health_ok (count_success p)"
  "health_ok p \<Longrightarrow> health_ok (heartbeat_failed p)"
  "health_ok p \<Longrightarrow> health_ok (heartbeat_ok p)"
  by (auto simp: health_ok_def provider_updates)

section \<open>The provider invariant\<close>

abbreviation providers_sorted :: "Provider list \<Rightarrow> bool" where
  "providers_sorted \<equiv> sorted_wrt (\<lambda>a b. \<not> provider_less b a)"

definition provider_inv :: "Registry \<Rightarrow> bool" where
  "provider_inv r \<longleftrightarrow>
     distinct (map fst (rProviders r))
     \<and> (\<forall>k ps. (k, ps) \<in> set (rProviders r) \<longrightarrow>
          ps \<noteq> [] \<and> providers_sorted ps
          \<and> (\<forall>p \<in> set ps. (cName (pExport p), cMajor (pExport p)) = k \<and> health_ok p
                \<and> cMode (pExport p) \<noteq> []))"

lemma provider_less_asym: "provider_less a b \<Longrightarrow> \<not> provider_less b a"
  by (auto simp: provider_less_def split: if_splits)

lemma provider_less_negtrans:
  "\<not> provider_less b a \<Longrightarrow> \<not> provider_less c b \<Longrightarrow> \<not> provider_less c a"
  by (auto simp: provider_less_def split: if_splits)

lemma providers_sorted_sort: "providers_sorted (stable_sort provider_less ps)"
  by (rule sorted_stable_sort [OF provider_less_asym provider_less_negtrans])

lemma providers_sorted_map:
  "keeps_identity f \<Longrightarrow> providers_sorted ps \<Longrightarrow>
   providers_sorted (map (\<lambda>p. if P p then f p else p) ps)"
proof -
  assume f: "keeps_identity f" and ps: "providers_sorted ps"
  have "provider_less (if P a then f a else a) (if P b then f b else b) = provider_less a b" for a b
    using f by (simp add: keeps_identity_def provider_less_def)
  with ps show ?thesis by (simp add: sorted_wrt_map)
qed

lemma norm_mode_nonempty [simp]: "norm_mode x \<noteq> []"
  by (simp add: norm_mode_def)

lemma provider_inv_New: "provider_inv registry_New"
  by (simp add: provider_inv_def registry_New_def)

lemma provider_inv_on_runtime:
  assumes "provider_inv r" and "keeps_identity f" and "\<And>p. health_ok p \<Longrightarrow> health_ok (f p)"
  shows "provider_inv (on_runtime rid f r)"
proof -
  have "map fst (rProviders (on_runtime rid f r)) = map fst (rProviders r)"
    by (auto simp: on_runtime_def)
  moreover have "ps \<noteq> [] \<and> providers_sorted ps \<and>
      (\<forall>p \<in> set ps. (cName (pExport p), cMajor (pExport p)) = k \<and> health_ok p \<and> cMode (pExport p) \<noteq> [])"
    if "(k, ps) \<in> set (rProviders (on_runtime rid f r))" for k ps
  proof -
    from that obtain qs where q: "(k, qs) \<in> set (rProviders r)"
      and ps: "ps = map (\<lambda>p. if pRuntimeID p = rid then f p else p) qs"
      by (auto simp: on_runtime_def)
    have "qs \<noteq> []" "providers_sorted qs"
      "\<forall>p \<in> set qs. (cName (pExport p), cMajor (pExport p)) = k \<and> health_ok p \<and> cMode (pExport p) \<noteq> []"
      using assms(1) [unfolded provider_inv_def, THEN conjunct2, rule_format, OF q] by blast+
    then show ?thesis
      using assms(2,3) providers_sorted_map [OF assms(2), of qs] ps
      by (auto simp: keeps_identity_def)
  qed
  ultimately show ?thesis using assms(1) by (simp add: provider_inv_def)
qed

lemma provider_inv_providers: "rProviders r' = rProviders r \<Longrightarrow> provider_inv r' = provider_inv r"
  by (simp add: provider_inv_def)

lemma provider_inv_update_and_clear:
  "provider_inv r \<Longrightarrow> keeps_identity f \<Longrightarrow> (\<And>p. health_ok p \<Longrightarrow> health_ok (f p)) \<Longrightarrow>
   provider_inv (update_and_clear rid f r)"
  using provider_inv_on_runtime [of r f rid]
    provider_inv_providers [of "update_and_clear rid f r" "on_runtime rid f r"]
  by (simp add: frame_simps)

lemma provider_inv_health [inv_intros]:
  assumes "provider_inv r"
  shows "provider_inv (MarkHealth r rid b)"
    and "provider_inv (snd (MarkDependencyHealth r rid b))"
    and "provider_inv (RecordFailure r rid)"
    and "provider_inv (RecordSuccess r rid)"
    and "provider_inv (RecordHeartbeatFailure r rid)"
    and "provider_inv (RecordHeartbeatSuccess r rid)"
proof -
  have "provider_inv (on_runtime rid (mark_dependencies b) r)"
    by (intro provider_inv_on_runtime assms provider_updates_identity provider_updates_health)
  then show "provider_inv (snd (MarkDependencyHealth r rid b))"
    by (simp add: MarkDependencyHealth_def Let_def provider_inv_def frame_simps)
qed (unfold MarkHealth_def RecordFailure_def RecordSuccess_def RecordHeartbeatFailure_def
  RecordHeartbeatSuccess_def,
  intro provider_inv_update_and_clear provider_inv_on_runtime assms provider_updates_identity
    provider_updates_health; assumption)+

lemma provider_inv_RemoveRuntime [inv_intros]:
  assumes "provider_inv r"
  shows "provider_inv (RemoveRuntime r rid)"
proof -
  let ?g = "\<lambda>(k, ps). (k, filter (\<lambda>p. pRuntimeID p \<noteq> rid) ps)"
  have "map fst (map ?g (rProviders r)) = map fst (rProviders r)" by auto
  then have "distinct (map fst (filter (\<lambda>(k, ps). ps \<noteq> []) (map ?g (rProviders r))))"
    using assms by (metis distinct_map_filter provider_inv_def)
  with assms show ?thesis
    by (auto simp: RemoveRuntime_def provider_inv_def frame_simps intro: sorted_wrt_filter)
qed

lemma provider_inv_add_provider:
  assumes "provider_inv r"
  shows "provider_inv (add_provider m rid c r)"
proof -
  let ?k = "(cName c, cMajor c)"
  let ?new = "stable_sort provider_less (providers_at r ?k @ [new_provider m rid c])"
  let ?ok = "\<lambda>k ps. ps \<noteq> [] \<and> providers_sorted ps
      \<and> (\<forall>p \<in> set ps. (cName (pExport p), cMajor (pExport p)) = k \<and> health_ok p
            \<and> cMode (pExport p) \<noteq> [])"
  have ok: "?ok k ps" if "(k, ps) \<in> set (rProviders r)" for k ps
    using assms [unfolded provider_inv_def, THEN conjunct2, rule_format, OF that] by blast
  have "?ok ?k (providers_at r ?k)" if "providers_at r ?k \<noteq> []"
    using that ok [of ?k "providers_at r ?k", OF map_of_SomeD]
    by (simp add: providers_at_def split: option.splits)
  then have old: "(cName (pExport p), cMajor (pExport p)) = ?k \<and> health_ok p
      \<and> cMode (pExport p) \<noteq> []" if "p \<in> set (providers_at r ?k)" for p
    using that by (metis empty_iff empty_set)
  have "(cName (pExport p), cMajor (pExport p)) = ?k \<and> health_ok p
      \<and> cMode (pExport p) \<noteq> []" if p: "p \<in> set ?new" for p
  proof (cases "p \<in> set (providers_at r ?k)")
    case False
    with p have "p = new_provider m rid c" by simp
    then show ?thesis by (simp add: new_provider_def health_ok_def)
  qed (rule old)
  then have new: "?ok ?k ?new" using providers_sorted_sort by simp
  have d: "distinct (map fst (AList.update ?k ?new (rProviders r)))"
    using assms by (simp add: provider_inv_def distinct_update)
  have "?ok k ps" if "(k, ps) \<in> set (AList.update ?k ?new (rProviders r))" for k ps
  proof (cases "k = ?k")
    case True
    from that d have "map_of (AList.update ?k ?new (rProviders r)) k = Some ps" by simp
    with True have "ps = ?new" by (simp add: update_conv')
    show ?thesis unfolding \<open>ps = ?new\<close> True by (rule new)
  next
    case False
    from that d have "map_of (AList.update ?k ?new (rProviders r)) k = Some ps" by simp
    with False have "map_of (rProviders r) k = Some ps" by (simp add: update_conv')
    from ok [OF map_of_SomeD [OF this]] show ?thesis .
  qed
  with d show ?thesis
    unfolding add_provider_def Let_def provider_inv_def by simp
qed


lemma provider_inv_RegisterRuntime [inv_intros]:
  assumes "provider_inv r" and "RegisterRuntime r m rid = Ok r'"
  shows "provider_inv r'"
proof -
  have "provider_inv q \<Longrightarrow> provider_inv (fold (add_provider m rid) cs q)" for cs q
    by (induction cs arbitrary: q) (auto intro: provider_inv_add_provider)
  moreover have "provider_inv (r\<lparr> rAuthorityStorage := st \<rparr>)" for st
    using assms(1) provider_inv_providers [of "r\<lparr> rAuthorityStorage := st \<rparr>" r] by simp
  moreover obtain st where "r' = fold (add_provider m rid) (mExports m) (r\<lparr> rAuthorityStorage := st \<rparr>)"
    using assms(2) unfolding RegisterRuntime_def by (auto split: option.splits)
  ultimately show ?thesis by simp
qed

lemma AddManifest_Ok:
  assumes "AddManifest r m = Ok r'"
  obtains pending where "admit_exports r m Map.empty (mExports m) = Ok pending"
    and "admit_groups r m = None" and "map_of (rByPlugin r) (mPluginID m) = None"
    and "r' = r\<lparr> rByPlugin := (mPluginID m, m) # rByPlugin r,
                rAuthorityStorage := rAuthorityStorage r ++ pending \<rparr>"
  using assms unfolding AddManifest_def by (auto split: if_splits sum.splits option.splits)

lemma provider_inv_AddManifest [inv_intros]:
  assumes "provider_inv r" and "AddManifest r m = Ok r'"
  shows "provider_inv r'"
  using assms(1) provider_inv_providers [of r' r] by (rule_tac AddManifest_Ok [OF assms(2)]) simp

section \<open>Resolution\<close>

lemma resolve_writer_providers:
  "resolve_writer r fs ioOk ak ph cands = (x, r', fs') \<Longrightarrow>
   rProviders r' = rProviders r \<and> rByPlugin r' = rByPlugin r \<and> rBindings r' = rBindings r
   \<and> rAuthorityStorage r' = rAuthorityStorage r \<and> rFenceRoot r' = rFenceRoot r"
  by (auto simp: resolve_writer_def Let_def split: option.splits if_splits sum.splits)

lemma ResolveForKind_cases:
  assumes "ResolveForKind r fs ioOk name major ph sh ah kd = (x, r', fs')"
  shows "(r' = r \<and> fs' = fs) \<or>
    (\<exists>ak ph' cands. resolve_writer r fs ioOk ak ph' cands = (x, r', fs') \<and> kd = KindCommand
      \<and> cands = filter (\<lambda>p. pHealthy p \<and> export_authority p = ak) (providers_at r (name, major))
      \<and> ph' = fill_hint ph (bProvider (case rBindings r (name, major) of None \<Rightarrow> zero_binding | Some b \<Rightarrow> b)))"
  using assms unfolding ResolveForKind_def Let_def
  by (auto split: option.splits if_splits)

lemma ResolveForKind_providers:
  assumes "ResolveForKind r fs ioOk name major ph sh ah kd = (x, r', fs')"
  shows "rProviders r' = rProviders r" "rByPlugin r' = rByPlugin r" "rBindings r' = rBindings r"
    "rAuthorityStorage r' = rAuthorityStorage r" "rFenceRoot r' = rFenceRoot r"
  using ResolveForKind_cases [OF assms] resolve_writer_providers by blast+

lemma provider_inv_ResolveForKind [inv_intros]:
  "provider_inv r \<Longrightarrow> ResolveForKind r fs ioOk name major ph sh ah kd = (x, r', fs') \<Longrightarrow> provider_inv r'"
  using ResolveForKind_providers(1) provider_inv_providers by metis

end
