(* ===== verification/FenceSamples.thy ===== *)
theory FenceSamples
  imports Fencing
begin

text \<open>A lease on disk and the request and environment that present it.\<close>

definition sample_lease :: "string \<Rightarrow> int \<Rightarrow> Lease" where
  "sample_lease rid epoch =
     \<lparr> lService = ''work'', lAuthority = ''main'', lRuntimeID = rid, lEpoch = epoch \<rparr>"

definition sample_fences :: "string \<Rightarrow> int \<Rightarrow> fences" where
  "sample_fences rid epoch = [''work--main'' \<mapsto> Some (sample_lease rid epoch)]"

definition sample_write :: "int \<Rightarrow> unit Envelope" where
  "sample_write epoch =
     (zero_envelope ())\<lparr> eService := ''work'', eAuthority := ''main'', eFencingEpoch := epoch \<rparr>"

definition sample_env :: "string \<Rightarrow> fence_env" where
  "sample_env rid = \<lparr> feRootConfigured = True, feRuntimeID = rid, feLockOk = True \<rparr>"

lemma sample_accepts:
  "0 < n \<Longrightarrow> check_fence (sample_env rid) (sample_fences rid n) (sample_write n) = None"
  by (simp add: check_fence_def sample_env_def sample_fences_def sample_write_def sample_lease_def
      zero_envelope_def fence_base_def fence_safe_def safe_char_def)
end
