(* ===== verification/Samples.thy ===== *)
theory Samples
  imports Registry FenceSamples
begin

text \<open>
  Concrete manifests, a contract catalog and a two-runtime deployment, at which the
  properties with hypotheses are evaluated.
\<close>

definition sample_cap :: "string \<Rightarrow> string \<Rightarrow> Capability" where
  "sample_cap mode name =
     \<lparr> cName = name, cMajor = 1, cContract = canonical name 1, cMode = mode,
       cService = ''work'', cAuthority = ''main'', cPriority = 0 \<rparr>"

definition sample_manifest :: "string \<Rightarrow> Capability list \<Rightarrow> Capability list \<Rightarrow> Manifest" where
  "sample_manifest pid exports required =
     \<lparr> mManifestVersion = 1, mPluginID = pid, mPluginVersion = ''1.0.0'',
       mRuntime = \<lparr> rtProtocol = RuntimeProtocol, rtExecutable = ''./p'', rtArgs = [],
                    rtIsolation = ''process'', rtDataNamespace = ''work'' \<rparr>,
       mExports = exports, mRequired = required, mOptional = [], mPublishes = [],
       mSubscribes = [], mPermissions = [],
       mRestart = \<lparr> rpMode = ''never'', rpMaxAttempts = 0, rpCooldownMS = 0 \<rparr>,
       mResources = \<lparr> resMemoryMB = 0, resCPUWeight = 0 \<rparr> \<rparr>"

definition work_cap :: Capability where
  "work_cap = sample_cap ''stateful'' ''work.create''"

definition work_manifest :: Manifest where
  "work_manifest = sample_manifest ''work'' [work_cap] []"

definition sample_root :: Registry where
  "sample_root = snd (SetFenceRoot registry_New ''/f'' True [])"

definition sample_running :: Registry where
  "sample_running =
     sample_root\<lparr> rProviders := [((''work.create'', 1), [new_provider work_manifest ''rt-1'' work_cap])],
                  rAuthorityStorage := [(''work'', ''main'') \<mapsto> ''work''] \<rparr>"

lemma sample_registered: "RegisterRuntime sample_root work_manifest ''rt-1'' = Ok sample_running"
  by (simp add: RegisterRuntime_def sample_running_def sample_root_def SetFenceRoot_def
      registry_New_def work_manifest_def work_cap_def sample_manifest_def sample_cap_def
      storage_conflict_def reserve_storage_def add_provider_def providers_at_def Let_def
      norm_mode_def stable_sort_def)

definition sample_promoted :: Registry where
  "sample_promoted =
     sample_running\<lparr> rWriters := [(''work'', ''main'') \<mapsto> \<lparr> wRuntimeID = ''rt-1'', wEpoch = 1 \<rparr>] \<rparr>"

lemmas sample_defs =
  sample_promoted_def sample_running_def sample_root_def SetFenceRoot_def registry_New_def
  work_manifest_def work_cap_def sample_manifest_def sample_cap_def sample_lease_def
  sample_fences_def new_provider_def norm_mode_def

lemmas resolve_defs =
  ResolveForKind_def resolve_writer_def persistFenceLocked_def providers_at_def
  export_authority_def hint_ok_def fill_hint_def zero_binding_def zero_lease_def inc64_def
  max_int_def min_int_def fence_base_def fence_safe_def safe_char_def Let_def

lemma sample_resolve:
  "ResolveForKind sample_running Map.empty True ''work.create'' 1 [] [] [] KindCommand =
     (Ok ((new_provider work_manifest ''rt-1'' work_cap)\<lparr> pWriterEpoch := 1 \<rparr>), sample_promoted,
      sample_fences ''rt-1'' 1)"
  by (simp add: resolve_defs sample_defs)

lemma sample_resolve_again:
  "ResolveForKind sample_promoted (sample_fences ''rt-1'' 1) True ''work.create'' 1 [] [] [] KindCommand =
     (Ok ((new_provider work_manifest ''rt-1'' work_cap)\<lparr> pWriterEpoch := 1 \<rparr>), sample_promoted,
      sample_fences ''rt-1'' 1)"
  by (simp add: resolve_defs sample_defs)

text \<open>The first runtime is removed and a second one takes over with the next epoch.\<close>

definition sample_removed :: Registry where
  "sample_removed =
     sample_running\<lparr> rProviders := [],
        rWriters := [(''work'', ''main'') \<mapsto> \<lparr> wRuntimeID = [], wEpoch = 1 \<rparr>] \<rparr>"

definition sample_second :: Registry where
  "sample_second =
     sample_removed\<lparr> rProviders := [((''work.create'', 1), [new_provider work_manifest ''rt-2'' work_cap])] \<rparr>"

definition sample_second_promoted :: Registry where
  "sample_second_promoted =
     sample_second\<lparr> rWriters := [(''work'', ''main'') \<mapsto> \<lparr> wRuntimeID = ''rt-2'', wEpoch = 2 \<rparr>] \<rparr>"

lemma sample_removes: "RemoveRuntime sample_promoted ''rt-1'' = sample_removed"
proof -
  have "(\<lambda>ak. map_option (\<lambda>l. if wRuntimeID l = ''rt-1'' then l\<lparr> wRuntimeID := [] \<rparr> else l)
          ([(''work'', ''main'') \<mapsto> \<lparr> wRuntimeID = ''rt-1'', wEpoch = 1 \<rparr>] ak)) =
        [(''work'', ''main'') \<mapsto> \<lparr> wRuntimeID = [], wEpoch = 1 \<rparr>]"
    by (rule ext) simp
  then show ?thesis
    by (simp add: RemoveRuntime_def clearWriter_def sample_removed_def sample_defs)
qed

lemma sample_registers_second:
  "RegisterRuntime sample_removed work_manifest ''rt-2'' = Ok sample_second"
  by (simp add: RegisterRuntime_def sample_second_def sample_removed_def sample_defs
      storage_conflict_def reserve_storage_def add_provider_def providers_at_def Let_def
      stable_sort_def)

lemma sample_resolve_second:
  "ResolveForKind sample_second (sample_fences ''rt-1'' 1) True ''work.create'' 1 [] [] [] KindCommand =
     (Ok ((new_provider work_manifest ''rt-2'' work_cap)\<lparr> pWriterEpoch := 2 \<rparr>), sample_second_promoted,
      sample_fences ''rt-2'' 2)"
  by (simp add: resolve_defs sample_defs sample_second_promoted_def sample_second_def sample_removed_def)


end
