(* ===== verification/WriterFencing.thy ===== *)
theory WriterFencing
  imports RegistryFacts Samples
begin

text \<open>
  What resolution returns, and single-writer fencing from end to end: the host promotes a
  runtime by writing a lease with a larger epoch, a plugin's write runs only under the lease
  that stamped its request, so a writer that was replaced can never write again.
\<close>

section \<open>What resolution returns\<close>

text \<open>The provider a resolution returns, seen as one of the registered ones.\<close>

definition stamped :: "Provider \<Rightarrow> Provider \<Rightarrow> bool" where
  "stamped q p \<longleftrightarrow> p = q\<lparr> pWriterEpoch := pWriterEpoch p \<rparr>"

lemma stamped_iff: "stamped q p \<longleftrightarrow> (\<exists>e. p = q\<lparr> pWriterEpoch := e \<rparr>)"
  by (auto simp: stamped_def)

lemma stamped_refl [simp]: "stamped q q"
  by (cases q) (simp add: stamped_def)

definition binding_of :: "Registry \<Rightarrow> string \<Rightarrow> int \<Rightarrow> Binding" where
  "binding_of r name major =
     (case rBindings r (name, major) of None \<Rightarrow> zero_binding | Some b \<Rightarrow> b)"

definition stateful_key :: "Registry \<Rightarrow> string \<Rightarrow> int \<Rightarrow> bool" where
  "stateful_key r name major \<longleftrightarrow>
     (case providers_at r (name, major) of [] \<Rightarrow> False
      | p # _ \<Rightarrow> cMode (pExport p) = ''stateful'')"

lemma stamped_simps:
  "stamped q p \<Longrightarrow> pRuntimeID p = pRuntimeID q" "stamped q p \<Longrightarrow> pPluginID p = pPluginID q"
  "stamped q p \<Longrightarrow> pExport p = pExport q" "stamped q p \<Longrightarrow> pHealthy p = pHealthy q"
  "stamped q p \<Longrightarrow> pManifest p = pManifest q"
  by (auto simp: stamped_iff)

lemma resolve_writer_Ok:
  assumes "resolve_writer r fs ioOk ak ph cands = (Ok p, r', fs')"
  obtains (active) q l where "q \<in> set cands" "hint_ok ph q" "rWriters r ak = Some l"
      "wRuntimeID l = pRuntimeID q" "wRuntimeID l \<noteq> []" "p = q\<lparr> pWriterEpoch := wEpoch l \<rparr>"
      "r' = r" "fs' = fs" "find (\<lambda>p. pRuntimeID p = wRuntimeID l) cands = Some q"
  | (promoted) q e where "q \<in> set cands" "hint_ok ph q"
      "e = inc64 (case rWriters r ak of None \<Rightarrow> 0 | Some l \<Rightarrow> wEpoch l)"
      "p = q\<lparr> pWriterEpoch := e \<rparr>" "rFenceRoot r \<noteq> []" "ioOk"
      "r' = r\<lparr> rWriters := (rWriters r)(ak \<mapsto> \<lparr> wRuntimeID = pRuntimeID q, wEpoch = e \<rparr>) \<rparr>"
      "fs' = fs(fence_base (fst ak) (snd ak) \<mapsto>
         Some \<lparr> lService = fst ak, lAuthority = snd ak, lRuntimeID = pRuntimeID q, lEpoch = e \<rparr>)"
      "find (hint_ok ph) cands = Some q"
      "\<forall>l. rWriters r ak = Some l \<longrightarrow> wRuntimeID l \<noteq> [] \<longrightarrow>
           (\<forall>c \<in> set cands. pRuntimeID c \<noteq> wRuntimeID l)"
proof -
  let ?lease = "case rWriters r ak of None \<Rightarrow> zero_lease | Some l \<Rightarrow> l"
  let ?active = "if wRuntimeID ?lease \<noteq> []
                 then find (\<lambda>p. pRuntimeID p = wRuntimeID ?lease) cands else None"
  show thesis
  proof (cases ?active)
    case (Some q)
    then obtain l where l: "rWriters r ak = Some l" "wRuntimeID l \<noteq> []"
      and f: "find (\<lambda>p. pRuntimeID p = wRuntimeID l) cands = Some q"
      by (auto simp: zero_lease_def split: if_splits option.splits)
    from f have "q \<in> set cands" "pRuntimeID q = wRuntimeID l" by (auto dest: find_SomeD)
    with l f assms Some show thesis
      by (intro active [of q l]) (auto simp: resolve_writer_def Let_def split: if_splits)
  next
    case None
    then obtain q where q: "find (hint_ok ph) cands = Some q"
      using assms by (auto simp: resolve_writer_def Let_def split: option.splits)
    have "\<forall>l. rWriters r ak = Some l \<longrightarrow> wRuntimeID l \<noteq> [] \<longrightarrow>
           (\<forall>c \<in> set cands. pRuntimeID c \<noteq> wRuntimeID l)"
      using None by (auto simp: find_None split: if_splits)
    moreover have "wEpoch ?lease = (case rWriters r ak of None \<Rightarrow> 0 | Some l \<Rightarrow> wEpoch l)"
      by (simp add: zero_lease_def split: option.split)
    ultimately show thesis
      using q None assms find_SomeD [OF q]
      by (intro promoted [of q "inc64 (wEpoch ?lease)"])
         (auto simp: resolve_writer_def persistFenceLocked_def Let_def split: if_splits)
  qed
qed

lemma resolve_writer_stamped:
  assumes "resolve_writer r fs ioOk ak ph cands = (Ok p, r', fs')"
  shows "\<exists>q \<in> set cands. stamped q p \<and> hint_ok ph q"
  using assms by (rule resolve_writer_Ok) (auto simp: stamped_iff)

lemma resolve_writer_Err:
  "resolve_writer r fs ioOk ak ph cands = (Err e, r', fs') \<Longrightarrow> r' = r \<and> fs' = fs"
  by (auto simp: resolve_writer_def Let_def split: option.splits if_splits sum.splits)

lemma ResolveForKind_Err:
  "ResolveForKind r fs ioOk name major ph sh ah kd = (Err e, r', fs') \<Longrightarrow> r' = r \<and> fs' = fs"
  by (drule ResolveForKind_cases) (auto dest: resolve_writer_Err)

lemma fill_hint_nonempty [simp]: "h \<noteq> [] \<Longrightarrow> fill_hint h d = h"
  by (simp add: fill_hint_def)

lemma ResolveForKind_sound:
  assumes "ResolveForKind r fs ioOk name major ph sh ah kd = (Ok p, r', fs')"
  obtains q where "q \<in> set (providers_at r (name, major))" "stamped q p" "pHealthy q"
    "hint_ok (fill_hint ph (bProvider (binding_of r name major))) q"
    "stateful_key r name major \<longrightarrow> (sh \<noteq> [] \<longrightarrow> cService (pExport q) = sh)
       \<and> (ah \<noteq> [] \<longrightarrow> cAuthority (pExport q) = ah)"
proof -
  let ?ps = "providers_at r (name, major)" and ?b = "binding_of r name major"
  let ?ph = "fill_hint ph (bProvider ?b)"
  have ne: "?ps \<noteq> []" using assms by (auto simp: ResolveForKind_def)
  show thesis
  proof (cases "stateful_key r name major")
    case False
    with ne have m: "cMode (pExport (hd ?ps)) \<noteq> ''stateful''"
      by (cases ?ps) (auto simp: stateful_key_def)
    with assms ne have "find (\<lambda>p. pHealthy p \<and> hint_ok ?ph p) ?ps = Some p"
      by (simp add: ResolveForKind_def Let_def binding_of_def split: option.splits)
    from find_SomeD [OF this] False that show thesis by auto
  next
    case True
    with ne have m: "cMode (pExport (hd ?ps)) = ''stateful''"
      by (cases ?ps) (auto simp: stateful_key_def)
    let ?pairs = "remdups (map export_authority ?ps)"
    let ?sh = "fill_hint (fill_hint sh (bService ?b)) (fst (hd ?pairs))"
    let ?ah = "fill_hint (fill_hint ah (bAuthority ?b)) (snd (hd ?pairs))"
    let ?c = "filter (\<lambda>p. pHealthy p \<and> export_authority p = (?sh, ?ah)) ?ps"
    have "(kd \<noteq> KindCommand \<and> find (hint_ok ?ph) ?c = Some p) \<or>
          resolve_writer r fs ioOk (?sh, ?ah) ?ph ?c = (Ok p, r', fs')"
      using assms m ne unfolding ResolveForKind_def Let_def binding_of_def [symmetric]
      by (simp split: if_splits option.splits)
    then have "\<exists>q \<in> set ?c. stamped q p \<and> hint_ok ?ph q"
    proof
      assume "kd \<noteq> KindCommand \<and> find (hint_ok ?ph) ?c = Some p"
      then have "p \<in> set ?c" "hint_ok ?ph p" using find_SomeD [of "hint_ok ?ph" ?c p] by blast+
      then show ?thesis using stamped_refl by blast
    qed (rule resolve_writer_stamped)
    then obtain q where "q \<in> set ?c" "stamped q p" "hint_ok ?ph q" by blast
    then show thesis by (intro that [of q]) (auto simp: export_authority_def)
  qed
qed

lemma ResolveForKind_command:
  assumes "ResolveForKind r fs ioOk name major ph sh ah KindCommand = (Ok p, r', fs')"
    and "stateful_key r name major"
  obtains ak ph' cands where "resolve_writer r fs ioOk ak ph' cands = (Ok p, r', fs')"
    "cands = filter (\<lambda>p. pHealthy p \<and> export_authority p = ak) (providers_at r (name, major))"
proof -
  let ?ps = "providers_at r (name, major)" and ?b = "binding_of r name major"
  have ne: "?ps \<noteq> []" and m: "cMode (pExport (hd ?ps)) = ''stateful''"
    using assms(2) by (auto simp: stateful_key_def split: list.splits)
  let ?pairs = "remdups (map export_authority ?ps)"
  let ?sh = "fill_hint (fill_hint sh (bService ?b)) (fst (hd ?pairs))"
  let ?ah = "fill_hint (fill_hint ah (bAuthority ?b)) (snd (hd ?pairs))"
  have "resolve_writer r fs ioOk (?sh, ?ah) (fill_hint ph (bProvider ?b))
      (filter (\<lambda>p. pHealthy p \<and> export_authority p = (?sh, ?ah)) ?ps) = (Ok p, r', fs')"
    using assms(1) m ne unfolding ResolveForKind_def Let_def binding_of_def [symmetric]
    by (simp split: if_splits)
  then show thesis by (rule that) simp
qed

section \<open>The host and its fence directory\<close>

type_synonym host = "Registry \<times> fences"

abbreviation fence_key :: "authority_key \<Rightarrow> string" where
  "fence_key ak \<equiv> fence_base (fst ak) (snd ak)"

text \<open>
  The authorities a deployment uses: named, and no two of them share a lease file.
\<close>

definition authorities_ok :: "authority_key set \<Rightarrow> bool" where
  "authorities_ok A \<longleftrightarrow>
     inj_on (\<lambda>ak. fence_base (fst ak) (snd ak)) A \<and> (\<forall>ak \<in> A. fst ak \<noteq> [] \<and> snd ak \<noteq> [])"

text \<open>Only those authorities are used, and no epoch has wrapped around.\<close>

definition bounded_writers :: "authority_key set \<Rightarrow> Registry \<Rightarrow> bool" where
  "bounded_writers A r \<longleftrightarrow> (\<forall>ak l. rWriters r ak = Some l \<longrightarrow> ak \<in> A \<and> 0 < wEpoch l)"

definition lease_content :: "Lease option \<Rightarrow> fence_file" where
  "lease_content x = (case x of None \<Rightarrow> FenceUndecodable | Some l \<Rightarrow> FenceLease l)"

text \<open>What \<open>filepath.Glob\<close> and the reads of \<open>SetFenceRoot\<close> find in the fence directory.\<close>

definition lists_fences :: "(string \<times> fence_file) list \<Rightarrow> fences \<Rightarrow> bool" where
  "lists_fences files fs \<longleftrightarrow>
     distinct (map fst files) \<and> (\<forall>b. map_of files b = map_option lease_content (fs b))"

inductive host_step :: "authority_key set \<Rightarrow> host \<Rightarrow> host \<Rightarrow> bool" for A where
  resolve: "ResolveForKind r fs ioOk name major ph sh ah kd = (x, r', fs') \<Longrightarrow>
     bounded_writers A r' \<Longrightarrow> host_step A (r, fs) (r', fs')"
| admit: "AddManifest r m = Ok r' \<Longrightarrow> host_step A (r, fs) (r', fs)"
| catalog: "host_step A (r, fs) (SetContractCatalog r c, fs)"
| bind: "host_step A (r, fs) (SetBinding r name major b, fs)"
| register: "RegisterRuntime r m rid = Ok r' \<Longrightarrow> host_step A (r, fs) (r', fs)"
| remove: "host_step A (r, fs) (RemoveRuntime r rid, fs)"
| health: "host_step A (r, fs) (MarkHealth r rid b, fs)"
| dependencies: "host_step A (r, fs) (snd (MarkDependencyHealth r rid b), fs)"
| failure: "host_step A (r, fs) (RecordFailure r rid, fs)"
| success: "host_step A (r, fs) (RecordSuccess r rid, fs)"
| beat_failed: "host_step A (r, fs) (RecordHeartbeatFailure r rid, fs)"
| beat_ok: "host_step A (r, fs) (RecordHeartbeatSuccess r rid, fs)"
| restart: "SetFenceRoot registry_New root True files = (None, r') \<Longrightarrow> lists_fences files fs \<Longrightarrow>
     host_step A (r, fs) (r', fs)"

inductive_cases host_stepE: "host_step A h h'"

text \<open>
  Every operation but promotion and restart only forgets which runtime is the active writer.
\<close>

definition writers_forgotten :: "Registry \<Rightarrow> Registry \<Rightarrow> bool" where
  "writers_forgotten r r' \<longleftrightarrow>
     (\<forall>ak. rWriters r' ak = rWriters r ak \<or>
        (\<exists>l. rWriters r ak = Some l \<and> rWriters r' ak = Some (l\<lparr> wRuntimeID := [] \<rparr>)))"

lemma writers_forgotten_eq [inv_intros]: "rWriters r' = rWriters r \<Longrightarrow> writers_forgotten r r'"
  by (simp add: writers_forgotten_def)

lemma writers_forgotten_clear [inv_intros]:
  "rWriters q = rWriters r \<Longrightarrow> writers_forgotten r (clearWriter rid q)"
  by (auto simp: writers_forgotten_def clearWriter_def map_option_case split: option.splits)

lemma writers_add_providers: "rWriters (fold (add_provider m rid) cs r) = rWriters r"
  by (induction cs arbitrary: r) (simp_all add: add_provider_def Let_def)

lemma writers_forgotten_ops:
  "writers_forgotten r (MarkHealth r rid b)"
  "writers_forgotten r (snd (MarkDependencyHealth r rid b))"
  "writers_forgotten r (RecordFailure r rid)"
  "writers_forgotten r (RecordSuccess r rid)"
  "writers_forgotten r (RecordHeartbeatFailure r rid)"
  "writers_forgotten r (RecordHeartbeatSuccess r rid)"
  "writers_forgotten r (RemoveRuntime r rid)"
  "writers_forgotten r (SetBinding r name major bd)"
  "writers_forgotten r (SetContractCatalog r c)"
  "AddManifest r m = Ok r' \<Longrightarrow> writers_forgotten r r'"
  "RegisterRuntime r m rid = Ok r' \<Longrightarrow> writers_forgotten r r'"
  unfolding MarkHealth_def MarkDependencyHealth_def RecordFailure_def RecordSuccess_def
    RecordHeartbeatFailure_def RecordHeartbeatSuccess_def RemoveRuntime_def SetBinding_def
    SetContractCatalog_def
    update_and_clear_def Let_def
  by (auto simp: on_runtime_def RegisterRuntime_def writers_add_providers
      intro!: inv_intros elim!: AddManifest_Ok split: option.splits)

section \<open>The fencing invariant\<close>

text \<open>
  A writer's lease is on disk with the same epoch, and with the same runtime unless the host
  has forgotten the runtime; and every lease file belongs to a writer the host knows.
\<close>

definition on_disk :: "fences \<Rightarrow> authority_key \<Rightarrow> writerLease \<Rightarrow> bool" where
  "on_disk fs ak l \<longleftrightarrow>
     (\<exists>f. fs (fence_key ak) = Some (Some f) \<and> lService f = fst ak \<and> lAuthority f = snd ak
        \<and> lEpoch f = wEpoch l \<and> (wRuntimeID l = [] \<or> lRuntimeID f = wRuntimeID l))"

definition fence_inv :: "authority_key set \<Rightarrow> host \<Rightarrow> bool" where
  "fence_inv A = (\<lambda>(r, fs). authorities_ok A \<and> bounded_writers A r
     \<and> (\<forall>ak l. rWriters r ak = Some l \<longrightarrow> on_disk fs ak l)
     \<and> (\<forall>b x. fs b = Some x \<longrightarrow> (\<exists>ak. rWriters r ak \<noteq> None \<and> b = fence_key ak)))"

lemma fence_invD:
  assumes "fence_inv A (r, fs)"
  shows "authorities_ok A" "bounded_writers A r" "rWriters r ak = Some l \<Longrightarrow> on_disk fs ak l"
    "fs b = Some x \<Longrightarrow> \<exists>ak. rWriters r ak \<noteq> None \<and> b = fence_key ak"
  using assms unfolding fence_inv_def by blast+

lemma fence_key_inj:
  "authorities_ok A \<Longrightarrow> a \<in> A \<Longrightarrow> b \<in> A \<Longrightarrow> fence_key a = fence_key b \<Longrightarrow> a = b"
  by (auto simp: authorities_ok_def dest: inj_onD)

lemma on_disk_forget: "on_disk fs ak l \<Longrightarrow> on_disk fs ak (l\<lparr> wRuntimeID := [] \<rparr>)"
  by (auto simp: on_disk_def)

lemma fence_inv_forgotten:
  assumes inv: "fence_inv A (r, fs)" and f: "writers_forgotten r r'"
  shows "fence_inv A (r', fs)"
proof -
  have old: "\<exists>l0. rWriters r ak = Some l0 \<and> wEpoch l = wEpoch l0 \<and> (l = l0 \<or> l = l0\<lparr> wRuntimeID := [] \<rparr>)"
    if "rWriters r' ak = Some l" for ak l
    using f [unfolded writers_forgotten_def, rule_format, of ak] that by (elim disjE exE) auto
  have "bounded_writers A r'"
    using fence_invD(2) [OF inv] unfolding bounded_writers_def by (metis old)
  moreover have "on_disk fs ak l" if "rWriters r' ak = Some l" for ak l
    using old [OF that] fence_invD(3) [OF inv] on_disk_forget by metis
  moreover have "rWriters r' ak \<noteq> None" if "rWriters r ak \<noteq> None" for ak
    using f [unfolded writers_forgotten_def, rule_format, of ak] that by auto
  ultimately show ?thesis
    using fence_invD(1,4) [OF inv] unfolding fence_inv_def by blast
qed

lemma fence_inv_promoted:
  assumes inv: "fence_inv A (r, fs)" and b: "bounded_writers A r'"
    and r': "r' = r\<lparr> rWriters := (rWriters r)(ak \<mapsto> \<lparr> wRuntimeID = rid, wEpoch = e \<rparr>) \<rparr>"
    and fs': "fs' = fs(fence_key ak \<mapsto> Some \<lparr> lService = fst ak, lAuthority = snd ak,
                        lRuntimeID = rid, lEpoch = e \<rparr>)"
  shows "fence_inv A (r', fs')"
proof -
  have akA: "ak \<in> A" using b [unfolded bounded_writers_def, rule_format, of ak] r' by simp
  have "on_disk fs' ak' l" if w: "rWriters r' ak' = Some l" for ak' l
  proof (cases "ak' = ak")
    case True
    with w r' fs' show ?thesis by (auto simp: on_disk_def)
  next
    case False
    with w r' have w0: "rWriters r ak' = Some l" by simp
    then have "ak' \<in> A" using fence_invD(2) [OF inv] unfolding bounded_writers_def by blast
    with False akA have "fence_key ak' \<noteq> fence_key ak"
      using fence_key_inj [OF fence_invD(1) [OF inv]] by blast
    with fence_invD(3) [OF inv w0] fs' show ?thesis by (simp add: on_disk_def)
  qed
  moreover have "\<exists>ak'. rWriters r' ak' \<noteq> None \<and> c = fence_key ak'" if "fs' c = Some x" for c x
  proof (cases "c = fence_key ak")
    case True
    with r' show ?thesis by (intro exI [of _ ak]) simp
  next
    case False
    with that fs' have "fs c = Some x" by simp
    from fence_invD(4) [OF inv this] r' show ?thesis by auto
  qed
  ultimately show ?thesis
    using fence_invD(1) [OF inv] b unfolding fence_inv_def by blast
qed

lemma resolve_promotes:
  assumes "ResolveForKind r fs ioOk name major ph sh ah kd = (x, r', fs')"
  shows "(r' = r \<and> fs' = fs) \<or>
    (\<exists>ak rid e. e = inc64 (case rWriters r ak of None \<Rightarrow> 0 | Some l \<Rightarrow> wEpoch l)
       \<and> r' = r\<lparr> rWriters := (rWriters r)(ak \<mapsto> \<lparr> wRuntimeID = rid, wEpoch = e \<rparr>) \<rparr>
       \<and> fs' = fs(fence_key ak \<mapsto> Some \<lparr> lService = fst ak, lAuthority = snd ak,
                        lRuntimeID = rid, lEpoch = e \<rparr>))"
proof (cases x)
  case (Inl e)
  then show ?thesis using ResolveForKind_Err [OF assms [unfolded Inl]] by simp
next
  case (Inr p)
  from ResolveForKind_cases [OF assms] show ?thesis
  proof
    assume "\<exists>ak ph' cands. resolve_writer r fs ioOk ak ph' cands = (x, r', fs') \<and> kd = KindCommand
      \<and> cands = filter (\<lambda>p. pHealthy p \<and> export_authority p = ak) (providers_at r (name, major))
      \<and> ph' = fill_hint ph (bProvider (case rBindings r (name, major) of None \<Rightarrow> zero_binding | Some b \<Rightarrow> b))"
    then obtain ak ph' cands where "resolve_writer r fs ioOk ak ph' cands = (Ok p, r', fs')"
      using Inr by blast
    then show ?thesis
    proof (rule resolve_writer_Ok)
      fix q e
      assume "e = inc64 (case rWriters r ak of None \<Rightarrow> 0 | Some l \<Rightarrow> wEpoch l)"
        "r' = r\<lparr> rWriters := (rWriters r)(ak \<mapsto> \<lparr> wRuntimeID = pRuntimeID q, wEpoch = e \<rparr>) \<rparr>"
        "fs' = fs(fence_key ak \<mapsto> Some \<lparr> lService = fst ak, lAuthority = snd ak,
           lRuntimeID = pRuntimeID q, lEpoch = e \<rparr>)"
      then show ?thesis
        by (intro disjI2 exI [of _ ak] exI [of _ "pRuntimeID q"] exI [of _ e] conjI)
    qed simp
  qed simp
qed

section \<open>A restart\<close>

lemma load_fences_lookup:
  assumes "load_fences ws files = (None, ws')" and "distinct (map fst files)"
    and "\<And>p l. (p, FenceLease l) \<in> set files \<Longrightarrow> p = fence_base (lService l) (lAuthority l)
           \<and> lService l \<noteq> [] \<and> lAuthority l \<noteq> []"
    and "\<And>p l. (p, FenceLease l) \<in> set files \<Longrightarrow> p = fence_key ak \<Longrightarrow> (lService l, lAuthority l) = ak"
  shows "ws' ak = (case map_of files (fence_key ak) of
                     Some (FenceLease l) \<Rightarrow> Some \<lparr> wRuntimeID = [], wEpoch = lEpoch l \<rparr>
                   | _ \<Rightarrow> ws ak)"
  using assms
proof (induction files arbitrary: ws)
  case (Cons q rest)
  obtain p f where q: "q = (p, f)" by (cases q)
  with Cons.prems(1) obtain l where f: "f = FenceLease l" by (cases f) auto
  have l: "p = fence_base (lService l) (lAuthority l)" "lService l \<noteq> []" "lAuthority l \<noteq> []"
    using Cons.prems(3) [of p l] q f by auto
  let ?ws = "ws((lService l, lAuthority l) \<mapsto> \<lparr> wRuntimeID = [], wEpoch = lEpoch l \<rparr>)"
  have run: "load_fences ?ws rest = (None, ws')" using Cons.prems(1) q f l by simp
  have IH: "ws' ak = (case map_of rest (fence_key ak) of
                     Some (FenceLease l) \<Rightarrow> Some \<lparr> wRuntimeID = [], wEpoch = lEpoch l \<rparr>
                   | _ \<Rightarrow> ?ws ak)"
    by (rule Cons.IH [OF run]) (use Cons.prems in auto)
  show ?case
  proof (cases "p = fence_key ak")
    case True
    then have "(lService l, lAuthority l) = ak" using Cons.prems(4) [of p l] q f by auto
    moreover have "map_of rest (fence_key ak) = None"
      using Cons.prems(2) q True by (simp add: map_of_eq_None_iff)
    ultimately show ?thesis using IH q f True by auto
  next
    case False
    then have "(lService l, lAuthority l) \<noteq> ak" using l(1) by auto
    with IH q False show ?thesis by (simp split: option.splits fence_file.splits)
  qed
qed simp

lemma load_fences_origin:
  assumes "load_fences ws files = (None, ws')" and "ws' ak \<noteq> None"
  shows "ws ak \<noteq> None \<or>
    (\<exists>p q. (p, FenceLease q) \<in> set files \<and> (lService q, lAuthority q) = ak)"
  using assms(1)
proof (induction files arbitrary: ws)
  case Nil
  with assms(2) show ?case by simp
next
  case (Cons pf rest)
  obtain p f where pf: "pf = (p, f)" by (cases pf)
  with Cons.prems obtain l where f: "f = FenceLease l" by (cases f) auto
  show ?case
  proof (cases "(lService l, lAuthority l) = ak")
    case True
    with pf f show ?thesis by auto
  next
    case False
    with Cons.IH [of "if lService l \<noteq> [] \<and> lAuthority l \<noteq> []
      then ws((lService l, lAuthority l) \<mapsto> \<lparr> wRuntimeID = [], wEpoch = lEpoch l \<rparr>) else ws"]
      Cons.prems pf f show ?thesis by (auto split: if_splits)
  qed
qed

lemma fence_inv_restart:
  assumes inv: "fence_inv A (r, fs)" and l: "lists_fences files fs"
    and s: "SetFenceRoot registry_New root True files = (None, r')"
  shows "fence_inv A (r', fs)"
    and "\<And>ak. rWriters r' ak = map_option (\<lambda>w. w\<lparr> wRuntimeID := [] \<rparr>) (rWriters r ak)"
proof -
  have d: "distinct (map fst files)"
    and m: "\<And>b. map_of files b = map_option lease_content (fs b)"
    using l by (auto simp: lists_fences_def)
  have run: "load_fences Map.empty files = (None, rWriters r')"
    using s by (auto simp: SetFenceRoot_def registry_New_def split: prod.splits)
  have disk: "\<exists>ak w. rWriters r ak = Some w \<and> ak \<in> A \<and> p = fence_key ak \<and> on_disk fs ak w
        \<and> ak = (lService q, lAuthority q)"
    if "(p, FenceLease q) \<in> set files" for p q
  proof -
    from d that have "map_option lease_content (fs p) = Some (FenceLease q)" by (simp flip: m)
    then have fsp: "fs p = Some (Some q)" by (auto simp: lease_content_def split: option.splits)
    then obtain ak w where w: "rWriters r ak = Some w" "p = fence_key ak"
      using fence_invD(4) [OF inv] by blast
    with fence_invD(3) [OF inv w(1)] fsp have "ak = (lService q, lAuthority q)"
      by (cases ak) (auto simp: on_disk_def)
    with w show ?thesis
      using fence_invD(2,3) [OF inv] unfolding bounded_writers_def by blast
  qed
  have ne: "fst a \<noteq> []" "snd a \<noteq> []" if "a \<in> A" for a
    using fence_invD(1) [OF inv] that unfolding authorities_ok_def by blast+
  have cond1: "p = fence_base (lService q) (lAuthority q) \<and> lService q \<noteq> [] \<and> lAuthority q \<noteq> []"
    if "(p, FenceLease q) \<in> set files" for p q
    using disk [OF that] ne by fastforce
  have look: "rWriters r' ak = map_option (\<lambda>w. w\<lparr> wRuntimeID := [] \<rparr>) (rWriters r ak)" for ak
  proof (cases "rWriters r ak")
    case (Some w)
    from fence_invD(3) [OF inv Some] obtain f where
      f: "fs (fence_key ak) = Some (Some f)" "ak = (lService f, lAuthority f)" "lEpoch f = wEpoch w"
      by (cases ak) (auto simp: on_disk_def)
    then have mf: "map_of files (fence_key ak) = Some (FenceLease f)"
      by (simp add: m lease_content_def)
    have "rWriters r' ak = (case map_of files (fence_key ak) of
                     Some (FenceLease l) \<Rightarrow> Some \<lparr> wRuntimeID = [], wEpoch = lEpoch l \<rparr>
                   | _ \<Rightarrow> Map.empty ak)"
    proof (rule load_fences_lookup [OF run d cond1])
      fix p q
      assume "(p, FenceLease q) \<in> set files" "p = fence_key ak"
      with mf map_of_is_SomeI [OF d, of p "FenceLease q"] have "q = f" by simp
      with f show "(lService q, lAuthority q) = ak" by simp
    qed
    with mf f Some show ?thesis by simp
  next
    case None
    show ?thesis
    proof (rule ccontr)
      assume "rWriters r' ak \<noteq> map_option (\<lambda>w. w\<lparr> wRuntimeID := [] \<rparr>) (rWriters r ak)"
      with None obtain w' where w': "rWriters r' ak = Some w'" by auto
      from load_fences_origin [OF run, of ak] w' obtain p q where "(p, FenceLease q) \<in> set files"
        "(lService q, lAuthority q) = ak" by auto
      with disk None show False by fastforce
    qed
  qed
  show "\<And>ak. rWriters r' ak = map_option (\<lambda>w. w\<lparr> wRuntimeID := [] \<rparr>) (rWriters r ak)" by (rule look)
  have "rWriters r' ak = rWriters r ak \<or>
      (\<exists>l. rWriters r ak = Some l \<and> rWriters r' ak = Some (l\<lparr> wRuntimeID := [] \<rparr>))" for ak
    by (cases "rWriters r ak") (simp_all add: look)
  then have "writers_forgotten r r'" unfolding writers_forgotten_def by blast
  with inv show "fence_inv A (r', fs)" by (rule fence_inv_forgotten)
qed

section \<open>Epochs only grow\<close>

definition lease_le :: "Lease option option \<Rightarrow> Lease option option \<Rightarrow> bool" where
  "lease_le x y \<longleftrightarrow>
     (case x of Some (Some l) \<Rightarrow> (case y of Some (Some l') \<Rightarrow> l' = l \<or> lEpoch l < lEpoch l' | _ \<Rightarrow> False)
      | _ \<Rightarrow> True)"

definition fence_le :: "authority_key set \<Rightarrow> host \<Rightarrow> host \<Rightarrow> bool" where
  "fence_le A h h' \<longleftrightarrow> (\<forall>ak \<in> A. lease_le (snd h (fence_key ak)) (snd h' (fence_key ak)))"

lemma lease_le_refl [simp]: "lease_le x x"
  by (auto simp: lease_le_def split: option.splits)

lemma lease_le_trans: "lease_le x y \<Longrightarrow> lease_le y z \<Longrightarrow> lease_le x z"
  by (auto simp: lease_le_def split: option.splits)

lemma fence_le_promoted:
  assumes inv: "fence_inv A (r, fs)" and b: "bounded_writers A r'"
    and e: "e = inc64 (case rWriters r ak of None \<Rightarrow> 0 | Some l \<Rightarrow> wEpoch l)"
    and r': "r' = r\<lparr> rWriters := (rWriters r)(ak \<mapsto> \<lparr> wRuntimeID = rid, wEpoch = e \<rparr>) \<rparr>"
    and fs': "fs' = fs(fence_key ak \<mapsto> Some \<lparr> lService = fst ak, lAuthority = snd ak,
                        lRuntimeID = rid, lEpoch = e \<rparr>)"
  shows "fence_le A (r, fs) (r', fs')"
proof -
  have akA: "ak \<in> A" and pos: "0 < e"
    using b [unfolded bounded_writers_def, rule_format, of ak] r' by auto
  have "lease_le (fs (fence_key ak')) (fs' (fence_key ak'))" if A': "ak' \<in> A" for ak'
  proof (cases "ak' = ak")
    case False
    then have "fence_key ak' \<noteq> fence_key ak"
      using fence_key_inj [OF fence_invD(1) [OF inv] A' akA] by blast
    with fs' show ?thesis by simp
  next
    case True
    show ?thesis
    proof (cases "fs (fence_key ak)")
      case (Some x)
      then obtain ak2 l where l: "rWriters r ak2 = Some l" "fence_key ak = fence_key ak2"
        using fence_invD(4) [OF inv] by blast
      then have "ak2 \<in> A" using fence_invD(2) [OF inv] unfolding bounded_writers_def by blast
      with l akA have "ak2 = ak" using fence_key_inj [OF fence_invD(1) [OF inv]] by metis
      with l have w: "rWriters r ak = Some l" by simp
      from fence_invD(3) [OF inv w] obtain f where f: "fs (fence_key ak) = Some (Some f)"
        "lEpoch f = wEpoch l" by (auto simp: on_disk_def)
      have "0 < wEpoch l" using fence_invD(2) [OF inv] w unfolding bounded_writers_def by blast
      with e w pos have "wEpoch l < e" by (auto simp: inc64_def min_int_def split: if_splits)
      with f fs' True show ?thesis by (simp add: lease_le_def)
    qed (use True in \<open>simp add: lease_le_def\<close>)
  qed
  then show ?thesis by (simp add: fence_le_def)
qed

lemma fence_step:
  assumes "fence_inv A h" and "host_step A h h'"
  shows "fence_inv A h' \<and> fence_le A h h'"
  using assms(2,1)
proof cases
  case (resolve r fs ioOk name major ph sh ah kd x r' fs')
  from resolve_promotes [OF resolve(3)] show ?thesis
  proof
    assume "\<exists>ak rid e. e = inc64 (case rWriters r ak of None \<Rightarrow> 0 | Some l \<Rightarrow> wEpoch l)
       \<and> r' = r\<lparr> rWriters := (rWriters r)(ak \<mapsto> \<lparr> wRuntimeID = rid, wEpoch = e \<rparr>) \<rparr>
       \<and> fs' = fs(fence_key ak \<mapsto> Some \<lparr> lService = fst ak, lAuthority = snd ak,
                        lRuntimeID = rid, lEpoch = e \<rparr>)"
    then show ?thesis
      using fence_inv_promoted [of A r fs r'] fence_le_promoted [of A r fs r'] assms(1) resolve
      by blast
  qed (use assms(1) resolve in \<open>simp add: fence_le_def\<close>)
next
  case (restart root files r' fs r)
  then show ?thesis using fence_inv_restart(1) [of A] assms(1) by (auto simp: fence_le_def)
qed (use assms(1) in \<open>auto simp: fence_le_def intro: fence_inv_forgotten writers_forgotten_ops\<close>)

interpretation fence_run: monotone_system "host_step A" "fence_inv A" "fence_le A" for A
proof unfold_locales
  show "fence_le A s s''" if "fence_le A s s'" "fence_le A s' s''" for s s' s''
    using that unfolding fence_le_def by (blast intro: lease_le_trans)
qed (simp_all add: fence_step, simp add: fence_le_def)

lemma fence_inv_init:
  "authorities_ok A \<Longrightarrow> fence_inv A (registry_New, Map.empty)"
  by (simp add: fence_inv_def bounded_writers_def registry_New_def)

lemma provider_inv_host_step:
  assumes "host_step A h h'" and "provider_inv (fst h)"
  shows "provider_inv (fst h')"
  using assms
proof cases
  case (restart root files r' fs r)
  have "rProviders r' = []"
    using restart(3) by (auto simp: SetFenceRoot_def registry_New_def split: prod.splits)
  then show ?thesis using restart by (simp add: provider_inv_def)
next
  case (bind r fs name major b)
  then show ?thesis
    using assms(2) provider_inv_providers [of "SetBinding r name major b" r]
    by (simp add: SetBinding_def)
next
  case (catalog r fs c)
  then show ?thesis
    using assms(2) provider_inv_providers [of "SetContractCatalog r c" r]
    by (simp add: SetContractCatalog_def)
qed (auto intro: inv_intros)

section \<open>Accepted writes\<close>

lemma accepted_lease:
  assumes "check_fence env fs e = None"
  shows "\<exists>l. fs (fence_base (eService e) (eAuthority e)) = Some (Some l)
           \<and> lRuntimeID l = feRuntimeID env \<and> lEpoch l = eFencingEpoch e"
  using assms by (auto simp: check_fence_None)

lemma accepted_ordered:
  assumes inv: "fence_inv A h1" and le: "fence_le A h1 h2"
    and c1: "check_fence env1 (snd h1) e1 = None" and c2: "check_fence env2 (snd h2) e2 = None"
    and same: "eService e2 = eService e1" "eAuthority e2 = eAuthority e1"
  shows "eFencingEpoch e1 \<le> eFencingEpoch e2
    \<and> (eFencingEpoch e1 = eFencingEpoch e2 \<longrightarrow> feRuntimeID env1 = feRuntimeID env2)"
proof -
  let ?b = "fence_base (eService e1) (eAuthority e1)"
  obtain r1 fs1 where h1: "h1 = (r1, fs1)" by (cases h1)
  from accepted_lease [OF c1] obtain l1 where l1: "fs1 ?b = Some (Some l1)"
    "lRuntimeID l1 = feRuntimeID env1" "lEpoch l1 = eFencingEpoch e1" using h1 by auto
  from accepted_lease [OF c2] same obtain l2 where l2: "snd h2 ?b = Some (Some l2)"
    "lRuntimeID l2 = feRuntimeID env2" "lEpoch l2 = eFencingEpoch e2" by auto
  from fence_invD(4) [OF inv [unfolded h1] l1(1)] obtain ak w
    where ak: "rWriters r1 ak = Some w" "?b = fence_key ak" by auto
  then have "ak \<in> A" using fence_invD(2) [OF inv [unfolded h1]] unfolding bounded_writers_def by blast
  then have "lease_le (fs1 ?b) (snd h2 ?b)" using le ak(2) h1 by (simp add: fence_le_def)
  with l1 l2 show ?thesis by (auto simp: lease_le_def)
qed

lemma stale_rejected:
  assumes inv: "fence_inv A h1" and le: "fence_le A h1 h2"
    and ak: "(eService e, eAuthority e) \<in> A"
    and l: "snd h1 (fence_base (eService e) (eAuthority e)) = Some (Some l)"
    and stale: "eFencingEpoch e < lEpoch l \<or> eFencingEpoch e = lEpoch l \<and> feRuntimeID env \<noteq> lRuntimeID l"
  shows "check_fence env (snd h2) e \<noteq> None"
proof
  assume "check_fence env (snd h2) e = None"
  from accepted_lease [OF this] obtain l2 where l2:
    "snd h2 (fence_base (eService e) (eAuthority e)) = Some (Some l2)"
    "lRuntimeID l2 = feRuntimeID env" "lEpoch l2 = eFencingEpoch e" by auto
  have "lease_le (snd h1 (fence_base (eService e) (eAuthority e)))
      (snd h2 (fence_base (eService e) (eAuthority e)))"
    using le ak by (auto simp: fence_le_def)
  with l l2 stale show False by (auto simp: lease_le_def)
qed

lemma promoted_accepted:
  assumes inv: "fence_inv A (r, fs)"
    and res: "ResolveForKind r fs ioOk name major ph sh ah KindCommand = (Ok p, r', fs')"
    and st: "stateful_key r name major" and b: "bounded_writers A r'"
    and env: "feRootConfigured env" "feLockOk env" "feRuntimeID env = pRuntimeID p"
    and e: "eService e = cService (pExport p)" "eAuthority e = cAuthority (pExport p)"
      "eFencingEpoch e = pWriterEpoch p"
  shows "check_fence env fs' e = None"
proof -
  obtain ak ph' cands where
    rw: "resolve_writer r fs ioOk ak ph' cands = (Ok p, r', fs')"
    and cands: "cands = filter (\<lambda>p. pHealthy p \<and> export_authority p = ak) (providers_at r (name, major))"
    using ResolveForKind_command [OF res st] by blast
  from rw show ?thesis
  proof (cases rule: resolve_writer_Ok)
    case (active q l)
    then have ak: "ak = (cService (pExport q), cAuthority (pExport q))" "ak \<in> A" "0 < wEpoch l"
      using cands fence_invD(2) [OF inv] by (auto simp: export_authority_def bounded_writers_def)
    then have "cService (pExport q) \<noteq> []" "cAuthority (pExport q) \<noteq> []"
      using fence_invD(1) [OF inv] by (auto simp: authorities_ok_def)
    with active ak e env fence_invD(3) [OF inv active(3)] show ?thesis
      by (auto simp: check_fence_None on_disk_def)
  next
    case (promoted q ep)
    then have ak: "ak = (cService (pExport q), cAuthority (pExport q))"
      using cands by (simp add: export_authority_def)
    have "ak \<in> A \<and> 0 < ep"
      using b [unfolded bounded_writers_def, rule_format, of ak] promoted(7) by simp
    then have "cService (pExport q) \<noteq> []" "cAuthority (pExport q) \<noteq> []" "0 < ep"
      using fence_invD(1) [OF inv] ak by (auto simp: authorities_ok_def)
    with promoted ak e env show ?thesis by (auto simp: check_fence_None)
  qed
qed

section \<open>A sample run\<close>

definition sample_authorities :: "authority_key set" where
  "sample_authorities = {(''work'', ''main'')}"

lemma sample_authorities_ok: "authorities_ok sample_authorities"
  by (simp add: authorities_ok_def sample_authorities_def)

lemma sample_bounded:
  "bounded_writers sample_authorities sample_promoted"
  "bounded_writers sample_authorities sample_second_promoted"
  by (auto simp: bounded_writers_def sample_authorities_def sample_promoted_def
      sample_second_promoted_def split: if_splits)

lemma sample_run_1:
  "(host_step sample_authorities)\<^sup>*\<^sup>* (registry_New, Map.empty) (sample_promoted, sample_fences ''rt-1'' 1)"
proof -
  have "host_step sample_authorities (registry_New, Map.empty) (sample_root, Map.empty)"
    by (rule host_step.restart [where root = "''/f''" and files = "[]"])
       (simp_all add: sample_root_def SetFenceRoot_def lists_fences_def)
  moreover have "host_step sample_authorities (sample_root, Map.empty) (sample_running, Map.empty)"
    by (rule host_step.register) (rule sample_registered)
  moreover have "host_step sample_authorities (sample_running, Map.empty)
      (sample_promoted, sample_fences ''rt-1'' 1)"
    by (rule host_step.resolve) (rule sample_resolve, rule sample_bounded)
  ultimately show ?thesis by (meson converse_rtranclp_into_rtranclp rtranclp.rtrancl_refl)
qed

lemma sample_run_2:
  "(host_step sample_authorities)\<^sup>*\<^sup>* (sample_promoted, sample_fences ''rt-1'' 1)
     (sample_second_promoted, sample_fences ''rt-2'' 2)"
proof -
  have "host_step sample_authorities (sample_promoted, sample_fences ''rt-1'' 1)
      (sample_removed, sample_fences ''rt-1'' 1)"
    unfolding sample_removes [symmetric] by (rule host_step.remove)
  moreover have "host_step sample_authorities (sample_removed, sample_fences ''rt-1'' 1)
      (sample_second, sample_fences ''rt-1'' 1)"
    by (rule host_step.register) (rule sample_registers_second)
  moreover have "host_step sample_authorities (sample_second, sample_fences ''rt-1'' 1)
      (sample_second_promoted, sample_fences ''rt-2'' 2)"
    by (rule host_step.resolve) (rule sample_resolve_second, rule sample_bounded)
  ultimately show ?thesis by (meson converse_rtranclp_into_rtranclp rtranclp.rtrancl_refl)
qed

section \<open>Properties\<close>







end
