(* ===== verification/RegistryProps.thy ===== *)
theory RegistryProps
  imports WriterFencing "HOL-Library.Multiset"
begin

text \<open>
  The properties of the registry: provider health and the circuit breaker in every reachable
  state, what a resolution returns, its stability, the admission of manifests, and the one
  case in which the lease files of two authorities collide.
\<close>

section \<open>Health\<close>

lemma runtime_providers_update:
  "keeps_identity f \<Longrightarrow> runtime_providers (on_runtime rid f r) rid = map f (runtime_providers r rid)"
  by (auto simp: runtime_providers_def all_providers_on_runtime filter_map o_def keeps_identity_def
      intro!: map_cong filter_cong)

lemma runtime_providers_clear [simp]:
  "runtime_providers (clearWriter rid' r) rid = runtime_providers r rid"
  by (simp add: runtime_providers_def frame_simps)

lemma runtime_providers_update_and_clear:
  "keeps_identity f \<Longrightarrow> runtime_providers (update_and_clear rid f r) rid = map f (runtime_providers r rid)"
  by (simp add: update_and_clear_def Let_def runtime_providers_update)

lemma all_providers_health:
  assumes "provider_inv r" and "p \<in> set (all_providers r)"
  shows "health_ok p"
proof -
  from assms(2) obtain k ps where k: "(k, ps) \<in> set (rProviders r)" "p \<in> set ps"
    using all_providers_iff by blast
  from assms(1) [unfolded provider_inv_def, THEN conjunct2, rule_format, OF k(1)] k(2)
  show ?thesis by blast
qed

definition repeat_failure :: "nat \<Rightarrow> string \<Rightarrow> Registry \<Rightarrow> Registry" where
  "repeat_failure n rid = ((\<lambda>r. RecordFailure r rid) ^^ n)"

lemma failures_counted:
  "runtime_providers (repeat_failure n rid r) rid = map (count_failure ^^ n) (runtime_providers r rid)"
proof (induction n)
  case (Suc n)
  then show ?case
    by (simp add: repeat_failure_def RecordFailure_def runtime_providers_update_and_clear
        provider_updates_identity)
qed (simp add: repeat_failure_def)

lemma count_failures:
  assumes "pFailureCount p = 0" and "\<not> pCircuitOpen p"
    and "pHealthy p = (pProcessHealthy p \<and> pDependenciesHealthy p \<and> pHeartbeatFailures p < 3)"
  shows "pFailureCount ((count_failure ^^ n) p) = int n
    \<and> pCircuitOpen ((count_failure ^^ n) p) = (3 \<le> n)
    \<and> pProcessHealthy ((count_failure ^^ n) p) = pProcessHealthy p
    \<and> pDependenciesHealthy ((count_failure ^^ n) p) = pDependenciesHealthy p
    \<and> pHeartbeatFailures ((count_failure ^^ n) p) = pHeartbeatFailures p
    \<and> pHealthy ((count_failure ^^ n) p) = (n < 3 \<and> pProcessHealthy p \<and> pDependenciesHealthy p
        \<and> pHeartbeatFailures p < 3)"
proof (induction n)
  case (Suc n)
  then show ?case by (auto simp: count_failure_def recomputeHealth_def Let_def)
qed (use assms in simp)

text \<open>
  After a success, a runtime's circuit opens exactly at the third consecutive failure, and
  its providers are then unhealthy whatever their process, dependencies and heartbeats say.
\<close>

theorem circuit_opens_at_three:
  "list_all (\<lambda>p. pFailureCount p = int n \<and> pCircuitOpen p = (3 \<le> n)
      \<and> pHealthy p = (n < 3 \<and> pProcessHealthy p \<and> pDependenciesHealthy p \<and> pHeartbeatFailures p < 3))
     (runtime_providers (repeat_failure n rid (RecordSuccess r rid)) rid)"
proof -
  have "runtime_providers (RecordSuccess r rid) rid = map count_success (runtime_providers r rid)"
    by (simp add: RecordSuccess_def runtime_providers_update provider_updates_identity)
  then show ?thesis
    using count_failures [of "count_success p" n for p]
    by (simp add: failures_counted list_all_iff count_success_def recomputeHealth_def Let_def)
qed

section \<open>Reachable registries\<close>

abbreviation reachable :: "authority_key set \<Rightarrow> host \<Rightarrow> bool" where
  "reachable A h \<equiv> (host_step A)\<^sup>*\<^sup>* (registry_New, Map.empty) h"

lemma reachable_provider_inv: "reachable A h \<Longrightarrow> provider_inv (fst h)"
  by (induction rule: rtranclp_induct) (auto simp: provider_inv_New intro: provider_inv_host_step)

text \<open>
  C35: in every reachable registry the providers of a capability are non-empty lists in priority
  order that export it, and each is healthy exactly when its process and dependencies are, its
  circuit is closed and it missed fewer than three heartbeats; the circuit is open exactly from
  the third failure on.
\<close>

theorem providers_wellformed:
  assumes "reachable A (r, fs)" and "p \<in> set (registry_Providers r name major)"
  shows "providers_sorted (registry_Providers r name major)
    \<and> cName (pExport p) = name \<and> cMajor (pExport p) = major
    \<and> pHealthy p = (pProcessHealthy p \<and> pDependenciesHealthy p \<and> \<not> pCircuitOpen p
                     \<and> pHeartbeatFailures p < 3)
    \<and> pCircuitOpen p = (3 \<le> pFailureCount p)"
proof -
  have inv: "provider_inv r" using reachable_provider_inv [OF assms(1)] by simp
  from assms(2) obtain ps where ps: "map_of (rProviders r) (name, major) = Some ps" "p \<in> set ps"
    and eq: "registry_Providers r name major = ps"
    by (cases "map_of (rProviders r) (name, major)")
       (auto simp: registry_Providers_def providers_at_def)
  from inv [unfolded provider_inv_def, THEN conjunct2, rule_format, OF map_of_SomeD [OF ps(1)]] ps(2) eq
  show ?thesis unfolding health_ok_def by blast
qed

theorem providers_wellformed_witness:
  "cName (pExport (new_provider work_manifest ''rt-1'' work_cap)) = ''work.create''"
  using providers_wellformed [OF sample_run_1,
      of "new_provider work_manifest ''rt-1'' work_cap" "''work.create''" 1]
  by (simp add: registry_Providers_def providers_at_def sample_promoted_def sample_running_def)

section \<open>Resolution\<close>

text \<open>
  A resolution only returns a registered, healthy provider of the capability, obeys the
  provider hint (the caller's, else the binding's), and for a stateful capability the caller's
  service and authority hints; only the writer epoch of the returned copy may differ.
\<close>

theorem resolution_sound:
  assumes "ResolveForKind r fs ioOk name major ph sh ah kd = (Ok p, r', fs')"
  shows "pHealthy p \<and> hint_ok (fill_hint ph (bProvider (binding_of r name major))) p
    \<and> (\<exists>q \<in> set (registry_Providers r name major). stamped q p)
    \<and> (\<not> stateful_key r name major
        \<or> (sh = [] \<or> cService (pExport p) = sh) \<and> (ah = [] \<or> cAuthority (pExport p) = ah))"
proof -
  obtain q where q: "q \<in> set (providers_at r (name, major))" "stamped q p" "pHealthy q"
    "hint_ok (fill_hint ph (bProvider (binding_of r name major))) q"
    "stateful_key r name major \<longrightarrow> (sh \<noteq> [] \<longrightarrow> cService (pExport q) = sh)
       \<and> (ah \<noteq> [] \<longrightarrow> cAuthority (pExport q) = ah)"
    using ResolveForKind_sound [OF assms] by blast
  then show ?thesis
    using stamped_simps [OF q(2)] by (auto simp: registry_Providers_def hint_ok_def)
qed

theorem resolution_sound_witness:
  "pHealthy ((new_provider work_manifest ''rt-1'' work_cap)\<lparr> pWriterEpoch := 1 \<rparr>)"
  using resolution_sound [OF sample_resolve] by blast

text \<open>What a stateful command resolves against: the authority and its healthy candidates.\<close>

definition resolved_authority :: "Registry \<Rightarrow> string \<Rightarrow> int \<Rightarrow> string \<Rightarrow> string \<Rightarrow> authority_key" where
  "resolved_authority r name major sh ah =
     (let pairs = remdups (map export_authority (providers_at r (name, major)));
          b = binding_of r name major
      in (fill_hint (fill_hint sh (bService b)) (fst (hd pairs)),
          fill_hint (fill_hint ah (bAuthority b)) (snd (hd pairs))))"

lemma ResolveForKind_command_Ok:
  assumes "ResolveForKind r fs ioOk name major ph sh ah KindCommand = (Ok p, r', fs')"
    and "stateful_key r name major"
    and "rProviders q = rProviders r" "rBindings q = rBindings r"
  shows "ResolveForKind q gs io2 name major ph sh ah KindCommand =
    resolve_writer q gs io2 (resolved_authority r name major sh ah)
      (fill_hint ph (bProvider (binding_of r name major)))
      (filter (\<lambda>p. pHealthy p \<and> export_authority p = resolved_authority r name major sh ah)
         (providers_at r (name, major)))"
proof -
  have ne: "providers_at r (name, major) \<noteq> []"
    and m: "cMode (pExport (hd (providers_at r (name, major)))) = ''stateful''"
    using assms(2) by (auto simp: stateful_key_def split: list.splits)
  have eq: "providers_at q k = providers_at r k" for k
    using assms(3) by (simp add: providers_at_def)
  show ?thesis
    using assms(1) m ne assms(4)
    unfolding ResolveForKind_def Let_def binding_of_def [symmetric] eq resolved_authority_def
    by (simp split: if_splits add: binding_of_def) auto
qed

text \<open>
  Resolution is stable: a stateful command that was resolved once resolves again to the
  same runtime with the same epoch and changes nothing, whatever the disk does meanwhile.
\<close>

theorem resolution_stable:
  assumes "ResolveForKind r fs ioOk name major ph sh ah KindCommand = (Ok p, r', fs')"
    and "stateful_key r name major" and "pRuntimeID p \<noteq> []"
    and "distinct (map pRuntimeID (registry_Providers r name major))"
  shows "ResolveForKind r' fs' io2 name major ph sh ah KindCommand = (Ok p, r', fs')"
proof -
  let ?ak = "resolved_authority r name major sh ah"
  let ?ph = "fill_hint ph (bProvider (binding_of r name major))"
  let ?c = "filter (\<lambda>p. pHealthy p \<and> export_authority p = ?ak) (providers_at r (name, major))"
  have frame: "rProviders r' = rProviders r" "rBindings r' = rBindings r"
    using ResolveForKind_providers [OF assms(1)] by auto
  have rw: "resolve_writer r fs ioOk ?ak ?ph ?c = (Ok p, r', fs')"
    using ResolveForKind_command_Ok [OF assms(1,2) refl refl, of fs ioOk] assms(1) by simp
  have "resolve_writer r' fs' io2 ?ak ?ph ?c = (Ok p, r', fs')"
    using rw
  proof (cases rule: resolve_writer_Ok)
    case (active q l)
    then show ?thesis by (simp add: resolve_writer_def Let_def)
  next
    case (promoted q e)
    have "distinct (map pRuntimeID ?c)"
      using assms(4) by (simp add: registry_Providers_def distinct_map_filter)
    from find_distinct_key [OF this promoted(1)]
    have "find (\<lambda>p. pRuntimeID p = pRuntimeID q) ?c = Some q" .
    then show ?thesis
      using promoted assms(3) by (simp add: resolve_writer_def Let_def)
  qed
  then show ?thesis using ResolveForKind_command_Ok [OF assms(1,2) frame] by simp
qed

theorem resolution_stable_witness:
  "ResolveForKind sample_promoted (sample_fences ''rt-1'' 1) False ''work.create'' 1 [] [] [] KindCommand =
     (Ok ((new_provider work_manifest ''rt-1'' work_cap)\<lparr> pWriterEpoch := 1 \<rparr>), sample_promoted,
      sample_fences ''rt-1'' 1)"
  by (rule resolution_stable [OF sample_resolve])
     (simp_all add: stateful_key_def registry_Providers_def providers_at_def sample_defs)

section \<open>Admission\<close>

definition stateful :: "Capability \<Rightarrow> bool" where
  "stateful c \<longleftrightarrow> norm_mode (cMode c) = ''stateful''"

definition authority_of :: "Capability \<Rightarrow> authority_key" where
  "authority_of c = (cService c, cAuthority c)"

definition plugin_ok :: "(authority_key \<rightharpoonup> string) \<Rightarrow> string \<times> Manifest \<Rightarrow> bool" where
  "plugin_ok st x \<longleftrightarrow> mPluginID (snd x) = fst x
     \<and> (\<forall>c \<in> set (mExports (snd x)).
          cContract c = canonical (cName c) (cMajor c)
          \<and> (stateful c \<longrightarrow> cService c \<noteq> [] \<and> cAuthority c \<noteq> []
               \<and> st (authority_of c) = Some (rtDataNamespace (mRuntime (snd x)))))"

definition modes_agree :: "Manifest \<Rightarrow> Manifest \<Rightarrow> bool" where
  "modes_agree m n \<longleftrightarrow>
     (\<forall>c \<in> set (mExports m). \<forall>d \<in> set (mExports n).
        cName c = cName d \<and> cMajor c = cMajor d \<longrightarrow> norm_mode (cMode c) = norm_mode (cMode d))"

definition admission_inv :: "Registry \<Rightarrow> bool" where
  "admission_inv r \<longleftrightarrow>
     distinct (map fst (rByPlugin r))
     \<and> (\<forall>x \<in> set (rByPlugin r). plugin_ok (rAuthorityStorage r) x)
     \<and> (\<forall>x \<in> set (rByPlugin r). \<forall>y \<in> set (rByPlugin r).
          fst x \<noteq> fst y \<longrightarrow> modes_agree (snd x) (snd y))"

lemma plugin_ok_mono:
  assumes "plugin_ok st x" and "st \<subseteq>\<^sub>m st'"
  shows "plugin_ok st' x"
  using assms(1) unfolding plugin_ok_def by (metis assms(2) domI map_le_def)

lemma modes_agree_sym: "modes_agree m n \<Longrightarrow> modes_agree n m"
  unfolding modes_agree_def by metis

lemma mixed_mode_agree:
  assumes "\<And>c. c \<in> set (mExports m) \<Longrightarrow> \<not> mixed_mode r c" and "x \<in> set (rByPlugin r)"
  shows "modes_agree m (snd x)"
  unfolding modes_agree_def
proof (intro ballI impI)
  fix c d
  assume c: "c \<in> set (mExports m)" and d: "d \<in> set (mExports (snd x))"
    and eq: "cName c = cName d \<and> cMajor c = cMajor d"
  show "norm_mode (cMode c) = norm_mode (cMode d)"
  proof (rule ccontr)
    assume "norm_mode (cMode c) \<noteq> norm_mode (cMode d)"
    with d eq assms(2) have "mixed_mode r c"
      by (auto simp: mixed_mode_def list_ex_iff intro!: bexI [of _ x] bexI [of _ d] split: prod.split)
    with assms(1) [OF c] show False ..
  qed
qed

lemma admit_exports_Ok:
  assumes "admit_exports r m pending cs = Ok pending'"
  shows "(\<forall>c \<in> set cs. \<not> mixed_mode r c \<and> cContract c = canonical (cName c) (cMajor c)
      \<and> (stateful c \<longrightarrow> cService c \<noteq> [] \<and> cAuthority c \<noteq> []
           \<and> pending' (authority_of c) = Some (rtDataNamespace (mRuntime m))))
    \<and> pending \<subseteq>\<^sub>m pending'
    \<and> (\<forall>ak. pending' ak \<noteq> pending ak \<longrightarrow> pending' ak = Some (rtDataNamespace (mRuntime m))
         \<and> (rAuthorityStorage r ak = None \<or> rAuthorityStorage r ak = pending' ak))"
  using assms
proof (induction cs arbitrary: pending)
  case Nil
  then show ?case by simp
next
  case (Cons c cs)
  let ?ns = "rtDataNamespace (mRuntime m)" and ?ak = "(cService c, cAuthority c)"
  from Cons.prems have c: "cContract c = canonical (cName c) (cMajor c)" "\<not> mixed_mode r c"
    by (auto simp: Let_def split: option.splits if_splits)
  show ?case
  proof (cases "stateful c")
    case False
    with Cons.prems have "admit_exports r m pending cs = Ok pending'"
      by (auto simp: stateful_def Let_def split: option.splits if_splits)
    from Cons.IH [OF this] c False show ?thesis by simp
  next
    case True
    with Cons.prems have run: "admit_exports r m (pending(?ak \<mapsto> ?ns)) cs = Ok pending'"
      and ne: "cService c \<noteq> []" "cAuthority c \<noteq> []"
      and st: "rAuthorityStorage r ?ak = None \<or> rAuthorityStorage r ?ak = Some ?ns"
      and pd: "pending ?ak = None \<or> pending ?ak = Some ?ns"
      by (auto simp: stateful_def Let_def split: option.splits if_splits)
    note IH = Cons.IH [OF run]
    from IH have sub: "pending(?ak \<mapsto> ?ns) \<subseteq>\<^sub>m pending'" by blast
    then have ak: "pending' ?ak = Some ?ns" by (simp add: map_le_def)
    have "pending \<subseteq>\<^sub>m pending(?ak \<mapsto> ?ns)" using pd by (auto simp: map_le_def)
    with sub have "pending \<subseteq>\<^sub>m pending'" by (rule map_le_trans [rotated])
    moreover have "pending' k = Some ?ns \<and> (rAuthorityStorage r k = None \<or> rAuthorityStorage r k = pending' k)"
      if "pending' k \<noteq> pending k" for k
    proof (cases "k = ?ak")
      case True
      with ak st show ?thesis by auto
    next
      case False
      then have "(pending(?ak \<mapsto> ?ns)) k = pending k" by simp
      with that IH [THEN conjunct2, THEN conjunct2, rule_format, of k] show ?thesis by metis
    qed
    ultimately show ?thesis using IH c ne ak by (simp add: authority_of_def)
  qed
qed

lemma admission_inv_AddManifest:
  assumes inv: "admission_inv r" and add: "AddManifest r m = Ok r'"
  shows "admission_inv r' \<and> rAuthorityStorage r \<subseteq>\<^sub>m rAuthorityStorage r'"
  using add
proof (rule AddManifest_Ok)
  fix pending
  assume ad: "admit_exports r m Map.empty (mExports m) = Ok pending"
    and new: "map_of (rByPlugin r) (mPluginID m) = None"
    and r': "r' = r\<lparr> rByPlugin := (mPluginID m, m) # rByPlugin r,
                rAuthorityStorage := rAuthorityStorage r ++ pending \<rparr>"
  note A = admit_exports_Ok [OF ad]
  have sub: "rAuthorityStorage r \<subseteq>\<^sub>m rAuthorityStorage r ++ pending"
  proof (unfold map_le_def, intro ballI)
    fix ak
    assume "ak \<in> dom (rAuthorityStorage r)"
    then show "rAuthorityStorage r ak = (rAuthorityStorage r ++ pending) ak"
      using A [THEN conjunct2, THEN conjunct2, rule_format, of ak]
      by (cases "pending ak") (auto simp: map_add_def)
  qed
  have new_ok: "plugin_ok (rAuthorityStorage r ++ pending) (mPluginID m, m)"
    using A by (simp add: plugin_ok_def map_add_find_right)
  have agree: "modes_agree m (snd x)" if "x \<in> set (rByPlugin r)" for x
    using mixed_mode_agree [OF _ that] A by blast
  have "distinct (map fst (rByPlugin r'))"
    using inv new r' by (simp add: admission_inv_def map_of_eq_None_iff)
  moreover have "\<forall>x \<in> set (rByPlugin r'). plugin_ok (rAuthorityStorage r') x"
    using inv new_ok sub r' unfolding admission_inv_def by (auto intro: plugin_ok_mono)
  moreover have "fst x \<noteq> fst y \<longrightarrow> modes_agree (snd x) (snd y)"
    if "x \<in> set (rByPlugin r')" "y \<in> set (rByPlugin r')" for x y
    using that agree [of x] agree [of y] modes_agree_sym [of m "snd x"] inv r'
    unfolding admission_inv_def by auto
  ultimately show ?thesis using sub r' by (simp add: admission_inv_def)
qed

lemma admission_inv_frame:
  assumes "admission_inv r" and "rByPlugin r' = rByPlugin r"
    and "rAuthorityStorage r \<subseteq>\<^sub>m rAuthorityStorage r'"
  shows "admission_inv r'"
  using assms unfolding admission_inv_def by (auto intro: plugin_ok_mono)

lemma reserve_storage_mono:
  assumes "\<And>c. c \<in> set cs \<Longrightarrow> storage_conflict r m c = None"
  shows "rAuthorityStorage r \<subseteq>\<^sub>m fold (reserve_storage m) cs (rAuthorityStorage r)"
proof -
  let ?ok = "\<lambda>st. rAuthorityStorage r \<subseteq>\<^sub>m st"
  have step: "?ok (reserve_storage m c st)" if "?ok st" "c \<in> set cs" for c st
    using that assms [OF that(2)]
    by (auto simp: reserve_storage_def storage_conflict_def map_le_def split: option.splits if_splits)
      (metis domI)
  have "set ds \<subseteq> set cs \<Longrightarrow> ?ok st \<Longrightarrow> ?ok (fold (reserve_storage m) ds st)" for ds st
    by (induction ds arbitrary: st) (auto intro: step)
  from this [of cs] show ?thesis by simp
qed

lemma add_providers_frame:
  "rByPlugin (fold (add_provider m rid) cs r) = rByPlugin r"
  "rAuthorityStorage (fold (add_provider m rid) cs r) = rAuthorityStorage r"
  by (induction cs arbitrary: r) (simp_all add: add_provider_def Let_def)

lemma RegisterRuntime_storage:
  assumes "RegisterRuntime r m rid = Ok r'"
  shows "rByPlugin r' = rByPlugin r" "rAuthorityStorage r \<subseteq>\<^sub>m rAuthorityStorage r'"
proof -
  have n: "first_err (storage_conflict r m) (mExports m) = None"
    using assms by (auto simp: RegisterRuntime_def split: option.splits)
  with assms have "r' = fold (add_provider m rid) (mExports m)
      (r\<lparr> rAuthorityStorage := fold (reserve_storage m) (mExports m) (rAuthorityStorage r) \<rparr>)"
    by (simp add: RegisterRuntime_def)
  then show "rByPlugin r' = rByPlugin r" "rAuthorityStorage r \<subseteq>\<^sub>m rAuthorityStorage r'"
    using reserve_storage_mono [of "mExports m" r m] n
    by (simp_all add: add_providers_frame first_err_None)
qed

lemma admission_inv_step:
  assumes "host_step A h h'" and "admission_inv (fst h)"
  shows "admission_inv (fst h')"
  using assms
proof cases
  case (resolve r fs ioOk name major ph sh ah kd x r' fs')
  then show ?thesis
    using assms(2) ResolveForKind_providers [OF resolve(3)] by (simp add: admission_inv_def)
next
  case (admit r m r' fs)
  then show ?thesis using assms(2) admission_inv_AddManifest [of r m r'] by simp
next
  case (register r m rid r' fs)
  then show ?thesis
    using assms(2) admission_inv_frame [of r r'] RegisterRuntime_storage [of r m rid r'] by simp
next
  case (restart root files r' fs r)
  then have "rByPlugin r' = []"
    by (auto simp: SetFenceRoot_def registry_New_def split: prod.splits)
  then show ?thesis using restart by (simp add: admission_inv_def)
qed (use assms(2) in \<open>simp_all add: admission_inv_def frame_simps SetContractCatalog_def
       SetBinding_def RemoveRuntime_def MarkHealth_def MarkDependencyHealth_def Let_def
       RecordFailure_def RecordSuccess_def RecordHeartbeatFailure_def RecordHeartbeatSuccess_def\<close>)

lemma reachable_admission_inv: "reachable A h \<Longrightarrow> admission_inv (fst h)"
proof (induction rule: rtranclp_induct)
  case base
  show ?case by (simp add: admission_inv_def registry_New_def)
qed (rule admission_inv_step)

definition sample_catalog :: Catalog where
  "sample_catalog =
     \<lparr> ByCapability = Map.empty,
       ByContract = [canonical ''work.create'' 1 \<mapsto>
         \<lparr> mdContract = canonical ''work.create'' 1, mdVersion = ''1'', mdKind = KindCommand \<rparr>] \<rparr>"

definition work_manifest_2 :: Manifest where
  "work_manifest_2 = work_manifest\<lparr> mPluginID := ''work-2'' \<rparr>"

definition sample_admitted :: Registry where
  "sample_admitted =
     registry_New\<lparr> rByPlugin := [(''work-2'', work_manifest_2), (''work'', work_manifest)],
        rAuthorityStorage := [(''work'', ''main'') \<mapsto> ''work''],
        rContracts := Some sample_catalog \<rparr>"

lemma sample_admission:
  "case AddManifest (SetContractCatalog registry_New sample_catalog) work_manifest of
     Inl _ \<Rightarrow> False
   | Inr r \<Rightarrow> AddManifest r work_manifest_2 = Ok sample_admitted"
  by (simp add: AddManifest_def SetContractCatalog_def admit_groups_def ContractMetadata_def
      catalog_Metadata_def sample_catalog_def mixed_mode_def sample_admitted_def
      work_manifest_2_def sample_defs Let_def)

lemma sample_admitted_reachable: "reachable sample_authorities (sample_admitted, Map.empty)"
proof -
  obtain r where r: "AddManifest (SetContractCatalog registry_New sample_catalog) work_manifest = Ok r"
    "AddManifest r work_manifest_2 = Ok sample_admitted"
    using sample_admission by (auto split: sum.splits)
  have "host_step sample_authorities (registry_New, Map.empty)
      (SetContractCatalog registry_New sample_catalog, Map.empty)"
    by (rule host_step.catalog)
  moreover have "host_step sample_authorities
      (SetContractCatalog registry_New sample_catalog, Map.empty) (r, Map.empty)"
    by (rule host_step.admit) (rule r)
  moreover have "host_step sample_authorities (r, Map.empty) (sample_admitted, Map.empty)"
    by (rule host_step.admit) (rule r)
  ultimately show ?thesis by (meson converse_rtranclp_into_rtranclp rtranclp.rtrancl_refl)
qed

text \<open>
  C36: in every reachable registry, two admitted plugins that export stateful capabilities under
  one authority keep them in the same data namespace, and two different admitted plugins never
  export one capability in different modes.
\<close>

theorem admitted_plugins_consistent:
  assumes "reachable A (r, fs)"
    and "registry_Manifest r i = Some m" and "registry_Manifest r j = Some n"
    and "c \<in> set (mExports m)" and "d \<in> set (mExports n)"
  shows "(stateful c \<and> stateful d \<and> authority_of c = authority_of d \<longrightarrow>
           rtDataNamespace (mRuntime m) = rtDataNamespace (mRuntime n))
    \<and> (i \<noteq> j \<and> cName c = cName d \<and> cMajor c = cMajor d \<longrightarrow>
           norm_mode (cMode c) = norm_mode (cMode d))"
proof -
  have inv: "admission_inv r" using reachable_admission_inv [OF assms(1)] by simp
  have m: "(i, m) \<in> set (rByPlugin r)" "(j, n) \<in> set (rByPlugin r)"
    using assms(2,3) by (auto simp: registry_Manifest_def dest: map_of_SomeD)
  then have "plugin_ok (rAuthorityStorage r) (i, m)" "plugin_ok (rAuthorityStorage r) (j, n)"
    "i \<noteq> j \<longrightarrow> modes_agree m n"
    using inv unfolding admission_inv_def by (fastforce, fastforce, force)
  then show ?thesis
    using assms(4,5) unfolding plugin_ok_def modes_agree_def by (metis fst_conv option.inject snd_conv)
qed

theorem admitted_plugins_consistent_witness:
  "rtDataNamespace (mRuntime work_manifest) = rtDataNamespace (mRuntime work_manifest_2)
    \<and> norm_mode (cMode work_cap) = norm_mode (cMode work_cap)"
  using admitted_plugins_consistent [OF sample_admitted_reachable, of "''work''" work_manifest
      "''work-2''" work_manifest_2 work_cap work_cap]
  by (simp add: registry_Manifest_def sample_admitted_def stateful_def work_manifest_2_def
      work_manifest_def sample_manifest_def work_cap_def sample_cap_def norm_mode_def)

section \<open>Loading manifests\<close>

text \<open>
  C25: \<open>LoadAndAdmit\<close> puts every file in exactly one of its two lists; what it loads is valid and
  is exactly what it adds to the registry, in order.
\<close>

theorem LoadAndAdmit_partition:
  "case LoadAndAdmit r files of (loaded, failed, r') \<Rightarrow>
     mset (map ldPath loaded) + mset (map flPath failed) = mset (map fst files)
     \<and> list_all (\<lambda>l. Validate (ldManifest l) = None) loaded
     \<and> rByPlugin r' = rev (map (\<lambda>l. (mPluginID (ldManifest l), ldManifest l)) loaded) @ rByPlugin r"
proof (induction files arbitrary: r)
  case (Cons pf rest)
  obtain path f where pf: "pf = (path, f)" by (cases pf)
  show ?case
  proof (cases "manifest_Load f")
    case (Inl e)
    with Cons [of r] pf show ?thesis by (auto split: prod.splits)
  next
    case (Inr mh)
    obtain m hash where mh: "mh = (m, hash)" by (cases mh)
    with Inr have v: "Validate m = None"
      by (auto simp: manifest_Load_def split: option.splits)
    show ?thesis
    proof (cases "AddManifest r m")
      case (Inl e)
      with Cons [of r] Inr pf mh show ?thesis by (auto split: prod.splits)
    next
      case (Inr r1)
      then have "rByPlugin r1 = (mPluginID m, m) # rByPlugin r" by (rule AddManifest_Ok) simp
      with Cons [of r1] Inr \<open>manifest_Load f = Inr mh\<close> pf mh v show ?thesis
        by (auto split: prod.splits)
    qed
  qed
qed simp

section \<open>Where admission and the lease files fall short\<close>

definition mixed_manifest :: Manifest where
  "mixed_manifest =
     sample_manifest ''mixed'' [sample_cap ''stateless'' ''work.create'', work_cap\<lparr> cService := ''other'' \<rparr>] []"

text \<open>
  The mode check compares a new manifest only with the plugins admitted before, so one valid
  manifest that exports a capability both stateless and stateful (under two services) is admitted.
\<close>

theorem mixed_modes_within_one_manifest:
  "Validate mixed_manifest = None
    \<and> is_ok (AddManifest (SetContractCatalog registry_New sample_catalog) mixed_manifest)
    \<and> map (\<lambda>c. (cName c, cMajor c, stateful c)) (mExports mixed_manifest) =
        [(''work.create'', 1, False), (''work.create'', 1, True)]"
proof -
  have v: "wf_manifest mixed_manifest"
    by (simp add: wf_manifest_def mixed_manifest_def sample_defs wf_export_def stateful_export_def
        export_key_def declared_def bad_namespace_def filepath_Clean_def isAbs_def clean_elems_def
        clean_step_def hasPrefix_def Let_def)
  have a: "is_ok (AddManifest (SetContractCatalog registry_New sample_catalog) mixed_manifest)"
    by (simp add: AddManifest_def SetContractCatalog_def admit_groups_def ContractMetadata_def
      catalog_Metadata_def sample_catalog_def mixed_mode_def mixed_manifest_def sample_defs Let_def)
  show ?thesis using v a
    by (simp add: Validate_iff mixed_manifest_def sample_manifest_def sample_cap_def work_cap_def
        stateful_def norm_mode_def)
qed

definition collide_cap :: "string \<Rightarrow> string \<Rightarrow> string \<Rightarrow> Capability" where
  "collide_cap name service authority =
     (sample_cap ''stateful'' name)\<lparr> cService := service, cAuthority := authority \<rparr>"

definition collide_registry :: Registry where
  "collide_registry =
     sample_root\<lparr> rProviders :=
       [((''p'', 1), [new_provider work_manifest ''rt-1'' (collide_cap ''p'' ''a--b'' ''c'')]),
        ((''q'', 1), [new_provider work_manifest ''rt-2'' (collide_cap ''q'' ''a'' ''b--c'')])] \<rparr>"

text \<open>
  The authorities (a--b, c) and (a, b--c) share one lease file: after a command for each, the
  host still resolves the first authority to its writer with epoch 1, and the write fence rejects
  every such request, although the host never replaced that writer.
\<close>

theorem shared_lease_file_locks_out_writer:
  "case ResolveForKind collide_registry Map.empty True ''p'' 1 [] [] [] KindCommand of (x1, r1, fs1) \<Rightarrow>
     case ResolveForKind r1 fs1 True ''q'' 1 [] [] [] KindCommand of (x2, r2, fs2) \<Rightarrow>
       case ResolveForKind r2 fs2 True ''p'' 1 [] [] [] KindCommand of (x3, r3, fs3) \<Rightarrow>
         x3 = x1 \<and> is_ok x1 \<and> r3 = r2
         \<and> rWriters r3 (''a--b'', ''c'') = Some \<lparr> wRuntimeID = ''rt-1'', wEpoch = 1 \<rparr>
         \<and> check_fence (sample_env ''rt-1'') fs3
             ((sample_write 1)\<lparr> eService := ''a--b'', eAuthority := ''c'' \<rparr>) \<noteq> None"
  by (simp add: resolve_defs collide_registry_def collide_cap_def sample_defs check_fence_def
      sample_env_def sample_write_def zero_envelope_def)

end
