(* ===== verification/Router.thy ===== *)
theory Router
  imports RegistryFacts
begin

text \<open>
  The message router (\<open>kernel/internal/router/router.go\<close>): calls between plugins and from
  external clients, the delegations that carry a principal's authority through a chain of
  calls, streams, cancellation and event fan-out.

  A call is two steps, as other messages are handled while the provider works: \<open>invoke_begin\<close>
  is \<open>invoke\<close> up to \<open>pc.Call\<close>, \<open>invoke_end\<close> the rest with its deferred deletions. What the
  router hands to a client's \<open>Send\<close> is appended to \<open>rtSent\<close>, with the runtime it is sent to;
  whether the write succeeds is ignored by every caller here, as in the source. A frame for an
  external consumer goes to a channel, named by a number, in \<open>rtDelivered\<close>; \<open>rtClosed\<close> holds the
  channels closed so far. Fresh identifiers (\<open>protocol.NewID\<close>), the clock, the timestamp
  parser and whether a channel accepts a frame in time are arguments.
\<close>

type_synonym envelope = "string Envelope"

abbreviation nil_envelope :: envelope where
  "nil_envelope \<equiv> zero_envelope []"

record delegationContext =
  dcPrincipal :: string
  dcActorChain :: "string list"
  dcRuntimeID :: string
  dcScope :: "string list"

record streamRoute =
  srStreamID :: string
  srConsumerRuntime :: string
  srExternalIdentity :: string
  srProviderRuntime :: string
  srRequestID :: string
  srExternal :: "nat option"

record inflightRoute =
  ifProviderRuntime :: string
  ifProviderRequestID :: string

type_synonym inflightKey = "string \<times> string"

record Router =
  rtReg :: Registry
  rtFences :: fences
  rtAuth :: engine
  rtClients :: "(string \<times> string) list"
  rtStreams :: "(string \<times> streamRoute) list"
  rtDelegations :: "string \<rightharpoonup> delegationContext"
  rtInflight :: "inflightKey \<rightharpoonup> inflightRoute"
  rtSent :: "(string \<times> envelope) list"
  rtDelivered :: "(nat \<times> envelope) list"
  rtClosed :: "nat set"

definition router_New :: "Registry \<Rightarrow> fences \<Rightarrow> engine \<Rightarrow> Router" where
  "router_New reg fs auth =
     \<lparr> rtReg = reg, rtFences = fs, rtAuth = auth, rtClients = [], rtStreams = [],
       rtDelegations = Map.empty, rtInflight = Map.empty, rtSent = [], rtDelivered = [],
       rtClosed = {} \<rparr>"

definition AddClient :: "Router \<Rightarrow> string \<Rightarrow> string \<Rightarrow> Router" where
  "AddClient r runtimeID pluginID = r\<lparr> rtClients := AList.update runtimeID pluginID (rtClients r) \<rparr>"

definition send_to :: "string \<Rightarrow> envelope \<Rightarrow> Router \<Rightarrow> Router" where
  "send_to runtimeID e r =
     (case map_of (rtClients r) runtimeID of
        None \<Rightarrow> r
      | Some _ \<Rightarrow> r\<lparr> rtSent := rtSent r @ [(runtimeID, e)] \<rparr>)"

definition deliverExternal :: "nat \<Rightarrow> envelope \<Rightarrow> bool \<Rightarrow> Router \<Rightarrow> Router" where
  "deliverExternal ch e accepted r =
     (if accepted then r\<lparr> rtDelivered := rtDelivered r @ [(ch, e)] \<rparr> else r)"

definition closeExternalOnce :: "streamRoute \<Rightarrow> Router \<Rightarrow> Router" where
  "closeExternalOnce sr r =
     (case srExternal sr of None \<Rightarrow> r | Some ch \<Rightarrow> r\<lparr> rtClosed := insert ch (rtClosed r) \<rparr>)"

section \<open>A runtime disconnects\<close>

definition provider_disconnected :: "string \<Rightarrow> streamRoute \<Rightarrow> envelope" where
  "provider_disconnected newID sr =
     nil_envelope\<lparr> eProtocol := 1, eMessageID := newID, eKind := KindStreamClose,
       eStreamID := srStreamID sr,
       eError := Some \<lparr> errCode = ''PROVIDER_DISCONNECTED'',
                        errMessage = ''stream provider disconnected'', errRetryable = True,
                        errDetails = [] \<rparr> \<rparr>"

definition cancel_for :: "string \<Rightarrow> string \<Rightarrow> string \<Rightarrow> string \<Rightarrow> envelope" where
  "cancel_for newID streamID requestID target =
     nil_envelope\<lparr> eProtocol := 1, eMessageID := newID, eKind := KindCancel, eStreamID := streamID,
       eReplyTo := requestID, eTargetRuntime := target \<rparr>"

definition close_affected :: "(string \<Rightarrow> string) \<Rightarrow> (nat \<Rightarrow> bool) \<Rightarrow> streamRoute \<Rightarrow> Router \<Rightarrow> Router" where
  "close_affected newID accepts sr r =
     (let e = provider_disconnected (newID (srStreamID sr)) sr
      in case srExternal sr of
           Some ch \<Rightarrow> closeExternalOnce sr (deliverExternal ch e (accepts ch) r)
         | None \<Rightarrow> send_to (srConsumerRuntime sr) e r)"

definition cancel_lost :: "(string \<Rightarrow> string) \<Rightarrow> streamRoute \<Rightarrow> Router \<Rightarrow> Router" where
  "cancel_lost newID sr r =
     send_to (srProviderRuntime sr)
       (cancel_for (newID (srStreamID sr)) [] (srRequestID sr) (srProviderRuntime sr)) r"

definition RemoveClient :: "Router \<Rightarrow> string \<Rightarrow> (string \<Rightarrow> string) \<Rightarrow> (nat \<Rightarrow> bool) \<Rightarrow> Router" where
  "RemoveClient r runtimeID newID accepts =
     (let routes = map snd (rtStreams r);
          affected = filter (\<lambda>sr. srProviderRuntime sr = runtimeID) routes;
          consumerLost = filter (\<lambda>sr. srProviderRuntime sr \<noteq> runtimeID \<and> srConsumerRuntime sr = runtimeID) routes;
          r1 = r\<lparr> rtClients := AList.delete runtimeID (rtClients r),
                  rtStreams := filter (\<lambda>(_, sr). srProviderRuntime sr \<noteq> runtimeID
                                         \<and> srConsumerRuntime sr \<noteq> runtimeID) (rtStreams r) \<rparr>
      in fold (cancel_lost newID) consumerLost (fold (close_affected newID accepts) affected r1))"

section \<open>Streams and cancellation\<close>

definition delete_stream :: "string \<Rightarrow> Router \<Rightarrow> Router" where
  "delete_stream sid r = r\<lparr> rtStreams := AList.delete sid (rtStreams r) \<rparr>"

definition forwardStream :: "Router \<Rightarrow> string \<Rightarrow> envelope \<Rightarrow> string \<Rightarrow> bool \<Rightarrow> Router" where
  "forwardStream r providerRuntime e newID accepted =
     (case map_of (rtStreams r) (eStreamID e) of
        None \<Rightarrow> r
      | Some sr \<Rightarrow>
          if srProviderRuntime sr \<noteq> providerRuntime then r
          else
            let closing = (eKind e = KindStreamClose);
                finish = (\<lambda>q. if closing then delete_stream (eStreamID e) q else q)
            in case srExternal sr of
                 Some ch \<Rightarrow>
                   if \<not> accepted
                   then closeExternalOnce sr (delete_stream (eStreamID e)
                          (send_to (srProviderRuntime sr)
                             (cancel_for newID (srStreamID sr) (srRequestID sr) (srProviderRuntime sr)) r))
                   else let r1 = deliverExternal ch e True r
                        in finish (if closing then closeExternalOnce sr r1 else r1)
               | None \<Rightarrow>
                   finish (if srConsumerRuntime sr \<noteq> []
                           then send_to (srConsumerRuntime sr)
                                  (e\<lparr> eTargetRuntime := srConsumerRuntime sr \<rparr>) r
                           else r))"

definition runtimeConsumerKey :: "string \<Rightarrow> string" where
  "runtimeConsumerKey runtimeID = ''runtime:'' @ runtimeID"

definition externalConsumerKey :: "string \<Rightarrow> string" where
  "externalConsumerKey identity = ''external:'' @ identity"

definition forwardCancel :: "Router \<Rightarrow> string \<Rightarrow> envelope \<Rightarrow> Router" where
  "forwardCancel r consumerRuntime e =
     (if eStreamID e \<noteq> [] then
        (case map_of (rtStreams r) (eStreamID e) of
           None \<Rightarrow> r
         | Some sr \<Rightarrow>
             if srConsumerRuntime sr \<noteq> consumerRuntime then r
             else send_to (srProviderRuntime sr)
                    (e\<lparr> eTargetRuntime := srProviderRuntime sr, eReplyTo := srRequestID sr \<rparr>) r)
      else if eReplyTo e = [] then r
      else (case rtInflight r (runtimeConsumerKey consumerRuntime, eReplyTo e) of
              None \<Rightarrow> r
            | Some route \<Rightarrow>
                send_to (ifProviderRuntime route)
                  (e\<lparr> eTargetRuntime := ifProviderRuntime route,
                      eReplyTo := ifProviderRequestID route \<rparr>) r))"

definition CancelExternalStream :: "Router \<Rightarrow> string \<Rightarrow> string \<Rightarrow> string \<Rightarrow> bool \<times> Router" where
  "CancelExternalStream r identity streamID newID =
     (case map_of (rtStreams r) streamID of
        None \<Rightarrow> (False, r)
      | Some sr \<Rightarrow>
          if srExternalIdentity sr \<noteq> identity \<or> map_of (rtClients r) (srProviderRuntime sr) = None
          then (False, r)
          else (True, send_to (srProviderRuntime sr)
                  (cancel_for newID streamID (srRequestID sr) (srProviderRuntime sr)) r))"

definition CancelExternalRequest :: "Router \<Rightarrow> string \<Rightarrow> string \<Rightarrow> string \<Rightarrow> bool \<times> Router" where
  "CancelExternalRequest r identity requestID newID =
     (case rtInflight r (externalConsumerKey identity, requestID) of
        None \<Rightarrow> (False, r)
      | Some route \<Rightarrow>
          if map_of (rtClients r) (ifProviderRuntime route) = None then (False, r)
          else (True, send_to (ifProviderRuntime route)
                  (cancel_for newID [] (ifProviderRequestID route) (ifProviderRuntime route)) r))"

section \<open>Calls\<close>

datatype route_error =
    InvalidEnvelope envelope_error
  | DelegationRequired authz_error
  | InvalidDelegation
  | UnknownCallerPlugin string
  | AccessDenied authz_error
  | NoPrincipalAuthority string string int
  | ResolveFailed resolve_error
  | RuntimeUnavailable string
  | InvalidDeadline
  | DeadlineAlreadyExceeded
  | CallDeadlineExceeded
  | CallFailed

text \<open>Whose authority a plugin exercises: the principal, its chain of actors and its scope.\<close>

definition request_identity ::
  "engine \<Rightarrow> (string \<rightharpoonup> delegationContext) \<Rightarrow> string \<Rightarrow> string \<Rightarrow> envelope
   \<Rightarrow> (route_error, string \<times> string list \<times> string list) result" where
  "request_identity auth delegations callerRuntime caller req =
     (if callerRuntime = [] then Ok (caller, [caller], [])
      else if eDelegationID req = [] then
        (case CanInvokeAsService auth caller of
           Some er \<Rightarrow> Err (DelegationRequired er)
         | None \<Rightarrow> Ok (caller, [caller], []))
      else (case delegations (eDelegationID req) of
              None \<Rightarrow> Err InvalidDelegation
            | Some d \<Rightarrow>
                if dcRuntimeID d \<noteq> callerRuntime then Err InvalidDelegation
                else Ok (dcPrincipal d, dcActorChain d @ [caller], dcScope d)))"

definition authorize_call ::
  "engine \<Rightarrow> Registry \<Rightarrow> (string \<rightharpoonup> delegationContext) \<Rightarrow> string \<Rightarrow> string \<Rightarrow> bool \<Rightarrow> envelope
   \<Rightarrow> (route_error, string \<times> string list \<times> string list) result" where
  "authorize_call auth reg delegations callerRuntime caller isPlugin req =
     (if isPlugin then
        (case request_identity auth delegations callerRuntime caller req of
           Inl er \<Rightarrow> Err er
         | Inr (princ, actorChain, scope) \<Rightarrow>
             (case registry_Manifest reg caller of
                None \<Rightarrow> Err (UnknownCallerPlugin caller)
              | Some m \<Rightarrow>
                  (case CanConsume auth m (eCapability req) (eMajor req) of
                     Some er \<Rightarrow> Err (AccessDenied er)
                   | None \<Rightarrow>
                       if princ \<noteq> caller
                          \<and> CanExternal auth princ (eCapability req) (eMajor req) \<noteq> None
                          \<and> \<not> ScopeAllows scope (eCapability req) (eMajor req)
                       then Err (NoPrincipalAuthority princ (eCapability req) (eMajor req))
                       else Ok (princ, actorChain, scope))))
      else (case CanExternal auth caller (eCapability req) (eMajor req) of
              Some er \<Rightarrow> Err (AccessDenied er)
            | None \<Rightarrow> Ok (caller, [caller], DelegationScope auth caller (eCapability req) (eMajor req))))"

record invoke_env =
  ivFenceOk :: bool
  ivNow :: int
  ivParseTime :: "string \<Rightarrow> int option"
  ivDelegationID :: string

record call =
  clRuntime :: string
  clRequest :: envelope
  clTimeout :: int
  clDelegation :: string
  clInflight :: "inflightKey option"

datatype invoke_start = Refused route_error | Replied envelope | Calling call

definition kind_mismatch :: "Provider \<Rightarrow> Metadata \<Rightarrow> envelope \<Rightarrow> envelope" where
  "kind_mismatch p md req =
     nil_envelope\<lparr> eProtocol := 1, eKind := KindError,
       eError := Some \<lparr> errCode = ''KIND_MISMATCH'',
         errMessage = cContract (pExport p) @ '' requires '' @ kind_name (mdKind md)
                      @ '', got '' @ kind_name (eKind req),
         errRetryable = False, errDetails = [] \<rparr> \<rparr>"

text \<open>The metadata the host overwrites in the request it forwards.\<close>

definition stamp_request ::
  "string \<Rightarrow> string \<Rightarrow> string list \<Rightarrow> string \<Rightarrow> string \<Rightarrow> Provider \<Rightarrow> envelope \<Rightarrow> envelope" where
  "stamp_request caller princ actorChain callerRuntime delegationID p req =
     (let req1 = req\<lparr> eCaller := caller, ePrincipal := princ, eActorChain := actorChain,
                      eReplyRuntime := callerRuntime, eContract := cContract (pExport p),
                      eDelegationID := delegationID \<rparr>
      in if cMode (pExport p) = ''stateful''
         then (let req2 = req1\<lparr> eService := cService (pExport p), eAuthority := cAuthority (pExport p) \<rparr>
               in if eKind req = KindCommand then req2\<lparr> eFencingEpoch := pWriterEpoch p \<rparr> else req2)
         else req1)"

text \<open>\<open>30 * time.Second\<close>, in nanoseconds.\<close>

definition default_timeout :: int where
  "default_timeout = 30 * 10 ^ 9"

definition call_timeout :: "invoke_env \<Rightarrow> envelope \<Rightarrow> (route_error, int) result" where
  "call_timeout env req =
     (case ParseDeadline (ivParseTime env) (eDeadline req) of
        NoDeadline \<Rightarrow> Ok default_timeout
      | BadDeadline \<Rightarrow> Err InvalidDeadline
      | DeadlineAt t \<Rightarrow> if t - ivNow env \<le> 0 then Err DeadlineAlreadyExceeded else Ok (t - ivNow env))"

text \<open>The state changes between the checks and \<open>pc.Call\<close>.\<close>

definition open_call ::
  "Router \<Rightarrow> string \<Rightarrow> string \<Rightarrow> bool \<Rightarrow> nat option \<Rightarrow> Provider \<Rightarrow> string list \<Rightarrow> int \<Rightarrow> envelope
   \<Rightarrow> invoke_start \<times> Router" where
  "open_call r callerRuntime caller isPlugin external p scope timeout req =
     (let r1 = (if eStreamID req \<noteq> [] \<and> (callerRuntime \<noteq> [] \<or> external \<noteq> None)
                then r\<lparr> rtStreams := AList.update (eStreamID req)
                          \<lparr> srStreamID = eStreamID req, srConsumerRuntime = callerRuntime,
                            srExternalIdentity = (if isPlugin then [] else caller),
                            srProviderRuntime = pRuntimeID p, srRequestID = eMessageID req,
                            srExternal = external \<rparr> (rtStreams r) \<rparr>
                else r);
          r2 = r1\<lparr> rtDelegations := (rtDelegations r1)(eDelegationID req \<mapsto>
                     \<lparr> dcPrincipal = ePrincipal req, dcActorChain = eActorChain req,
                       dcRuntimeID = pRuntimeID p, dcScope = scope \<rparr>) \<rparr>;
          consumer = (if isPlugin then runtimeConsumerKey callerRuntime else externalConsumerKey caller);
          ik = (consumer, eMessageID req)
      in if callerRuntime \<noteq> [] \<or> \<not> isPlugin
         then (Calling \<lparr> clRuntime = pRuntimeID p, clRequest = req, clTimeout = timeout,
                 clDelegation = eDelegationID req, clInflight = Some ik \<rparr>,
               r2\<lparr> rtInflight := (rtInflight r2)(ik \<mapsto>
                     \<lparr> ifProviderRuntime = pRuntimeID p, ifProviderRequestID = eMessageID req \<rparr>) \<rparr>)
         else (Calling \<lparr> clRuntime = pRuntimeID p, clRequest = req, clTimeout = timeout,
                 clDelegation = eDelegationID req, clInflight = None \<rparr>, r2))"

definition invoke_begin ::
  "invoke_env \<Rightarrow> Router \<Rightarrow> string \<Rightarrow> string \<Rightarrow> bool \<Rightarrow> envelope \<Rightarrow> nat option
   \<Rightarrow> invoke_start \<times> Router" where
  "invoke_begin env r callerRuntime caller isPlugin req external =
     (case ValidateEnvelope req of
        Some er \<Rightarrow> (Refused (InvalidEnvelope er), r)
      | None \<Rightarrow>
     (case authorize_call (rtAuth r) (rtReg r) (rtDelegations r) callerRuntime caller isPlugin req of
        Inl er \<Rightarrow> (Refused er, r)
      | Inr (princ, actorChain, scope) \<Rightarrow>
     (case ResolveForKind (rtReg r) (rtFences r) (ivFenceOk env) (eCapability req) (eMajor req)
             (eProviderHint req) (eService req) (eAuthority req) (eKind req) of
        (Inl er, reg, fs) \<Rightarrow> (Refused (ResolveFailed er), r\<lparr> rtReg := reg, rtFences := fs \<rparr>)
      | (Inr p, reg, fs) \<Rightarrow>
          let r1 = r\<lparr> rtReg := reg, rtFences := fs \<rparr>;
              md = ContractMetadata reg (cContract (pExport p))
          in if md \<noteq> None \<and> mdKind (the md) \<noteq> eKind req
             then (Replied (kind_mismatch p (the md) req), r1)
             else if map_of (rtClients r1) (pRuntimeID p) = None
             then (Refused (RuntimeUnavailable (pRuntimeID p)), r1)
             else (case call_timeout env req of
                     Inl er \<Rightarrow> (Refused er, r1)
                   | Inr timeout \<Rightarrow>
                       open_call r1 callerRuntime caller isPlugin external p scope timeout
                         (stamp_request caller princ actorChain callerRuntime
                            (ivDelegationID env) p req)))))"

datatype call_outcome = CallReturned envelope | CallTimedOut | CallBroken

text \<open>After \<open>pc.Call\<close>: the circuit breaker, the cancel of a late call, the deferred deletions.\<close>

definition finish_call :: "call \<Rightarrow> Router \<Rightarrow> Router" where
  "finish_call c r =
     r\<lparr> rtDelegations := (rtDelegations r)(clDelegation c := None),
        rtInflight := (case clInflight c of
                         None \<Rightarrow> rtInflight r
                       | Some ik \<Rightarrow> (rtInflight r)(ik := None)) \<rparr>"

definition late_cancel :: "string \<Rightarrow> call \<Rightarrow> envelope" where
  "late_cancel newID c =
     (cancel_for newID [] (eMessageID (clRequest c)) (clRuntime c))
       \<lparr> eTraceID := eTraceID (clRequest c), eCorrelationID := eCorrelationID (clRequest c),
         eCausationID := eMessageID (clRequest c) \<rparr>"

definition invoke_end ::
  "Router \<Rightarrow> call \<Rightarrow> call_outcome \<Rightarrow> string \<Rightarrow> (route_error, envelope) result \<times> Router" where
  "invoke_end r c outcome newID =
     (case outcome of
        CallReturned resp \<Rightarrow>
          (Ok resp, finish_call c (r\<lparr> rtReg := RecordSuccess (rtReg r) (clRuntime c) \<rparr>))
      | CallTimedOut \<Rightarrow>
          (Err CallDeadlineExceeded,
           finish_call c (r\<lparr> rtReg := RecordFailure (rtReg r) (clRuntime c),
                             rtSent := rtSent r @ [(clRuntime c, late_cancel newID c)] \<rparr>))
      | CallBroken \<Rightarrow>
          (Err CallFailed, finish_call c (r\<lparr> rtReg := RecordFailure (rtReg r) (clRuntime c) \<rparr>)))"

definition Invoke :: "invoke_env \<Rightarrow> Router \<Rightarrow> string \<Rightarrow> envelope \<Rightarrow> invoke_start \<times> Router" where
  "Invoke env r callerPlugin req = invoke_begin env r [] callerPlugin True req None"

definition InvokeExternal :: "invoke_env \<Rightarrow> Router \<Rightarrow> string \<Rightarrow> envelope \<Rightarrow> invoke_start \<times> Router" where
  "InvokeExternal env r identity req = invoke_begin env r [] identity False req None"

definition InvokeExternalStream ::
  "invoke_env \<Rightarrow> Router \<Rightarrow> string \<Rightarrow> envelope \<Rightarrow> string \<Rightarrow> nat \<Rightarrow> invoke_start \<times> Router" where
  "InvokeExternalStream env r identity req newStream ch =
     (let req1 = (if eStreamID req = [] then req\<lparr> eStreamID := newStream \<rparr> else req)
      in case invoke_begin env r [] identity False req1 (Some ch) of
           (Refused er, r1) \<Rightarrow> (Refused er, r1\<lparr> rtClosed := insert ch (rtClosed r1) \<rparr>)
         | (x, r1) \<Rightarrow> (x, r1))"

section \<open>Events\<close>

definition publish_identity ::
  "engine \<Rightarrow> (string \<rightharpoonup> delegationContext) \<Rightarrow> string \<Rightarrow> string \<Rightarrow> envelope
   \<Rightarrow> (route_error, string \<times> string list) result" where
  "publish_identity auth delegations callerRuntime callerPlugin e =
     (if callerRuntime = [] then Ok (callerPlugin, [callerPlugin])
      else if eDelegationID e = [] then
        (case CanInvokeAsService auth callerPlugin of
           Some er \<Rightarrow> Err (DelegationRequired er)
         | None \<Rightarrow> Ok (callerPlugin, [callerPlugin]))
      else (case delegations (eDelegationID e) of
              None \<Rightarrow> Err InvalidDelegation
            | Some d \<Rightarrow>
                if dcRuntimeID d \<noteq> callerRuntime then Err InvalidDelegation
                else Ok (dcPrincipal d, dcActorChain d @ [callerPlugin])))"

definition subscribed :: "Router \<Rightarrow> envelope \<Rightarrow> string \<Rightarrow> bool" where
  "subscribed r e pluginID =
     (case registry_Manifest (rtReg r) pluginID of
        None \<Rightarrow> False
      | Some m \<Rightarrow> CanSubscribe (rtAuth r) m (eCapability e) (eMajor e) = None)"

definition publishEnvelope ::
  "Router \<Rightarrow> string \<Rightarrow> string \<Rightarrow> envelope \<Rightarrow> route_error option \<times> Router" where
  "publishEnvelope r callerRuntime callerPlugin e =
     (case registry_Manifest (rtReg r) callerPlugin of
        None \<Rightarrow> (Some (UnknownCallerPlugin callerPlugin), r)
      | Some m \<Rightarrow>
     (case CanPublish (rtAuth r) m (eCapability e) (eMajor e) of
        Some er \<Rightarrow> (Some (AccessDenied er), r)
      | None \<Rightarrow>
     (case publish_identity (rtAuth r) (rtDelegations r) callerRuntime callerPlugin e of
        Inl er \<Rightarrow> (Some er, r)
      | Inr (princ, actorChain) \<Rightarrow>
          let e1 = e\<lparr> eCaller := callerPlugin, ePrincipal := princ, eActorChain := actorChain \<rparr>;
              targets = filter (\<lambda>(_, pluginID). subscribed r e pluginID) (rtClients r)
          in (None, r\<lparr> rtSent := rtSent r @ map (\<lambda>(rid, _). (rid, e1)) targets \<rparr>))))"

definition Publish ::
  "Router \<Rightarrow> string \<Rightarrow> string \<Rightarrow> int \<Rightarrow> string \<Rightarrow> string \<Rightarrow> string \<Rightarrow> string \<Rightarrow> route_error option \<times> Router" where
  "Publish r callerPlugin eventName major payload evtID traceID corrID =
     publishEnvelope r [] callerPlugin
       (nil_envelope\<lparr> eProtocol := 1, eMessageID := evtID, eKind := KindEvent,
          eCapability := eventName, eMajor := major, eTraceID := traceID,
          eCorrelationID := corrID, ePayload := payload \<rparr>)"

section \<open>What a runtime sends\<close>

text \<open>
  \<open>serveInbound\<close> dispatches one control message of a runtime. A call comes back as the
  started call; \<open>inbound_reply\<close> is the reply the runtime gets when it ends. How an error is
  rendered is the argument \<open>render\<close>.
\<close>

definition serveInbound ::
  "invoke_env \<Rightarrow> Router \<Rightarrow> string \<Rightarrow> string \<Rightarrow> envelope \<Rightarrow> string \<Rightarrow> bool
   \<Rightarrow> invoke_start option \<times> Router" where
  "serveInbound env r runtimeID pluginID e newID accepted =
     (case eKind e of
        KindCommand \<Rightarrow> (case invoke_begin env r runtimeID pluginID True e None of (x, r') \<Rightarrow> (Some x, r'))
      | KindQuery \<Rightarrow> (case invoke_begin env r runtimeID pluginID True e None of (x, r') \<Rightarrow> (Some x, r'))
      | KindEvent \<Rightarrow> (None, snd (publishEnvelope r runtimeID pluginID e))
      | KindStreamClose \<Rightarrow> (None, forwardStream r runtimeID e newID accepted)
      | KindCancel \<Rightarrow> (None, forwardCancel r runtimeID e)
      | _ \<Rightarrow> (None, r))"

definition inbound_reply ::
  "(route_error \<Rightarrow> string) \<Rightarrow> string \<Rightarrow> envelope \<Rightarrow> (route_error, envelope) result \<Rightarrow> envelope" where
  "inbound_reply render newID e res =
     (case res of
        Inl er \<Rightarrow>
          nil_envelope\<lparr> eProtocol := 1, eMessageID := newID, eKind := KindError,
            eReplyTo := eMessageID e, eTraceID := eTraceID e, eCorrelationID := eCorrelationID e,
            eCausationID := eMessageID e,
            eError := Some \<lparr> errCode = ''ROUTE_ERROR'', errMessage = render er,
                             errRetryable = False, errDetails = [] \<rparr> \<rparr>
      | Inr resp \<Rightarrow>
          resp\<lparr> eMessageID := newID, eReplyTo := eMessageID e, eTraceID := eTraceID e,
                eCorrelationID := eCorrelationID e, eCausationID := eMessageID e \<rparr>)"

end
