(* ===== verification/RouterFacts.thy ===== *)
theory RouterFacts
  imports Router
begin

text \<open>
  Lemmas about the router: what a started call went through, and the router as a system of
  steps in which calls are open for a while. The central invariant is that a delegation exists
  exactly while its call is open, belongs to the call's provider, and carries a scope its
  principal's own policy gave it.
\<close>

section \<open>What a started call went through\<close>

lemma send_to_frame [frame_simps]:
  "rtReg (send_to rid e r) = rtReg r" "rtFences (send_to rid e r) = rtFences r"
  "rtAuth (send_to rid e r) = rtAuth r" "rtClients (send_to rid e r) = rtClients r"
  "rtStreams (send_to rid e r) = rtStreams r" "rtDelegations (send_to rid e r) = rtDelegations r"
  "rtInflight (send_to rid e r) = rtInflight r"
  by (simp_all add: send_to_def split: option.splits)

lemma channel_frame [frame_simps]:
  "rtAuth (closeExternalOnce sr r) = rtAuth r" "rtAuth (deliverExternal ch e b r) = rtAuth r"
  "rtDelegations (closeExternalOnce sr r) = rtDelegations r"
  "rtDelegations (deliverExternal ch e b r) = rtDelegations r"
  "rtInflight (closeExternalOnce sr r) = rtInflight r"
  "rtInflight (deliverExternal ch e b r) = rtInflight r"
  "rtStreams (closeExternalOnce sr r) = rtStreams r"
  "rtStreams (deliverExternal ch e b r) = rtStreams r"
  "rtClients (closeExternalOnce sr r) = rtClients r"
  "rtClients (deliverExternal ch e b r) = rtClients r"
  "rtSent (closeExternalOnce sr r) = rtSent r" "rtSent (deliverExternal ch e b r) = rtSent r"
  "rtReg (closeExternalOnce sr r) = rtReg r" "rtReg (deliverExternal ch e b r) = rtReg r"
  by (simp_all add: closeExternalOnce_def deliverExternal_def split: option.splits)

lemma delete_stream_frame [frame_simps]:
  "rtAuth (delete_stream sid r) = rtAuth r" "rtDelegations (delete_stream sid r) = rtDelegations r"
  "rtInflight (delete_stream sid r) = rtInflight r" "rtClients (delete_stream sid r) = rtClients r"
  "rtSent (delete_stream sid r) = rtSent r" "rtReg (delete_stream sid r) = rtReg r"
  by (simp_all add: delete_stream_def)

lemma open_call_frame:
  assumes "open_call r callerRuntime caller isPlugin ext p scope timeout req = (x, r')"
  shows "\<exists>c. x = Calling c \<and> clRuntime c = pRuntimeID p \<and> clRequest c = req \<and> clTimeout c = timeout
      \<and> clDelegation c = eDelegationID req
      \<and> rtDelegations r' = (rtDelegations r)(eDelegationID req \<mapsto>
           \<lparr> dcPrincipal = ePrincipal req, dcActorChain = eActorChain req,
             dcRuntimeID = pRuntimeID p, dcScope = scope \<rparr>)"
    and "rtAuth r' = rtAuth r" "rtClients r' = rtClients r" "rtSent r' = rtSent r"
    "rtReg r' = rtReg r"
  using assms by (auto simp: open_call_def Let_def split: if_splits)

lemma stamp_request_fields [simp]:
  "eCaller (stamp_request caller pr ch rt dg p req) = caller"
  "ePrincipal (stamp_request caller pr ch rt dg p req) = pr"
  "eActorChain (stamp_request caller pr ch rt dg p req) = ch"
  "eReplyRuntime (stamp_request caller pr ch rt dg p req) = rt"
  "eContract (stamp_request caller pr ch rt dg p req) = cContract (pExport p)"
  "eDelegationID (stamp_request caller pr ch rt dg p req) = dg"
  "eMessageID (stamp_request caller pr ch rt dg p req) = eMessageID req"
  "eCapability (stamp_request caller pr ch rt dg p req) = eCapability req"
  "eMajor (stamp_request caller pr ch rt dg p req) = eMajor req"
  "eKind (stamp_request caller pr ch rt dg p req) = eKind req"
  "eStreamID (stamp_request caller pr ch rt dg p req) = eStreamID req"
  "ePayload (stamp_request caller pr ch rt dg p req) = ePayload req"
  by (simp_all add: stamp_request_def Let_def)

lemma invoke_begin_Calling:
  assumes "invoke_begin env r callerRuntime caller isPlugin req ext = (Calling c, r')"
  obtains pr ch scope p reg fs where
    "ValidateEnvelope req = None"
    "authorize_call (rtAuth r) (rtReg r) (rtDelegations r) callerRuntime caller isPlugin req = Ok (pr, ch, scope)"
    "ResolveForKind (rtReg r) (rtFences r) (ivFenceOk env) (eCapability req) (eMajor req)
       (eProviderHint req) (eService req) (eAuthority req) (eKind req) = (Ok p, reg, fs)"
    "clRequest c = stamp_request caller pr ch callerRuntime (ivDelegationID env) p req"
    "clRuntime c = pRuntimeID p" "clDelegation c = ivDelegationID env"
    "map_of (rtClients r) (pRuntimeID p) \<noteq> None" "0 < clTimeout c"
    "rtDelegations r' = (rtDelegations r)(ivDelegationID env \<mapsto>
           \<lparr> dcPrincipal = pr, dcActorChain = ch, dcRuntimeID = pRuntimeID p, dcScope = scope \<rparr>)"
    "rtAuth r' = rtAuth r" "rtReg r' = reg" "rtClients r' = rtClients r"
proof -
  obtain pr ch scope where v: "ValidateEnvelope req = None"
    and a: "authorize_call (rtAuth r) (rtReg r) (rtDelegations r) callerRuntime caller isPlugin req = Ok (pr, ch, scope)"
    using assms by (auto simp: invoke_begin_def split: option.splits sum.splits)
  obtain x reg fs where res: "ResolveForKind (rtReg r) (rtFences r) (ivFenceOk env) (eCapability req)
      (eMajor req) (eProviderHint req) (eService req) (eAuthority req) (eKind req) = (x, reg, fs)"
    using prod_cases3 by blast
  from assms v a res obtain p where p: "x = Ok p" by (cases x) (auto simp: invoke_begin_def)
  let ?r1 = "r\<lparr> rtReg := reg, rtFences := fs \<rparr>"
  from assms v a res p obtain timeout where t: "call_timeout env req = Ok timeout"
    and cl: "map_of (rtClients r) (pRuntimeID p) \<noteq> None"
    and o: "open_call ?r1 callerRuntime caller isPlugin ext p scope timeout
             (stamp_request caller pr ch callerRuntime (ivDelegationID env) p req) = (Calling c, r')"
    by (auto simp: invoke_begin_def Let_def split: if_splits sum.splits)
  have "0 < timeout"
    using t by (auto simp: call_timeout_def default_timeout_def split: deadline.splits if_splits)
  with open_call_frame [OF o] show thesis
    using that [OF v a res [unfolded p]] cl by auto
qed

lemma invoke_begin_not_Calling:
  assumes "invoke_begin env r callerRuntime caller isPlugin req ext = (x, r')"
    and "\<And>c. x \<noteq> Calling c"
  shows "rtDelegations r' = rtDelegations r \<and> rtAuth r' = rtAuth r \<and> rtClients r' = rtClients r
    \<and> rtStreams r' = rtStreams r \<and> rtInflight r' = rtInflight r \<and> rtSent r' = rtSent r"
proof (cases "ValidateEnvelope req")
  case None
  show ?thesis
  proof (cases "authorize_call (rtAuth r) (rtReg r) (rtDelegations r) callerRuntime caller isPlugin req")
    case (Inr t)
    obtain pr ch scope where t: "t = (pr, ch, scope)" by (cases t)
    obtain y reg fs where res: "ResolveForKind (rtReg r) (rtFences r) (ivFenceOk env) (eCapability req)
        (eMajor req) (eProviderHint req) (eService req) (eAuthority req) (eKind req) = (y, reg, fs)"
      using prod_cases3 by blast
    have o: "\<exists>c. fst (open_call r1 callerRuntime caller isPlugin ext p sc tm rq) = Calling c"
      for r1 p sc tm rq
      by (metis open_call_frame(1) prod.collapse)
    show ?thesis
    proof (cases y)
      case (Inr p)
      let ?start = "open_call (r\<lparr> rtReg := reg, rtFences := fs \<rparr>) callerRuntime caller isPlugin ext p scope"
      have "?start tm rq \<noteq> (x, r')" for tm rq
        using o [of "r\<lparr> rtReg := reg, rtFences := fs \<rparr>" p scope tm rq] assms(2)
        by (metis fst_conv)
      with assms(1) None \<open>_ = Inr t\<close> t res Inr show ?thesis
        by (auto simp: invoke_begin_def Let_def split: if_splits sum.splits)
    qed (use assms None Inr t res in \<open>auto simp: invoke_begin_def\<close>)
  qed (use assms None in \<open>auto simp: invoke_begin_def\<close>)
qed (use assms in \<open>auto simp: invoke_begin_def\<close>)

section \<open>Delegations\<close>

text \<open>A delegation's principal started its chain; its scope is what that principal's policy gives.\<close>

definition delegation_ok :: "engine \<Rightarrow> delegationContext \<Rightarrow> bool" where
  "delegation_ok en d \<longleftrightarrow>
     dcActorChain d \<noteq> [] \<and> hd (dcActorChain d) = dcPrincipal d
     \<and> (dcScope d = [] \<or>
        (\<exists>cap major. CanExternal en (dcPrincipal d) cap major = None
           \<and> dcScope d = DelegationScope en (dcPrincipal d) cap major))"

definition calls_of :: "invoke_start \<Rightarrow> call list" where
  "calls_of x = (case x of Calling c \<Rightarrow> [c] | _ \<Rightarrow> [])"

type_synonym route_state = "Router \<times> call list"

inductive route_step :: "route_state \<Rightarrow> route_state \<Rightarrow> bool" where
  request: "invoke_begin env r callerRuntime caller isPlugin req ext = (x, r') \<Longrightarrow>
     rtDelegations r (ivDelegationID env) = None \<Longrightarrow> isPlugin \<or> callerRuntime = [] \<Longrightarrow>
     route_step (r, cs) (r', calls_of x @ cs)"
| finish: "c \<in> set cs \<Longrightarrow> invoke_end r c outcome newID = (res, r') \<Longrightarrow>
     route_step (r, cs) (r', remove1 c cs)"
| publish: "route_step (r, cs) (snd (publishEnvelope r callerRuntime caller e), cs)"
| stream: "route_step (r, cs) (forwardStream r rid e newID accepted, cs)"
| cancel: "route_step (r, cs) (forwardCancel r rid e, cs)"
| cancel_stream: "route_step (r, cs) (snd (CancelExternalStream r identity sid newID), cs)"
| cancel_request: "route_step (r, cs) (snd (CancelExternalRequest r identity mid newID), cs)"
| connect: "route_step (r, cs) (AddClient r rid plugin, cs)"
| disconnect: "route_step (r, cs) (RemoveClient r rid ids accepts, cs)"
| registry: "route_step (r, cs) (r\<lparr> rtReg := reg, rtFences := fs \<rparr>, cs)"

inductive_cases route_stepE: "route_step s s'"

definition calls_ok :: "(string \<rightharpoonup> delegationContext) \<Rightarrow> call list \<Rightarrow> bool" where
  "calls_ok ds cs \<longleftrightarrow> distinct (map clDelegation cs) \<and> dom ds = clDelegation ` set cs
     \<and> (\<forall>c \<in> set cs. map_option dcRuntimeID (ds (clDelegation c)) = Some (clRuntime c))"

definition route_inv :: "route_state \<Rightarrow> bool" where
  "route_inv = (\<lambda>(r, cs). calls_ok (rtDelegations r) cs
     \<and> (\<forall>id d. rtDelegations r id = Some d \<longrightarrow> delegation_ok (rtAuth r) d))"

lemma fold_frame:
  "(\<And>x r. f (g x r) = f r) \<Longrightarrow> f (fold g xs r) = f r"
  by (induction xs arbitrary: r) simp_all

lemma RemoveClient_frame:
  "rtDelegations (RemoveClient r rid ids accepts) = rtDelegations r"
  "rtAuth (RemoveClient r rid ids accepts) = rtAuth r"
  by (simp_all add: RemoveClient_def Let_def
      fold_frame [of rtDelegations "cancel_lost ids"] fold_frame [of rtAuth "cancel_lost ids"]
      fold_frame [of rtDelegations "close_affected ids accepts"]
      fold_frame [of rtAuth "close_affected ids accepts"]
      cancel_lost_def close_affected_def frame_simps split: option.split)

lemma publish_frame:
  "rtDelegations (snd (publishEnvelope r callerRuntime caller e)) = rtDelegations r"
  "rtAuth (snd (publishEnvelope r callerRuntime caller e)) = rtAuth r"
  "rtStreams (snd (publishEnvelope r callerRuntime caller e)) = rtStreams r"
  "rtClients (snd (publishEnvelope r callerRuntime caller e)) = rtClients r"
  by (simp_all add: publishEnvelope_def Let_def split: option.splits sum.splits prod.splits)

lemma forward_frame:
  "rtDelegations (forwardStream r rid e newID accepted) = rtDelegations r"
  "rtAuth (forwardStream r rid e newID accepted) = rtAuth r"
  "rtDelegations (forwardCancel r rid e) = rtDelegations r"
  "rtAuth (forwardCancel r rid e) = rtAuth r"
  by (simp_all add: forwardStream_def forwardCancel_def Let_def frame_simps split: option.splits)

lemma cancel_frame:
  "rtDelegations (snd (CancelExternalStream r identity sid newID)) = rtDelegations r"
  "rtAuth (snd (CancelExternalStream r identity sid newID)) = rtAuth r"
  "rtDelegations (snd (CancelExternalRequest r identity sid newID)) = rtDelegations r"
  "rtAuth (snd (CancelExternalRequest r identity sid newID)) = rtAuth r"
  by (simp_all add: CancelExternalStream_def CancelExternalRequest_def frame_simps split: option.splits)

lemma invoke_end_frame:
  assumes "invoke_end r c outcome newID = (res, r')"
  shows "rtDelegations r' = (rtDelegations r)(clDelegation c := None)" "rtAuth r' = rtAuth r"
  using assms by (auto simp: invoke_end_def finish_call_def split: call_outcome.splits)

lemma request_identity_Ok:
  assumes "request_identity en ds callerRuntime caller req = Ok (pr, ch, scope)"
  shows "(pr = caller \<and> ch = [caller] \<and> scope = []
          \<and> (callerRuntime = [] \<or> CanInvokeAsService en caller = None))
    \<or> (\<exists>d. callerRuntime \<noteq> [] \<and> ds (eDelegationID req) = Some d \<and> dcRuntimeID d = callerRuntime
          \<and> pr = dcPrincipal d \<and> ch = dcActorChain d @ [caller] \<and> scope = dcScope d)"
  using assms by (auto simp: request_identity_def split: if_splits option.splits)

lemma authorize_call_Ok:
  assumes "authorize_call en reg ds callerRuntime caller True req = Ok (pr, ch, scope)"
  shows "request_identity en ds callerRuntime caller req = Ok (pr, ch, scope)"
    and "\<exists>m. registry_Manifest reg caller = Some m
           \<and> CanConsume en m (eCapability req) (eMajor req) = None"
    and "pr = caller \<or> CanExternal en pr (eCapability req) (eMajor req) = None
         \<or> ScopeAllows scope (eCapability req) (eMajor req)"
  using assms by (auto simp: authorize_call_def split: sum.splits option.splits if_splits)

lemma authorize_call_delegation_ok:
  assumes "authorize_call en reg ds callerRuntime caller isPlugin req = Ok (pr, ch, scope)"
    and "\<And>id d. ds id = Some d \<Longrightarrow> delegation_ok en d"
  shows "delegation_ok en \<lparr> dcPrincipal = pr, dcActorChain = ch, dcRuntimeID = rid, dcScope = scope \<rparr>"
proof (cases isPlugin)
  case True
  with assms(1) have "authorize_call en reg ds callerRuntime caller True req = Ok (pr, ch, scope)"
    by simp
  from request_identity_Ok [OF authorize_call_Ok(1) [OF this]]
  show ?thesis
    using assms(2) by (auto simp: delegation_ok_def)
next
  case False
  with assms(1) have "CanExternal en caller (eCapability req) (eMajor req) = None"
    "pr = caller" "ch = [caller]"
    "scope = DelegationScope en caller (eCapability req) (eMajor req)"
    by (auto simp: authorize_call_def split: option.splits)
  then show ?thesis by (auto simp: delegation_ok_def)
qed

lemma route_inv_request:
  assumes inv: "route_inv (r, cs)" and new: "rtDelegations r (ivDelegationID env) = None"
    and b: "invoke_begin env r callerRuntime caller isPlugin req ext = (x, r')"
  shows "route_inv (r', calls_of x @ cs)"
proof (cases "\<exists>c. x = Calling c")
  case False
  with invoke_begin_not_Calling [OF b] inv show ?thesis
    by (simp add: route_inv_def calls_of_def split: invoke_start.split)
next
  case True
  then obtain c where c: "x = Calling c" ..
  from b [unfolded c] show ?thesis
  proof (rule invoke_begin_Calling)
    fix pr ch scope p
    assume a: "authorize_call (rtAuth r) (rtReg r) (rtDelegations r) callerRuntime caller isPlugin req = Ok (pr, ch, scope)"
      and rt: "clRuntime c = pRuntimeID p" and cd: "clDelegation c = ivDelegationID env"
      and ds: "rtDelegations r' = (rtDelegations r)(ivDelegationID env \<mapsto>
           \<lparr> dcPrincipal = pr, dcActorChain = ch, dcRuntimeID = pRuntimeID p, dcScope = scope \<rparr>)"
      and au: "rtAuth r' = rtAuth r"
    have old: "delegation_ok (rtAuth r) d" if "rtDelegations r id = Some d" for id d
      using inv that by (simp add: route_inv_def)
    have ok: "calls_ok (rtDelegations r) cs" using inv by (simp add: route_inv_def)
    have fresh: "\<forall>c' \<in> set cs. clDelegation c' \<noteq> ivDelegationID env"
    proof
      fix c'
      assume "c' \<in> set cs"
      then have "rtDelegations r (clDelegation c') \<noteq> None" using ok unfolding calls_ok_def by blast
      with new show "clDelegation c' \<noteq> ivDelegationID env" by auto
    qed
    have "calls_ok (rtDelegations r') (c # cs)"
      using ok fresh ds cd rt unfolding calls_ok_def by auto
    moreover have "delegation_ok (rtAuth r') d" if "rtDelegations r' id = Some d" for id d
      using that ds old authorize_call_delegation_ok [OF a old, where rid = "pRuntimeID p"] au
      by (auto split: if_splits)
    ultimately show ?thesis using c by (simp add: route_inv_def calls_of_def)
  qed
qed

lemma route_inv_finish:
  assumes inv: "route_inv (r, cs)" and c: "c \<in> set cs"
    and e: "invoke_end r c outcome newID = (res, r')"
  shows "route_inv (r', remove1 c cs)"
proof -
  have ok: "calls_ok (rtDelegations r) cs" using inv by (simp add: route_inv_def)
  then have d: "distinct (map clDelegation cs)" by (simp add: calls_ok_def)
  then have inj: "inj_on clDelegation (set cs)" and dc: "distinct cs"
    by (auto simp: distinct_map)
  have "clDelegation ` set (remove1 c cs) = clDelegation ` set cs - {clDelegation c}"
    using inj c dc by (auto simp: inj_on_def)
  moreover have "distinct (map clDelegation (remove1 c cs))"
    using d inj dc by (auto simp: distinct_map inj_on_def dest: notin_set_remove1)
  moreover have "clDelegation c' \<noteq> clDelegation c" if "c' \<in> set (remove1 c cs)" for c'
    using that inj c dc by (auto dest: inj_onD)
  ultimately have "calls_ok (rtDelegations r') (remove1 c cs)"
    using ok dc unfolding calls_ok_def invoke_end_frame(1) [OF e] by auto
  then show ?thesis
    using inv invoke_end_frame [OF e] by (simp add: route_inv_def)
qed

lemma route_inv_step:
  assumes "route_inv s" and "route_step s s'"
  shows "route_inv s'"
  using assms(2,1)
proof cases
  case (request env r callerRuntime caller isPlugin req ext x r' cs)
  then show ?thesis using assms(1) route_inv_request by blast
next
  case (finish c cs r outcome newID res r')
  then show ?thesis using assms(1) route_inv_finish by blast
qed (use assms(1) in \<open>simp_all add: RemoveClient_frame publish_frame forward_frame cancel_frame
       AddClient_def route_inv_def\<close>)

end
