(* ===== verification/RouterProps.thy ===== *)
theory RouterProps
  imports RouterFacts Samples
begin

text \<open>
  The properties of the router: whose authority a call exercises, the life of a delegation,
  what the host overwrites, and who can reach whose streams, calls and events.
\<close>

interpretation route_run: monotone_system route_step route_inv
  "\<lambda>s s'. rtAuth (fst s') = rtAuth (fst s)"
proof unfold_locales
  fix s s' :: route_state
  assume "route_inv s" and st: "route_step s s'"
  from st show "rtAuth (fst s') = rtAuth (fst s)"
  proof cases
    case (request env r callerRuntime caller isPlugin req ext x r' cs)
    then show ?thesis
      using invoke_begin_not_Calling [OF request(3)]
      by (cases x) (auto elim: invoke_begin_Calling)
  next
    case (finish c cs r outcome newID res r')
    then show ?thesis using invoke_end_frame(2) by simp
  qed (simp_all add: RemoveClient_frame publish_frame forward_frame cancel_frame AddClient_def)
qed (simp_all add: route_inv_step)

abbreviation route_reachable :: "Registry \<Rightarrow> fences \<Rightarrow> engine \<Rightarrow> route_state \<Rightarrow> bool" where
  "route_reachable reg fs en s \<equiv> route_step\<^sup>*\<^sup>* (router_New reg fs en, []) s"

lemma reachable_route_inv: "route_reachable reg fs en s \<Longrightarrow> route_inv s"
  by (erule route_run.inv_run) (simp add: route_inv_def router_New_def calls_ok_def)

lemma reachable_auth: "route_reachable reg fs en s \<Longrightarrow> rtAuth (fst s) = en"
  by (drule route_run.le_run) (simp_all add: route_inv_def router_New_def calls_ok_def)

section \<open>A sample run\<close>

definition sample_policy :: engine where
  "sample_policy =
     [''alice'' \<mapsto> zero_grant\<lparr> gCapabilities := [''wf@1''],
                               gDelegations := [(''wf@1'', [''work.get@1''])] \<rparr>,
      ''wf'' \<mapsto> zero_grant\<lparr> gCapabilities := [''work.get@1''] \<rparr>]"

definition wf_plugin :: Manifest where
  "wf_plugin = sample_manifest ''wf'' [sample_cap ''stateless'' ''wf''] [sample_cap ''stateless'' ''work.get'']"

definition get_plugin :: Manifest where
  "get_plugin = sample_manifest ''work'' [sample_cap ''stateless'' ''work.get''] []"

definition route_registry :: Registry where
  "route_registry =
     registry_New\<lparr> rProviders :=
         [((''wf'', 1), [new_provider wf_plugin ''rt-a'' (sample_cap ''stateless'' ''wf'')]),
          ((''work.get'', 1), [new_provider get_plugin ''rt-b'' (sample_cap ''stateless'' ''work.get'')])],
       rByPlugin := [(''wf'', wf_plugin), (''work'', get_plugin)] \<rparr>"

definition route_env :: "string \<Rightarrow> invoke_env" where
  "route_env did =
     \<lparr> ivFenceOk = True, ivNow = 0, ivParseTime = (\<lambda>_. None), ivDelegationID = did \<rparr>"

definition wf_request :: envelope where
  "wf_request =
     nil_envelope\<lparr> eProtocol := 1, eMessageID := ''m1'', eKind := KindCommand,
       eCapability := ''wf'', eMajor := 1 \<rparr>"

definition get_request :: "string \<Rightarrow> envelope" where
  "get_request did =
     nil_envelope\<lparr> eProtocol := 1, eMessageID := ''m2'', eKind := KindQuery,
       eCapability := ''work.get'', eMajor := 1, eDelegationID := did \<rparr>"

definition route_connected :: Router where
  "route_connected =
     AddClient (AddClient (router_New route_registry Map.empty sample_policy) ''rt-a'' ''wf'')
       ''rt-b'' ''work''"

definition wf_start :: "invoke_start \<times> Router" where
  "wf_start = InvokeExternal (route_env ''d1'') route_connected ''alice'' wf_request"

definition get_start :: "invoke_start \<times> Router" where
  "get_start = invoke_begin (route_env ''d2'') (snd wf_start) ''rt-a'' ''wf'' True (get_request ''d1'') None"

lemmas route_sample_defs =
  get_start_def wf_start_def route_connected_def get_request_def wf_request_def route_env_def
  route_registry_def get_plugin_def wf_plugin_def sample_policy_def router_New_def AddClient_def

lemma sample_matches:
  "pattern_match ''wf@1'' (canonical ''wf'' 1)"
  "pattern_match ''work.get@1'' (canonical ''work.get'' 1)"
  "\<not> pattern_match ''wf@1'' (canonical ''work.get'' 1)"
  by code_simp+

lemmas route_eval =
  InvokeExternal_def invoke_begin_def authorize_call_def request_identity_def ValidateEnvelope_def
  CanExternal_def CanConsume_def granted_def HasCapability_def DelegationScope_def ScopeAllows_def
  registry_Manifest_def call_timeout_def ParseDeadline_def open_call_def stamp_request_def
  ContractMetadata_def catalog_Metadata_def zero_envelope_def zero_grant_def sample_matches
  runtimeConsumerKey_def externalConsumerKey_def

lemma wf_start_eval:
  "\<exists>c. fst wf_start = Calling c \<and> clRuntime c = ''rt-a'' \<and> clDelegation c = ''d1''"
  "rtDelegations (snd wf_start) =
     [''d1'' \<mapsto> \<lparr> dcPrincipal = ''alice'', dcActorChain = [''alice''], dcRuntimeID = ''rt-a'',
                  dcScope = [''work.get@1''] \<rparr>]"
  by (simp_all add: route_sample_defs route_eval resolve_defs sample_defs)

lemma get_start_eval:
  "\<exists>c. fst get_start = Calling c \<and> ePrincipal (clRequest c) = ''alice''
      \<and> eActorChain (clRequest c) = [''alice'', ''wf'']"
  by (simp add: route_sample_defs route_eval resolve_defs sample_defs)

lemma wf_start_reachable:
  "route_reachable route_registry Map.empty sample_policy (snd wf_start, calls_of (fst wf_start))"
proof -
  let ?r0 = "router_New route_registry Map.empty sample_policy"
  have "route_step (?r0, []) (AddClient ?r0 ''rt-a'' ''wf'', [])" by (rule route_step.connect)
  moreover have "route_step (AddClient ?r0 ''rt-a'' ''wf'', []) (route_connected, [])"
    unfolding route_connected_def by (rule route_step.connect)
  moreover have "route_step (route_connected, []) (snd wf_start, calls_of (fst wf_start) @ [])"
    by (rule route_step.request [where env = "route_env ''d1''" and callerRuntime = "[]"
          and caller = "''alice''" and isPlugin = False and req = wf_request and ext = None])
       (simp_all add: wf_start_def InvokeExternal_def route_connected_def router_New_def AddClient_def)
  ultimately show ?thesis
    by (metis append_Nil2 converse_rtranclp_into_rtranclp rtranclp.rtrancl_refl)
qed

section \<open>Whose authority a call exercises\<close>

definition principal_may :: "engine \<Rightarrow> string \<Rightarrow> string \<Rightarrow> int \<Rightarrow> bool" where
  "principal_may en pr cap major \<longleftrightarrow>
     CanExternal en pr cap major = None
     \<or> (\<exists>root rootMajor. CanExternal en pr root rootMajor = None
          \<and> ScopeAllows (DelegationScope en pr root rootMajor) cap major)"

text \<open>
  C3: no confused deputy. In every reachable state a call a plugin starts is one its manifest
  declares and its own grant covers, and one the principal it acts for may make: by a direct
  grant, or by the scope the policy attaches to a call that principal may make. The request is
  forwarded under that principal, which heads the chain of actors that the caller ends.
\<close>

theorem no_confused_deputy:
  assumes "route_reachable reg fs en (r, cs)"
    and "invoke_begin env r callerRuntime caller True req ext = (Calling c, r')"
  shows "(\<exists>m. registry_Manifest (rtReg r) caller = Some m
           \<and> CanConsume en m (eCapability req) (eMajor req) = None)
    \<and> (ePrincipal (clRequest c) = caller
        \<or> principal_may en (ePrincipal (clRequest c)) (eCapability req) (eMajor req))
    \<and> eCaller (clRequest c) = caller
    \<and> hd (eActorChain (clRequest c)) = ePrincipal (clRequest c)
    \<and> last (eActorChain (clRequest c)) = caller"
  using assms(2)
proof (rule invoke_begin_Calling)
  fix pr ch scope p
  assume a0: "authorize_call (rtAuth r) (rtReg r) (rtDelegations r) callerRuntime caller True req = Ok (pr, ch, scope)"
    and c: "clRequest c = stamp_request caller pr ch callerRuntime (ivDelegationID env) p req"
  have en: "rtAuth r = en" using reachable_auth [OF assms(1)] by simp
  note a = a0 [unfolded en]
  have ok: "delegation_ok en d" if "rtDelegations r id = Some d" for id d
    using reachable_route_inv [OF assms(1)] that en by (simp add: route_inv_def)
  have d: "delegation_ok en \<lparr> dcPrincipal = pr, dcActorChain = ch, dcRuntimeID = [], dcScope = scope \<rparr>"
    by (rule authorize_call_delegation_ok [OF a ok])
  have "pr = caller \<or> principal_may en pr (eCapability req) (eMajor req)"
    using authorize_call_Ok(3) [OF a] d
    by (auto simp: principal_may_def delegation_ok_def ScopeAllows_def)
  moreover have "hd ch = pr" using d by (simp add: delegation_ok_def)
  moreover have "last ch = caller"
    using request_identity_Ok [OF authorize_call_Ok(1) [OF a]] by auto
  ultimately show ?thesis using authorize_call_Ok(2) [OF a] c by simp
qed

theorem no_confused_deputy_witness:
  "\<exists>c. fst get_start = Calling c \<and> principal_may sample_policy ''alice'' ''work.get'' 1
      \<and> last (eActorChain (clRequest c)) = ''wf''"
proof -
  obtain c where c: "fst get_start = Calling c" "ePrincipal (clRequest c) = ''alice''"
    using get_start_eval by blast
  then have "invoke_begin (route_env ''d2'') (snd wf_start) ''rt-a'' ''wf'' True (get_request ''d1'') None
      = (Calling c, snd get_start)"
    by (simp add: get_start_def prod_eq_iff)
  from no_confused_deputy [OF wf_start_reachable this] c show ?thesis
    by (auto simp: get_request_def)
qed

text \<open>
  C5: delegations are request-scoped and bound to a runtime. In every reachable state the
  delegations are those of the open calls, each usable by its call's provider only; a request
  from another runtime, or with the token of a call that ended, is refused and changes nothing.
\<close>

theorem delegation_scoped:
  assumes "route_reachable reg fs en (r, cs)"
    and "ValidateEnvelope req = None" and "callerRuntime \<noteq> []" and "eDelegationID req \<noteq> []"
    and "\<not> list_ex (\<lambda>c. clDelegation c = eDelegationID req \<and> clRuntime c = callerRuntime) cs"
  shows "invoke_begin env r callerRuntime caller True req ext = (Refused InvalidDelegation, r)"
proof -
  have ok: "calls_ok (rtDelegations r) cs"
    using reachable_route_inv [OF assms(1)] by (simp add: route_inv_def)
  have "request_identity (rtAuth r) (rtDelegations r) callerRuntime caller req = Err InvalidDelegation"
  proof (cases "rtDelegations r (eDelegationID req)")
    case (Some d)
    then have "eDelegationID req \<in> clDelegation ` set cs"
      using ok unfolding calls_ok_def by blast
    then obtain c where "c \<in> set cs" "clDelegation c = eDelegationID req" by force
    with ok Some have "clRuntime c = dcRuntimeID d" unfolding calls_ok_def by fastforce
    with \<open>c \<in> set cs\<close> \<open>clDelegation c = eDelegationID req\<close> assms(5)
    have "dcRuntimeID d \<noteq> callerRuntime" by (auto simp: list_ex_iff)
    with Some assms(3,4) show ?thesis by (simp add: request_identity_def)
  qed (use assms(3,4) in \<open>simp add: request_identity_def\<close>)
  with assms(2) show ?thesis by (simp add: invoke_begin_def authorize_call_def)
qed

theorem delegation_scoped_witness:
  "invoke_begin (route_env ''d2'') (snd wf_start) ''rt-b'' ''work'' True (get_request ''d1'') None =
     (Refused InvalidDelegation, snd wf_start)"
proof -
  obtain c where "fst wf_start = Calling c" "clRuntime c = ''rt-a''" using wf_start_eval(1) by blast
  then show ?thesis
    by (intro delegation_scoped [OF wf_start_reachable])
       (simp_all add: calls_of_def get_request_def zero_envelope_def ValidateEnvelope_def)
qed

section \<open>Streams and cancellation\<close>

text \<open>
  C37: a stream's frames come from its provider only, and a runtime cancels only its own calls
  and streams: a frame of another runtime changes nothing, and a cancel is sent only to the
  provider of a stream this runtime consumes, or of a call in flight under this runtime's key.
\<close>

theorem streams_and_cancels_isolated:
  "(case map_of (rtStreams r) (eStreamID e) of
      None \<Rightarrow> forwardStream r rid e newID accepted = r
    | Some sr \<Rightarrow> srProviderRuntime sr = rid \<or> forwardStream r rid e newID accepted = r)
   \<and> (forwardCancel r rid e = r
      \<or> (\<exists>target. rtSent (forwardCancel r rid e) = rtSent r @ [target]
           \<and> (if eStreamID e \<noteq> []
              then map_option (\<lambda>sr. (srConsumerRuntime sr, srProviderRuntime sr))
                     (map_of (rtStreams r) (eStreamID e)) = Some (rid, fst target)
              else map_option ifProviderRuntime
                     (rtInflight r (runtimeConsumerKey rid, eReplyTo e)) = Some (fst target))))"
  by (auto simp: forwardStream_def forwardCancel_def send_to_def split: option.splits)

text \<open>
  The keys under which calls of runtimes and of external clients are in flight never
  coincide, so an external client cancels only its own requests.
\<close>

theorem external_cancel_isolated:
  "runtimeConsumerKey rid \<noteq> externalConsumerKey identity
   \<and> inj externalConsumerKey \<and> inj runtimeConsumerKey
   \<and> (case rtInflight r (externalConsumerKey identity, mid) of
        None \<Rightarrow> CancelExternalRequest r identity mid newID = (False, r) | Some _ \<Rightarrow> True)
   \<and> (map_option srExternalIdentity (map_of (rtStreams r) sid) = Some identity
      \<or> CancelExternalStream r identity sid newID = (False, r))"
  by (auto simp: runtimeConsumerKey_def externalConsumerKey_def inj_on_def
      CancelExternalRequest_def CancelExternalStream_def split: option.splits)

lemma fold_cancel_lost:
  "rtStreams (fold (cancel_lost ids) xs r) = rtStreams r"
  "rtClients (fold (cancel_lost ids) xs r) = rtClients r"
  by (simp_all add: fold_frame cancel_lost_def frame_simps)

lemma fold_close_affected:
  "rtStreams (fold (close_affected ids accepts) xs r) = rtStreams r"
  "rtClients (fold (close_affected ids accepts) xs r) = rtClients r"
  by (simp_all add: fold_frame close_affected_def Let_def frame_simps split: option.split)

lemma close_affected_sent:
  "rtSent (fold (close_affected ids accepts) xs r) = rtSent r @
     map (\<lambda>sr. (srConsumerRuntime sr, provider_disconnected (ids (srStreamID sr)) sr))
       (filter (\<lambda>sr. srExternal sr = None \<and> map_of (rtClients r) (srConsumerRuntime sr) \<noteq> None) xs)"
  by (induction xs arbitrary: r)
     (auto simp: close_affected_def Let_def frame_simps send_to_def split: option.split)

lemma cancel_lost_sent:
  "rtSent (fold (cancel_lost ids) xs r) = rtSent r @
     map (\<lambda>sr. (srProviderRuntime sr,
                cancel_for (ids (srStreamID sr)) [] (srRequestID sr) (srProviderRuntime sr)))
       (filter (\<lambda>sr. map_of (rtClients r) (srProviderRuntime sr) \<noteq> None) xs)"
  by (induction xs arbitrary: r) (auto simp: cancel_lost_def send_to_def split: option.split)

text \<open>
  A disconnected runtime is neither a client nor an end of any stream, all other streams
  stay; each connected consumer of its streams is told the provider is gone, and each connected
  provider that streamed to it gets a cancel for its request.
\<close>

theorem disconnect_cleans_up:
  "let r' = RemoveClient r rid ids accepts;
       routes = map snd (rtStreams r);
       connected = (\<lambda>x. x \<noteq> rid \<and> map_of (rtClients r) x \<noteq> None)
   in map_of (rtClients r') rid = None
    \<and> rtStreams r' = filter (\<lambda>(sid, sr). srProviderRuntime sr \<noteq> rid \<and> srConsumerRuntime sr \<noteq> rid) (rtStreams r)
    \<and> rtSent r' = rtSent r
        @ map (\<lambda>sr. (srConsumerRuntime sr, provider_disconnected (ids (srStreamID sr)) sr))
            (filter (\<lambda>sr. srProviderRuntime sr = rid \<and> srExternal sr = None
                        \<and> connected (srConsumerRuntime sr)) routes)
        @ map (\<lambda>sr. (srProviderRuntime sr,
                     cancel_for (ids (srStreamID sr)) [] (srRequestID sr) (srProviderRuntime sr)))
            (filter (\<lambda>sr. srConsumerRuntime sr = rid \<and> connected (srProviderRuntime sr)) routes)"
proof -
  have conn: "(map_of (AList.delete rid cs) x \<noteq> None) = (x \<noteq> rid \<and> map_of cs x \<noteq> None)"
    for x and cs :: "(string \<times> string) list"
    by (simp add: delete_conv')
  show ?thesis
    unfolding RemoveClient_def Let_def
    by (simp add: fold_cancel_lost fold_close_affected cancel_lost_sent close_affected_sent
        delete_conv' conn [simplified])
       (intro arg_cong2 [where f = "(@)"] arg_cong [where f = "map _"] filter_cong refl; auto)
qed

section \<open>Events\<close>

text \<open>
  An event is published only by a plugin whose manifest declares it and whose grant covers
  it, goes to exactly the connected runtimes of plugins that may subscribe to it, and carries
  the host's caller, principal and actor chain; a refused event goes nowhere.
\<close>

theorem events_reach_subscribers_only:
  "case publishEnvelope r callerRuntime caller e of
     (Some er, r') \<Rightarrow> r' = r
   | (None, r') \<Rightarrow>
       (\<exists>m e1. registry_Manifest (rtReg r) caller = Some m
         \<and> CanPublish (rtAuth r) m (eCapability e) (eMajor e) = None
         \<and> eCaller e1 = caller \<and> last (eActorChain e1) = caller \<and> ePayload e1 = ePayload e
         \<and> rtSent r' = rtSent r @ map (\<lambda>(rid, plugin). (rid, e1))
              (filter (\<lambda>(rid, plugin). subscribed r e plugin) (rtClients r)))"
proof (cases "publishEnvelope r callerRuntime caller e")
  case (Pair res r')
  show ?thesis
  proof (cases res)
    case None
    with Pair obtain m pr ch where m: "registry_Manifest (rtReg r) caller = Some m"
      "CanPublish (rtAuth r) m (eCapability e) (eMajor e) = None"
      and i: "publish_identity (rtAuth r) (rtDelegations r) callerRuntime caller e = Ok (pr, ch)"
      by (auto simp: publishEnvelope_def Let_def split: option.splits sum.splits)
    from i have "last ch = caller"
      by (auto simp: publish_identity_def split: if_splits option.splits)
    with Pair None m i show ?thesis
      by (auto simp: publishEnvelope_def Let_def
          intro!: exI [of _ "e\<lparr> eCaller := caller, ePrincipal := pr, eActorChain := ch \<rparr>"])
  next
    case (Some er)
    with Pair show ?thesis
      by (auto simp: publishEnvelope_def Let_def split: option.splits sum.splits prod.splits)
  qed
qed

section \<open>What the host overwrites\<close>

text \<open>
  For a stateful command the service, authority and fencing epoch of the forwarded request
  are those of the provider the host resolved, whatever the client wrote there.
\<close>

theorem stateful_commands_stamped:
  assumes "invoke_begin env r callerRuntime caller isPlugin req ext = (Calling c, r')"
    and "eKind req = KindCommand"
  shows "\<exists>p reg fs. ResolveForKind (rtReg r) (rtFences r) (ivFenceOk env) (eCapability req) (eMajor req)
            (eProviderHint req) (eService req) (eAuthority req) KindCommand = (Ok p, reg, fs)
     \<and> eContract (clRequest c) = cContract (pExport p) \<and> clRuntime c = pRuntimeID p
     \<and> (cMode (pExport p) \<noteq> ''stateful''
         \<or> eService (clRequest c) = cService (pExport p)
            \<and> eAuthority (clRequest c) = cAuthority (pExport p)
            \<and> eFencingEpoch (clRequest c) = pWriterEpoch p)"
  using assms by (auto elim!: invoke_begin_Calling simp: stamp_request_def Let_def)

theorem stateful_commands_stamped_witness:
  "\<exists>c. fst wf_start = Calling c \<and> eContract (clRequest c) = canonical ''wf'' 1"
proof -
  obtain c where c: "fst wf_start = Calling c" using wf_start_eval(1) by blast
  then have "invoke_begin (route_env ''d1'') route_connected [] ''alice'' False wf_request None
      = (Calling c, snd wf_start)"
    by (simp add: wf_start_def InvokeExternal_def prod_eq_iff)
  from stateful_commands_stamped [OF this] obtain p reg fs where
    "ResolveForKind (rtReg route_connected) (rtFences route_connected) True ''wf'' 1 [] [] [] KindCommand
       = (Ok p, reg, fs)"
    "eContract (clRequest c) = cContract (pExport p)"
    by (auto simp: wf_request_def route_env_def zero_envelope_def)
  with c show ?thesis
    by (auto simp: route_sample_defs resolve_defs sample_defs)
qed

text \<open>
  For anything but a stateful command the fencing epoch a client or plugin supplied is
  forwarded as it is, and for a stateless provider the service and authority too.
\<close>

theorem client_fencing_forwarded:
  "(eKind req = KindCommand \<and> cMode (pExport p) = ''stateful''
      \<or> eFencingEpoch (stamp_request caller pr ch rt dg p req) = eFencingEpoch req)
   \<and> (cMode (pExport p) = ''stateful''
      \<or> eService (stamp_request caller pr ch rt dg p req) = eService req
         \<and> eAuthority (stamp_request caller pr ch rt dg p req) = eAuthority req)"
  by (simp add: stamp_request_def Let_def)

text \<open>
  A call that names the stream of another consumer takes the stream over: the route is
  replaced, and the frames of the first provider are dropped from then on.
\<close>

theorem stream_id_taken_over:
  assumes "eStreamID req \<noteq> []" and "callerRuntime \<noteq> []"
    and "map_of (rtStreams r) (eStreamID req) = Some sr" and "srProviderRuntime sr \<noteq> pRuntimeID p"
  shows "let r' = snd (open_call r callerRuntime caller isPlugin ext p scope timeout req)
    in map_option srConsumerRuntime (map_of (rtStreams r') (eStreamID req)) = Some callerRuntime
     \<and> forwardStream r' (srProviderRuntime sr) (nil_envelope\<lparr> eStreamID := eStreamID req \<rparr>) newID accepted = r'"
  using assms by (simp add: open_call_def Let_def forwardStream_def update_conv')

definition taken_stream :: Router where
  "taken_stream =
     route_connected\<lparr> rtStreams := [(''s1'', \<lparr> srStreamID = ''s1'', srConsumerRuntime = ''rt-x'',
        srExternalIdentity = [], srProviderRuntime = ''rt-b'', srRequestID = ''m9'', srExternal = None \<rparr>)] \<rparr>"

theorem stream_id_taken_over_witness:
  "map_option srConsumerRuntime (map_of (rtStreams (snd (open_call taken_stream ''rt-y'' ''y'' True None
      (new_provider wf_plugin ''rt-a'' (sample_cap ''stateless'' ''wf'')) [] 1
      (wf_request\<lparr> eStreamID := ''s1'' \<rparr>)))) ''s1'') = Some ''rt-y''"
  using stream_id_taken_over [of "wf_request\<lparr> eStreamID := ''s1'' \<rparr>" "''rt-y''" taken_stream
      "\<lparr> srStreamID = ''s1'', srConsumerRuntime = ''rt-x'', srExternalIdentity = [],
         srProviderRuntime = ''rt-b'', srRequestID = ''m9'', srExternal = None \<rparr>"
      "new_provider wf_plugin ''rt-a'' (sample_cap ''stateless'' ''wf'')" "''y''" True None "[]" 1]
  by (simp add: Let_def taken_stream_def new_provider_def)

end
