(* ===== verification/EventLog.thy ===== *)
theory EventLog
  imports Prelude
begin

text \<open>
  The append-only JSON-lines log every plugin store keeps (\<open>Load\<close> and \<open>append\<close>, the same code
  in \<open>plugins/work-registry\<close>, \<open>workspace\<close>, \<open>artifact\<close>, \<open>session\<close>, \<open>review\<close>, \<open>tool-runner\<close> and
  \<open>agent-harness\<close>): state is only changed by applying a record that was written before.

  A file is the list of its newline-terminated lines and the unterminated rest, if any. A line
  is blank, does not parse, or is a record; what its \<open>data\<close> decodes to is the type parameter.
  The locale \<open>event_log\<close> is the contract between the log and a store: the store's operations
  write only records that are legal in the current state, and applying a legal record succeeds
  and keeps the store's invariant.
\<close>

record 'd logRecord =
  lrSeq :: int
  lrTS :: string
  lrData :: 'd

datatype 'd log_line = Blank | Garbage | Rec "'d logRecord"

record 'd log_file =
  lfLines :: "'d log_line list"
  lfTail :: "'d log_line option"

record ('d, 's) log_store =
  lsFile :: "'d log_file"
  lsState :: 's
  lsSeq :: int

definition empty_file :: "'d log_file" where
  "empty_file = \<lparr> lfLines = [], lfTail = None \<rparr>"

section \<open>Load\<close>

datatype 'e load_log_error = LineUnparsed nat | LineRejected nat 'e

fun load_lines ::
  "('d \<Rightarrow> 's \<Rightarrow> ('e, 's) result) \<Rightarrow> bool \<Rightarrow> nat \<Rightarrow> 'd log_line list \<Rightarrow> 's \<Rightarrow> int
   \<Rightarrow> ('e load_log_error, 's \<times> int) result" where
  "load_lines apl unterminated i [] s seq = Ok (s, seq)"
| "load_lines apl unterminated i (Blank # ls) s seq = load_lines apl unterminated (Suc i) ls s seq"
| "load_lines apl unterminated i (Garbage # ls) s seq =
     (if unterminated \<and> list_all (\<lambda>l. l = Blank) ls then Ok (s, seq) else Err (LineUnparsed (Suc i)))"
| "load_lines apl unterminated i (Rec r # ls) s seq =
     (case apl (lrData r) s of
        Inl e \<Rightarrow> Err (LineRejected (Suc i) e)
      | Inr s' \<Rightarrow> load_lines apl unterminated (Suc i) ls s' (if lrSeq r > seq then lrSeq r else seq))"

definition file_lines :: "'d log_file \<Rightarrow> 'd log_line list" where
  "file_lines f = lfLines f @ (case lfTail f of None \<Rightarrow> [] | Some t \<Rightarrow> [t])"

definition load_log ::
  "('d \<Rightarrow> 's \<Rightarrow> ('e, 's) result) \<Rightarrow> 's \<Rightarrow> 'd log_file \<Rightarrow> ('e load_log_error, ('d, 's) log_store) result" where
  "load_log apl s0 f =
     (case load_lines apl (lfTail f \<noteq> None) 0 (file_lines f) s0 0 of
        Inl e \<Rightarrow> Err e
      | Inr (s, seq) \<Rightarrow> Ok \<lparr> lsFile = f, lsState = s, lsSeq = seq \<rparr>)"

section \<open>Append\<close>

text \<open>
  What the operating system makes of the open, the write, the sync and the close: all well;
  nothing written; a proper part of the line written; all but the newline; or the whole line
  written and the sync or close failing.
\<close>

datatype write_outcome = Written | NothingWritten | PartWritten | NewlineMissing | NotSynced

text \<open>
  A line appended to an unterminated rest makes one line of both; it parses only if the rest
  was blank.
\<close>

definition merge_line :: "'d log_line option \<Rightarrow> 'd log_line \<Rightarrow> 'd log_line" where
  "merge_line rest l = (case rest of None \<Rightarrow> l | Some t \<Rightarrow> if t = Blank then l else Garbage)"

definition write_line :: "write_outcome \<Rightarrow> 'd logRecord \<Rightarrow> 'd log_file \<Rightarrow> 'd log_file" where
  "write_line w r f =
     (let whole = \<lparr> lfLines = lfLines f @ [merge_line (lfTail f) (Rec r)], lfTail = None \<rparr>
      in case w of
           Written \<Rightarrow> whole
         | NotSynced \<Rightarrow> whole
         | NothingWritten \<Rightarrow> f
         | PartWritten \<Rightarrow> f\<lparr> lfTail := Some Garbage \<rparr>
         | NewlineMissing \<Rightarrow> f\<lparr> lfTail := Some (merge_line (lfTail f) (Rec r)) \<rparr>)"

datatype 'e append_error = WriteFailed | StoreError 'e

definition append_log ::
  "('d \<Rightarrow> 's \<Rightarrow> ('e, 's) result) \<Rightarrow> write_outcome \<Rightarrow> string \<Rightarrow> 'd \<Rightarrow> ('d, 's) log_store
   \<Rightarrow> ('e append_error, unit) result \<times> ('d, 's) log_store" where
  "append_log apl w ts d ls =
     (let r = \<lparr> lrSeq = lsSeq ls + 1, lrTS = ts, lrData = d \<rparr>;
          ls1 = ls\<lparr> lsFile := write_line w r (lsFile ls) \<rparr>
      in if w \<noteq> Written then (Err WriteFailed, ls1)
         else (case apl d (lsState ls) of
                 Inl e \<Rightarrow> (Err (StoreError e), ls1)
               | Inr s' \<Rightarrow> (Ok (), ls1\<lparr> lsState := s', lsSeq := lrSeq r \<rparr>)))"

definition fresh_store :: "'s \<Rightarrow> ('d, 's) log_store" where
  "fresh_store s0 = \<lparr> lsFile = empty_file, lsState = s0, lsSeq = 0 \<rparr>"

section \<open>Replay\<close>

lemma load_lines_append:
  assumes "load_lines apl u i ls s seq = Ok (s', seq')" and "Garbage \<notin> set ls"
  shows "load_lines apl v i (ls @ ms) s seq = load_lines apl v (i + length ls) ms s' seq'"
  using assms
  by (induction apl u i ls s seq rule: load_lines.induct) (auto split: sum.splits)

lemma load_lines_unterminated:
  assumes "load_lines apl False i ls s seq = Ok x"
  shows "Garbage \<notin> set ls" "load_lines apl u i ls s seq = Ok x"
  using assms by (induction apl "False" i ls s seq rule: load_lines.induct) (auto split: sum.splits)

text \<open>The store is in step with its file: replaying the file gives the store.\<close>

definition in_step :: "('d \<Rightarrow> 's \<Rightarrow> ('e, 's) result) \<Rightarrow> 's \<Rightarrow> ('d, 's) log_store \<Rightarrow> bool" where
  "in_step apl s0 ls \<longleftrightarrow> lfTail (lsFile ls) = None \<and> load_log apl s0 (lsFile ls) = Ok ls"

lemma in_step_lines:
  "in_step apl s0 ls \<longleftrightarrow> lfTail (lsFile ls) = None
     \<and> load_lines apl False 0 (lfLines (lsFile ls)) s0 0 = Ok (lsState ls, lsSeq ls)"
  by (cases ls) (auto simp: in_step_def load_log_def file_lines_def split: sum.splits prod.splits)

lemma in_step_load:
  "in_step apl s0 ls \<Longrightarrow> load_log apl s0 (lsFile ls) = Ok ls"
  by (simp add: in_step_def)

lemma in_step_fresh: "in_step apl s0 (fresh_store s0)"
  by (simp add: in_step_lines fresh_store_def empty_file_def)

lemma in_step_append:
  assumes "in_step apl s0 ls" and "apl d (lsState ls) = Ok s'"
  shows "append_log apl Written ts d ls =
      (Ok (), \<lparr> lsFile = \<lparr> lfLines = lfLines (lsFile ls)
                            @ [Rec \<lparr> lrSeq = lsSeq ls + 1, lrTS = ts, lrData = d \<rparr>], lfTail = None \<rparr>,
                lsState = s', lsSeq = lsSeq ls + 1 \<rparr>)"
    and "in_step apl s0 (snd (append_log apl Written ts d ls))"
proof -
  have t: "lfTail (lsFile ls) = None"
    and l: "load_lines apl False 0 (lfLines (lsFile ls)) s0 0 = Ok (lsState ls, lsSeq ls)"
    using assms(1) by (auto simp: in_step_lines)
  show eq: "append_log apl Written ts d ls =
      (Ok (), \<lparr> lsFile = \<lparr> lfLines = lfLines (lsFile ls)
                            @ [Rec \<lparr> lrSeq = lsSeq ls + 1, lrTS = ts, lrData = d \<rparr>], lfTail = None \<rparr>,
                lsState = s', lsSeq = lsSeq ls + 1 \<rparr>)"
    using t assms(2) by (simp add: append_log_def write_line_def merge_line_def Let_def)
  show "in_step apl s0 (snd (append_log apl Written ts d ls))"
    unfolding eq
    using load_lines_append [OF l load_lines_unterminated(1) [OF l], of False] assms(2)
    by (simp add: in_step_lines)
qed

text \<open>
  A write that does not return normally leaves a file that loads: to the store before, or,
  when the whole record reached the file, to the store after.
\<close>

lemma crash_recovers:
  assumes st: "in_step apl s0 ls" and ok: "apl d (lsState ls) = Ok s'"
    and f': "f' = lsFile (snd (append_log apl w ts d ls))"
  shows "\<exists>ls'. load_log apl s0 f' = Ok ls'
     \<and> (lsState ls', lsSeq ls') =
         (if w = NothingWritten \<or> w = PartWritten then (lsState ls, lsSeq ls) else (s', lsSeq ls + 1))"
proof -
  have t: "lfTail (lsFile ls) = None"
    and l: "load_lines apl False 0 (lfLines (lsFile ls)) s0 0 = Ok (lsState ls, lsSeq ls)"
    using st by (auto simp: in_step_lines)
  note more = load_lines_append [OF l load_lines_unterminated(1) [OF l]]
  show ?thesis
    using f' t ok l more
    by (cases w)
       (simp_all add: append_log_def write_line_def merge_line_def Let_def load_log_def file_lines_def)
qed

text \<open>
  The next record written after a torn one runs into it: from then on the file does not load.
\<close>

lemma torn_then_written:
  assumes "lfTail (lsFile ls) = None"
  shows "load_log apl s0 (lsFile (snd (append_log apl Written ts2 d2
           (snd (append_log apl PartWritten ts1 d1 ls))))) =
         (case load_lines apl False 0 (lfLines (lsFile ls)) s0 0 of
            Inl e \<Rightarrow> Err e
          | Inr _ \<Rightarrow> Err (LineUnparsed (Suc (length (lfLines (lsFile ls))))))"
proof -
  let ?ls = "lfLines (lsFile ls)"
  have f: "lsFile (snd (append_log apl Written ts2 d2 (snd (append_log apl PartWritten ts1 d1 ls)))) =
      \<lparr> lfLines = ?ls @ [Garbage], lfTail = None \<rparr>"
    by (simp add: append_log_def write_line_def merge_line_def Let_def split: sum.split)
  have "load_lines apl False i (ls @ [Garbage]) s seq =
      (case load_lines apl False i ls s seq of
         Inl e \<Rightarrow> Err e | Inr _ \<Rightarrow> Err (LineUnparsed (Suc (i + length ls))))" for i ls s seq
    by (induction apl "False" i ls s seq rule: load_lines.induct) (auto split: sum.splits)
  then show ?thesis
    unfolding f load_log_def by (simp add: file_lines_def split: sum.splits)
qed

section \<open>The contract of a store\<close>

definition good_store ::
  "('d \<Rightarrow> 's \<Rightarrow> ('e, 's) result) \<Rightarrow> 's \<Rightarrow> ('s \<Rightarrow> bool) \<Rightarrow> ('d, 's) log_store \<Rightarrow> bool" where
  "good_store apl s0 P ls \<longleftrightarrow> in_step apl s0 ls \<and> P (lsState ls)"

text \<open>
  What a store's operation may do: nothing, or write one legal record, with whatever the disk
  makes of it.
\<close>

definition writes_legal ::
  "('d \<Rightarrow> 's \<Rightarrow> ('e, 's) result) \<Rightarrow> ('s \<Rightarrow> 'd \<Rightarrow> bool) \<Rightarrow> write_outcome
   \<Rightarrow> ('d, 's) log_store \<Rightarrow> ('d, 's) log_store \<Rightarrow> bool" where
  "writes_legal apl lgl w ls ls' \<longleftrightarrow>
     ls' = ls \<or> (\<exists>ts d. lgl (lsState ls) d \<and> ls' = snd (append_log apl w ts d ls))"

lemma writes_legal_same [simp]: "writes_legal apl lgl w ls ls"
  by (simp add: writes_legal_def)

lemma writes_legal_append:
  "append_log apl w ts d ls = (x, ls') \<Longrightarrow> lgl (lsState ls) d \<Longrightarrow> writes_legal apl lgl w ls ls'"
  by (metis snd_conv writes_legal_def)

locale event_log =
  fixes apl :: "'d \<Rightarrow> 's \<Rightarrow> ('e, 's) result" and s0 :: 's
    and inv :: "'s \<Rightarrow> bool" and legal :: "'s \<Rightarrow> 'd \<Rightarrow> bool"
  assumes inv_init: "inv s0"
    and legal_applies: "inv s \<Longrightarrow> legal s d \<Longrightarrow> \<exists>s'. apl d s = Inr s' \<and> inv s'"
begin

lemma good_fresh: "good_store apl s0 inv (fresh_store s0)"
  by (simp add: good_store_def in_step_fresh fresh_store_def inv_init in_step_fresh [unfolded fresh_store_def])

lemma good_inv: "good_store apl s0 inv ls \<Longrightarrow> inv (lsState ls)"
  by (simp add: good_store_def)

lemma good_load: "good_store apl s0 inv ls \<Longrightarrow> load_log apl s0 (lsFile ls) = Inr ls"
  by (simp add: good_store_def in_step_def)

lemma append_legal:
  assumes "good_store apl s0 inv ls" and "legal (lsState ls) d"
  obtains s' ls' where "apl d (lsState ls) = Inr s'" "inv s'"
    "append_log apl Written ts d ls = (Inr (), ls')" "lsState ls' = s'" "lsSeq ls' = lsSeq ls + 1"
    "good_store apl s0 inv ls'"
proof -
  obtain s' where s': "apl d (lsState ls) = Inr s'" "inv s'"
    using legal_applies assms by (auto simp: good_store_def)
  have st: "in_step apl s0 ls" using assms(1) by (simp add: good_store_def)
  note ap = in_step_append [OF st s'(1), of ts]
  show thesis
    using that [OF s' ap(1)] ap(2) s'(2) by (simp add: good_store_def ap(1))
qed

lemma append_fails:
  assumes "w \<noteq> Written"
  shows "fst (append_log apl w ts d ls) = Inl WriteFailed"
    "lsState (snd (append_log apl w ts d ls)) = lsState ls"
    "lsSeq (snd (append_log apl w ts d ls)) = lsSeq ls"
  using assms by (simp_all add: append_log_def Let_def)

lemma append_nothing:
  "append_log apl NothingWritten ts d ls = (Inl WriteFailed, ls)"
  by (cases ls) (simp add: append_log_def write_line_def Let_def)

lemma recover:
  assumes "good_store apl s0 inv ls" and "legal (lsState ls) d"
  obtains ls' s' where "load_log apl s0 (lsFile (snd (append_log apl w ts d ls))) = Inr ls'"
    "apl d (lsState ls) = Inr s'" "inv (lsState ls')"
    "(lsState ls', lsSeq ls') =
       (if w = NothingWritten \<or> w = PartWritten then (lsState ls, lsSeq ls) else (s', lsSeq ls + 1))"
proof -
  obtain s' where s': "apl d (lsState ls) = Inr s'" "inv s'"
    using legal_applies assms by (auto simp: good_store_def)
  have st: "in_step apl s0 ls" using assms(1) by (simp add: good_store_def)
  obtain ls' where l: "load_log apl s0 (lsFile (snd (append_log apl w ts d ls))) = Inr ls'"
    "(lsState ls', lsSeq ls') =
       (if w = NothingWritten \<or> w = PartWritten then (lsState ls, lsSeq ls) else (s', lsSeq ls + 1))"
    using crash_recovers [OF st s'(1) refl] by blast
  moreover have "inv (lsState ls')"
    using l(2) s'(2) good_inv [OF assms(1)] by (auto split: if_splits)
  ultimately show thesis using that s'(1) by blast
qed

lemma op_good:
  assumes "good_store apl s0 inv ls" and "writes_legal apl legal Written ls ls'"
  shows "good_store apl s0 inv ls'"
  using assms(2) unfolding writes_legal_def
proof (elim disjE exE conjE)
  fix ts d
  assume "legal (lsState ls) d" and ls': "ls' = snd (append_log apl Written ts d ls)"
  from append_legal [OF assms(1) this(1), of ts] show ?thesis using ls' by (metis snd_conv)
qed (use assms(1) in simp)

text \<open>
  Whatever the disk does to the one write of an operation: memory moves only when the write
  succeeded, and the file loads, to the store before the operation or to the one after it.
\<close>

lemma op_recovers:
  assumes "good_store apl s0 inv ls" and "writes_legal apl legal w ls ls'"
  shows "\<exists>ls2. load_log apl s0 (lsFile ls') = Inr ls2 \<and> inv (lsState ls2)
     \<and> (w = Written \<or> lsState ls' = lsState ls)
     \<and> (lsState ls2 = lsState ls \<or> (\<exists>d. legal (lsState ls) d \<and> apl d (lsState ls) = Inr (lsState ls2)))"
  using assms(2) unfolding writes_legal_def
proof (elim disjE exE conjE)
  assume "ls' = ls"
  then show ?thesis using good_load [OF assms(1)] good_inv [OF assms(1)] by auto
next
  fix ts d
  assume l: "legal (lsState ls) d" and ls': "ls' = snd (append_log apl w ts d ls)"
  obtain ls2 s' where r: "load_log apl s0 (lsFile ls') = Inr ls2" "apl d (lsState ls) = Inr s'"
    "inv (lsState ls2)"
    "(lsState ls2, lsSeq ls2) =
       (if w = NothingWritten \<or> w = PartWritten then (lsState ls, lsSeq ls) else (s', lsSeq ls + 1))"
    using recover [OF assms(1) l, of w ts] ls' by metis
  have "w = Written \<or> lsState ls' = lsState ls"
    using append_fails(2) ls' by blast
  moreover have "lsState ls2 = lsState ls \<or> lsState ls2 = s'"
    using r(4) by (auto split: if_splits)
  ultimately show ?thesis using r l by blast
qed

text \<open>The invariant of memory does not depend on the state of the file.\<close>

lemma op_keeps_inv:
  assumes "inv (lsState ls)" and "writes_legal apl legal w ls ls'"
  shows "inv (lsState ls')"
  using assms(2) unfolding writes_legal_def
proof (elim disjE exE conjE)
  fix ts d
  assume "legal (lsState ls) d" and ls': "ls' = snd (append_log apl w ts d ls)"
  then obtain s' where "apl d (lsState ls) = Inr s'" "inv s'"
    using legal_applies assms(1) by blast
  then show ?thesis using ls' assms(1) by (simp add: append_log_def Let_def)
qed (use assms(1) in simp)

end

end
