(* ===== verification/StoreHandler.thy ===== *)
theory StoreHandler
  imports EventLog Fencing
begin

text \<open>
  What the stores' handlers share: the environment of one request (the plugin's fence settings
  and the lease files, the clock, read once per request, and what the disk does), protocol errors,
  and how a mutation runs under the write fence. A handler's payload is what \<open>json.Unmarshal\<close> makes of it, None for an
  error. How an error is rendered into a message is the argument \<open>render\<close>.
\<close>

record store_env =
  seFence :: fence_env
  seFences :: fences
  seWrite :: write_outcome
  seNow :: string

type_synonym 'a reply = "(Error, 'a) result"

definition proto_error :: "string \<Rightarrow> string \<Rightarrow> Error" where
  "proto_error code msg = \<lparr> errCode = code, errMessage = msg, errRetryable = False, errDetails = [] \<rparr>"

definition io_error :: "string \<Rightarrow> Error" where
  "io_error msg = \<lparr> errCode = ''IO'', errMessage = msg, errRetryable = True, errDetails = [] \<rparr>"

definition fenced ::
  "store_env \<Rightarrow> 'p Envelope \<Rightarrow> ('s \<Rightarrow> ('e, 'a) result \<times> 's) \<Rightarrow> 's \<Rightarrow> ('e write_error, 'a) result \<times> 's" where
  "fenced env e fn s = WithWriteFence (seFence env) (seFences env) e fn s"

lemma fenced_changed:
  "snd (fenced env e fn s) \<noteq> s \<Longrightarrow> check_fence (seFence env) (seFences env) e = None"
  unfolding fenced_def by (rule WithWriteFence_changed)

lemma fenced_Ok:
  "fenced env e fn s = (Inr a, s') \<longleftrightarrow>
     check_fence (seFence env) (seFences env) e = None \<and> fn s = (Inr a, s')"
  by (simp add: fenced_def WithWriteFence_Ok)

lemma fenced_state:
  "snd (fenced env e fn s) = (if check_fence (seFence env) (seFences env) e = None then snd (fn s) else s)"
  by (auto simp: fenced_def WithWriteFence_def split: option.split sum.split prod.split)

text \<open>The request presents the lease on disk.\<close>

definition good_fence :: "store_env \<Rightarrow> 'p Envelope \<Rightarrow> bool" where
  "good_fence env e \<longleftrightarrow> check_fence (seFence env) (seFences env) e = None"

lemma reply_state [simp]:
  "snd (case p of (Inl er, s') \<Rightarrow> (f er, s') | (Inr x, s') \<Rightarrow> (g x, s')) = snd p"
  by (cases p) (simp split: sum.split)

lemma writes_legal_fenced [inv_intros]:
  "writes_legal apl lgl w s (snd (fn s)) \<Longrightarrow> writes_legal apl lgl w s (snd (fenced env e fn s))"
  by (simp add: fenced_state)

end
