(* ===== verification/WorkStore.thy ===== *)
theory WorkStore
  imports StoreHandler
begin

text \<open>
  The work registry (\<open>plugins/work-registry/store.go\<close>, \<open>handlers.go\<close>): tasks, their work
  contexts and the evidence attached to them, with idempotent creation, the status machine
  PLANNED, IN_PROGRESS, IN_REVIEW, DONE with FAILED from any open status, and optimistic
  versions. Statuses are Go strings.
\<close>

record AcceptanceCriterion =
  acID :: string
  acText :: string

record EvidenceRef =
  evID :: string
  evKind :: string
  evSourceCapability :: string
  evSourceID :: string
  evOutcome :: string
  evObservedAt :: string
  evContentHash :: string
  evInvalidatedAt :: "string option"

record Task =
  tkID :: string
  tkTitle :: string
  tkGoal :: string
  tkScope :: string
  tkAcceptance :: "AcceptanceCriterion list"
  tkStatus :: string
  tkVersion :: int
  tkWorkContextID :: string

record WorkContext =
  wcID :: string
  wcTaskID :: string
  wcRepo :: string
  wcActiveWorkspaceRef :: "string option"
  wcEvidenceRefs :: "EvidenceRef list"
  wcVersion :: int

record CreateInput =
  ciTitle :: string
  ciGoal :: string
  ciScope :: string
  ciRepo :: string
  ciAcceptance :: "AcceptanceCriterion list"
  ciIdempotencyKey :: string

record work_state =
  wsTasks :: "string \<rightharpoonup> Task"
  wsContexts :: "string \<rightharpoonup> WorkContext"
  wsTaskByWC :: "string \<rightharpoonup> string"
  wsIdem :: "string \<rightharpoonup> string"

text \<open>What the \<open>op\<close> and \<open>data\<close> of a log record decode to.\<close>

datatype work_data =
    TaskCreated Task WorkContext string
  | WorkTransitioned string string string int
  | EvidenceAttached string EvidenceRef
  | WorkBadData string
  | WorkUnknownOp string

datatype work_error =
    WorkNotFound
  | WorkConflict
  | IllegalTransition
  | WorkDataError string
  | UnknownWorkOp string
  | NilTask

type_synonym work_store = "(work_data, work_state) log_store"

definition work_init :: work_state where
  "work_init = \<lparr> wsTasks = Map.empty, wsContexts = Map.empty, wsTaskByWC = Map.empty, wsIdem = Map.empty \<rparr>"

fun work_apply :: "work_data \<Rightarrow> work_state \<Rightarrow> (work_error, work_state) result" where
  "work_apply (TaskCreated task wc idem) s =
     Ok (s\<lparr> wsTasks := (wsTasks s)(tkID task \<mapsto> task),
            wsContexts := (wsContexts s)(wcID wc \<mapsto> wc),
            wsTaskByWC := (wsTaskByWC s)(wcID wc \<mapsto> tkID task),
            wsIdem := (if idem \<noteq> [] then (wsIdem s)(idem \<mapsto> tkID task) else wsIdem s) \<rparr>)"
| "work_apply (WorkTransitioned wc from to version) s =
     (case wsTaskByWC s wc of
        None \<Rightarrow> Err WorkNotFound
      | Some taskID \<Rightarrow>
          (case wsTasks s taskID of
             None \<Rightarrow> Err NilTask
           | Some task \<Rightarrow>
               Ok (s\<lparr> wsTasks := (wsTasks s)(taskID \<mapsto> task\<lparr> tkStatus := to, tkVersion := version \<rparr>) \<rparr>)))"
| "work_apply (EvidenceAttached wc ev) s =
     (case wsContexts s wc of
        None \<Rightarrow> Err WorkNotFound
      | Some c \<Rightarrow>
          Ok (s\<lparr> wsContexts := (wsContexts s)(wc \<mapsto>
                  c\<lparr> wcEvidenceRefs := wcEvidenceRefs c @ [ev], wcVersion := wcVersion c + 1 \<rparr>) \<rparr>))"
| "work_apply (WorkBadData op) s = Err (WorkDataError op)"
| "work_apply (WorkUnknownOp op) s = Err (UnknownWorkOp op)"

definition work_Load :: "work_data log_file \<Rightarrow> (work_error load_log_error, work_store) result" where
  "work_Load f = load_log work_apply work_init f"

definition work_append ::
  "write_outcome \<Rightarrow> string \<Rightarrow> work_data \<Rightarrow> work_store \<Rightarrow> (work_error append_error, unit) result \<times> work_store" where
  "work_append = append_log work_apply"

section \<open>Operations\<close>

text \<open>\<open>CreateTask\<close>; the two fresh identifiers and the disk are arguments.\<close>

definition new_task :: "CreateInput \<Rightarrow> string \<Rightarrow> string \<Rightarrow> Task" where
  "new_task i taskID ctxID =
     \<lparr> tkID = taskID, tkTitle = ciTitle i, tkGoal = ciGoal i, tkScope = ciScope i,
       tkAcceptance = ciAcceptance i, tkStatus = ''PLANNED'', tkVersion = 1, tkWorkContextID = ctxID \<rparr>"

definition new_context :: "CreateInput \<Rightarrow> string \<Rightarrow> string \<Rightarrow> WorkContext" where
  "new_context i taskID ctxID =
     \<lparr> wcID = ctxID, wcTaskID = taskID, wcRepo = ciRepo i, wcActiveWorkspaceRef = None,
       wcEvidenceRefs = [], wcVersion = 1 \<rparr>"

definition CreateTask ::
  "write_outcome \<Rightarrow> string \<Rightarrow> string \<Rightarrow> string \<Rightarrow> CreateInput \<Rightarrow> work_store
   \<Rightarrow> (work_error append_error, Task option \<times> WorkContext option \<times> bool) result \<times> work_store" where
  "CreateTask w now taskID ctxID i s =
     (let replayed = (if ciIdempotencyKey i \<noteq> [] then wsIdem (lsState s) (ciIdempotencyKey i) else None)
      in case replayed of
           Some tid \<Rightarrow>
             (case wsTasks (lsState s) tid of
                None \<Rightarrow> (Err (StoreError NilTask), s)
              | Some t \<Rightarrow> (Ok (Some t, wsContexts (lsState s) (tkWorkContextID t), True), s))
         | None \<Rightarrow>
             (case work_append w now
                     (TaskCreated (new_task i taskID ctxID) (new_context i taskID ctxID) (ciIdempotencyKey i)) s of
                (Inl e, s') \<Rightarrow> (Err e, s')
              | (Inr _, s') \<Rightarrow>
                  (Ok (wsTasks (lsState s') taskID, wsContexts (lsState s') ctxID, False), s')))"

definition legalTransition :: "string \<Rightarrow> string \<Rightarrow> bool" where
  "legalTransition from to =
     (if to = ''FAILED'' \<and> from \<noteq> ''DONE'' \<and> from \<noteq> ''FAILED'' then True
      else (from = ''PLANNED'' \<and> to = ''IN_PROGRESS'')
           \<or> (from = ''IN_PROGRESS'' \<and> to = ''IN_REVIEW'')
           \<or> (from = ''IN_REVIEW'' \<and> to = ''DONE''))"

definition work_Transition ::
  "write_outcome \<Rightarrow> string \<Rightarrow> string \<Rightarrow> string \<Rightarrow> int \<Rightarrow> work_store
   \<Rightarrow> (work_error append_error, Task option \<times> WorkContext option) result \<times> work_store" where
  "work_Transition w now ctxID to expectedVersion s =
     (case wsTaskByWC (lsState s) ctxID of
        None \<Rightarrow> (Err (StoreError WorkNotFound), s)
      | Some taskID \<Rightarrow>
     (case wsTasks (lsState s) taskID of
        None \<Rightarrow> (Err (StoreError NilTask), s)
      | Some task \<Rightarrow>
          if tkVersion task \<noteq> expectedVersion then (Err (StoreError WorkConflict), s)
          else if \<not> legalTransition (tkStatus task) to then (Err (StoreError IllegalTransition), s)
          else (case work_append w now (WorkTransitioned ctxID (tkStatus task) to (tkVersion task + 1)) s of
                  (Inl e, s') \<Rightarrow> (Err e, s')
                | (Inr _, s') \<Rightarrow> (Ok (wsTasks (lsState s') taskID, wsContexts (lsState s') ctxID), s'))))"

definition AttachEvidence ::
  "write_outcome \<Rightarrow> string \<Rightarrow> string \<Rightarrow> string \<Rightarrow> EvidenceRef \<Rightarrow> int \<Rightarrow> work_store
   \<Rightarrow> (work_error append_error, EvidenceRef \<times> WorkContext option) result \<times> work_store" where
  "AttachEvidence w now evidenceID ctxID ev expectedVersion s =
     (case wsContexts (lsState s) ctxID of
        None \<Rightarrow> (Err (StoreError WorkNotFound), s)
      | Some wc \<Rightarrow>
          if wcVersion wc \<noteq> expectedVersion then (Err (StoreError WorkConflict), s)
          else
            let ev1 = ev\<lparr> evID := evidenceID, evObservedAt := now, evInvalidatedAt := None \<rparr>
            in case work_append w now (EvidenceAttached ctxID ev1) s of
                 (Inl e, s') \<Rightarrow> (Err e, s')
               | (Inr _, s') \<Rightarrow> (Ok (ev1, wsContexts (lsState s') ctxID), s'))"

definition GetByTask :: "work_state \<Rightarrow> string \<Rightarrow> (Task \<times> WorkContext option) option" where
  "GetByTask s taskID =
     (case wsTasks s taskID of
        None \<Rightarrow> None
      | Some task \<Rightarrow> Some (task, wsContexts s (tkWorkContextID task)))"

definition GetByContext :: "work_state \<Rightarrow> string \<Rightarrow> (Task option \<times> WorkContext option) option" where
  "GetByContext s ctxID =
     (case wsTaskByWC s ctxID of
        None \<Rightarrow> None
      | Some taskID \<Rightarrow> Some (wsTasks s taskID, wsContexts s ctxID))"

section \<open>Handlers\<close>

record createRequest =
  crTitle :: string
  crGoal :: string
  crScope :: string
  crRepo :: string
  crAcceptance :: "AcceptanceCriterion list"

record getRequest =
  grTaskID :: string
  grWorkContextID :: string

record transitionRequest =
  trWorkContextID :: string
  trTo :: string
  trExpectedVersion :: "int option"

record attachEvidenceRequest =
  arWorkContextID :: string
  arKind :: string
  arSourceCapability :: string
  arSourceID :: string
  arOutcome :: string
  arContentHash :: string
  arExpectedVersion :: "int option"

type_synonym work_render = "work_error append_error write_error \<Rightarrow> string"

definition createHandler ::
  "work_render \<Rightarrow> store_env \<Rightarrow> string \<Rightarrow> string \<Rightarrow> createRequest option Envelope \<Rightarrow> work_store
   \<Rightarrow> (Task option \<times> WorkContext option \<times> bool) reply \<times> work_store" where
  "createHandler render env taskID ctxID e s =
     (case ePayload e of
        None \<Rightarrow> (Err (proto_error ''INVALID'' ''title, goal and repo are required''), s)
      | Some q \<Rightarrow>
          if crTitle q = [] \<or> crGoal q = [] \<or> crRepo q = []
          then (Err (proto_error ''INVALID'' ''title, goal and repo are required''), s)
          else (case fenced env e (CreateTask (seWrite env) (seNow env) taskID ctxID
                       \<lparr> ciTitle = crTitle q, ciGoal = crGoal q, ciScope = crScope q, ciRepo = crRepo q,
                         ciAcceptance = crAcceptance q, ciIdempotencyKey = eIdempotencyKey e \<rparr>) s of
                  (Inl er, s') \<Rightarrow> (Err (io_error (render er)), s')
                | (Inr x, s') \<Rightarrow> (Ok x, s')))"

definition work_getHandler ::
  "getRequest option Envelope \<Rightarrow> work_state \<Rightarrow> (Task option \<times> WorkContext option) reply" where
  "work_getHandler e s =
     (case ePayload e of
        None \<Rightarrow> Err (proto_error ''INVALID'' ''bad request'')
      | Some q \<Rightarrow>
          if (grTaskID q = []) = (grWorkContextID q = [])
          then Err (proto_error ''INVALID'' ''exactly one of task_id or work_context_id is required'')
          else (case (if grTaskID q \<noteq> []
                      then map_option (\<lambda>(t, c). (Some t, c)) (GetByTask s (grTaskID q))
                      else GetByContext s (grWorkContextID q)) of
                  None \<Rightarrow> Err (proto_error ''NOT_FOUND'' ''work item not found'')
                | Some x \<Rightarrow> Ok x))"

definition transition_error :: "work_render \<Rightarrow> work_error append_error write_error \<Rightarrow> Error" where
  "transition_error render er =
     (case er of
        FnErr (StoreError WorkNotFound) \<Rightarrow> proto_error ''NOT_FOUND'' (render er)
      | FnErr (StoreError WorkConflict) \<Rightarrow> proto_error ''CONFLICT'' (render er)
      | FnErr (StoreError IllegalTransition) \<Rightarrow> proto_error ''ILLEGAL_TRANSITION'' (render er)
      | _ \<Rightarrow> io_error (render er))"

definition transitionHandler ::
  "work_render \<Rightarrow> store_env \<Rightarrow> transitionRequest option Envelope \<Rightarrow> work_store
   \<Rightarrow> (Task option \<times> WorkContext option) reply \<times> work_store" where
  "transitionHandler render env e s =
     (case ePayload e of
        None \<Rightarrow> (Err (proto_error ''INVALID'' ''bad request''), s)
      | Some q \<Rightarrow>
          let validStatus = (trTo q = ''IN_PROGRESS'' \<or> trTo q = ''IN_REVIEW'' \<or> trTo q = ''DONE'' \<or> trTo q = ''FAILED'')
          in if trWorkContextID q = [] \<or> \<not> validStatus \<or> trExpectedVersion q = None
             then (Err (proto_error ''INVALID''
                     ''work_context_id, valid to, and expected_version are required''), s)
             else (case fenced env e (work_Transition (seWrite env) (seNow env) (trWorkContextID q) (trTo q)
                          (the (trExpectedVersion q))) s of
                     (Inl er, s') \<Rightarrow> (Err (transition_error render er), s')
                   | (Inr x, s') \<Rightarrow> (Ok x, s')))"

definition attach_error :: "work_render \<Rightarrow> work_error append_error write_error \<Rightarrow> Error" where
  "attach_error render er =
     (case er of
        FnErr (StoreError WorkNotFound) \<Rightarrow> proto_error ''NOT_FOUND'' (render er)
      | FnErr (StoreError WorkConflict) \<Rightarrow> proto_error ''CONFLICT'' (render er)
      | _ \<Rightarrow> io_error (render er))"

definition attachEvidenceHandler ::
  "work_render \<Rightarrow> store_env \<Rightarrow> string \<Rightarrow> attachEvidenceRequest option Envelope \<Rightarrow> work_store
   \<Rightarrow> (EvidenceRef \<times> WorkContext option) reply \<times> work_store" where
  "attachEvidenceHandler render env evidenceID e s =
     (case ePayload e of
        None \<Rightarrow> (Err (proto_error ''INVALID'' ''bad request''), s)
      | Some q \<Rightarrow>
          let validKind = (arKind q = ''build'' \<or> arKind q = ''test'' \<or> arKind q = ''review'');
              validOutcome = (arOutcome q = ''PASS'' \<or> arOutcome q = ''FAIL'')
          in if arWorkContextID q = [] \<or> \<not> validKind \<or> arSourceCapability q = [] \<or> arSourceID q = []
                \<or> \<not> validOutcome \<or> arExpectedVersion q = None
             then (Err (proto_error ''INVALID''
                     ''work_context_id, kind, source_capability, source_id, outcome and expected_version are required''), s)
             else (case fenced env e (AttachEvidence (seWrite env) (seNow env) evidenceID (arWorkContextID q)
                          \<lparr> evID = [], evKind = arKind q, evSourceCapability = arSourceCapability q,
                            evSourceID = arSourceID q, evOutcome = arOutcome q, evObservedAt = [],
                            evContentHash = arContentHash q, evInvalidatedAt = None \<rparr>
                          (the (arExpectedVersion q))) s of
                     (Inl er, s') \<Rightarrow> (Err (attach_error render er), s')
                   | (Inr x, s') \<Rightarrow> (Ok x, s')))"

end
