(* ===== verification/WorkFacts.thy ===== *)
theory WorkFacts
  imports WorkStore FenceSamples
begin

text \<open>
  The work registry keeps the log's contract: every operation writes only legal records, which
  apply and keep the invariant. A task's version counts its transitions and so determines how
  far the status machine has gone; a context's version counts its evidence.
\<close>

section \<open>The invariant\<close>

definition status_at :: "string \<Rightarrow> int \<Rightarrow> bool" where
  "status_at st v \<longleftrightarrow>
     (st = ''PLANNED'' \<and> v = 1) \<or> (st = ''IN_PROGRESS'' \<and> v = 2) \<or> (st = ''IN_REVIEW'' \<and> v = 3)
     \<or> (st = ''DONE'' \<and> v = 4) \<or> (st = ''FAILED'' \<and> 2 \<le> v \<and> v \<le> 4)"

definition task_ok :: "work_state \<Rightarrow> string \<Rightarrow> Task \<Rightarrow> bool" where
  "task_ok s t task \<longleftrightarrow> tkID task = t \<and> status_at (tkStatus task) (tkVersion task)
     \<and> wsTaskByWC s (tkWorkContextID task) = Some t"

definition context_ok :: "work_state \<Rightarrow> string \<Rightarrow> WorkContext \<Rightarrow> bool" where
  "context_ok s c wc \<longleftrightarrow> wcID wc = c \<and> wcVersion wc = int (length (wcEvidenceRefs wc)) + 1
     \<and> wsTaskByWC s c = Some (wcTaskID wc)"

definition link_ok :: "work_state \<Rightarrow> string \<Rightarrow> string \<Rightarrow> bool" where
  "link_ok s c t \<longleftrightarrow> (\<exists>task. wsTasks s t = Some task \<and> tkWorkContextID task = c) \<and> wsContexts s c \<noteq> None"

definition work_inv :: "work_state \<Rightarrow> bool" where
  "work_inv s \<longleftrightarrow>
     (\<forall>t task. wsTasks s t = Some task \<longrightarrow> task_ok s t task)
     \<and> (\<forall>c wc. wsContexts s c = Some wc \<longrightarrow> context_ok s c wc)
     \<and> (\<forall>c t. wsTaskByWC s c = Some t \<longrightarrow> link_ok s c t)
     \<and> (\<forall>k t. wsIdem s k = Some t \<longrightarrow> wsTasks s t \<noteq> None)"

fun work_legal :: "work_state \<Rightarrow> work_data \<Rightarrow> bool" where
  "work_legal s (TaskCreated task wc idem) =
     (wsTasks s (tkID task) = None \<and> wsContexts s (wcID wc) = None
      \<and> tkStatus task = ''PLANNED'' \<and> tkVersion task = 1 \<and> tkWorkContextID task = wcID wc
      \<and> wcTaskID wc = tkID task \<and> wcEvidenceRefs wc = [] \<and> wcVersion wc = 1)"
| "work_legal s (WorkTransitioned c from to version) =
     (\<exists>t task. wsTaskByWC s c = Some t \<and> wsTasks s t = Some task \<and> from = tkStatus task
        \<and> legalTransition from to \<and> version = tkVersion task + 1)"
| "work_legal s (EvidenceAttached c ev) = (wsContexts s c \<noteq> None)"
| "work_legal s _ = False"

lemma work_invD:
  assumes "work_inv s"
  shows "wsTasks s t = Some task \<Longrightarrow> task_ok s t task"
    "wsContexts s c = Some wc \<Longrightarrow> context_ok s c wc"
    "wsTaskByWC s c = Some t \<Longrightarrow> link_ok s c t"
    "wsIdem s k = Some t \<Longrightarrow> wsTasks s t \<noteq> None"
  using assms unfolding work_inv_def by blast+

lemma work_inv_init: "work_inv work_init"
  by (simp add: work_inv_def work_init_def)

lemma status_at_step:
  "status_at from v \<Longrightarrow> legalTransition from to \<Longrightarrow> status_at to (v + 1)"
  unfolding status_at_def by (elim disjE conjE; simp add: legalTransition_def split: if_splits)

lemma work_inv_created:
  assumes inv: "work_inv s" and l: "work_legal s (TaskCreated task wc idem)"
    and s': "work_apply (TaskCreated task wc idem) s = Ok s'"
  shows "work_inv s'"
proof -
  have n: "wsTasks s (tkID task) = None" "wsContexts s (wcID wc) = None"
    and f: "tkStatus task = ''PLANNED''" "tkVersion task = 1" "tkWorkContextID task = wcID wc"
      "wcTaskID wc = tkID task" "wcEvidenceRefs wc = []" "wcVersion wc = 1"
    using l by auto
  have lnk: "wsTaskByWC s (wcID wc) = None"
    using work_invD(3) [OF inv, of "wcID wc"] n(2)
    by (cases "wsTaskByWC s (wcID wc)") (auto simp: link_ok_def)
  have S: "wsTasks s' = (wsTasks s)(tkID task \<mapsto> task)" "wsContexts s' = (wsContexts s)(wcID wc \<mapsto> wc)"
    "wsTaskByWC s' = (wsTaskByWC s)(wcID wc \<mapsto> tkID task)"
    "wsIdem s' = (if idem \<noteq> [] then (wsIdem s)(idem \<mapsto> tkID task) else wsIdem s)"
    using s' by auto
  show ?thesis
    unfolding work_inv_def
  proof (intro conjI allI impI)
    fix t u
    assume u: "wsTasks s' t = Some u"
    show "task_ok s' t u"
    proof (cases "t = tkID task")
      case False
      with u S have "task_ok s t u" using work_invD(1) [OF inv] by simp
      with S lnk show ?thesis by (auto simp: task_ok_def)
    qed (use u S f in \<open>auto simp: task_ok_def status_at_def\<close>)
  next
    fix c u
    assume u: "wsContexts s' c = Some u"
    show "context_ok s' c u"
    proof (cases "c = wcID wc")
      case False
      with u S have "context_ok s c u" using work_invD(2) [OF inv] by simp
      with S False show ?thesis by (auto simp: context_ok_def)
    qed (use u S f in \<open>auto simp: context_ok_def\<close>)
  next
    fix c t
    assume u: "wsTaskByWC s' c = Some t"
    show "link_ok s' c t"
    proof (cases "c = wcID wc")
      case False
      with u S have "link_ok s c t" using work_invD(3) [OF inv] by simp
      with S n show ?thesis by (auto simp: link_ok_def)
    qed (use u S f in \<open>auto simp: link_ok_def\<close>)
  next
    fix k t
    assume u: "wsIdem s' k = Some t"
    then show "wsTasks s' t \<noteq> None"
      using S work_invD(4) [OF inv, of k t] by (auto split: if_splits)
  qed
qed

lemma work_inv_transitioned:
  assumes inv: "work_inv s" and lnk: "wsTaskByWC s c = Some t" and t: "wsTasks s t = Some task"
    and leg: "legalTransition (tkStatus task) to"
  shows "work_inv (s\<lparr> wsTasks := (wsTasks s)(t \<mapsto> task\<lparr> tkStatus := to, tkVersion := tkVersion task + 1 \<rparr>) \<rparr>)"
    (is "work_inv ?s'")
  unfolding work_inv_def
proof (intro conjI allI impI)
  fix u v
  assume u: "wsTasks ?s' u = Some v"
  show "task_ok ?s' u v"
  proof (cases "u = t")
    case True
    with u work_invD(1) [OF inv t] status_at_step [OF _ leg] show ?thesis
      by (auto simp: task_ok_def)
  next
    case False
    with u have "task_ok s u v" using work_invD(1) [OF inv] by simp
    then show ?thesis by (simp add: task_ok_def)
  qed
next
  fix d u
  assume "wsContexts ?s' d = Some u"
  then have "context_ok s d u" using work_invD(2) [OF inv] by simp
  then show "context_ok ?s' d u" by (simp add: context_ok_def)
next
  fix d u
  assume "wsTaskByWC ?s' d = Some u"
  then have "link_ok s d u" using work_invD(3) [OF inv] by simp
  then show "link_ok ?s' d u" using t by (auto simp: link_ok_def)
next
  fix k u
  assume "wsIdem ?s' k = Some u"
  then show "wsTasks ?s' u \<noteq> None" using work_invD(4) [OF inv, of k u] by auto
qed

lemma work_inv_attached:
  assumes inv: "work_inv s" and c: "wsContexts s c = Some wc"
  shows "work_inv (s\<lparr> wsContexts := (wsContexts s)(c \<mapsto>
           wc\<lparr> wcEvidenceRefs := wcEvidenceRefs wc @ [ev], wcVersion := wcVersion wc + 1 \<rparr>) \<rparr>)"
    (is "work_inv ?s'")
  unfolding work_inv_def
proof (intro conjI allI impI)
  fix t u
  assume "wsTasks ?s' t = Some u"
  then have "task_ok s t u" using work_invD(1) [OF inv] by simp
  then show "task_ok ?s' t u" by (simp add: task_ok_def)
next
  fix d u
  assume u: "wsContexts ?s' d = Some u"
  show "context_ok ?s' d u"
  proof (cases "d = c")
    case True
    with u work_invD(2) [OF inv c] show ?thesis by (auto simp: context_ok_def)
  next
    case False
    with u have "context_ok s d u" using work_invD(2) [OF inv] by simp
    then show ?thesis by (simp add: context_ok_def)
  qed
next
  fix d t
  assume "wsTaskByWC ?s' d = Some t"
  then have "link_ok s d t" using work_invD(3) [OF inv] by simp
  then show "link_ok ?s' d t" by (auto simp: link_ok_def)
next
  fix k t
  assume "wsIdem ?s' k = Some t"
  then show "wsTasks ?s' t \<noteq> None" using work_invD(4) [OF inv, of k t] by simp
qed

interpretation work_log: event_log work_apply work_init work_inv work_legal
proof unfold_locales
  show "work_inv work_init" by (rule work_inv_init)
next
  fix s d
  assume inv: "work_inv s" and l: "work_legal s d"
  show "\<exists>s'. work_apply d s = Ok s' \<and> work_inv s'"
  proof (cases d)
    case (TaskCreated task wc idem)
    then show ?thesis using work_inv_created [OF inv] l by auto
  next
    case (WorkTransitioned c frm to version)
    with l work_inv_transitioned [OF inv] show ?thesis by auto
  next
    case (EvidenceAttached c ev)
    with l work_inv_attached [OF inv] show ?thesis by auto
  qed (use l in \<open>auto\<close>)
qed

section \<open>Every request leaves the store good\<close>

abbreviation work_good :: "work_store \<Rightarrow> bool" where
  "work_good \<equiv> good_store work_apply work_init work_inv"

abbreviation work_writes :: "write_outcome \<Rightarrow> work_store \<Rightarrow> work_store \<Rightarrow> bool" where
  "work_writes \<equiv> writes_legal work_apply work_legal"

definition fresh_ids :: "work_state \<Rightarrow> string \<Rightarrow> string \<Rightarrow> bool" where
  "fresh_ids s taskID ctxID \<longleftrightarrow> wsTasks s taskID = None \<and> wsContexts s ctxID = None"

lemma created_legal:
  "fresh_ids s taskID ctxID \<Longrightarrow>
   work_legal s (TaskCreated (new_task i taskID ctxID) (new_context i taskID ctxID) k)"
  by (simp add: fresh_ids_def new_task_def new_context_def)

lemma CreateTask_writes:
  "fresh_ids (lsState s) taskID ctxID \<Longrightarrow> work_writes w s (snd (CreateTask w now taskID ctxID i s))"
  unfolding CreateTask_def Let_def work_append_def
  by (auto split: option.splits sum.splits prod.splits intro: writes_legal_append created_legal
      simp del: work_legal.simps)

lemma Transition_writes: "work_writes w s (snd (work_Transition w now c to v s))"
  unfolding work_Transition_def Let_def work_append_def
  by (auto split: option.splits sum.splits prod.splits intro: writes_legal_append)

lemma AttachEvidence_writes: "work_writes w s (snd (AttachEvidence w now eid c ev v s))"
  unfolding AttachEvidence_def Let_def work_append_def
  by (auto split: option.splits sum.splits prod.splits intro: writes_legal_append)

lemma createHandler_writes:
  "fresh_ids (lsState s) taskID ctxID \<Longrightarrow>
   work_writes (seWrite env) s (snd (createHandler render env taskID ctxID e s))"
  by (simp add: createHandler_def writes_legal_fenced CreateTask_writes split: option.split)

lemma transitionHandler_writes: "work_writes (seWrite env) s (snd (transitionHandler render env e s))"
  by (simp add: transitionHandler_def Let_def writes_legal_fenced Transition_writes split: option.split)

lemma attachEvidenceHandler_writes:
  "work_writes (seWrite env) s (snd (attachEvidenceHandler render env eid e s))"
  by (simp add: attachEvidenceHandler_def Let_def writes_legal_fenced AttachEvidence_writes
      split: option.split)

section \<open>Properties\<close>


definition sample_store_env :: "write_outcome \<Rightarrow> store_env" where
  "sample_store_env w =
     \<lparr> seFence = sample_env ''rt-1'', seFences = sample_fences ''rt-1'' 1, seWrite = w, seNow = ''t'' \<rparr>"

definition sample_request :: "'p \<Rightarrow> 'p Envelope" where
  "sample_request p =
     (zero_envelope p)\<lparr> eService := ''work'', eAuthority := ''main'', eFencingEpoch := 1 \<rparr>"

lemma sample_request_accepted:
  "check_fence (seFence (sample_store_env w)) (seFences (sample_store_env w)) (sample_request p) = None"
  by (simp add: check_fence_def sample_store_env_def sample_env_def sample_fences_def sample_request_def
      sample_lease_def zero_envelope_def fence_base_def fence_safe_def safe_char_def)

definition sample_create :: "createRequest option Envelope" where
  "sample_create = sample_request (Some \<lparr> crTitle = ''T'', crGoal = ''G'', crScope = [], crRepo = ''r'',
     crAcceptance = [] \<rparr>)"

definition sample_created :: work_store where
  "sample_created =
     snd (createHandler (\<lambda>_. []) (sample_store_env Written) ''t1'' ''w1'' sample_create (fresh_store work_init))"

lemma work_good_fresh: "work_good (fresh_store work_init)"
  by (rule work_log.good_fresh)

lemma sample_created_good: "work_good sample_created"
proof -
  have "fresh_ids (lsState (fresh_store work_init)) ''t1'' ''w1''"
    by (simp add: fresh_ids_def fresh_store_def work_init_def)
  from createHandler_writes [OF this, of "sample_store_env Written"]
  have "work_writes Written (fresh_store work_init) sample_created"
    by (simp add: sample_created_def sample_store_env_def)
  with work_good_fresh show ?thesis by (rule work_log.op_good)
qed




text \<open>
  Creation with an idempotency key is idempotent: a second request with the key, whatever its
  other fields and fresh ids, returns the task the first one created and writes nothing.
\<close>

theorem create_idempotent:
  assumes "work_good s" and "fresh_ids (lsState s) taskID ctxID"
    and "ciIdempotencyKey i \<noteq> []" and "wsIdem (lsState s) (ciIdempotencyKey i) = None"
    and "ciIdempotencyKey j = ciIdempotencyKey i"
  shows "\<exists>s1. CreateTask Written now taskID ctxID i s =
        (Ok (Some (new_task i taskID ctxID), Some (new_context i taskID ctxID), False), s1)
     \<and> CreateTask w2 now2 taskID2 ctxID2 j s1 =
        (Ok (Some (new_task i taskID ctxID), Some (new_context i taskID ctxID), True), s1)"
proof -
  have st: "in_step work_apply work_init s" using assms(1) by (simp add: good_store_def)
  have ids: "tkID (new_task i taskID ctxID) = taskID" "wcID (new_context i taskID ctxID) = ctxID"
    "tkWorkContextID (new_task i taskID ctxID) = ctxID"
    by (simp_all add: new_task_def new_context_def)
  note a = in_step_append(1) [OF st work_apply.simps(1),
      of now "new_task i taskID ctxID" "new_context i taskID ctxID" "ciIdempotencyKey i"]
  show ?thesis
    using assms(3-5) ids by (auto simp: CreateTask_def Let_def work_append_def a)
qed

definition sample_input :: CreateInput where
  "sample_input = \<lparr> ciTitle = ''T'', ciGoal = ''G'', ciScope = [], ciRepo = ''r'', ciAcceptance = [],
     ciIdempotencyKey = ''k'' \<rparr>"

theorem create_idempotent_witness:
  "\<exists>s1. CreateTask NothingWritten ''now'' ''t9'' ''w9'' sample_input s1 =
     (Ok (Some (new_task sample_input ''t1'' ''w1''), Some (new_context sample_input ''t1'' ''w1''), True), s1)"
  using create_idempotent [OF work_good_fresh, of "''t1''" "''w1''" sample_input sample_input "''now''"
      NothingWritten "''now''" "''t9''" "''w9''"]
  by (auto simp: fresh_ids_def fresh_store_def work_init_def sample_input_def)

text \<open>
  No lost updates: of two requests that name the same version of a work context, the second
  gets a conflict and changes nothing, for transitions and for evidence.
\<close>

theorem versions_prevent_lost_updates:
  assumes "work_good s"
  shows "(case work_Transition Written now c to v s of
            (Inr _, s1) \<Rightarrow> work_Transition w2 now2 c to2 v s1 = (Err (StoreError WorkConflict), s1)
          | (Inl _, s1) \<Rightarrow> s1 = s)
    \<and> (case AttachEvidence Written now eid c ev v s of
         (Inr _, s1) \<Rightarrow> AttachEvidence w2 now2 eid2 c ev2 v s1 = (Err (StoreError WorkConflict), s1)
       | (Inl _, s1) \<Rightarrow> s1 = s)"
proof
  have inv: "work_inv (lsState s)" using work_log.good_inv [OF assms] .
  have st: "in_step work_apply work_init s" using assms(1) by (simp add: good_store_def)
  show "case work_Transition Written now c to v s of
            (Inr _, s1) \<Rightarrow> work_Transition w2 now2 c to2 v s1 = (Err (StoreError WorkConflict), s1)
          | (Inl _, s1) \<Rightarrow> s1 = s"
  proof (cases "wsTaskByWC (lsState s) c")
    case (Some t)
    obtain task where task: "wsTasks (lsState s) t = Some task"
      using work_invD(3) [OF inv Some] by (auto simp: link_ok_def)
    let ?st = "(lsState s)\<lparr> wsTasks := (wsTasks (lsState s))
            (t \<mapsto> task\<lparr> tkStatus := to, tkVersion := tkVersion task + 1 \<rparr>) \<rparr>"
    have "work_apply (WorkTransitioned c (tkStatus task) to (tkVersion task + 1)) (lsState s) = Ok ?st"
      by (simp add: Some task)
    note a = in_step_append(1) [OF st this, of now]
    show ?thesis
      using Some task a by (auto simp: work_Transition_def work_append_def)
  qed (simp add: work_Transition_def)
  show "case AttachEvidence Written now eid c ev v s of
         (Inr _, s1) \<Rightarrow> AttachEvidence w2 now2 eid2 c ev2 v s1 = (Err (StoreError WorkConflict), s1)
       | (Inl _, s1) \<Rightarrow> s1 = s"
  proof (cases "wsContexts (lsState s) c")
    case (Some wc)
    let ?ev = "ev\<lparr> evID := eid, evObservedAt := now, evInvalidatedAt := None \<rparr>"
    let ?st = "(lsState s)\<lparr> wsContexts := (wsContexts (lsState s))(c \<mapsto>
       wc\<lparr> wcEvidenceRefs := wcEvidenceRefs wc @ [?ev], wcVersion := wcVersion wc + 1 \<rparr>) \<rparr>"
    have "work_apply (EvidenceAttached c ?ev) (lsState s) = Ok ?st" by (simp add: Some)
    note a = in_step_append(1) [OF st this, of now]
    show ?thesis
      using Some a by (auto simp: AttachEvidence_def work_append_def Let_def)
  qed (simp add: AttachEvidence_def)
qed

definition sample_evidence :: EvidenceRef where
  "sample_evidence = \<lparr> evID = [], evKind = ''test'', evSourceCapability = ''tool.run'', evSourceID = ''r1'',
     evOutcome = ''PASS'', evObservedAt = [], evContentHash = [], evInvalidatedAt = None \<rparr>"

theorem versions_prevent_lost_updates_witness:
  "case AttachEvidence Written ''now'' ''e1'' ''w1'' sample_evidence 1 sample_created of
     (Inr _, s1) \<Rightarrow> AttachEvidence Written ''now'' ''e2'' ''w1'' sample_evidence 1 s1 = (Err (StoreError WorkConflict), s1)
   | (Inl _, s1) \<Rightarrow> s1 = sample_created"
  by (rule versions_prevent_lost_updates [OF sample_created_good, THEN conjunct2])

text \<open>
  A torn append is tolerated by the next load, but the record appended after it runs into the
  torn rest, so the load after that fails: the store keeps answering and never starts again.
\<close>

theorem torn_append_poisons_log:
  assumes "work_good s"
  shows "is_ok (work_Load (lsFile (snd (work_append PartWritten ts1 d1 s))))
    \<and> work_Load (lsFile (snd (work_append Written ts2 d2 (snd (work_append PartWritten ts1 d1 s))))) =
        Err (LineUnparsed (Suc (length (lfLines (lsFile s)))))"
proof -
  have t: "lfTail (lsFile s) = None"
    and l: "load_lines work_apply False 0 (lfLines (lsFile s)) work_init 0 = Ok (lsState s, lsSeq s)"
    using assms by (auto simp: good_store_def in_step_lines)
  have "lsFile (snd (work_append PartWritten ts1 d1 s)) = (lsFile s)\<lparr> lfTail := Some Garbage \<rparr>"
    by (simp add: work_append_def append_log_def write_line_def Let_def)
  then have "is_ok (work_Load (lsFile (snd (work_append PartWritten ts1 d1 s))))"
    using load_lines_append [OF l load_lines_unterminated(1) [OF l], of True "[Garbage]"]
    by (simp add: work_Load_def load_log_def file_lines_def)
  moreover note torn_then_written [OF t, of work_apply work_init ts2 d2 ts1 d1]
  ultimately show ?thesis using l by (simp add: work_Load_def work_append_def)
qed

theorem torn_append_poisons_log_witness:
  "work_Load (lsFile (snd (work_append Written ''t2'' (WorkUnknownOp [])
       (snd (work_append PartWritten ''t1'' (WorkUnknownOp []) (fresh_store work_init)))))) =
     Err (LineUnparsed 1)"
  using torn_append_poisons_log [OF work_good_fresh] by (simp add: fresh_store_def empty_file_def)

end
