(* ===== verification/WorkspaceStore.thy ===== *)
theory WorkspaceStore
  imports StoreHandler "HOL-Library.AList" "HOL-Library.Multiset"
begin

text \<open>
  The workspace plugin (\<open>plugins/workspace/store.go\<close>, \<open>handlers.go\<close>): git worktrees allocated
  to work contexts and released with a policy. Go's map of workspaces is iterated over, so it is
  an association list here; what no iteration order changes is proved. The git commands are the
  environment: what each answers is an argument, and the commands a request runs are recorded in
  order.
\<close>

record WorkspaceRef =
  wrID :: string
  wrWorkContextID :: string
  wrRepo :: string
  wrPath :: string
  wrBranch :: string
  wrBaseCommit :: string
  wrStatus :: string
  wrReleasePolicy :: string
  wrAllocatedAt :: string
  wrReleasedAt :: string

type_synonym workspace_state = "(string \<times> WorkspaceRef) list"

datatype workspace_data =
    WorkspaceAllocated WorkspaceRef
  | WorkspaceReleased string string string
  | WorkspaceBadData string
  | WorkspaceUnknownOp string

datatype workspace_error = WorkspaceNotFound | WorkspaceDataError string | UnknownWorkspaceOp string

type_synonym workspace_store = "(workspace_data, workspace_state) log_store"

fun workspace_apply :: "workspace_data \<Rightarrow> workspace_state \<Rightarrow> (workspace_error, workspace_state) result" where
  "workspace_apply (WorkspaceAllocated ref) s = Ok (AList.update (wrID ref) ref s)"
| "workspace_apply (WorkspaceReleased i policy releasedAt) s =
     (case map_of s i of
        None \<Rightarrow> Err WorkspaceNotFound
      | Some ref \<Rightarrow>
          Ok (AList.update i (ref\<lparr> wrStatus := ''RELEASED'', wrReleasePolicy := policy,
                                   wrReleasedAt := releasedAt \<rparr>) s))"
| "workspace_apply (WorkspaceBadData op) s = Err (WorkspaceDataError op)"
| "workspace_apply (WorkspaceUnknownOp op) s = Err (UnknownWorkspaceOp op)"

definition workspace_Load ::
  "workspace_data log_file \<Rightarrow> (workspace_error load_log_error, workspace_store) result" where
  "workspace_Load f = load_log workspace_apply [] f"

definition workspace_append ::
  "write_outcome \<Rightarrow> string \<Rightarrow> workspace_data \<Rightarrow> workspace_store
   \<Rightarrow> (workspace_error append_error, unit) result \<times> workspace_store" where
  "workspace_append = append_log workspace_apply"

definition RecordAllocated ::
  "write_outcome \<Rightarrow> string \<Rightarrow> WorkspaceRef \<Rightarrow> workspace_store
   \<Rightarrow> (workspace_error append_error, unit) result \<times> workspace_store" where
  "RecordAllocated w now ref s = workspace_append w now (WorkspaceAllocated ref) s"

definition zero_ref :: WorkspaceRef where
  "zero_ref = \<lparr> wrID = [], wrWorkContextID = [], wrRepo = [], wrPath = [], wrBranch = [],
     wrBaseCommit = [], wrStatus = [], wrReleasePolicy = [], wrAllocatedAt = [], wrReleasedAt = [] \<rparr>"

definition cloneRef :: "WorkspaceRef option \<Rightarrow> WorkspaceRef" where
  "cloneRef r = (case r of None \<Rightarrow> zero_ref | Some x \<Rightarrow> x)"

definition RecordReleased ::
  "write_outcome \<Rightarrow> string \<Rightarrow> string \<Rightarrow> string \<Rightarrow> workspace_store
   \<Rightarrow> (workspace_error append_error, WorkspaceRef) result \<times> workspace_store" where
  "RecordReleased w now i policy s =
     (if map_of (lsState s) i = None then (Err (StoreError WorkspaceNotFound), s)
      else (case workspace_append w now (WorkspaceReleased i policy now) s of
              (Inl e, s') \<Rightarrow> (Err e, s')
            | (Inr _, s') \<Rightarrow> (Ok (cloneRef (map_of (lsState s') i)), s')))"

definition workspace_GetByID :: "workspace_state \<Rightarrow> string \<Rightarrow> WorkspaceRef option" where
  "workspace_GetByID s i = map_of s i"

definition GetActiveByContext :: "workspace_state \<Rightarrow> string \<Rightarrow> WorkspaceRef option" where
  "GetActiveByContext s c =
     foldl (\<lambda>best ref.
        if wrWorkContextID ref \<noteq> c \<or> wrStatus ref \<noteq> ''ALLOCATED'' then best
        else (case best of
                None \<Rightarrow> Some ref
              | Some b \<Rightarrow> if wrAllocatedAt ref > wrAllocatedAt b then Some ref else best))
       None (map snd s)"

definition refLess :: "WorkspaceRef \<Rightarrow> WorkspaceRef \<Rightarrow> bool" where
  "refLess a b =
     (if wrAllocatedAt a \<noteq> wrAllocatedAt b then wrAllocatedAt b > wrAllocatedAt a
      else if wrReleasedAt a \<noteq> wrReleasedAt b then wrReleasedAt b > wrReleasedAt a
      else wrID b < wrID a)"

definition best_ref :: "WorkspaceRef \<Rightarrow> WorkspaceRef list \<Rightarrow> WorkspaceRef" where
  "best_ref = foldl (\<lambda>best ref. if refLess best ref then ref else best)"

definition workspace_GetByContext :: "workspace_state \<Rightarrow> string \<Rightarrow> WorkspaceRef option" where
  "workspace_GetByContext s c =
     (let mine = filter (\<lambda>ref. wrWorkContextID ref = c) (map snd s);
          allocated = filter (\<lambda>ref. wrStatus ref = ''ALLOCATED'') mine;
          preserved = filter (\<lambda>ref. wrStatus ref = ''RELEASED'' \<and> wrReleasePolicy ref = ''preserve'') mine;
          candidates = (if allocated = [] then preserved else allocated)
      in case candidates of [] \<Rightarrow> None | ref # refs \<Rightarrow> Some (best_ref ref refs))"

section \<open>Handlers\<close>

datatype git_action =
    AddWorktree string string string string
  | RemoveWorktree string string
  | DeleteBranch string string

record git_env =
  geIsRepo :: bool
  geCommit :: "string option"
  geAddOk :: bool
  geRemoveOk :: bool
  geDataDir :: string

datatype workspace_fn_error = GitFailed | StoreFailed "workspace_error append_error"

record allocateRequest =
  alWorkContextID :: string
  alRepo :: string
  alBaseRef :: string

record releaseRequest =
  rlWorkspaceID :: string
  rlPolicy :: string

record workspace_getRequest =
  wgWorkspaceID :: string
  wgWorkContextID :: string

definition last8 :: "string \<Rightarrow> string" where
  "last8 s = (if length s \<le> 8 then s else drop (length s - 8) s)"

text \<open>The error code a failed request answers with: git failures, else IO and retryable.\<close>

definition workspace_failure :: "(workspace_fn_error write_error \<Rightarrow> string) \<Rightarrow> workspace_fn_error write_error \<Rightarrow> Error" where
  "workspace_failure render er =
     (if er = FnErr GitFailed then proto_error ''GIT_ERROR'' (render er) else io_error (render er))"

definition workspace_add ::
  "git_env \<Rightarrow> write_outcome \<Rightarrow> string \<Rightarrow> WorkspaceRef \<Rightarrow> workspace_store \<times> git_action list
   \<Rightarrow> (workspace_fn_error, unit) result \<times> (workspace_store \<times> git_action list)" where
  "workspace_add g w now ref = (\<lambda>(s, acts).
     let acts1 = acts @ [AddWorktree (wrRepo ref) (wrPath ref) (wrBranch ref) (wrBaseCommit ref)]
     in if \<not> geAddOk g then (Err GitFailed, (s, acts1 @ [RemoveWorktree (wrRepo ref) (wrPath ref)]))
        else (case RecordAllocated w now ref s of
                (Inl e, s') \<Rightarrow>
                  (Err (StoreFailed e),
                   (s', acts1 @ [RemoveWorktree (wrRepo ref) (wrPath ref), DeleteBranch (wrRepo ref) (wrBranch ref)]))
              | (Inr _, s') \<Rightarrow> (Ok (), (s', acts1))))"

definition allocateHandler ::
  "(workspace_fn_error write_error \<Rightarrow> string) \<Rightarrow> store_env \<Rightarrow> git_env \<Rightarrow> string
   \<Rightarrow> allocateRequest option Envelope \<Rightarrow> workspace_store \<times> git_action list
   \<Rightarrow> WorkspaceRef reply \<times> (workspace_store \<times> git_action list)" where
  "allocateHandler render env g newID e s =
     (case ePayload e of
        None \<Rightarrow> (Err (proto_error ''INVALID'' ''work_context_id and repo are required''), s)
      | Some q \<Rightarrow>
          if alWorkContextID q = [] \<or> alRepo q = []
          then (Err (proto_error ''INVALID'' ''work_context_id and repo are required''), s)
          else if \<not> geIsRepo g then (Err (proto_error ''GIT_ERROR'' (render (FnErr GitFailed))), s)
          else (case geCommit g of
                  None \<Rightarrow> (Err (proto_error ''GIT_ERROR'' (render (FnErr GitFailed))), s)
                | Some commit \<Rightarrow>
                    let ref = \<lparr> wrID = newID, wrWorkContextID = alWorkContextID q, wrRepo = alRepo q,
                                wrPath = geDataDir g @ ''/worktrees/'' @ newID,
                                wrBranch = ''aeos/ws-'' @ last8 newID, wrBaseCommit = commit,
                                wrStatus = ''ALLOCATED'', wrReleasePolicy = [], wrAllocatedAt = seNow env,
                                wrReleasedAt = [] \<rparr>
                    in case fenced env e (workspace_add g (seWrite env) (seNow env) ref) s of
                         (Inl er, s') \<Rightarrow> (Err (workspace_failure render er), s')
                       | (Inr _, s') \<Rightarrow> (Ok ref, s')))"

definition workspace_release ::
  "git_env \<Rightarrow> write_outcome \<Rightarrow> string \<Rightarrow> WorkspaceRef \<Rightarrow> string \<Rightarrow> string \<Rightarrow> workspace_store \<times> git_action list
   \<Rightarrow> (workspace_fn_error, WorkspaceRef) result \<times> (workspace_store \<times> git_action list)" where
  "workspace_release g w now ref i policy = (\<lambda>(s, acts).
     if policy = ''delete'' \<and> \<not> geRemoveOk g
     then (Err GitFailed, (s, acts @ [RemoveWorktree (wrRepo ref) (wrPath ref)]))
     else
       let acts1 = (if policy = ''delete''
                    then acts @ [RemoveWorktree (wrRepo ref) (wrPath ref), DeleteBranch (wrRepo ref) (wrBranch ref)]
                    else acts)
       in case RecordReleased w now i policy s of
            (Inl e, s') \<Rightarrow> (Err (StoreFailed e), (s', acts1))
          | (Inr r, s') \<Rightarrow> (Ok r, (s', acts1)))"

definition releaseHandler ::
  "(workspace_fn_error write_error \<Rightarrow> string) \<Rightarrow> store_env \<Rightarrow> git_env
   \<Rightarrow> releaseRequest option Envelope \<Rightarrow> workspace_store \<times> git_action list
   \<Rightarrow> WorkspaceRef reply \<times> (workspace_store \<times> git_action list)" where
  "releaseHandler render env g e s =
     (case ePayload e of
        None \<Rightarrow> (Err (proto_error ''INVALID'' ''workspace_id and policy preserve|delete are required''), s)
      | Some q \<Rightarrow>
          if rlWorkspaceID q = [] \<or> (rlPolicy q \<noteq> ''preserve'' \<and> rlPolicy q \<noteq> ''delete'')
          then (Err (proto_error ''INVALID'' ''workspace_id and policy preserve|delete are required''), s)
          else (case workspace_GetByID (lsState (fst s)) (rlWorkspaceID q) of
                  None \<Rightarrow> (Err (proto_error ''NOT_FOUND'' ''workspace not found''), s)
                | Some ref \<Rightarrow>
                    if wrStatus ref = ''RELEASED'' then
                      (if wrReleasePolicy ref = rlPolicy q then (Ok ref, s)
                       else (Err (proto_error ''CONFLICT'' ''workspace already released with different policy''), s))
                    else (case fenced env e
                                 (workspace_release g (seWrite env) (seNow env) ref (rlWorkspaceID q) (rlPolicy q)) s of
                            (Inl er, s') \<Rightarrow> (Err (workspace_failure render er), s')
                          | (Inr r, s') \<Rightarrow> (Ok r, s'))))"

definition workspace_getHandler ::
  "workspace_getRequest option Envelope \<Rightarrow> workspace_state \<Rightarrow> WorkspaceRef reply" where
  "workspace_getHandler e s =
     (case ePayload e of
        None \<Rightarrow> Err (proto_error ''INVALID'' ''bad request'')
      | Some q \<Rightarrow>
          if (wgWorkspaceID q = []) = (wgWorkContextID q = [])
          then Err (proto_error ''INVALID'' ''exactly one of workspace_id or work_context_id is required'')
          else (case (if wgWorkspaceID q \<noteq> [] then workspace_GetByID s (wgWorkspaceID q)
                      else workspace_GetByContext s (wgWorkContextID q)) of
                  None \<Rightarrow> Err (proto_error ''NOT_FOUND'' ''workspace not found'')
                | Some ref \<Rightarrow> Ok ref))"

end
