(* ===== verification/WorkspaceFacts.thy ===== *)
theory WorkspaceFacts
  imports WorkspaceStore FenceSamples
begin

text \<open>
  The workspace plugin: the log contract, which workspace a context gets whatever the iteration
  order, and what a request leaves behind in git.
\<close>

section \<open>The order of candidates\<close>

lemma refLess_trans: "refLess a b \<Longrightarrow> refLess b c \<Longrightarrow> refLess a c"
  by (auto simp: refLess_def split: if_splits)

lemma refLess_irrefl [simp]: "\<not> refLess a a"
  by (simp add: refLess_def)

lemma refLess_total: "wrID a \<noteq> wrID b \<Longrightarrow> refLess a b \<or> refLess b a"
  by (auto simp: refLess_def)

lemma best_ref_max:
  "best_ref x xs \<in> set (x # xs) \<and> (\<forall>y \<in> set (x # xs). \<not> refLess (best_ref x xs) y)"
proof (induction xs rule: rev_induct)
  case (snoc z xs)
  let ?b = "best_ref x xs"
  have eq: "best_ref x (xs @ [z]) = (if refLess ?b z then z else ?b)"
    by (simp add: best_ref_def)
  have "\<not> refLess z y" if "refLess ?b z" "y \<in> set (x # xs)" for y
    using refLess_trans that snoc by blast
  with snoc show ?case unfolding eq by auto
qed (simp add: best_ref_def)

definition well_keyed :: "workspace_state \<Rightarrow> bool" where
  "well_keyed s \<longleftrightarrow> distinct (map fst s) \<and> (\<forall>x \<in> set s. wrID (snd x) = fst x)"

definition candidates :: "workspace_state \<Rightarrow> string \<Rightarrow> WorkspaceRef set" where
  "candidates s c =
     (let mine = {ref \<in> snd ` set s. wrWorkContextID ref = c};
          allocated = {ref \<in> mine. wrStatus ref = ''ALLOCATED''}
      in if allocated = {} then {ref \<in> mine. wrStatus ref = ''RELEASED'' \<and> wrReleasePolicy ref = ''preserve''}
         else allocated)"

lemma GetByContext_candidates:
  "case workspace_GetByContext s c of
     None \<Rightarrow> candidates s c = {}
   | Some r \<Rightarrow> r \<in> candidates s c \<and> (\<forall>y \<in> candidates s c. \<not> refLess r y)"
proof -
  let ?mine = "filter (\<lambda>ref. wrWorkContextID ref = c) (map snd s)"
  let ?al = "filter (\<lambda>ref. wrStatus ref = ''ALLOCATED'') ?mine"
  let ?pr = "filter (\<lambda>ref. wrStatus ref = ''RELEASED'' \<and> wrReleasePolicy ref = ''preserve'') ?mine"
  let ?l = "if ?al = [] then ?pr else ?al"
  have nil: "(?al = []) = ({ref \<in> {ref \<in> snd ` set s. wrWorkContextID ref = c}. wrStatus ref = ''ALLOCATED''} = {})"
    by (auto simp: filter_empty_conv)
  have set: "set ?l = candidates s c"
    unfolding candidates_def Let_def nil [symmetric] by auto
  have r: "workspace_GetByContext s c = (case ?l of [] \<Rightarrow> None | ref # refs \<Rightarrow> Some (best_ref ref refs))"
    by (simp add: workspace_GetByContext_def Let_def)
  show ?thesis
  proof (cases ?l)
    case Nil
    with r set show ?thesis by simp
  next
    case (Cons x xs)
    then have cs: "candidates s c = set (x # xs)" unfolding set [symmetric] by (rule arg_cong)
    have "workspace_GetByContext s c = Some (best_ref x xs)" unfolding r Cons by simp
    with best_ref_max [of x xs] show ?thesis unfolding cs by simp
  qed
qed

lemma candidates_id:
  assumes "well_keyed s" and "x \<in> candidates s c" and "y \<in> candidates s c" and "wrID x = wrID y"
  shows "x = y"
proof -
  have "candidates s c \<subseteq> snd ` set s" by (auto simp: candidates_def Let_def)
  with assms(2,3) obtain p q where pq: "p \<in> set s" "q \<in> set s" "x = snd p" "y = snd q" by blast
  with assms(1,4) have "fst p = fst q" unfolding well_keyed_def by metis
  with pq assms(1) have "p = q" unfolding well_keyed_def by (metis distinct_map inj_onD)
  with pq show ?thesis by simp
qed

lemma GetByContext_Some_iff:
  assumes "well_keyed s"
  shows "workspace_GetByContext s c = Some r \<longleftrightarrow> r \<in> candidates s c \<and> (\<forall>y \<in> candidates s c. \<not> refLess r y)"
proof (cases "workspace_GetByContext s c")
  case None
  with GetByContext_candidates [of s c] show ?thesis by auto
next
  case (Some b)
  with GetByContext_candidates [of s c]
  have b: "b \<in> candidates s c" "\<forall>y \<in> candidates s c. \<not> refLess b y" by auto
  have "r = b" if "r \<in> candidates s c" "\<forall>y \<in> candidates s c. \<not> refLess r y"
    using candidates_id [OF assms] refLess_total [of r b] that b by blast
  with b Some show ?thesis by auto
qed

section \<open>The log contract\<close>

definition ref_ok :: "WorkspaceRef \<Rightarrow> bool" where
  "ref_ok r \<longleftrightarrow> (wrStatus r = ''ALLOCATED'' \<and> wrReleasePolicy r = [] \<and> wrReleasedAt r = [])
     \<or> (wrStatus r = ''RELEASED'' \<and> (wrReleasePolicy r = ''preserve'' \<or> wrReleasePolicy r = ''delete''))"

definition workspace_inv :: "workspace_state \<Rightarrow> bool" where
  "workspace_inv s \<longleftrightarrow> well_keyed s \<and> (\<forall>x \<in> set s. ref_ok (snd x))"

fun workspace_legal :: "workspace_state \<Rightarrow> workspace_data \<Rightarrow> bool" where
  "workspace_legal s (WorkspaceAllocated ref) =
     (map_of s (wrID ref) = None \<and> wrStatus ref = ''ALLOCATED'' \<and> wrReleasePolicy ref = [] \<and> wrReleasedAt ref = [])"
| "workspace_legal s (WorkspaceReleased i policy at) =
     (map_of s i \<noteq> None \<and> (policy = ''preserve'' \<or> policy = ''delete''))"
| "workspace_legal s _ = False"

lemma workspace_inv_update:
  assumes "workspace_inv s" and "wrID ref = i" and "ref_ok ref"
  shows "workspace_inv (AList.update i ref s)"
  using assms update_elems [of _ i ref s]
  unfolding workspace_inv_def well_keyed_def by (metis distinct_update fst_conv snd_conv)

interpretation workspace_log: event_log workspace_apply "[]" workspace_inv workspace_legal
proof unfold_locales
  show "workspace_inv []" by (simp add: workspace_inv_def well_keyed_def)
next
  fix s d
  assume inv: "workspace_inv s" and l: "workspace_legal s d"
  show "\<exists>s'. workspace_apply d s = Ok s' \<and> workspace_inv s'"
  proof (cases d)
    case (WorkspaceAllocated ref)
    with l workspace_inv_update [OF inv, of ref "wrID ref"] show ?thesis by (simp add: ref_ok_def)
  next
    case (WorkspaceReleased i policy at)
    with l obtain ref where ref: "map_of s i = Some ref" by auto
    then have "wrID ref = i"
      using inv map_of_SomeD [OF ref] unfolding workspace_inv_def well_keyed_def by fastforce
    then have "workspace_inv (AList.update i (ref\<lparr> wrStatus := ''RELEASED'', wrReleasePolicy := policy,
        wrReleasedAt := at \<rparr>) s)"
      using l WorkspaceReleased by (intro workspace_inv_update [OF inv]) (auto simp: ref_ok_def)
    with WorkspaceReleased ref show ?thesis by simp
  qed (use l in \<open>auto\<close>)
qed

abbreviation workspace_good :: "workspace_store \<Rightarrow> bool" where
  "workspace_good \<equiv> good_store workspace_apply [] workspace_inv"

abbreviation workspace_writes :: "write_outcome \<Rightarrow> workspace_store \<Rightarrow> workspace_store \<Rightarrow> bool" where
  "workspace_writes \<equiv> writes_legal workspace_apply workspace_legal"

lemma workspace_add_writes:
  assumes "map_of (lsState s) (wrID ref) = None" and "wrStatus ref = ''ALLOCATED''"
    and "wrReleasePolicy ref = []" and "wrReleasedAt ref = []"
  shows "workspace_writes w s (fst (snd (workspace_add g w now ref (s, acts))))"
  unfolding workspace_add_def RecordAllocated_def workspace_append_def Let_def
  using assms by (auto split: sum.splits prod.splits intro: writes_legal_append)

lemma workspace_release_writes:
  assumes "policy = ''preserve'' \<or> policy = ''delete''"
  shows "workspace_writes w s (fst (snd (workspace_release g w now ref i policy (s, acts))))"
proof -
  have "workspace_writes w s (snd (RecordReleased w now i policy s))"
    unfolding RecordReleased_def workspace_append_def
    using assms by (auto split: sum.splits prod.splits intro: writes_legal_append simp del: workspace_apply.simps)
  then show ?thesis
    by (auto simp: workspace_release_def Let_def split: sum.split prod.split)
qed

lemma allocateHandler_writes:
  "map_of (lsState s) newID = None \<Longrightarrow>
   workspace_writes (seWrite env) s (fst (snd (allocateHandler render env g newID e (s, acts))))"
  by (simp add: allocateHandler_def Let_def fenced_state workspace_add_writes split: option.split)

lemma releaseHandler_writes:
  "workspace_writes (seWrite env) s (fst (snd (releaseHandler render env g e (s, acts))))"
  using workspace_release_writes
  by (simp add: releaseHandler_def fenced_state split: option.split)

section \<open>Properties\<close>

text \<open>
  The workspace a cold-start caller gets for a context does not depend on the order in which
  the map is iterated over: it is the one candidate no other candidate beats, an allocated
  workspace if there is one, else a preserved one.
\<close>

theorem context_lookup_deterministic:
  assumes "workspace_inv s" and "mset t = mset s"
  shows "workspace_GetByContext t c = workspace_GetByContext s c
    \<and> (case workspace_GetByContext s c of
         None \<Rightarrow> candidates s c = {}
       | Some r \<Rightarrow> r \<in> candidates s c \<and> candidates s c \<inter> {y. refLess r y} = {})"
proof -
  have k: "well_keyed s" using assms(1) by (simp add: workspace_inv_def)
  have m: "mset (map fst t) = mset (map fst s)" using assms(2) by simp
  have "set t = set s" using assms(2) by (rule mset_eq_setD)
  then have kt: "well_keyed t"
    using k mset_eq_imp_distinct_iff [OF m] by (simp add: well_keyed_def)
  have "candidates t c = candidates s c"
    using \<open>set t = set s\<close> by (simp add: candidates_def)
  then have "workspace_GetByContext t c = Some r \<longleftrightarrow> workspace_GetByContext s c = Some r" for r
    by (simp add: GetByContext_Some_iff [OF k] GetByContext_Some_iff [OF kt])
  then have "workspace_GetByContext t c = workspace_GetByContext s c" by (metis not_Some_eq)
  then show ?thesis using GetByContext_candidates [of s c] by (auto split: option.splits)
qed

definition sample_ref :: "string \<Rightarrow> WorkspaceRef" where
  "sample_ref i =
     zero_ref\<lparr> wrID := i, wrWorkContextID := ''c'', wrStatus := ''ALLOCATED'', wrAllocatedAt := ''t'' \<rparr>"

theorem context_lookup_deterministic_witness:
  "workspace_GetByContext [(''w2'', sample_ref ''w2''), (''w1'', sample_ref ''w1'')] ''c'' =
     Some (sample_ref ''w1'')"
proof -
  have "workspace_inv [(''w1'', sample_ref ''w1''), (''w2'', sample_ref ''w2'')]"
    by (simp add: workspace_inv_def well_keyed_def ref_ok_def sample_ref_def zero_ref_def)
  from context_lookup_deterministic [OF this, of "[(''w2'', sample_ref ''w2''), (''w1'', sample_ref ''w1'')]" "''c''"]
  show ?thesis
    by (simp add: add_mset_commute workspace_GetByContext_def sample_ref_def zero_ref_def
        best_ref_def refLess_def)
qed

text \<open>
  The older lookup of the active workspace does depend on it: with two workspaces allocated at
  the same time, the order of the map decides which one is returned.
\<close>

theorem active_lookup_order_dependent:
  "GetActiveByContext [(''w1'', sample_ref ''w1''), (''w2'', sample_ref ''w2'')] ''c'' = Some (sample_ref ''w1'')
   \<and> GetActiveByContext [(''w2'', sample_ref ''w2''), (''w1'', sample_ref ''w1'')] ''c'' = Some (sample_ref ''w2'')"
  by (simp add: GetActiveByContext_def sample_ref_def zero_ref_def)


definition sample_git :: git_env where
  "sample_git = \<lparr> geIsRepo = True, geCommit = Some ''c0'', geAddOk = True, geRemoveOk = True, geDataDir = ''/d'' \<rparr>"


end
