(* ===== verification/ContextIndex.thy ===== *)
theory ContextIndex
  imports StoreHandler
begin

text \<open>
  The in-memory shape of the artifact, tool run, session, review and agent stores: items by id,
  and per work context the ids of its items in the order they were recorded. The locale
  \<open>recording\<close> extends the log's contract by the one operation all of them have, recording a new
  item, and gives what their queries by context then return.
\<close>

record 'a context_index =
  cxByID :: "string \<rightharpoonup> 'a"
  cxByCtx :: "string \<Rightarrow> string list"

definition empty_index :: "'a context_index" where
  "empty_index = \<lparr> cxByID = Map.empty, cxByCtx = (\<lambda>_. []) \<rparr>"

definition index_record :: "('a \<Rightarrow> string) \<Rightarrow> ('a \<Rightarrow> string) \<Rightarrow> 'a \<Rightarrow> 'a context_index \<Rightarrow> 'a context_index" where
  "index_record rid rctx a s =
     s\<lparr> cxByID := (cxByID s)(rid a \<mapsto> a),
        cxByCtx := (cxByCtx s)(rctx a := cxByCtx s (rctx a) @ [rid a]) \<rparr>"

definition index_replace :: "('a \<Rightarrow> string) \<Rightarrow> 'a \<Rightarrow> 'a context_index \<Rightarrow> 'a context_index" where
  "index_replace rid a s = s\<lparr> cxByID := (cxByID s)(rid a \<mapsto> a) \<rparr>"

text \<open>\<open>QueryByContext\<close>: the ids of the context that are still known, in order.\<close>

definition index_query :: "'a context_index \<Rightarrow> string \<Rightarrow> 'a list" where
  "index_query s c =
     concat (map (\<lambda>i. case cxByID s i of None \<Rightarrow> [] | Some a \<Rightarrow> [a]) (cxByCtx s c))"

definition index_inv :: "('a \<Rightarrow> string) \<Rightarrow> ('a \<Rightarrow> string) \<Rightarrow> 'a context_index \<Rightarrow> bool" where
  "index_inv rid rctx s \<longleftrightarrow>
     (\<forall>i a. cxByID s i = Some a \<longrightarrow> rid a = i \<and> i \<in> set (cxByCtx s (rctx a)))
     \<and> (\<forall>c. distinct (cxByCtx s c))
     \<and> (\<forall>c. \<forall>i \<in> set (cxByCtx s c). \<exists>a. cxByID s i = Some a \<and> rctx a = c)"

lemma index_inv_empty: "index_inv rid rctx empty_index"
  by (simp add: index_inv_def empty_index_def)

lemma index_invD:
  assumes "index_inv rid rctx s"
  shows "cxByID s i = Some a \<Longrightarrow> rid a = i" "cxByID s i = Some a \<Longrightarrow> i \<in> set (cxByCtx s (rctx a))"
    "distinct (cxByCtx s c)" "i \<in> set (cxByCtx s c) \<Longrightarrow> \<exists>a. cxByID s i = Some a \<and> rctx a = c"
  using assms unfolding index_inv_def by blast+

lemma index_inv_record:
  assumes "index_inv rid rctx s" and "cxByID s (rid a) = None"
  shows "index_inv rid rctx (index_record rid rctx a s)"
proof -
  have new: "rid a \<notin> set (cxByCtx s c)" for c
    using index_invD(4) [OF assms(1)] assms(2) by fastforce
  show ?thesis
    unfolding index_inv_def index_record_def
    using index_invD [OF assms(1)] new by (auto split: if_splits) metis
qed

lemma index_inv_replace:
  assumes "index_inv rid rctx s" and "cxByID s (rid a) = Some b" and "rctx a = rctx b"
  shows "index_inv rid rctx (index_replace rid a s)"
proof -
  have "rid b = rid a" using index_invD(1) [OF assms(1,2)] .
  then show ?thesis
    unfolding index_inv_def index_replace_def
    using index_invD [OF assms(1)] assms(2,3)
    by (auto split: if_splits) (metis option.inject)
qed

lemma concat_map_single: "(\<And>x. x \<in> set xs \<Longrightarrow> f x = [g x]) \<Longrightarrow> concat (map f xs) = map g xs"
  by (induction xs) auto

lemma index_query_map:
  assumes "index_inv rid rctx s"
  shows "index_query s c = map (\<lambda>i. the (cxByID s i)) (cxByCtx s c)"
  unfolding index_query_def
  by (rule concat_map_single) (use index_invD(4) [OF assms] in \<open>fastforce\<close>)

lemma index_query_set:
  assumes "index_inv rid rctx s"
  shows "set (index_query s c) = {a. cxByID s (rid a) = Some a \<and> rctx a = c}"
    and "distinct (map rid (index_query s c))"
proof -
  note D = index_invD [OF assms]
  show "set (index_query s c) = {a. cxByID s (rid a) = Some a \<and> rctx a = c}"
  proof (intro set_eqI iffI)
    fix a
    assume "a \<in> set (index_query s c)"
    then obtain i where "i \<in> set (cxByCtx s c)" "a = the (cxByID s i)"
      by (auto simp: index_query_map [OF assms])
    with D(4) [of i c] D(1) [of i] show "a \<in> {a. cxByID s (rid a) = Some a \<and> rctx a = c}" by auto
  next
    fix a
    assume "a \<in> {a. cxByID s (rid a) = Some a \<and> rctx a = c}"
    with D(2) [of "rid a" a] show "a \<in> set (index_query s c)"
      by (auto simp: index_query_map [OF assms] image_iff intro!: bexI [of _ "rid a"])
  qed
  have "rid (the (cxByID s i)) = i" if "i \<in> set (cxByCtx s c)" for i
    using D(4) [OF that] D(1) [of i] by auto
  then have "map rid (index_query s c) = cxByCtx s c"
    by (simp add: index_query_map [OF assms] map_idI)
  then show "distinct (map rid (index_query s c))" using D(3) by simp
qed

lemma index_query_record:
  assumes "index_inv rid rctx s" and "cxByID s (rid a) = None"
  shows "index_query (index_record rid rctx a s) c =
    (if c = rctx a then index_query s c @ [a] else index_query s c)"
proof -
  let ?f = "\<lambda>m i. case m i of None \<Rightarrow> [] | Some b \<Rightarrow> [b]"
  have n: "rid a \<notin> set (cxByCtx s d)" for d
    using index_invD(4) [OF assms(1)] assms(2) by fastforce
  have "map (?f ((cxByID s)(rid a \<mapsto> a))) (cxByCtx s d) = map (?f (cxByID s)) (cxByCtx s d)" for d
    using n [of d] by (auto intro: map_cong)
  then show ?thesis by (simp add: index_query_def index_record_def del: fun_upd_apply map_eq_conv)
      (simp add: fun_upd_apply del: map_eq_conv)
qed

text \<open>
  What recording one item adds, and what a restart may find after an attempt to record one: every
  context's items as they were, or with that one more.
\<close>

definition added ::
  "('a \<Rightarrow> string) \<Rightarrow> ('a \<Rightarrow> string) \<Rightarrow> 'a \<Rightarrow> 'a context_index \<Rightarrow> 'a context_index \<Rightarrow> bool" where
  "added rid rctx a s s' \<longleftrightarrow> cxByID s' = (cxByID s)(rid a \<mapsto> a)
     \<and> (\<forall>c. index_query s' c = index_query s c @ (if rctx a = c then [a] else []))"

lemma added_query:
  "added rid rctx a s s' \<Longrightarrow> index_query s' c = index_query s c @ (if rctx a = c then [a] else [])"
  by (simp add: added_def)

lemma index_query_empty [simp]: "index_query empty_index c = []"
  by (simp add: index_query_def empty_index_def)

lemma lookup_empty [simp]: "cxByID empty_index i = None"
  by (simp add: empty_index_def)

lemma fresh_state [simp]: "lsState (fresh_store s0) = s0"
  by (simp add: fresh_store_def)

definition at_most_one_more ::
  "('d \<Rightarrow> 'a context_index \<Rightarrow> ('e, 'a context_index) result) \<Rightarrow> ('a \<Rightarrow> string)
   \<Rightarrow> 'a context_index \<Rightarrow> 'd log_file \<Rightarrow> bool" where
  "at_most_one_more apl rctx s f =
     (case load_log apl empty_index f of
        Inl e \<Rightarrow> False
      | Inr s2 \<Rightarrow> \<exists>new. length new \<le> 1
          \<and> (\<forall>c. index_query (lsState s2) c = index_query s c @ filter (\<lambda>a. rctx a = c) new))"

text \<open>
  How a handler that records one item answers: with an error and no change, or with what writing
  the record of an item gave.
\<close>

definition record_reply ::
  "('d \<Rightarrow> 's \<Rightarrow> ('e, 's) result) \<Rightarrow> ('a \<Rightarrow> 'd) \<Rightarrow> ('a \<Rightarrow> bool) \<Rightarrow> write_outcome \<Rightarrow> string
   \<Rightarrow> ('d, 's) log_store \<Rightarrow> ('x, 'a) result \<times> ('d, 's) log_store \<Rightarrow> bool" where
  "record_reply apl mk P w ts s r \<longleftrightarrow>
     (snd r = s \<and> \<not> is_ok (fst r))
     \<or> (\<exists>a y. append_log apl w ts (mk a) s = (y, snd r) \<and> P a
          \<and> (case y of Inl _ \<Rightarrow> \<not> is_ok (fst r) | Inr _ \<Rightarrow> fst r = Inr a))"

lemma record_reply_error [simp]: "record_reply apl mk P w ts s (Inl er, s)"
  by (simp add: record_reply_def)

lemma record_reply_append:
  "append_log apl w ts (mk a) s = (y, s') \<Longrightarrow> P a \<Longrightarrow>
   r = (case y of Inl e \<Rightarrow> Inl (f e) | Inr _ \<Rightarrow> Inr a, s') \<Longrightarrow> record_reply apl mk P w ts s r"
  unfolding record_reply_def
  by (intro disjI2 exI [of _ a] exI [of _ y]) (simp split: sum.split)

lemma record_replyE:
  assumes "record_reply apl mk P w ts s (res, s')"
  obtains (unchanged) er where "res = Inl er" "s' = s"
  | (failed) er a e where "res = Inl er" "append_log apl w ts (mk a) s = (Inl e, s')" "P a"
  | (recorded) a where "res = Inr a" "append_log apl w ts (mk a) s = (Inr (), s')" "P a"
proof (cases res)
  case (Inl er)
  from assms show thesis
    unfolding record_reply_def
  proof (elim disjE exE conjE)
    fix a y
    assume "append_log apl w ts (mk a) s = (y, snd (res, s'))" "P a"
      "case y of Inl _ \<Rightarrow> \<not> is_ok (fst (res, s')) | Inr _ \<Rightarrow> fst (res, s') = Inr a"
    with Inl failed show thesis by (cases y) auto
  qed (use Inl unchanged in auto)
next
  case (Inr a)
  from assms show thesis
    unfolding record_reply_def
  proof (elim disjE exE conjE)
    fix b y
    assume "append_log apl w ts (mk b) s = (y, snd (res, s'))" "P b"
      "case y of Inl _ \<Rightarrow> \<not> is_ok (fst (res, s')) | Inr _ \<Rightarrow> fst (res, s') = Inr b"
    with Inr recorded show thesis by (cases y) auto
  qed (use Inr in auto)
qed

lemma record_reply_writes:
  assumes "record_reply apl mk P w ts s r" and "\<And>a. P a \<Longrightarrow> lgl (lsState s) (mk a)"
  shows "writes_legal apl lgl w s (snd r)"
proof -
  obtain res s' where r: "r = (res, s')" by force
  from assms(1) show ?thesis
    unfolding r by (rule record_replyE) (auto intro: writes_legal_append assms(2))
qed

lemma record_reply_fenced:
  assumes "record_reply apl mk P w ts s (fn s)"
  shows "record_reply apl mk (\<lambda>a. P a \<and> good_fence env e) w ts s
    (case fenced env e fn s of (Inl er, s') \<Rightarrow> (Inl (g er), s') | (Inr a, s') \<Rightarrow> (Inr a, s'))"
proof (cases "good_fence env e")
  case True
  then have "fenced env e fn s = (case fn s of (Inl er, s') \<Rightarrow> (Inl (FnErr er), s') | (Inr a, s') \<Rightarrow> (Inr a, s'))"
    by (simp add: fenced_def WithWriteFence_def good_fence_def)
  then have r: "(case fenced env e fn s of (Inl er, s') \<Rightarrow> (Inl (g er), s') | (Inr a, s') \<Rightarrow> (Inr a, s')) =
      (case fst (fn s) of Inl er \<Rightarrow> Inl (g (FnErr er)) | Inr a \<Rightarrow> Inr a, snd (fn s))"
    by (simp split: prod.split sum.split)
  from assms [unfolded record_reply_def] show ?thesis
    unfolding r
  proof (elim disjE exE conjE)
    fix a y
    assume "append_log apl w ts (mk a) s = (y, snd (fn s))" "P a"
      "case y of Inl _ \<Rightarrow> \<not> is_ok (fst (fn s)) | Inr _ \<Rightarrow> fst (fn s) = Inr a"
    with True show "record_reply apl mk (\<lambda>a. P a \<and> good_fence env e) w ts s
        (case fst (fn s) of Inl er \<Rightarrow> Inl (g (FnErr er)) | Inr a \<Rightarrow> Inr a, snd (fn s))"
      unfolding record_reply_def
      by (intro disjI2 exI [of _ a] exI [of _ y]) (auto split: sum.splits)
  qed (auto simp: record_reply_def split: sum.splits)
next
  case False
  then have "\<exists>er. fenced env e fn s = (Inl er, s)"
    by (auto simp: fenced_def WithWriteFence_def good_fence_def split: option.splits)
  then show ?thesis by auto
qed

lemma record_reply_weaken:
  "record_reply apl mk P w ts s r \<Longrightarrow> (\<And>a. P a \<Longrightarrow> Q a) \<Longrightarrow> record_reply apl mk Q w ts s r"
  unfolding record_reply_def by blast

lemmas record_reply_fencedI = record_reply_weaken [OF record_reply_fenced]

text \<open>The same for a handler that makes the item first and runs only the write under the fence.\<close>

lemma record_reply_fenced_write:
  "record_reply apl mk (\<lambda>b. b = a \<and> good_fence env e) w ts s
    (case fenced env e (append_log apl w ts (mk a)) s of (Inl er, s') \<Rightarrow> (Inl (g er), s') | (Inr _, s') \<Rightarrow> (Inr a, s'))"
proof -
  define fn where "fn = (\<lambda>s. case append_log apl w ts (mk a) s of (Inl er, s') \<Rightarrow> (Inl er, s') | (Inr _, s') \<Rightarrow> (Inr a, s'))"
  have f: "(case fenced env e (append_log apl w ts (mk a)) s of (Inl er, s') \<Rightarrow> (Inl (g er), s') | (Inr _, s') \<Rightarrow> (Inr a, s'))
      = (case fenced env e fn s of (Inl er, s') \<Rightarrow> (Inl (g er), s') | (Inr a, s') \<Rightarrow> (Inr a, s'))"
    by (simp add: fenced_def WithWriteFence_def fn_def split: option.split prod.split sum.split)
  have "record_reply apl mk (\<lambda>b. b = a) w ts s (fn s)"
    by (cases "append_log apl w ts (mk a) s", rule record_reply_append [where f = "\<lambda>x. x"], assumption)
      (simp_all add: fn_def split: sum.split)
  then show ?thesis unfolding f by (rule record_reply_fenced)
qed

lemmas record_reply_fenced_writeI = record_reply_weaken [OF record_reply_fenced_write]

section \<open>Stores that record\<close>

locale recording = event_log apl empty_index inv legal
  for apl :: "'d \<Rightarrow> 'a context_index \<Rightarrow> ('e, 'a context_index) result"
    and inv :: "'a context_index \<Rightarrow> bool" and legal :: "'a context_index \<Rightarrow> 'd \<Rightarrow> bool" +
  fixes rid :: "'a \<Rightarrow> string" and rctx :: "'a \<Rightarrow> string" and rec :: "'a \<Rightarrow> 'd"
  assumes inv_index: "inv s \<Longrightarrow> index_inv rid rctx s"
    and legal_rec: "legal s (rec a) \<longleftrightarrow> cxByID s (rid a) = None"
    and apply_rec: "apl (rec a) s = Inr (index_record rid rctx a s)"
begin

lemma query_complete:
  "good_store apl empty_index inv ls \<Longrightarrow>
   set (index_query (lsState ls) c) = {a. cxByID (lsState ls) (rid a) = Some a \<and> rctx a = c}"
  using index_query_set(1) inv_index good_inv by blast

lemma query_distinct:
  "good_store apl empty_index inv ls \<Longrightarrow> distinct (map rid (index_query (lsState ls) c))"
  using index_query_set(2) inv_index good_inv by blast

lemma recorded:
  assumes "good_store apl empty_index inv ls" and "cxByID (lsState ls) (rid a) = None"
  obtains ls' where "append_log apl Written ts (rec a) ls = (Inr (), ls')" "good_store apl empty_index inv ls'"
    "cxByID (lsState ls') = (cxByID (lsState ls))(rid a \<mapsto> a)"
    "\<And>c. index_query (lsState ls') c =
        (if c = rctx a then index_query (lsState ls) c @ [a] else index_query (lsState ls) c)"
proof -
  have i: "index_inv rid rctx (lsState ls)" using inv_index good_inv [OF assms(1)] .
  have "legal (lsState ls) (rec a)" using assms(2) by (simp add: legal_rec)
  from append_legal [OF assms(1) this, of ts] obtain ls' where
    "append_log apl Written ts (rec a) ls = (Inr (), ls')" "good_store apl empty_index inv ls'"
    "lsState ls' = index_record rid rctx a (lsState ls)"
    by (metis apply_rec sum.inject(2))
  with that index_query_record [OF i assms(2)] show thesis by (simp add: index_record_def)
qed

text \<open>A write that is cut short at any point, then a restart: the item is there or it is not.\<close>

lemma record_atomic:
  assumes "good_store apl empty_index inv ls" and "cxByID (lsState ls) (rid a) = None"
  shows "\<exists>ls2. load_log apl empty_index (lsFile (snd (append_log apl w ts (rec a) ls))) = Inr ls2
     \<and> (\<forall>c. index_query (lsState ls2) c = index_query (lsState ls) c @
           (if c = rctx a \<and> w \<noteq> NothingWritten \<and> w \<noteq> PartWritten then [a] else []))"
proof -
  have i: "index_inv rid rctx (lsState ls)" using inv_index good_inv [OF assms(1)] .
  have "legal (lsState ls) (rec a)" using assms(2) by (simp add: legal_rec)
  from recover [OF assms(1) this, of w ts] obtain ls2 where
    l: "load_log apl empty_index (lsFile (snd (append_log apl w ts (rec a) ls))) = Inr ls2"
    "lsState ls2 = (if w = NothingWritten \<or> w = PartWritten then lsState ls
                    else index_record rid rctx a (lsState ls))"
    by (metis (no_types, lifting) apply_rec fst_conv sum.inject(2) if_distrib)
  then show ?thesis using index_query_record [OF i assms(2)] by auto
qed

lemma restart_same:
  "good_store apl empty_index inv ls \<Longrightarrow> at_most_one_more apl rctx (lsState ls) (lsFile ls)"
  unfolding at_most_one_more_def by (subst good_load) (auto intro!: exI [of _ "[]"])

lemma record_outcome:
  assumes "good_store apl empty_index inv ls" and "cxByID (lsState ls) (rid a) = None"
    and "append_log apl w ts (rec a) ls = (r, ls')"
  shows "case r of
      Inr _ \<Rightarrow> w = Written \<and> good_store apl empty_index inv ls' \<and> added rid rctx a (lsState ls) (lsState ls')
    | Inl _ \<Rightarrow> w \<noteq> Written \<and> lsState ls' = lsState ls \<and> at_most_one_more apl rctx (lsState ls) (lsFile ls')"
proof (cases "w = Written")
  case True
  show ?thesis
  proof (rule recorded [OF assms(1,2), of ts])
    fix ls1
    assume "append_log apl Written ts (rec a) ls = (Inr (), ls1)" "good_store apl empty_index inv ls1"
      "cxByID (lsState ls1) = (cxByID (lsState ls))(rid a \<mapsto> a)"
      "\<And>c. index_query (lsState ls1) c =
        (if c = rctx a then index_query (lsState ls) c @ [a] else index_query (lsState ls) c)"
    with assms(3) True show ?thesis by (auto simp: added_def)
  qed
next
  case False
  let ?new = "if w \<noteq> NothingWritten \<and> w \<noteq> PartWritten then [a] else []"
  have r: "r = Inl WriteFailed" "lsState ls' = lsState ls"
    using append_fails [OF False, of ts "rec a" ls] assms(3) by simp_all
  from record_atomic [OF assms(1,2), of w ts] assms(3) obtain ls2 where
    l: "load_log apl empty_index (lsFile ls') = Inr ls2"
    and q: "\<And>c. index_query (lsState ls2) c = index_query (lsState ls) c
        @ (if c = rctx a \<and> w \<noteq> NothingWritten \<and> w \<noteq> PartWritten then [a] else [])"
    by auto
  have "length ?new \<le> 1"
    "\<And>c. index_query (lsState ls2) c = index_query (lsState ls) c @ filter (\<lambda>a. rctx a = c) ?new"
    using q by auto
  then have "at_most_one_more apl rctx (lsState ls) (lsFile ls')"
    unfolding at_most_one_more_def l by auto
  with r False show ?thesis by simp
qed

lemma reply_outcome:
  assumes "good_store apl empty_index inv ls" and "record_reply apl rec P w ts ls r"
    and "\<And>a. P a \<Longrightarrow> cxByID (lsState ls) (rid a) = None"
  shows "case r of
      (Inr a, ls') \<Rightarrow> P a \<and> good_store apl empty_index inv ls' \<and> added rid rctx a (lsState ls) (lsState ls')
    | (Inl _, ls') \<Rightarrow> lsState ls' = lsState ls \<and> at_most_one_more apl rctx (lsState ls) (lsFile ls')"
  using assms(2) unfolding record_reply_def
proof (elim disjE exE conjE)
  assume "snd r = ls" "\<not> is_ok (fst r)"
  with restart_same [OF assms(1)] show ?thesis by (auto split: prod.splits sum.splits)
next
  fix a y
  assume y: "append_log apl w ts (rec a) ls = (y, snd r)" "P a"
    "case y of Inl _ \<Rightarrow> \<not> is_ok (fst r) | Inr _ \<Rightarrow> fst r = Inr a"
  from record_outcome [OF assms(1) assms(3) [OF y(2)] y(1)] y(2,3) show ?thesis
    by (auto split: prod.splits sum.splits)
qed

end

end
