(* ===== verification/StoreSamples.thy ===== *)
theory StoreSamples
  imports StoreHandler FenceSamples
begin

text \<open>
  The request and the environment the stores' examples share.
\<close>

definition sample_store_env :: "write_outcome \<Rightarrow> store_env" where
  "sample_store_env w = \<lparr> seFence = sample_env ''rt-1'', seFences = sample_fences ''rt-1'' 1,
     seWrite = w, seNow = ''t'' \<rparr>"

definition sample_request :: "'p \<Rightarrow> 'p Envelope" where
  "sample_request p = (zero_envelope p)\<lparr> eService := ''work'', eAuthority := ''main'', eFencingEpoch := 1 \<rparr>"

lemma sample_fence_good: "check_fence (sample_env ''rt-1'') (sample_fences ''rt-1'' 1) (sample_request p) = None"
  by (simp add: sample_request_def zero_envelope_def check_fence_def sample_env_def sample_fences_def
      sample_lease_def fence_base_def fence_safe_def safe_char_def)

lemma sample_store_env_simps [simp]:
  "seFence (sample_store_env w) = sample_env ''rt-1''" "seFences (sample_store_env w) = sample_fences ''rt-1'' 1"
  "seWrite (sample_store_env w) = w" "seNow (sample_store_env w) = ''t''" "ePayload (sample_request p) = p"
  by (simp_all add: sample_store_env_def sample_request_def zero_envelope_def)

lemma sample_good_fence [simp]: "good_fence (sample_store_env w) (sample_request p)"
  by (simp add: good_fence_def sample_fence_good)

lemma sample_fenced [simp]:
  "fenced (sample_store_env w) (sample_request p) fn s =
     (case fn s of (Inl er, s') \<Rightarrow> (Inl (FnErr er), s') | (Inr a, s') \<Rightarrow> (Inr a, s'))"
  by (simp add: fenced_def WithWriteFence_def sample_fence_good)

end
