(* ===== verification/ArtifactStore.thy ===== *)
theory ArtifactStore
  imports ContextIndex Manifest StoreSamples
begin

text \<open>
  The artifact plugin (\<open>plugins/artifact/store.go\<close>, \<open>handlers.go\<close>, \<open>gitdiff.go\<close>): diffs of a
  workspace, stored as a blob and a summary. The answers of git and of the blob service are
  arguments.
\<close>

record DiffSummary =
  dsFilesChanged :: int
  dsInsertions :: int
  dsDeletions :: int
  dsFiles :: "string list"

record Artifact =
  atID :: string
  atWorkContextID :: string
  atKind :: string
  atBlobURI :: string
  atSummary :: DiffSummary
  atCreatedAt :: string

datatype artifact_data = ArtifactRecorded Artifact | ArtifactBadData string | ArtifactUnknownOp string

datatype artifact_error = ArtifactDataError string | UnknownArtifactOp string

type_synonym artifact_state = "Artifact context_index"
type_synonym artifact_store = "(artifact_data, artifact_state) log_store"

fun artifact_apply :: "artifact_data \<Rightarrow> artifact_state \<Rightarrow> (artifact_error, artifact_state) result" where
  "artifact_apply (ArtifactRecorded a) s = Ok (index_record atID atWorkContextID a s)"
| "artifact_apply (ArtifactBadData op) s = Err (ArtifactDataError op)"
| "artifact_apply (ArtifactUnknownOp op) s = Err (UnknownArtifactOp op)"

definition artifact_Load ::
  "artifact_data log_file \<Rightarrow> (artifact_error load_log_error, artifact_store) result" where
  "artifact_Load f = load_log artifact_apply empty_index f"

definition artifact_append ::
  "write_outcome \<Rightarrow> string \<Rightarrow> artifact_data \<Rightarrow> artifact_store
   \<Rightarrow> (artifact_error append_error, unit) result \<times> artifact_store" where
  "artifact_append = append_log artifact_apply"

definition artifact_Record ::
  "write_outcome \<Rightarrow> string \<Rightarrow> Artifact \<Rightarrow> artifact_store
   \<Rightarrow> (artifact_error append_error, unit) result \<times> artifact_store" where
  "artifact_Record w now a s = artifact_append w now (ArtifactRecorded a) s"

definition artifact_GetByID :: "artifact_state \<Rightarrow> string \<Rightarrow> Artifact option" where
  "artifact_GetByID s i = cxByID s i"

definition artifact_QueryByContext :: "artifact_state \<Rightarrow> string \<Rightarrow> Artifact list" where
  "artifact_QueryByContext s c = index_query s c"

section \<open>The diff of a workspace\<close>

text \<open>\<open>strings.SplitN(line, "\t", 3)\<close> when it has three parts.\<close>

definition split_tabs :: "string \<Rightarrow> (string \<times> string \<times> string) option" where
  "split_tabs line =
     (case split_on (CHR 0x09) line of
        a # b # c # rest \<Rightarrow> Some (a, b, join_with (CHR 0x09) (c # rest))
      | _ \<Rightarrow> None)"

definition add_numstat :: "DiffSummary \<Rightarrow> string \<Rightarrow> DiffSummary" where
  "add_numstat sm line =
     (if TrimSpace line = [] then sm
      else (case split_tabs line of
              None \<Rightarrow> sm
            | Some (a, b, name) \<Rightarrow>
                sm\<lparr> dsFilesChanged := dsFilesChanged sm + 1,
                    dsInsertions := dsInsertions sm + (if a \<noteq> ''-'' then atoi a else 0),
                    dsDeletions := dsDeletions sm + (if b \<noteq> ''-'' then atoi b else 0),
                    dsFiles := dsFiles sm @ [name] \<rparr>))"

definition add_untracked :: "DiffSummary \<Rightarrow> string \<Rightarrow> DiffSummary" where
  "add_untracked sm name0 =
     (let name = TrimSpace name0
      in if name = [] then sm
         else sm\<lparr> dsFilesChanged := dsFilesChanged sm + 1, dsFiles := dsFiles sm @ [name @ '' (untracked)''] \<rparr>)"

text \<open>What \<open>git\<close> prints for the three commands, None for a failure; the plugin trims it.\<close>

record git_diff =
  gdPatch :: "string option"
  gdNumstat :: "string option"
  gdUntracked :: "string option"

definition artifact_git :: "string option \<Rightarrow> string option" where
  "artifact_git out = map_option TrimSpace out"

definition collectDiff :: "git_diff \<Rightarrow> (string \<times> DiffSummary) option" where
  "collectDiff g =
     (case artifact_git (gdPatch g) of None \<Rightarrow> None | Some patch \<Rightarrow>
     (case artifact_git (gdNumstat g) of None \<Rightarrow> None | Some numstat \<Rightarrow>
     (case artifact_git (gdUntracked g) of None \<Rightarrow> None | Some untracked \<Rightarrow>
        Some (patch,
          foldl add_untracked
            (foldl add_numstat \<lparr> dsFilesChanged = 0, dsInsertions = 0, dsDeletions = 0, dsFiles = [] \<rparr>
               (split_on (CHR 0x0A) numstat))
            (split_on (CHR 0x0A) untracked)))))"

section \<open>Handlers\<close>

record collectDiffRequest =
  cdWorkContextID :: string
  cdWorkspacePath :: string
  cdBaseRef :: string

datatype artifact_fn_error = ArtifactBlobFailed | ArtifactStoreFailed "artifact_error append_error"

definition store_diff ::
  "store_env \<Rightarrow> (string \<Rightarrow> string option) \<Rightarrow> string \<Rightarrow> string \<Rightarrow> string \<Rightarrow> DiffSummary \<Rightarrow> artifact_store
   \<Rightarrow> (artifact_fn_error, Artifact) result \<times> artifact_store" where
  "store_diff env blobPut newID ctx patch sm s =
     (case blobPut patch of
        None \<Rightarrow> (Err ArtifactBlobFailed, s)
      | Some uri \<Rightarrow>
          let a = \<lparr> atID = newID, atWorkContextID = ctx, atKind = ''diff'', atBlobURI = uri,
                    atSummary = sm, atCreatedAt = seNow env \<rparr>
          in case artifact_Record (seWrite env) (seNow env) a s of
               (Inl e, s') \<Rightarrow> (Err (ArtifactStoreFailed e), s')
             | (Inr _, s') \<Rightarrow> (Ok a, s'))"

definition collectDiffHandler ::
  "(artifact_fn_error write_error option \<Rightarrow> string) \<Rightarrow> store_env \<Rightarrow> (string \<Rightarrow> string \<Rightarrow> git_diff)
   \<Rightarrow> (string \<Rightarrow> string option) \<Rightarrow> string \<Rightarrow> collectDiffRequest option Envelope \<Rightarrow> artifact_store
   \<Rightarrow> Artifact reply \<times> artifact_store" where
  "collectDiffHandler render env git blobPut newID e s =
     (case ePayload e of
        None \<Rightarrow> (Err (proto_error ''INVALID'' ''work_context_id and workspace_path are required''), s)
      | Some q \<Rightarrow>
          if cdWorkContextID q = [] \<or> cdWorkspacePath q = []
          then (Err (proto_error ''INVALID'' ''work_context_id and workspace_path are required''), s)
          else (case collectDiff (git (cdWorkspacePath q)
                       (if cdBaseRef q = [] then ''HEAD'' else cdBaseRef q)) of
                  None \<Rightarrow> (Err (proto_error ''GIT_ERROR'' (render None)), s)
                | Some (patch, sm) \<Rightarrow>
                    (case fenced env e (store_diff env blobPut newID (cdWorkContextID q) patch sm) s of
                       (Inl er, s') \<Rightarrow> (Err (io_error (render (Some er))), s')
                     | (Inr a, s') \<Rightarrow> (Ok a, s'))))"

definition artifact_getHandler :: "string option Envelope \<Rightarrow> artifact_state \<Rightarrow> Artifact reply" where
  "artifact_getHandler e s =
     (case ePayload e of
        None \<Rightarrow> Err (proto_error ''INVALID'' ''artifact_id is required'')
      | Some i \<Rightarrow>
          if i = [] then Err (proto_error ''INVALID'' ''artifact_id is required'')
          else (case artifact_GetByID s i of
                  None \<Rightarrow> Err (proto_error ''NOT_FOUND'' ''artifact not found'')
                | Some a \<Rightarrow> Ok a))"

definition artifact_queryHandler :: "string option Envelope \<Rightarrow> artifact_state \<Rightarrow> Artifact list reply" where
  "artifact_queryHandler e s =
     (case ePayload e of
        None \<Rightarrow> Err (proto_error ''INVALID'' ''work_context_id is required'')
      | Some c \<Rightarrow>
          if c = [] then Err (proto_error ''INVALID'' ''work_context_id is required'')
          else Ok (artifact_QueryByContext s c))"

section \<open>The contract\<close>

fun artifact_legal :: "artifact_state \<Rightarrow> artifact_data \<Rightarrow> bool" where
  "artifact_legal s (ArtifactRecorded a) = (cxByID s (atID a) = None)"
| "artifact_legal s _ = False"

interpretation artifact_log: recording artifact_apply "index_inv atID atWorkContextID" artifact_legal
  atID atWorkContextID ArtifactRecorded
proof unfold_locales
  show "index_inv atID atWorkContextID empty_index" by (rule index_inv_empty)
next
  fix s d
  assume "index_inv atID atWorkContextID s" "artifact_legal s d"
  then show "\<exists>s'. artifact_apply d s = Ok s' \<and> index_inv atID atWorkContextID s'"
    by (cases d) (auto intro: index_inv_record)
qed simp_all

abbreviation artifact_good :: "artifact_store \<Rightarrow> bool" where
  "artifact_good \<equiv> good_store artifact_apply empty_index (index_inv atID atWorkContextID)"

lemma summary_counts_files:
  assumes "collectDiff g = Some (patch, sm)"
  shows "dsFilesChanged sm = int (length (dsFiles sm))"
proof -
  have n: "dsFilesChanged s = int (length (dsFiles s)) \<Longrightarrow>
      dsFilesChanged (foldl add_numstat s ls) = int (length (dsFiles (foldl add_numstat s ls)))" for s ls
    by (induction ls arbitrary: s) (auto simp: add_numstat_def split: option.splits)
  have u: "dsFilesChanged s = int (length (dsFiles s)) \<Longrightarrow>
      dsFilesChanged (foldl add_untracked s ls) = int (length (dsFiles (foldl add_untracked s ls)))" for s ls
    by (induction ls arbitrary: s) (auto simp: add_untracked_def Let_def)
  show ?thesis
    using assms by (auto simp: collectDiff_def intro!: u n split: option.splits)
qed

definition is_diff :: "string \<Rightarrow> Artifact \<Rightarrow> bool" where
  "is_diff newID a \<longleftrightarrow> atID a = newID \<and> atKind a = ''diff''
     \<and> dsFilesChanged (atSummary a) = int (length (dsFiles (atSummary a)))"

lemma store_diff_reply:
  assumes "dsFilesChanged sm = int (length (dsFiles sm))"
  shows "record_reply artifact_apply ArtifactRecorded (is_diff newID) (seWrite env) (seNow env) s
    (store_diff env blobPut newID ctx patch sm s)"
proof (cases "blobPut patch")
  case (Some uri)
  obtain y s' where "append_log artifact_apply (seWrite env) (seNow env)
      (ArtifactRecorded \<lparr> atID = newID, atWorkContextID = ctx, atKind = ''diff'', atBlobURI = uri,
                    atSummary = sm, atCreatedAt = seNow env \<rparr>) s = (y, s')"
    using prod.exhaust by blast
  then show ?thesis
    using Some assms
    by (intro record_reply_append [where f = ArtifactStoreFailed])
      (auto simp: store_diff_def Let_def artifact_Record_def artifact_append_def is_diff_def split: sum.splits)
qed (simp add: store_diff_def)

lemma collectDiffHandler_reply:
  "record_reply artifact_apply ArtifactRecorded (\<lambda>a. is_diff newID a \<and> good_fence env e) (seWrite env) (seNow env) s
    (collectDiffHandler render env git blobPut newID e s)"
proof (cases "ePayload e")
  case (Some q)
  show ?thesis
  proof (cases "collectDiff (git (cdWorkspacePath q) (if cdBaseRef q = [] then ''HEAD'' else cdBaseRef q))")
    case d: (Some pair)
    obtain patch sm where "pair = (patch, sm)" by force
    with Some d show ?thesis
      by (simp add: collectDiffHandler_def)
        (intro impI record_reply_fenced store_diff_reply summary_counts_files; simp)
  qed (simp add: collectDiffHandler_def Some)
qed (simp add: collectDiffHandler_def)

text \<open>
  A diff collected with success is the last artifact its context's query returns, no other
  context's query changes, and its summary counts the files it lists; an error leaves every query
  as it was, and after a restart the queries return what they did, or that and the one artifact
  whose record reached the disk whole.
\<close>

theorem diff_recorded_atomically:
  assumes "artifact_good s" and "artifact_GetByID (lsState s) newID = None"
  shows "case collectDiffHandler render env git blobPut newID e s of
      (Inr a, s') \<Rightarrow> (is_diff newID a \<and> good_fence env e) \<and> artifact_good s'
        \<and> added atID atWorkContextID a (lsState s) (lsState s')
    | (Inl er, s') \<Rightarrow> lsState s' = lsState s
        \<and> at_most_one_more artifact_apply atWorkContextID (lsState s) (lsFile s')"
  using assms
  by (intro artifact_log.reply_outcome [OF _ collectDiffHandler_reply]) (auto simp: is_diff_def artifact_GetByID_def)

definition sample_diff :: git_diff where
  "sample_diff = \<lparr> gdPatch = Some ''p'',
     gdNumstat = Some (''1'' @ [CHR 0x09] @ ''0'' @ [CHR 0x09] @ ''a.go'' @ [CHR 0x0A]), gdUntracked = Some [] \<rparr>"

lemma sample_diff_collected:
  "collectDiff sample_diff = Some (''p'',
     \<lparr> dsFilesChanged = 1, dsInsertions = 1, dsDeletions = 0, dsFiles = [''a.go''] \<rparr>)"
  by code_simp

theorem diff_recorded_atomically_witness:
  "case collectDiffHandler (\<lambda>_. []) (sample_store_env Written) (\<lambda>_ _. sample_diff)
      (\<lambda>_. Some ''blob:1'') ''a-1''
      (sample_request (Some \<lparr> cdWorkContextID = ''c'', cdWorkspacePath = ''/w'', cdBaseRef = [] \<rparr>))
      (fresh_store empty_index) of
     (Inr a, s') \<Rightarrow> dsFiles (atSummary a) = [''a.go''] \<and> artifact_QueryByContext (lsState s') ''c'' = [a]
   | (Inl er, s') \<Rightarrow> False"
proof -
  let ?q = "\<lparr> cdWorkContextID = ''c'', cdWorkspacePath = ''/w'', cdBaseRef = [] \<rparr>"
  have "artifact_GetByID (lsState (fresh_store empty_index)) ''a-1'' = None"
    by (simp add: artifact_GetByID_def)
  note p = diff_recorded_atomically [OF artifact_log.good_fresh this, where render = "\<lambda>_. []"
     and env = "sample_store_env Written" and git = "\<lambda>_ _. sample_diff" and blobPut = "\<lambda>_. Some ''blob:1''"
     and e = "sample_request (Some ?q)"]
  obtain s' where "collectDiffHandler (\<lambda>_. []) (sample_store_env Written) (\<lambda>_ _. sample_diff) (\<lambda>_. Some ''blob:1'')
      ''a-1'' (sample_request (Some ?q)) (fresh_store empty_index) =
     (Inr \<lparr> atID = ''a-1'', atWorkContextID = ''c'', atKind = ''diff'', atBlobURI = ''blob:1'',
        atSummary = \<lparr> dsFilesChanged = 1, dsInsertions = 1, dsDeletions = 0, dsFiles = [''a.go''] \<rparr>,
        atCreatedAt = ''t'' \<rparr>, s')"
    using sample_fence_good [of "Some ?q"]
    by (simp add: collectDiffHandler_def sample_diff_collected fenced_def WithWriteFence_def store_diff_def
        artifact_Record_def artifact_append_def append_log_def sample_store_env_def sample_request_def
        zero_envelope_def Let_def)
  with p show ?thesis
    by (auto simp: artifact_QueryByContext_def dest: added_query [where c = "''c''"])
qed

end
