(* ===== verification/ToolStore.thy ===== *)
theory ToolStore
  imports ContextIndex StoreSamples "HOL-Library.Multiset"
begin

text \<open>
  The tool runner (\<open>plugins/tool-runner/store.go\<close>, \<open>handlers.go\<close>, \<open>runner.go\<close>): commands run in
  a workspace under a timeout and an allowlist of environment variables, their outcome recorded.
  What the operating system makes of a command, the environment, the blob service, git and the
  hash are arguments.
\<close>

record ToolRun =
  trID :: string
  trWorkContextID :: string
  trWorkspacePath :: string
  trLabel :: string
  trCommand :: "string list"
  trCwd :: string
  trEnvAllowlist :: "string list"
  trTimeoutMS :: int
  trExitCode :: int
  trOutcome :: string
  trStdoutURI :: string
  trStderrURI :: string
  trFingerprint :: string
  trStartedAt :: string
  trEndedAt :: string

datatype tool_data = ToolRunRecorded ToolRun | ToolBadData string | ToolUnknownOp string

datatype tool_error = ToolDataError string | UnknownToolOp string

type_synonym tool_state = "ToolRun context_index"
type_synonym tool_store = "(tool_data, tool_state) log_store"

fun tool_apply :: "tool_data \<Rightarrow> tool_state \<Rightarrow> (tool_error, tool_state) result" where
  "tool_apply (ToolRunRecorded t) s = Ok (index_record trID trWorkContextID t s)"
| "tool_apply (ToolBadData op) s = Err (ToolDataError op)"
| "tool_apply (ToolUnknownOp op) s = Err (UnknownToolOp op)"

definition tool_Load :: "tool_data log_file \<Rightarrow> (tool_error load_log_error, tool_store) result" where
  "tool_Load f = load_log tool_apply empty_index f"

definition tool_append ::
  "write_outcome \<Rightarrow> string \<Rightarrow> tool_data \<Rightarrow> tool_store \<Rightarrow> (tool_error append_error, unit) result \<times> tool_store" where
  "tool_append = append_log tool_apply"

definition tool_Record ::
  "write_outcome \<Rightarrow> string \<Rightarrow> ToolRun \<Rightarrow> tool_store \<Rightarrow> (tool_error append_error, unit) result \<times> tool_store" where
  "tool_Record w now t s = tool_append w now (ToolRunRecorded t) s"

definition tool_GetByID :: "tool_state \<Rightarrow> string \<Rightarrow> ToolRun option" where
  "tool_GetByID s i = cxByID s i"

definition tool_QueryByContext :: "tool_state \<Rightarrow> string \<Rightarrow> ToolRun list" where
  "tool_QueryByContext s c = index_query s c"

section \<open>Running a command\<close>

record CmdResult =
  crExitCode :: int
  crStdout :: string
  crStderr :: string
  crTimedOut :: bool

text \<open>
  What \<open>cmd.Run\<close> leaves behind: the two buffers, whether the deadline had passed, the exit code
  of the process state if there is one, and the error, told apart as \<open>errors.As\<close> does.
\<close>

datatype run_error = ExecError | PathError | OtherRunError

record cmd_run =
  cmStdout :: string
  cmStderr :: string
  cmDeadline :: bool
  cmState :: "int option"
  cmErr :: "run_error option"

definition tool_timeout :: int where "tool_timeout = 600000"

definition command_env :: "(string \<Rightarrow> string) \<Rightarrow> string list \<Rightarrow> string list" where
  "command_env getenv allow =
     [''PATH='' @ getenv ''PATH'', ''HOME='' @ getenv ''HOME'']
     @ map (\<lambda>n. n @ ''='' @ getenv n) (filter (\<lambda>n. getenv n \<noteq> []) allow)"

definition runCommand ::
  "(string \<Rightarrow> string) \<Rightarrow> (string \<Rightarrow> string list \<Rightarrow> string list \<Rightarrow> int \<Rightarrow> cmd_run)
   \<Rightarrow> string \<Rightarrow> string list \<Rightarrow> string list \<Rightarrow> int \<Rightarrow> (run_error, CmdResult) result" where
  "runCommand getenv run dir argv allow timeout0 =
     (let timeout = (if timeout0 \<le> 0 then tool_timeout else timeout0)
      in if argv = [] then Err ExecError
         else (let r = run dir argv (command_env getenv allow) timeout;
                   res = \<lparr> crExitCode = (case cmState r of None \<Rightarrow> -1 | Some c \<Rightarrow> c),
                           crStdout = cmStdout r, crStderr = cmStderr r, crTimedOut = cmDeadline r \<rparr>
               in case cmErr r of
                    None \<Rightarrow> Ok res
                  | Some er \<Rightarrow>
                      if er = ExecError \<or> er = PathError \<or> cmState r = None then Err er else Ok res))"

definition commitOf :: "(string \<Rightarrow> string option) \<Rightarrow> string \<Rightarrow> string" where
  "commitOf head path = (case head path of None \<Rightarrow> [] | Some out \<Rightarrow> TrimSpace out)"

text \<open>\<open>marshal\<close> is \<open>json.Marshal\<close> of a list of strings, \<open>digest\<close> the hex of SHA-256.\<close>

definition env_values :: "(string \<Rightarrow> string) \<Rightarrow> string list \<Rightarrow> string list" where
  "env_values getenv allow = sort (map (\<lambda>n. n @ ''='' @ getenv n) allow)"

definition fingerprint_input ::
  "(string list \<Rightarrow> string) \<Rightarrow> string list \<Rightarrow> string list \<Rightarrow> string \<Rightarrow> string" where
  "fingerprint_input marshal argv envs commit =
     marshal argv @ [CHR 0x00] @ marshal envs @ [CHR 0x00] @ commit"

definition fingerprint ::
  "(string list \<Rightarrow> string) \<Rightarrow> (string \<Rightarrow> string) \<Rightarrow> (string \<Rightarrow> string) \<Rightarrow> (string \<Rightarrow> string option)
   \<Rightarrow> string list \<Rightarrow> string list \<Rightarrow> string \<Rightarrow> string" where
  "fingerprint marshal digest getenv head argv allow path =
     digest (fingerprint_input marshal argv (env_values getenv allow) (commitOf head path))"

section \<open>Handlers\<close>

record toolRunRequest =
  tqWorkContextID :: string
  tqWorkspacePath :: string
  tqLabel :: string
  tqCommand :: "string list"
  tqEnvAllowlist :: "string list"
  tqTimeoutMS :: int

record tool_env =
  teGetenv :: "string \<Rightarrow> string"
  teRun :: "string \<Rightarrow> string list \<Rightarrow> string list \<Rightarrow> int \<Rightarrow> cmd_run"
  teHead :: "string \<Rightarrow> string option"
  teMarshal :: "string list \<Rightarrow> string"
  teDigest :: "string \<Rightarrow> string"
  teBlobPut :: "string \<Rightarrow> string option"
  teStarted :: string
  teEnded :: string

datatype tool_fn_error =
    ToolNotStarted run_error | StdoutNotStored | StderrNotStored | ToolStoreFailed "tool_error append_error"

definition effective_timeout :: "toolRunRequest \<Rightarrow> int" where
  "effective_timeout q = (if tqTimeoutMS q \<le> 0 then tool_timeout else tqTimeoutMS q)"

definition tool_outcome :: "CmdResult \<Rightarrow> string" where
  "tool_outcome r = (if crExitCode r \<noteq> 0 \<or> crTimedOut r then ''FAIL'' else ''PASS'')"

definition tool_run ::
  "tool_env \<Rightarrow> string \<Rightarrow> toolRunRequest \<Rightarrow> CmdResult \<Rightarrow> string \<Rightarrow> string \<Rightarrow> ToolRun" where
  "tool_run te newID q r outURI errURI =
     \<lparr> trID = newID, trWorkContextID = tqWorkContextID q, trWorkspacePath = tqWorkspacePath q,
       trLabel = tqLabel q, trCommand = tqCommand q, trCwd = tqWorkspacePath q,
       trEnvAllowlist = tqEnvAllowlist q, trTimeoutMS = effective_timeout q,
       trExitCode = crExitCode r, trOutcome = tool_outcome r, trStdoutURI = outURI, trStderrURI = errURI,
       trFingerprint = fingerprint (teMarshal te) (teDigest te) (teGetenv te) (teHead te)
                         (tqCommand q) (tqEnvAllowlist q) (tqWorkspacePath q),
       trStartedAt = teStarted te, trEndedAt = teEnded te \<rparr>"

definition runTool ::
  "store_env \<Rightarrow> tool_env \<Rightarrow> string \<Rightarrow> toolRunRequest \<Rightarrow> tool_store \<Rightarrow> (tool_fn_error, ToolRun) result \<times> tool_store" where
  "runTool env te newID q s =
     (case runCommand (teGetenv te) (teRun te) (tqWorkspacePath q) (tqCommand q) (tqEnvAllowlist q)
             (effective_timeout q) of
        Inl er \<Rightarrow> (Err (ToolNotStarted er), s)
      | Inr r \<Rightarrow>
     (case teBlobPut te (crStdout r) of
        None \<Rightarrow> (Err StdoutNotStored, s)
      | Some outURI \<Rightarrow>
     (case teBlobPut te (crStderr r) of
        None \<Rightarrow> (Err StderrNotStored, s)
      | Some errURI \<Rightarrow>
          let t = tool_run te newID q r outURI errURI
          in case tool_Record (seWrite env) (seNow env) t s of
               (Inl e, s') \<Rightarrow> (Err (ToolStoreFailed e), s')
             | (Inr _, s') \<Rightarrow> (Ok t, s'))))"

definition toolRunHandler ::
  "(tool_fn_error write_error \<Rightarrow> string) \<Rightarrow> store_env \<Rightarrow> tool_env \<Rightarrow> string
   \<Rightarrow> toolRunRequest option Envelope \<Rightarrow> tool_store \<Rightarrow> ToolRun reply \<times> tool_store" where
  "toolRunHandler render env te newID e s =
     (let invalid = proto_error ''INVALID''
            ''work_context_id, workspace_path, label and non-empty command are required''
      in case ePayload e of
           None \<Rightarrow> (Err invalid, s)
         | Some q \<Rightarrow>
             if tqWorkContextID q = [] \<or> tqWorkspacePath q = [] \<or> tqLabel q = [] \<or> tqCommand q = []
             then (Err invalid, s)
             else (case fenced env e (runTool env te newID q) s of
                     (Inl er, s') \<Rightarrow> (Err (io_error (render er)), s')
                   | (Inr t, s') \<Rightarrow> (Ok t, s')))"

definition tool_getHandler :: "string option Envelope \<Rightarrow> tool_state \<Rightarrow> ToolRun reply" where
  "tool_getHandler e s =
     (case ePayload e of
        None \<Rightarrow> Err (proto_error ''INVALID'' ''tool_run_id is required'')
      | Some i \<Rightarrow>
          if i = [] then Err (proto_error ''INVALID'' ''tool_run_id is required'')
          else (case tool_GetByID s i of
                  None \<Rightarrow> Err (proto_error ''NOT_FOUND'' ''tool run not found'')
                | Some t \<Rightarrow> Ok t))"

definition tool_queryHandler :: "string option Envelope \<Rightarrow> tool_state \<Rightarrow> ToolRun list reply" where
  "tool_queryHandler e s =
     (case ePayload e of
        None \<Rightarrow> Err (proto_error ''INVALID'' ''work_context_id is required'')
      | Some c \<Rightarrow>
          if c = [] then Err (proto_error ''INVALID'' ''work_context_id is required'')
          else Ok (tool_QueryByContext s c))"

section \<open>The contract\<close>

fun tool_legal :: "tool_state \<Rightarrow> tool_data \<Rightarrow> bool" where
  "tool_legal s (ToolRunRecorded t) = (cxByID s (trID t) = None)"
| "tool_legal s _ = False"

interpretation tool_log: recording tool_apply "index_inv trID trWorkContextID" tool_legal
  trID trWorkContextID ToolRunRecorded
proof unfold_locales
  show "index_inv trID trWorkContextID empty_index" by (rule index_inv_empty)
next
  fix s d
  assume "index_inv trID trWorkContextID s" "tool_legal s d"
  then show "\<exists>s'. tool_apply d s = Ok s' \<and> index_inv trID trWorkContextID s'"
    by (cases d) (auto intro: index_inv_record)
qed simp_all

abbreviation tool_good :: "tool_store \<Rightarrow> bool" where
  "tool_good \<equiv> good_store tool_apply empty_index (index_inv trID trWorkContextID)"

text \<open>
  What a recorded run says: that the command ran to an exit code within the deadline exactly when
  the outcome is PASS and the code 0, for the request it answers.
\<close>

definition is_run_of :: "tool_env \<Rightarrow> toolRunRequest \<Rightarrow> ToolRun \<Rightarrow> bool" where
  "is_run_of te q t \<longleftrightarrow>
     (case teRun te (tqWorkspacePath q) (tqCommand q) (command_env (teGetenv te) (tqEnvAllowlist q))
             (effective_timeout q) of r \<Rightarrow>
        (trOutcome t = ''PASS'' \<longleftrightarrow> cmState r = Some 0 \<and> \<not> cmDeadline r)
        \<and> teBlobPut te (cmStdout r) = Some (trStdoutURI t) \<and> teBlobPut te (cmStderr r) = Some (trStderrURI t))
     \<and> trWorkContextID t = tqWorkContextID q \<and> trCommand t = tqCommand q \<and> 0 < trTimeoutMS t"

lemma effective_timeout_pos [simp]: "0 < effective_timeout q"
  by (simp add: effective_timeout_def tool_timeout_def)

lemma tool_run_id [simp]: "trID (tool_run te newID q r outURI errURI) = newID"
  by (simp add: tool_run_def)

lemma runTool_reply:
  "record_reply tool_apply ToolRunRecorded (\<lambda>t. trID t = newID \<and> is_run_of te q t) (seWrite env) (seNow env) s
     (runTool env te newID q s)"
proof -
  let ?r = "teRun te (tqWorkspacePath q) (tqCommand q) (command_env (teGetenv te) (tqEnvAllowlist q)) (effective_timeout q)"
  have run: "is_run_of te q (tool_run te newID q r outURI errURI)"
    if "runCommand (teGetenv te) (teRun te) (tqWorkspacePath q) (tqCommand q) (tqEnvAllowlist q)
             (effective_timeout q) = Inr r"
      "teBlobPut te (crStdout r) = Some outURI" "teBlobPut te (crStderr r) = Some errURI" for r outURI errURI
    using that effective_timeout_pos [of q]
    by (auto simp: runCommand_def Let_def is_run_of_def tool_run_def tool_outcome_def
        split: if_splits option.splits simp del: effective_timeout_pos)
  show ?thesis
    unfolding runTool_def Let_def
    by (split sum.split, intro conjI allI impI record_reply_error, split option.split,
        intro conjI allI impI record_reply_error, split option.split,
        intro conjI allI impI record_reply_error record_reply_append [where f = ToolStoreFailed, OF prod.collapse [symmetric]])
      (auto simp: tool_Record_def tool_append_def run split: prod.split sum.split)
qed

lemma toolRunHandler_reply:
  "record_reply tool_apply ToolRunRecorded
     (\<lambda>t. (case ePayload e of None \<Rightarrow> False | Some q \<Rightarrow> trID t = newID \<and> is_run_of te q t) \<and> good_fence env e)
     (seWrite env) (seNow env) s (toolRunHandler render env te newID e s)"
  by (cases "ePayload e")
    (auto simp: toolRunHandler_def Let_def intro!: record_reply_fencedI [OF runTool_reply])

text \<open>
  A tool run answered with success is recorded as the last one of its context and no other
  query changes; it says PASS exactly when the command exited with code 0 before the deadline, and
  names the stored output of that very run. An error leaves every query as it was, and a restart
  finds at most the one record more.
\<close>

theorem tool_run_recorded:
  assumes "tool_good s" and "tool_GetByID (lsState s) newID = None"
  shows "case toolRunHandler render env te newID e s of
      (Inr t, s') \<Rightarrow> ((case ePayload e of None \<Rightarrow> False | Some q \<Rightarrow> trID t = newID \<and> is_run_of te q t)
          \<and> good_fence env e)
        \<and> tool_good s' \<and> added trID trWorkContextID t (lsState s) (lsState s')
    | (Inl er, s') \<Rightarrow> lsState s' = lsState s
        \<and> at_most_one_more tool_apply trWorkContextID (lsState s) (lsFile s')"
  using assms
  by (intro tool_log.reply_outcome [OF _ toolRunHandler_reply]) (auto simp: tool_GetByID_def split: option.splits)

definition sample_tool_env :: "bool \<Rightarrow> tool_env" where
  "sample_tool_env late =
     \<lparr> teGetenv = (\<lambda>_. []),
       teRun = (\<lambda>_ _ _ _. \<lparr> cmStdout = ''ok'', cmStderr = [], cmDeadline = late, cmState = Some 0, cmErr = None \<rparr>),
       teHead = (\<lambda>_. None), teMarshal = concat, teDigest = (\<lambda>x. x), teBlobPut = Some,
       teStarted = ''t0'', teEnded = ''t1'' \<rparr>"

definition sample_tool_request :: toolRunRequest where
  "sample_tool_request = \<lparr> tqWorkContextID = ''c'', tqWorkspacePath = ''/w'', tqLabel = ''test'',
     tqCommand = [''make''], tqEnvAllowlist = [], tqTimeoutMS = 0 \<rparr>"

lemma sample_tool_run:
  "\<exists>t s'. toolRunHandler (\<lambda>_. []) (sample_store_env Written) (sample_tool_env late) ''r-1''
      (sample_request (Some sample_tool_request)) (fresh_store empty_index) = (Inr t, s')
    \<and> trWorkContextID t = ''c''"
  using sample_fence_good [of "Some sample_tool_request"]
  by (simp add: toolRunHandler_def sample_tool_request_def fenced_def WithWriteFence_def runTool_def runCommand_def
      sample_tool_env_def tool_run_def tool_Record_def tool_append_def append_log_def sample_store_env_def
      sample_request_def zero_envelope_def Let_def)

theorem tool_run_recorded_witness:
  "case toolRunHandler (\<lambda>_. []) (sample_store_env Written) (sample_tool_env True) ''r-1''
      (sample_request (Some sample_tool_request)) (fresh_store empty_index) of
     (Inr t, s') \<Rightarrow> trOutcome t \<noteq> ''PASS'' \<and> tool_QueryByContext (lsState s') ''c'' = [t]
   | (Inl er, s') \<Rightarrow> False"
proof -
  have "tool_GetByID (lsState (fresh_store empty_index)) ''r-1'' = None"
    by (simp add: tool_GetByID_def)
  note p = tool_run_recorded [OF tool_log.good_fresh this, where render = "\<lambda>_. []"
      and env = "sample_store_env Written" and te = "sample_tool_env True"
      and e = "sample_request (Some sample_tool_request)"]
  obtain t s' where r: "toolRunHandler (\<lambda>_. []) (sample_store_env Written) (sample_tool_env True) ''r-1''
      (sample_request (Some sample_tool_request)) (fresh_store empty_index) = (Inr t, s')" "trWorkContextID t = ''c''"
    using sample_tool_run [of True] by auto
  with p show ?thesis
    by (auto simp: tool_QueryByContext_def is_run_of_def sample_request_def zero_envelope_def sample_tool_env_def
        dest: added_query [where c = "''c''"])
qed

lemma nul_split:
  assumes "xs @ CHR 0x00 # ys = vs @ CHR 0x00 # ws" and "CHR 0x00 \<notin> set xs" and "CHR 0x00 \<notin> set vs"
  shows "xs = vs \<and> ys = ws"
  using assms by (induction xs arbitrary: vs) (auto simp: Cons_eq_append_conv)

text \<open>
  Runs with the same fingerprint ran the same command, with the same values of the allowed
  environment variables and at the same commit, as long as the hash does not collide on the two
  inputs and the JSON of these lists of strings has no NUL byte and tells them apart.
\<close>

theorem fingerprint_determines_run:
  assumes "fingerprint marshal digest getenv1 head1 argv1 allow1 path1 =
      fingerprint marshal digest getenv2 head2 argv2 allow2 path2"
    and "inj_on digest {fingerprint_input marshal argv1 (env_values getenv1 allow1) (commitOf head1 path1),
        fingerprint_input marshal argv2 (env_values getenv2 allow2) (commitOf head2 path2)}"
    and "inj_on marshal {argv1, argv2, env_values getenv1 allow1, env_values getenv2 allow2}"
    and "\<forall>xs \<in> {argv1, argv2, env_values getenv1 allow1, env_values getenv2 allow2}. CHR 0x00 \<notin> set (marshal xs)"
  shows "argv1 = argv2 \<and> commitOf head1 path1 = commitOf head2 path2
    \<and> mset (map (\<lambda>n. n @ ''='' @ getenv1 n) allow1) = mset (map (\<lambda>n. n @ ''='' @ getenv2 n) allow2)"
proof -
  let ?e1 = "env_values getenv1 allow1" and ?e2 = "env_values getenv2 allow2"
  have "fingerprint_input marshal argv1 ?e1 (commitOf head1 path1) = fingerprint_input marshal argv2 ?e2 (commitOf head2 path2)"
    by (rule inj_onD [OF assms(2)]) (use assms(1) in \<open>simp_all add: fingerprint_def\<close>)
  then have a: "marshal argv1 = marshal argv2"
    and r: "marshal ?e1 @ CHR 0x00 # commitOf head1 path1 = marshal ?e2 @ CHR 0x00 # commitOf head2 path2"
    using nul_split [of "marshal argv1" _ "marshal argv2"] assms(4) by (auto simp: fingerprint_input_def)
  from nul_split [OF r] assms(4) have "marshal ?e1 = marshal ?e2" "commitOf head1 path1 = commitOf head2 path2"
    by auto
  moreover from this a assms(3) have "argv1 = argv2" "?e1 = ?e2"
    by (auto dest: inj_onD)
  moreover have "mset (env_values g al) = mset (map (\<lambda>n. n @ ''='' @ g n) al)" for g al
    by (simp add: env_values_def)
  ultimately show ?thesis by metis
qed

theorem fingerprint_determines_run_witness:
  "fingerprint concat (\<lambda>x. x) (\<lambda>_. ''1'') (\<lambda>_. None) [''make''] [''A'', ''B''] ''/w'' =
     fingerprint concat (\<lambda>x. x) (\<lambda>_. ''1'') (\<lambda>_. None) [''make''] [''B'', ''A''] ''/v''
   \<and> mset [''A=1'', ''B=1''] = mset [''B=1'', ''A=1'']"
proof -
  have eq: "fingerprint concat (\<lambda>x. x) (\<lambda>_. ''1'') (\<lambda>_. None) [''make''] [''A'', ''B''] ''/w'' =
     fingerprint concat (\<lambda>x. x) (\<lambda>_. ''1'') (\<lambda>_. None) [''make''] [''B'', ''A''] ''/v''"
    by code_simp
  from fingerprint_determines_run [OF this] eq show ?thesis
    by (simp add: env_values_def fingerprint_input_def commitOf_def inj_on_def insort_key_def)
qed

end
