(* ===== verification/SessionStore.thy ===== *)
theory SessionStore
  imports ContextIndex Manifest StoreSamples
begin

text \<open>
  The session plugin (\<open>plugins/session/store.go\<close>, \<open>checkpoint.go\<close>, \<open>handlers.go\<close>): a run is sealed
  into a record of its events, chosen from the journal and checked against the hashes the request
  gives, with a checkpoint of the workspace and an archive in the blob store. The journal, the blob
  store, git, the JSON of the archive and the hash are arguments.
\<close>

record SessionEventSelection =
  evJournalCursorStart :: int
  evJournalCursorEnd :: int
  evCorrelationID :: string
  evEventIDs :: "string list"
  evEventSHA256s :: "string list"
  evEventCount :: int

record RecoveryCheckpoint =
  ckRepo :: string
  ckBaseCommit :: string
  ckHeadCommit :: string
  ckBranch :: string
  ckWorktreePathAtSeal :: string
  ckDirty :: bool
  ckTrackedPatchRef :: string
  ckUntrackedManifest :: "string list"
  ckDiffArtifactID :: string
  ckTaskID :: string
  ckWorkContextID :: string
  ckAgentRunID :: string
  ckProvider :: string
  ckHarnessNativeID :: string
  ckCanonicalEventSelection :: SessionEventSelection

record SessionRecord =
  srID :: string
  srWorkContextID :: string
  srAgentRunID :: string
  srArchiveRef :: string
  srArchiveHash :: string
  srEventSelection :: SessionEventSelection
  srRecoveryCheckpoint :: RecoveryCheckpoint
  srSealedAt :: string

datatype session_data = SessionSealed SessionRecord | SessionBadData | SessionUnknownOp string

datatype session_error = SessionDataError | UnknownSessionOp string

type_synonym session_state = "SessionRecord context_index"
type_synonym session_store = "(session_data, session_state) log_store"

fun session_apply :: "session_data \<Rightarrow> session_state \<Rightarrow> (session_error, session_state) result" where
  "session_apply (SessionSealed r) s = Ok (index_record srID srWorkContextID r s)"
| "session_apply SessionBadData s = Err SessionDataError"
| "session_apply (SessionUnknownOp op) s = Err (UnknownSessionOp op)"

definition session_Load ::
  "session_data log_file \<Rightarrow> (session_error load_log_error, session_store) result" where
  "session_Load f = load_log session_apply empty_index f"

definition session_append ::
  "write_outcome \<Rightarrow> string \<Rightarrow> session_data \<Rightarrow> session_store
   \<Rightarrow> (session_error append_error, unit) result \<times> session_store" where
  "session_append = append_log session_apply"

definition session_Record ::
  "write_outcome \<Rightarrow> string \<Rightarrow> SessionRecord \<Rightarrow> session_store
   \<Rightarrow> (session_error append_error, unit) result \<times> session_store" where
  "session_Record w now r s = session_append w now (SessionSealed r) s"

definition session_GetByID :: "session_state \<Rightarrow> string \<Rightarrow> SessionRecord option" where
  "session_GetByID s i = cxByID s i"

definition session_QueryByContext :: "session_state \<Rightarrow> string \<Rightarrow> SessionRecord list" where
  "session_QueryByContext s c = index_query s c"

section \<open>The checkpoint of a workspace\<close>

text \<open>What each \<open>git\<close> command prints, None for a failure.\<close>

record git_checkpoint =
  gcHead :: "string option"
  gcBranch :: "string option"
  gcRepo :: "string option"
  gcStatus :: "string option"
  gcPatch :: "string option"
  gcUntracked :: "string option"

definition session_git :: "string option \<Rightarrow> string option" where
  "session_git out = map_option TrimSpace out"

definition zero_selection :: SessionEventSelection where
  "zero_selection = \<lparr> evJournalCursorStart = 0, evJournalCursorEnd = 0, evCorrelationID = [], evEventIDs = [],
     evEventSHA256s = [], evEventCount = 0 \<rparr>"

definition buildCheckpoint :: "git_checkpoint \<Rightarrow> string \<Rightarrow> (RecoveryCheckpoint \<times> string) option" where
  "buildCheckpoint g path =
     (case session_git (gcHead g) of None \<Rightarrow> None | Some head \<Rightarrow>
     (case session_git (gcBranch g) of None \<Rightarrow> None | Some branch \<Rightarrow>
      let repo = (case session_git (gcRepo g) of None \<Rightarrow> [] | Some r \<Rightarrow> r) in
     (case session_git (gcStatus g) of None \<Rightarrow> None | Some status \<Rightarrow>
     (case session_git (gcPatch g) of None \<Rightarrow> None | Some patch \<Rightarrow>
     (case session_git (gcUntracked g) of None \<Rightarrow> None | Some untracked \<Rightarrow>
        Some (\<lparr> ckRepo = repo, ckBaseCommit = head, ckHeadCommit = head, ckBranch = branch,
                ckWorktreePathAtSeal = path, ckDirty = (status \<noteq> []), ckTrackedPatchRef = [],
                ckUntrackedManifest = (if untracked \<noteq> [] then split_on (CHR 0x0A) untracked else []),
                ckDiffArtifactID = [], ckTaskID = [], ckWorkContextID = [], ckAgentRunID = [],
                ckProvider = [], ckHarnessNativeID = [], ckCanonicalEventSelection = zero_selection \<rparr>, patch))))))"

section \<open>Choosing the events\<close>

record JournalRecord =
  jnID :: string
  jnSHA256 :: string
  jnCorrelationID :: string
  jnType :: string
  jnRaw :: string

datatype selection_error = LengthMismatch | EventNotFound string | EventHashMismatch string

text \<open>Go's map keeps the last record of an id.\<close>

definition journal_byID :: "JournalRecord list \<Rightarrow> string \<Rightarrow> JournalRecord option" where
  "journal_byID rs i = map_of (rev (map (\<lambda>r. (jnID r, r)) rs)) i"

fun pick_events ::
  "(string \<Rightarrow> JournalRecord option) \<Rightarrow> (string \<times> string) list \<Rightarrow> (selection_error, JournalRecord list) result" where
  "pick_events m [] = Ok []"
| "pick_events m ((i, h) # rest) =
     (case m i of
        None \<Rightarrow> Err (EventNotFound i)
      | Some r \<Rightarrow>
          if jnSHA256 r \<noteq> h then Err (EventHashMismatch i)
          else (case pick_events m rest of Inl e \<Rightarrow> Err e | Inr rs \<Rightarrow> Ok (r # rs)))"

definition select_events ::
  "JournalRecord list \<Rightarrow> string \<Rightarrow> string list \<Rightarrow> string list \<Rightarrow> (selection_error, JournalRecord list) result" where
  "select_events rs corr ids hashes =
     (if ids \<noteq> [] then
        (if length hashes \<noteq> length ids then Err LengthMismatch
         else pick_events (journal_byID rs) (zip ids hashes))
      else Ok (filter (\<lambda>r. jnCorrelationID r = corr) rs))"

section \<open>Sealing\<close>

record sealRequest =
  sqWorkContextID :: string
  sqAgentRunID :: string
  sqWorkspacePath :: string
  sqCorrelationID :: string
  sqEventIDs :: "string list"
  sqEventSHA256s :: "string list"
  sqDiffArtifactID :: string
  sqTaskID :: string
  sqProvider :: string
  sqHarnessNativeID :: string

text \<open>
  The dependencies: \<open>Replay\<close> and \<open>BlobPut\<close> may be nil (the outer option) or fail (the inner one);
  \<open>sdArchive\<close> is the JSON of the archive, \<open>sdDigest\<close> the hex of SHA-256.
\<close>

record sealDeps =
  sdStore :: bool
  sdReplay :: "JournalRecord list option option"
  sdBlobPut :: "(string \<Rightarrow> string option) option"
  sdNow :: string
  sdGit :: "string \<Rightarrow> git_checkpoint"
  sdArchive :: "SessionRecord \<Rightarrow> RecoveryCheckpoint \<Rightarrow> string list \<Rightarrow> string option"
  sdDigest :: "string \<Rightarrow> string"

definition selection_error_text :: "selection_error \<Rightarrow> string" where
  "selection_error_text e =
     (case e of
        LengthMismatch \<Rightarrow> ''event_ids and event_sha256s length mismatch''
      | EventNotFound i \<Rightarrow> ''requested event not found: '' @ i
      | EventHashMismatch i \<Rightarrow> ''event sha256 mismatch: '' @ i)"

definition seal_correlation :: "sealRequest \<Rightarrow> string" where
  "seal_correlation q = (if sqCorrelationID q = [] then sqWorkContextID q else sqCorrelationID q)"

definition seal_selection :: "string \<Rightarrow> JournalRecord list \<Rightarrow> SessionEventSelection" where
  "seal_selection corr sel =
     zero_selection\<lparr> evCorrelationID := corr, evEventIDs := map jnID sel, evEventSHA256s := map jnSHA256 sel,
       evEventCount := int (length sel) \<rparr>"

definition seal_checkpoint ::
  "RecoveryCheckpoint \<Rightarrow> string \<Rightarrow> sealRequest \<Rightarrow> SessionEventSelection \<Rightarrow> RecoveryCheckpoint" where
  "seal_checkpoint cp patchURI q sel =
     cp\<lparr> ckTrackedPatchRef := patchURI, ckDiffArtifactID := sqDiffArtifactID q, ckTaskID := sqTaskID q,
         ckWorkContextID := sqWorkContextID q, ckAgentRunID := sqAgentRunID q, ckProvider := sqProvider q,
         ckHarnessNativeID := sqHarnessNativeID q, ckCanonicalEventSelection := sel \<rparr>"

definition seal_partial ::
  "string \<Rightarrow> string \<Rightarrow> sealRequest \<Rightarrow> SessionEventSelection \<Rightarrow> RecoveryCheckpoint \<Rightarrow> SessionRecord" where
  "seal_partial newID now q sel cp =
     \<lparr> srID = newID, srWorkContextID = sqWorkContextID q, srAgentRunID = sqAgentRunID q, srArchiveRef = [],
       srArchiveHash = [], srEventSelection = sel, srRecoveryCheckpoint = cp, srSealedAt = now \<rparr>"

definition sealOnce ::
  "(string \<Rightarrow> string) \<Rightarrow> sealDeps \<Rightarrow> string \<Rightarrow> sealRequest \<Rightarrow> SessionRecord reply" where
  "sealOnce render d newID q =
     (if sqWorkContextID q = [] \<or> sqAgentRunID q = [] \<or> sqWorkspacePath q = [] then
        Err (proto_error ''INVALID'' ''work_context_id, agent_run_id, and workspace_path are required'')
      else (case sdBlobPut d of
        None \<Rightarrow> Err (proto_error ''INVALID'' ''seal dependencies are required'')
      | Some put \<Rightarrow> (case sdReplay d of
        None \<Rightarrow> Err (proto_error ''INVALID'' ''seal dependencies are required'')
      | Some replay \<Rightarrow> (case buildCheckpoint (sdGit d (sqWorkspacePath q)) (sqWorkspacePath q) of
        None \<Rightarrow> Err (proto_error ''GIT_ERROR'' (render ''git''))
      | Some (cp0, patch) \<Rightarrow> (case put patch of
        None \<Rightarrow> Err (io_error (render ''patch''))
      | Some patchURI \<Rightarrow> (case replay of
        None \<Rightarrow> Err (io_error (render ''replay''))
      | Some records \<Rightarrow>
          (case select_events records (seal_correlation q) (sqEventIDs q) (sqEventSHA256s q) of
        Inl e \<Rightarrow> Err (proto_error ''INTEGRITY_ERROR'' (selection_error_text e))
      | Inr selected \<Rightarrow>
          let sel = seal_selection (seal_correlation q) selected;
              cp = seal_checkpoint cp0 patchURI q sel;
              part = seal_partial newID (sdNow d) q sel cp
          in (case sdArchive d part cp (map jnRaw selected) of
        None \<Rightarrow> Err (proto_error ''IO'' (render ''json''))
      | Some bytes \<Rightarrow> (case put bytes of
        None \<Rightarrow> Err (io_error (render ''archive''))
      | Some uri \<Rightarrow> Ok (part\<lparr> srArchiveRef := uri, srArchiveHash := sdDigest d bytes \<rparr>))))))))))"

definition sealHandler ::
  "(string \<Rightarrow> string) \<Rightarrow> (session_error append_error write_error \<Rightarrow> string) \<Rightarrow> store_env \<Rightarrow> sealDeps \<Rightarrow> string
   \<Rightarrow> sealRequest option Envelope \<Rightarrow> session_store \<Rightarrow> SessionRecord reply \<times> session_store" where
  "sealHandler render renderW env d newID e s =
     (case ePayload e of
        None \<Rightarrow> (Err (proto_error ''INVALID'' ''invalid request''), s)
      | Some q \<Rightarrow>
     (case sealOnce render d newID q of
        Inl er \<Rightarrow> (Err er, s)
      | Inr r \<Rightarrow>
          if \<not> sdStore d then (Err (proto_error ''IO'' ''session store unavailable''), s)
          else (case fenced env e (session_Record (seWrite env) (seNow env) r) s of
                  (Inl er, s') \<Rightarrow> (Err (io_error (renderW er)), s')
                | (Inr _, s') \<Rightarrow> (Ok r, s'))))"

definition session_getHandler :: "string option Envelope \<Rightarrow> session_state \<Rightarrow> SessionRecord reply" where
  "session_getHandler e s =
     (case ePayload e of
        None \<Rightarrow> Err (proto_error ''INVALID'' ''session_id is required'')
      | Some i \<Rightarrow>
          if i = [] then Err (proto_error ''INVALID'' ''session_id is required'')
          else (case session_GetByID s i of
                  None \<Rightarrow> Err (proto_error ''NOT_FOUND'' ''session record not found'')
                | Some r \<Rightarrow> Ok r))"

definition session_queryHandler :: "string option Envelope \<Rightarrow> session_state \<Rightarrow> SessionRecord list reply" where
  "session_queryHandler e s =
     (case ePayload e of
        None \<Rightarrow> Err (proto_error ''INVALID'' ''work_context_id is required'')
      | Some c \<Rightarrow>
          if c = [] then Err (proto_error ''INVALID'' ''work_context_id is required'')
          else Ok (session_QueryByContext s c))"

section \<open>The contract\<close>

fun session_legal :: "session_state \<Rightarrow> session_data \<Rightarrow> bool" where
  "session_legal s (SessionSealed r) = (cxByID s (srID r) = None)"
| "session_legal s _ = False"

interpretation session_log: recording session_apply "index_inv srID srWorkContextID" session_legal
  srID srWorkContextID SessionSealed
proof unfold_locales
  show "index_inv srID srWorkContextID empty_index" by (rule index_inv_empty)
next
  fix s d
  assume "index_inv srID srWorkContextID s" "session_legal s d"
  then show "\<exists>s'. session_apply d s = Ok s' \<and> index_inv srID srWorkContextID s'"
    by (cases d) (auto intro: index_inv_record)
qed simp_all

abbreviation session_good :: "session_store \<Rightarrow> bool" where
  "session_good \<equiv> good_store session_apply empty_index (index_inv srID srWorkContextID)"

lemma journal_byID_Some:
  "journal_byID rs i = Some r \<Longrightarrow> r \<in> set rs \<and> jnID r = i"
  unfolding journal_byID_def by (drule map_of_SomeD) auto

lemma pick_events_Ok:
  "pick_events m ps = Inr sel \<Longrightarrow> list_all2 (\<lambda>(i, h) r. m i = Some r \<and> jnSHA256 r = h) ps sel"
  by (induction ps arbitrary: sel) (auto split: option.splits sum.splits if_splits)

lemma select_events_Ok:
  assumes "select_events rs corr ids hashes = Inr sel"
  shows "set sel \<subseteq> set rs"
    and "ids \<noteq> [] \<Longrightarrow> map jnID sel = ids \<and> map jnSHA256 sel = hashes"
    and "ids = [] \<Longrightarrow> sel = filter (\<lambda>r. jnCorrelationID r = corr) rs"
proof -
  have "set sel \<subseteq> set rs \<and> map jnID sel = map fst ps \<and> map jnSHA256 sel = map snd ps"
    if "pick_events (journal_byID rs) ps = Inr sel" for ps
    using pick_events_Ok [OF that]
    by (induction ps sel rule: list_all2_induct) (auto dest: journal_byID_Some)
  from this [of "zip ids hashes"] assms
  show "set sel \<subseteq> set rs" "ids \<noteq> [] \<Longrightarrow> map jnID sel = ids \<and> map jnSHA256 sel = hashes"
    "ids = [] \<Longrightarrow> sel = filter (\<lambda>r. jnCorrelationID r = corr) rs"
    by (auto simp: select_events_def split: if_splits)
qed

text \<open>
  What a seal attests: the events it names are in the journal, are the requested ones with the
  requested hashes, or all of the correlation if none were requested, and the archive the record
  points to and hashes was made from them and from this very record.
\<close>

definition is_seal_of :: "sealDeps \<Rightarrow> string \<Rightarrow> sealRequest \<Rightarrow> SessionRecord \<Rightarrow> bool" where
  "is_seal_of d newID q r \<longleftrightarrow> srID r = newID \<and> srWorkContextID r = sqWorkContextID q \<and> sqAgentRunID q \<noteq> []
     \<and> ckCanonicalEventSelection (srRecoveryCheckpoint r) = srEventSelection r
     \<and> (\<exists>rs sel bytes put. sdReplay d = Some (Some rs) \<and> sdBlobPut d = Some put \<and> set sel \<subseteq> set rs
          \<and> (if sqEventIDs q = [] then sel = filter (\<lambda>x. jnCorrelationID x = seal_correlation q) rs
             else map jnID sel = sqEventIDs q \<and> map jnSHA256 sel = sqEventSHA256s q)
          \<and> srEventSelection r = seal_selection (seal_correlation q) sel
          \<and> sdArchive d (r\<lparr> srArchiveRef := [], srArchiveHash := [] \<rparr>) (srRecoveryCheckpoint r) (map jnRaw sel) = Some bytes
          \<and> put bytes = Some (srArchiveRef r) \<and> srArchiveHash r = sdDigest d bytes)"

lemma sealOnce_Ok:
  assumes "sealOnce render d newID q = Inr r"
  shows "is_seal_of d newID q r"
proof -
  from assms obtain put rs cp0 patch patchURI sel bytes uri where
    d: "sqAgentRunID q \<noteq> []" "sdBlobPut d = Some put" "sdReplay d = Some (Some rs)"
    and sel: "select_events rs (seal_correlation q) (sqEventIDs q) (sqEventSHA256s q) = Inr sel"
    and a: "sdArchive d (seal_partial newID (sdNow d) q (seal_selection (seal_correlation q) sel)
        (seal_checkpoint cp0 patchURI q (seal_selection (seal_correlation q) sel)))
        (seal_checkpoint cp0 patchURI q (seal_selection (seal_correlation q) sel)) (map jnRaw sel) = Some bytes"
    and u: "put bytes = Some uri"
    and r: "r = (seal_partial newID (sdNow d) q (seal_selection (seal_correlation q) sel)
        (seal_checkpoint cp0 patchURI q (seal_selection (seal_correlation q) sel)))
          \<lparr> srArchiveRef := uri, srArchiveHash := sdDigest d bytes \<rparr>"
    by (auto simp: sealOnce_def Let_def split: if_splits option.splits sum.splits prod.splits)
  let ?sel = "seal_selection (seal_correlation q) sel"
  have "r\<lparr> srArchiveRef := [], srArchiveHash := [] \<rparr> =
      seal_partial newID (sdNow d) q ?sel (seal_checkpoint cp0 patchURI q ?sel)"
    "srRecoveryCheckpoint r = seal_checkpoint cp0 patchURI q ?sel" "srEventSelection r = ?sel"
    "srID r = newID" "srWorkContextID r = sqWorkContextID q" "ckCanonicalEventSelection (seal_checkpoint cp0 patchURI q ?sel) = ?sel"
    by (simp_all add: r seal_partial_def seal_checkpoint_def)
  with d a u select_events_Ok [OF sel] show ?thesis
    unfolding is_seal_of_def by (auto simp: r)
qed

lemma sealHandler_reply:
  "record_reply session_apply SessionSealed
     (\<lambda>r. (case ePayload e of None \<Rightarrow> False | Some q \<Rightarrow> is_seal_of d newID q r) \<and> good_fence env e)
     (seWrite env) (seNow env) s (sealHandler render renderW env d newID e s)"
proof (cases "ePayload e")
  case (Some q)
  show ?thesis
  proof (cases "sealOnce render d newID q")
    case (Inr r)
    have f: "session_Record (seWrite env) (seNow env) r = append_log session_apply (seWrite env) (seNow env) (SessionSealed r)"
      by (simp add: fun_eq_iff session_Record_def session_append_def)
    from Some Inr sealOnce_Ok [OF Inr] show ?thesis
      by (simp add: sealHandler_def f) (intro impI record_reply_fenced_writeI; simp)
  qed (simp add: sealHandler_def Some)
qed (simp add: sealHandler_def)


definition sample_seal_deps :: sealDeps where
  "sample_seal_deps = \<lparr> sdStore = True,
     sdReplay = Some (Some [\<lparr> jnID = ''e1'', jnSHA256 = ''h1'', jnCorrelationID = ''c'', jnType = ''t'', jnRaw = ''x'' \<rparr>,
                            \<lparr> jnID = ''e2'', jnSHA256 = ''h2'', jnCorrelationID = ''o'', jnType = ''t'', jnRaw = ''y'' \<rparr>]),
     sdBlobPut = Some Some, sdNow = ''t'',
     sdGit = (\<lambda>_. \<lparr> gcHead = Some ''c0'', gcBranch = Some ''main'', gcRepo = None, gcStatus = Some [],
                    gcPatch = Some [], gcUntracked = Some [] \<rparr>),
     sdArchive = (\<lambda>_ _ raws. Some (concat raws)), sdDigest = (\<lambda>x. x) \<rparr>"

definition sample_seal_request :: "string list \<Rightarrow> string list \<Rightarrow> sealRequest" where
  "sample_seal_request ids hashes = \<lparr> sqWorkContextID = ''c'', sqAgentRunID = ''a'', sqWorkspacePath = ''/w'',
     sqCorrelationID = [], sqEventIDs = ids, sqEventSHA256s = hashes, sqDiffArtifactID = [], sqTaskID = [],
     sqProvider = [], sqHarnessNativeID = [] \<rparr>"

lemma sample_seal:
  "sealOnce (\<lambda>_. []) sample_seal_deps ''s-1'' (sample_seal_request [''e2''] [''h1'']) =
     Inl (proto_error ''INTEGRITY_ERROR'' ''event sha256 mismatch: e2'')"
  "map_sum (\<lambda>_. ()) (\<lambda>r. (srArchiveHash r, evEventIDs (srEventSelection r)))
     (sealOnce (\<lambda>_. []) sample_seal_deps ''s-1'' (sample_seal_request [] [])) = Inr (''x'', [''e1''])"
  by code_simp+


end
