(* ===== verification/ReviewStore.thy ===== *)
theory ReviewStore
  imports ContextIndex StoreSamples
begin

text \<open>
  The review plugin (\<open>plugins/review/store.go\<close>, \<open>handlers.go\<close>): a review is requested and then
  decided once. The specification is the life of one review, \<open>review_step\<close>; the handlers implement
  it.
\<close>

record AcceptanceResult =
  acCriterionID :: string
  acSatisfied :: bool
  acEvidenceRefs :: "string list"
  acNotes :: string

record EvidenceSnapshotItem =
  esKind :: string
  esOutcome :: string
  esEvidenceRefID :: string

record Review =
  rwID :: string
  rwWorkContextID :: string
  rwAgentRunID :: string
  rwDiffArtifactID :: string
  rwStatus :: string
  rwReviewer :: string
  rwNotes :: string
  rwAcceptanceResults :: "AcceptanceResult list"
  rwEvidenceSnapshot :: "EvidenceSnapshotItem list"
  rwRequestedAt :: string
  rwDecidedAt :: string

datatype review_data =
    ReviewRequested Review | ReviewDecided Review | ReviewBadData | ReviewUnknownOp string

datatype review_error =
    ReviewNotFound | ReviewAlreadyDecided | ReviewDataError | UnknownReviewOp string

type_synonym review_state = "Review context_index"
type_synonym review_store = "(review_data, review_state) log_store"

fun review_apply :: "review_data \<Rightarrow> review_state \<Rightarrow> (review_error, review_state) result" where
  "review_apply (ReviewRequested r) s = Ok (index_record rwID rwWorkContextID r s)"
| "review_apply (ReviewDecided r) s = Ok (index_replace rwID r s)"
| "review_apply ReviewBadData s = Err ReviewDataError"
| "review_apply (ReviewUnknownOp op) s = Err (UnknownReviewOp op)"

definition review_Load :: "review_data log_file \<Rightarrow> (review_error load_log_error, review_store) result" where
  "review_Load f = load_log review_apply empty_index f"

definition review_append ::
  "write_outcome \<Rightarrow> string \<Rightarrow> review_data \<Rightarrow> review_store
   \<Rightarrow> (review_error append_error, unit) result \<times> review_store" where
  "review_append = append_log review_apply"

definition RecordRequested ::
  "write_outcome \<Rightarrow> string \<Rightarrow> Review \<Rightarrow> review_store \<Rightarrow> (review_error append_error, unit) result \<times> review_store" where
  "RecordRequested w now r s = review_append w now (ReviewRequested r) s"

definition decided :: "Review \<Rightarrow> string \<Rightarrow> string \<Rightarrow> string \<Rightarrow> AcceptanceResult list \<Rightarrow> string \<Rightarrow> Review" where
  "decided r decision reviewer notes results now =
     r\<lparr> rwStatus := decision, rwReviewer := reviewer, rwNotes := notes, rwAcceptanceResults := results,
        rwDecidedAt := now \<rparr>"

definition RecordDecided ::
  "write_outcome \<Rightarrow> string \<Rightarrow> string \<Rightarrow> string \<Rightarrow> string \<Rightarrow> string \<Rightarrow> AcceptanceResult list \<Rightarrow> review_store
   \<Rightarrow> (review_error append_error, Review) result \<times> review_store" where
  "RecordDecided w now i decision reviewer notes results s =
     (case cxByID (lsState s) i of
        None \<Rightarrow> (Err (StoreError ReviewNotFound), s)
      | Some p \<Rightarrow>
          if rwStatus p \<noteq> ''PENDING'' then (Err (StoreError ReviewAlreadyDecided), s)
          else (let r = decided p decision reviewer notes results now
                in case review_append w now (ReviewDecided r) s of
                     (Inl e, s') \<Rightarrow> (Err e, s')
                   | (Inr _, s') \<Rightarrow> (Ok r, s')))"

definition review_GetByID :: "review_state \<Rightarrow> string \<Rightarrow> Review option" where
  "review_GetByID s i = cxByID s i"

definition review_QueryByContext :: "review_state \<Rightarrow> string \<Rightarrow> Review list" where
  "review_QueryByContext s c = index_query s c"

section \<open>Handlers\<close>

record requestReviewRequest =
  rqWorkContextID :: string
  rqAgentRunID :: string
  rqDiffArtifactID :: string
  rqEvidenceSnapshot :: "EvidenceSnapshotItem list"

record decideReviewRequest =
  dqReviewID :: string
  dqDecision :: string
  dqReviewer :: string
  dqNotes :: string
  dqAcceptanceResults :: "AcceptanceResult list"

definition new_review :: "string \<Rightarrow> string \<Rightarrow> requestReviewRequest \<Rightarrow> Review" where
  "new_review newID now q =
     \<lparr> rwID = newID, rwWorkContextID = rqWorkContextID q, rwAgentRunID = rqAgentRunID q,
       rwDiffArtifactID = rqDiffArtifactID q, rwStatus = ''PENDING'', rwReviewer = [], rwNotes = [],
       rwAcceptanceResults = [], rwEvidenceSnapshot = rqEvidenceSnapshot q, rwRequestedAt = now, rwDecidedAt = [] \<rparr>"

definition requestHandler ::
  "(review_error append_error write_error \<Rightarrow> string) \<Rightarrow> store_env \<Rightarrow> string
   \<Rightarrow> requestReviewRequest option Envelope \<Rightarrow> review_store \<Rightarrow> Review reply \<times> review_store" where
  "requestHandler render env newID e s =
     (let invalid = proto_error ''INVALID'' ''work_context_id and diff_artifact_id are required''
      in case ePayload e of
           None \<Rightarrow> (Err invalid, s)
         | Some q \<Rightarrow>
             if rqWorkContextID q = [] \<or> rqDiffArtifactID q = [] then (Err invalid, s)
             else (let r = new_review newID (seNow env) q
                   in case fenced env e (RecordRequested (seWrite env) (seNow env) r) s of
                        (Inl er, s') \<Rightarrow> (Err (io_error (render er)), s')
                      | (Inr _, s') \<Rightarrow> (Ok r, s')))"

definition decide_failure ::
  "(review_error append_error write_error \<Rightarrow> string) \<Rightarrow> review_error append_error write_error \<Rightarrow> Error" where
  "decide_failure render er =
     (if er = FnErr (StoreError ReviewNotFound) then proto_error ''NOT_FOUND'' (render er)
      else if er = FnErr (StoreError ReviewAlreadyDecided) then proto_error ''CONFLICT'' (render er)
      else io_error (render er))"

definition decideHandler ::
  "(review_error append_error write_error \<Rightarrow> string) \<Rightarrow> store_env \<Rightarrow> decideReviewRequest option Envelope
   \<Rightarrow> review_store \<Rightarrow> Review reply \<times> review_store" where
  "decideHandler render env e s =
     (let invalid = proto_error ''INVALID'' ''review_id and valid decision are required''
      in case ePayload e of
           None \<Rightarrow> (Err invalid, s)
         | Some q \<Rightarrow>
             if dqReviewID q = [] \<or> (dqDecision q \<noteq> ''APPROVED'' \<and> dqDecision q \<noteq> ''CHANGES_REQUESTED'')
             then (Err invalid, s)
             else (case fenced env e (RecordDecided (seWrite env) (seNow env) (dqReviewID q) (dqDecision q)
                           (dqReviewer q) (dqNotes q) (dqAcceptanceResults q)) s of
                     (Inl er, s') \<Rightarrow> (Err (decide_failure render er), s')
                   | (Inr r, s') \<Rightarrow> (Ok r, s')))"

definition review_getHandler :: "string option Envelope \<Rightarrow> review_state \<Rightarrow> Review reply" where
  "review_getHandler e s =
     (case ePayload e of
        None \<Rightarrow> Err (proto_error ''INVALID'' ''review_id is required'')
      | Some i \<Rightarrow>
          if i = [] then Err (proto_error ''INVALID'' ''review_id is required'')
          else (case review_GetByID s i of
                  None \<Rightarrow> Err (proto_error ''NOT_FOUND'' ''review not found'')
                | Some r \<Rightarrow> Ok r))"

definition review_queryHandler :: "string option Envelope \<Rightarrow> review_state \<Rightarrow> Review list reply" where
  "review_queryHandler e s =
     (case ePayload e of
        None \<Rightarrow> Err (proto_error ''INVALID'' ''work_context_id is required'')
      | Some c \<Rightarrow>
          if c = [] then Err (proto_error ''INVALID'' ''work_context_id is required'')
          else Ok (review_QueryByContext s c))"

section \<open>The contract\<close>

fun review_legal :: "review_state \<Rightarrow> review_data \<Rightarrow> bool" where
  "review_legal s (ReviewRequested r) = (cxByID s (rwID r) = None)"
| "review_legal s (ReviewDecided r) =
     (case cxByID s (rwID r) of None \<Rightarrow> False | Some b \<Rightarrow> rwWorkContextID r = rwWorkContextID b)"
| "review_legal s _ = False"

interpretation review_log: recording review_apply "index_inv rwID rwWorkContextID" review_legal
  rwID rwWorkContextID ReviewRequested
proof unfold_locales
  show "index_inv rwID rwWorkContextID empty_index" by (rule index_inv_empty)
next
  fix s d
  assume "index_inv rwID rwWorkContextID s" "review_legal s d"
  then show "\<exists>s'. review_apply d s = Ok s' \<and> index_inv rwID rwWorkContextID s'"
    by (cases d) (auto intro: index_inv_record index_inv_replace split: option.splits)
qed simp_all

abbreviation review_good :: "review_store \<Rightarrow> bool" where
  "review_good \<equiv> good_store review_apply empty_index (index_inv rwID rwWorkContextID)"

abbreviation review_writes :: "write_outcome \<Rightarrow> review_store \<Rightarrow> review_store \<Rightarrow> bool" where
  "review_writes \<equiv> writes_legal review_apply review_legal"

lemma requestHandler_reply:
  "record_reply review_apply ReviewRequested
     (\<lambda>r. (case ePayload e of None \<Rightarrow> False | Some q \<Rightarrow> r = new_review newID (seNow env) q) \<and> good_fence env e)
     (seWrite env) (seNow env) s (requestHandler render env newID e s)"
proof (cases "ePayload e")
  case (Some q)
  have f: "RecordRequested w now r = append_log review_apply w now (ReviewRequested r)" for w now r
    by (simp add: fun_eq_iff RecordRequested_def review_append_def)
  from Some show ?thesis
    by (simp add: requestHandler_def f Let_def) (intro impI record_reply_fenced_writeI; simp)
qed (simp add: requestHandler_def)

section \<open>The life of a review\<close>

text \<open>
  What was asked (the request's context, run, diff and evidence), and how it was decided.
\<close>

datatype review_asked = Asked string string string "EvidenceSnapshotItem list" string

datatype review_life =
    NotAsked
  | Open review_asked
  | Closed review_asked string string string "AcceptanceResult list"

definition asked_of :: "Review \<Rightarrow> review_asked" where
  "asked_of r = Asked (rwWorkContextID r) (rwAgentRunID r) (rwDiffArtifactID r) (rwEvidenceSnapshot r) (rwRequestedAt r)"

definition life :: "review_state \<Rightarrow> string \<Rightarrow> review_life" where
  "life s i =
     (case cxByID s i of
        None \<Rightarrow> NotAsked
      | Some r \<Rightarrow> if rwStatus r = ''PENDING'' then Open (asked_of r)
                  else Closed (asked_of r) (rwStatus r) (rwReviewer r) (rwNotes r) (rwAcceptanceResults r))"

inductive review_step :: "review_life \<Rightarrow> review_life \<Rightarrow> bool" where
  ask: "review_step NotAsked (Open q)"
| decide: "d \<in> {''APPROVED'', ''CHANGES_REQUESTED''} \<Longrightarrow> review_step (Open q) (Closed q d who notes results)"

inductive_cases review_step_Closed: "review_step (Closed q d who notes results) l"
inductive_simps review_step_NotAsked: "review_step NotAsked l"
inductive_simps review_step_Open: "review_step (Open q) l"

lemma closed_stays: "review_step\<^sup>*\<^sup>* l l' \<Longrightarrow> l = Closed q d who notes results \<Longrightarrow> l' = l"
  by (induction rule: rtranclp_induct) (auto elim: review_step_Closed)

text \<open>What one step of a handler does to the lives of all reviews: nothing, or one step of one.\<close>

definition one_step :: "string \<Rightarrow> review_state \<Rightarrow> review_state \<Rightarrow> bool" where
  "one_step i s s' \<longleftrightarrow> review_step (life s i) (life s' i) \<and> (\<forall>j. j = i \<or> life s' j = life s j)"

lemma requestHandler_life:
  assumes "cxByID (lsState s) newID = None"
  shows "case requestHandler render env newID e s of
      (Inl er, s') \<Rightarrow> lsState s' = lsState s
    | (Inr r, s') \<Rightarrow> one_step newID (lsState s) (lsState s') \<and> life (lsState s') newID = Open (asked_of r)"
proof -
  obtain res s' where r: "requestHandler render env newID e s = (res, s')" by force
  have "record_reply review_apply ReviewRequested
     (\<lambda>r. (case ePayload e of None \<Rightarrow> False | Some q \<Rightarrow> r = new_review newID (seNow env) q) \<and> good_fence env e)
     (seWrite env) (seNow env) s (res, s')"
    using requestHandler_reply r by metis
  then show ?thesis
  proof (cases rule: record_replyE)
    case (failed er a x)
    with r show ?thesis
      by (auto simp: append_log_def Let_def split: if_splits)
  next
    case (recorded a)
    with r assms show ?thesis
      by (auto simp: append_log_def Let_def new_review_def one_step_def life_def index_record_def review_step_NotAsked
          split: if_splits option.splits)
  qed (use r in simp)
qed

lemma RecordDecided_life:
  assumes "index_inv rwID rwWorkContextID (lsState s)"
    and "RecordDecided w now i decision reviewer notes results s = (res, s')"
    and "decision \<in> {''APPROVED'', ''CHANGES_REQUESTED''}"
  shows "case res of
      Inl er \<Rightarrow> lsState s' = lsState s
    | Inr r \<Rightarrow> one_step i (lsState s) (lsState s') \<and> rwID r = i
        \<and> life (lsState s') i = Closed (asked_of r) decision reviewer notes results"
proof (cases "cxByID (lsState s) i")
  case (Some p)
  have i: "rwID p = i" using index_invD(1) [OF assms(1) Some] .
  have "decision \<noteq> ''PENDING''" using assms(3) by auto
  then show ?thesis
    using assms(2,3) Some i
    by (auto simp: RecordDecided_def Let_def review_append_def append_log_def one_step_def life_def index_replace_def
        decided_def asked_of_def review_step_Open split: if_splits)
qed (use assms in \<open>auto simp: RecordDecided_def\<close>)

lemma RecordDecided_writes:
  assumes "index_inv rwID rwWorkContextID (lsState s)"
  shows "review_writes w s (snd (RecordDecided w now i decision reviewer notes results s))"
proof (cases "cxByID (lsState s) i")
  case (Some p)
  then have "review_legal (lsState s) (ReviewDecided (decided p decision reviewer notes results now))"
    using index_invD(1) [OF assms Some] by (simp add: decided_def)
  then have "review_writes w s (snd (append_log review_apply w now (ReviewDecided (decided p decision reviewer notes results now)) s))"
    unfolding writes_legal_def by blast
  with Some show ?thesis by (simp add: RecordDecided_def review_append_def Let_def)
qed (simp add: RecordDecided_def)

lemma requestHandler_writes:
  "cxByID (lsState s) newID = None \<Longrightarrow> review_writes (seWrite env) s (snd (requestHandler render env newID e s))"
  by (rule record_reply_writes [OF requestHandler_reply]) (auto simp: new_review_def split: option.splits)

lemma decideHandler_writes:
  "index_inv rwID rwWorkContextID (lsState s) \<Longrightarrow>
   review_writes (seWrite env) s (snd (decideHandler render env e s))"
  using RecordDecided_writes
  by (simp add: decideHandler_def Let_def fenced_state split: option.split)

lemma decideHandler_life:
  assumes "index_inv rwID rwWorkContextID (lsState s)"
  shows "case decideHandler render env e s of
      (Inl er, s') \<Rightarrow> lsState s' = lsState s
    | (Inr r, s') \<Rightarrow> one_step (rwID r) (lsState s) (lsState s') \<and> good_fence env e
        \<and> (case ePayload e of None \<Rightarrow> False | Some q \<Rightarrow> rwID r = dqReviewID q
             \<and> life (lsState s') (rwID r) = Closed (asked_of r) (dqDecision q) (dqReviewer q) (dqNotes q) (dqAcceptanceResults q))"
proof (cases "ePayload e")
  case (Some q)
  obtain res s' where r: "RecordDecided (seWrite env) (seNow env) (dqReviewID q) (dqDecision q)
      (dqReviewer q) (dqNotes q) (dqAcceptanceResults q) s = (res, s')"
    using prod.exhaust by blast
  from Some RecordDecided_life [OF assms r] r show ?thesis
    by (auto simp: decideHandler_def Let_def fenced_def WithWriteFence_def good_fence_def split: option.split sum.splits)
qed (simp add: decideHandler_def)

text \<open>
  Any sequence of requests to the plugin, whatever the disk does to each; new ids are fresh.
\<close>

inductive reviews :: "review_store \<Rightarrow> review_store \<Rightarrow> bool" for s where
  none: "reviews s s"
| asked: "reviews s s1 \<Longrightarrow> cxByID (lsState s1) newID = None \<Longrightarrow> requestHandler render env newID e s1 = (res, s2)
    \<Longrightarrow> reviews s s2"
| ruled: "reviews s s1 \<Longrightarrow> decideHandler render env e s1 = (res, s2) \<Longrightarrow> reviews s s2"

lemma one_step_lives: "one_step i s s' \<Longrightarrow> review_step\<^sup>*\<^sup>* (life s j) (life s' j)"
  unfolding one_step_def by (cases "j = i") auto

lemma requestHandler_index:
  assumes "index_inv rwID rwWorkContextID (lsState s)" and "cxByID (lsState s) newID = None"
    and "requestHandler render env newID e s = (res, s')"
  shows "index_inv rwID rwWorkContextID (lsState s')"
  using review_log.op_keeps_inv [OF assms(1) requestHandler_writes [OF assms(2), where env = env and render = render and e = e]]
    assms(3) by simp

lemma decideHandler_index:
  assumes "index_inv rwID rwWorkContextID (lsState s)" and "decideHandler render env e s = (res, s')"
  shows "index_inv rwID rwWorkContextID (lsState s')"
  using review_log.op_keeps_inv [OF assms(1) decideHandler_writes [OF assms(1), where env = env and render = render and e = e]]
    assms(2) by simp

lemma reviews_lives:
  assumes "reviews s s'" and "index_inv rwID rwWorkContextID (lsState s)"
  shows "index_inv rwID rwWorkContextID (lsState s') \<and> review_step\<^sup>*\<^sup>* (life (lsState s) i) (life (lsState s') i)"
  using assms(1)
proof induction
  case none
  show ?case using assms(2) by simp
next
  case (asked s1 newID render env e res s2)
  have "review_step\<^sup>*\<^sup>* (life (lsState s1) i) (life (lsState s2) i)"
    using requestHandler_life [OF asked(2), where render = render and env = env and e = e] asked(3)
    by (auto split: sum.splits dest: one_step_lives)
  with asked requestHandler_index show ?case by (meson rtranclp_trans)
next
  case (ruled s1 render env e res s2)
  then have inv: "index_inv rwID rwWorkContextID (lsState s1)" by simp
  have "review_step\<^sup>*\<^sup>* (life (lsState s1) i) (life (lsState s2) i)"
    using decideHandler_life [OF inv, where render = render and env = env and e = e] ruled(2)
    by (auto split: sum.splits dest: one_step_lives)
  with ruled inv decideHandler_index show ?case by (meson rtranclp_trans)
qed

section \<open>Properties\<close>


definition sample_review_request :: requestReviewRequest where
  "sample_review_request = \<lparr> rqWorkContextID = ''c'', rqAgentRunID = ''a'', rqDiffArtifactID = ''d'', rqEvidenceSnapshot = [] \<rparr>"

definition sample_decision :: "string \<Rightarrow> decideReviewRequest" where
  "sample_decision d = \<lparr> dqReviewID = ''v'', dqDecision = d, dqReviewer = ''bo'', dqNotes = [], dqAcceptanceResults = [] \<rparr>"

definition sample_asked :: review_store where
  "sample_asked = snd (requestHandler (\<lambda>_. []) (sample_store_env Written) ''v''
     (sample_request (Some sample_review_request)) (fresh_store empty_index))"

lemma sample_asked_good: "review_good sample_asked"
  unfolding sample_asked_def
  by (rule review_log.op_good [OF review_log.good_fresh])
    (use requestHandler_writes [where env = "sample_store_env Written" and s = "fresh_store empty_index"] in simp)

lemma sample_asked_life: "life (lsState sample_asked) ''v'' = Open (Asked ''c'' ''a'' ''d'' [] ''t'')"
  by (simp add: sample_asked_def requestHandler_def sample_review_request_def new_review_def RecordRequested_def
      review_append_def append_log_def Let_def life_def index_record_def asked_of_def)


text \<open>
  Decisions are final: whatever requests follow, each review only ever moves along its life
  (asked, then decided once), so one that is decided keeps its decision, reviewer, notes and
  results.
\<close>

theorem decisions_are_final:
  assumes "reviews s s'" and "review_good s"
  shows "review_step\<^sup>*\<^sup>* (life (lsState s) i) (life (lsState s') i)
    \<and> (case life (lsState s) i of
         Closed q d who notes results \<Rightarrow> life (lsState s') i = Closed q d who notes results
       | _ \<Rightarrow> True)"
  using reviews_lives [OF assms(1) review_log.good_inv [OF assms(2)], of i] closed_stays
  by (auto split: review_life.split)

theorem decisions_are_final_witness:
  "reviews (fresh_store empty_index) sample_asked
   \<and> review_step\<^sup>*\<^sup>* NotAsked (life (lsState sample_asked) ''v'')"
proof -
  have r: "reviews (fresh_store empty_index) sample_asked"
    by (rule reviews.asked [OF reviews.none, where newID = "''v''" and render = "\<lambda>_. []" and env = "sample_store_env Written"
        and e = "sample_request (Some sample_review_request)"
        and res = "fst (requestHandler (\<lambda>_. []) (sample_store_env Written) ''v''
            (sample_request (Some sample_review_request)) (fresh_store empty_index))"])
      (simp_all add: sample_asked_def)
  with decisions_are_final [OF r review_log.good_fresh, of "''v''"] show ?thesis
    by (simp add: life_def)
qed

end
