(* ===== verification/AgentProvider.thy ===== *)
theory AgentProvider
  imports Manifest "HOL-Library.Sublist"
begin

text \<open>
  What an agent run does while it works (\<open>plugins/agent-harness/provider.go\<close>, \<open>session.go\<close>): a
  provider emits frames and ends with a result, and the transcript of both is what is archived. The
  mock provider is modelled in full; when its context is cancelled, and whether its file can be
  written, are arguments. The providers that run an external agent are a parameter of the runs.
\<close>

record Frame =
  frKind :: string
  frText :: string
  frIndex :: int

record RunSpec =
  rsWorkspacePath :: string
  rsPrompt :: string
  rsMockSteps :: int
  rsMockDelayMS :: int
  rsMockFailAt :: int
  rsMockWriteFile :: string
  rsMockWriteContent :: string

record RunResult =
  rrStatus :: string
  rrNativeID :: string
  rrProviderMeta :: string

definition StatusRunning :: string where "StatusRunning = ''RUNNING''"
definition StatusCompleted :: string where "StatusCompleted = ''COMPLETED''"
definition StatusFailed :: string where "StatusFailed = ''FAILED''"
definition StatusCancelled :: string where "StatusCancelled = ''CANCELLED''"
definition StatusTimeout :: string where "StatusTimeout = ''TIMEOUT''"

lemmas status_defs = StatusRunning_def StatusCompleted_def StatusFailed_def StatusCancelled_def StatusTimeout_def

section \<open>The mock provider\<close>

definition filepath_Join :: "string \<Rightarrow> string \<Rightarrow> string" where
  "filepath_Join a b =
     (if a = [] \<and> b = [] then []
      else if a = [] then filepath_Clean b
      else if b = [] then filepath_Clean a
      else filepath_Clean (a @ CHR ''/'' # b))"

definition mock_path :: "RunSpec \<Rightarrow> string" where
  "mock_path sp = filepath_Join (rsWorkspacePath sp) (filepath_Clean (rsMockWriteFile sp))"

definition mock_step_count :: "RunSpec \<Rightarrow> int" where
  "mock_step_count sp = (if rsMockSteps sp \<le> 0 then 3 else rsMockSteps sp)"

definition mock_content :: "RunSpec \<Rightarrow> string" where
  "mock_content sp =
     (if rsMockWriteContent sp = [] then ''// touched by mock agent'' @ [CHR 0x0A] else rsMockWriteContent sp)"

definition stdout_frame :: "RunSpec \<Rightarrow> int \<Rightarrow> Frame" where
  "stdout_frame sp i =
     \<lparr> frKind = ''stdout'', frText = ''step-'' @ digits (nat i) @ '': '' @ take 40 (rsPrompt sp), frIndex = i \<rparr>"

definition stderr_frame :: "int \<Rightarrow> Frame" where
  "stderr_frame i =
     \<lparr> frKind = ''stderr'', frText = ''mock failure at step '' @ digits (nat i), frIndex = i \<rparr>"

text \<open>
  The loop over the steps: \<open>cancelled i\<close> says whether the wait before step \<open>i\<close> ends with the
  context's cancellation, \<open>writable\<close> whether the file of the first step can be written. The result
  is the frames sent, what was appended to files, and the status.
\<close>

fun mock_loop ::
  "(int \<Rightarrow> bool) \<Rightarrow> bool \<Rightarrow> RunSpec \<Rightarrow> int list \<Rightarrow> Frame list \<times> (string \<times> string) list \<times> string" where
  "mock_loop cancelled writable sp [] = ([], [], StatusCompleted)"
| "mock_loop cancelled writable sp (i # is) =
     (if i > 1 \<and> cancelled i then ([], [], StatusCancelled)
      else if rsMockFailAt sp > 0 \<and> i = rsMockFailAt sp then ([stderr_frame i], [], StatusFailed)
      else if i = 1 \<and> rsMockWriteFile sp \<noteq> [] \<and> \<not> writable then ([stdout_frame sp i], [], StatusFailed)
      else (case mock_loop cancelled writable sp is of (fs, ws, st) \<Rightarrow>
              (stdout_frame sp i # fs,
               (if i = 1 \<and> rsMockWriteFile sp \<noteq> [] then [(mock_path sp, mock_content sp)] else []) @ ws, st)))"

text \<open>\<open>digest6\<close> is the hex of the first six bytes of SHA-256, \<open>steps_json\<close> the JSON of the metadata.\<close>

definition mockNativeID :: "(string \<Rightarrow> string) \<Rightarrow> RunSpec \<Rightarrow> int \<Rightarrow> string" where
  "mockNativeID digest6 sp steps =
     ''mock-'' @ digest6 (rsWorkspacePath sp @ [CHR 0x00] @ rsPrompt sp @ [CHR 0x00] @ digits (nat steps))"

definition mock_meta :: "int \<Rightarrow> string" where
  "mock_meta steps = ''{'' @ [CHR 0x22] @ ''steps'' @ [CHR 0x22] @ '':'' @ digits (nat steps) @ ''}''"

definition MockProvider_Run ::
  "(string \<Rightarrow> string) \<Rightarrow> (int \<Rightarrow> bool) \<Rightarrow> bool \<Rightarrow> RunSpec \<Rightarrow> Frame list \<times> (string \<times> string) list \<times> RunResult" where
  "MockProvider_Run digest6 cancelled writable sp =
     (let steps = mock_step_count sp
      in case mock_loop cancelled writable sp [1..steps] of
           (fs, ws, st) \<Rightarrow>
             (fs, ws, \<lparr> rrStatus = st, rrNativeID = mockNativeID digest6 sp steps, rrProviderMeta = mock_meta steps \<rparr>))"

section \<open>The transcript\<close>

record Transcript =
  tsFrames :: "Frame list"
  tsResult :: RunResult

definition Transcript_Bytes :: "(Frame \<Rightarrow> string) \<Rightarrow> Transcript \<Rightarrow> string" where
  "Transcript_Bytes frame_json t =
     concat (map (\<lambda>f. frame_json f @ [CHR 0x0A]) (tsFrames t))
     @ ''== result: '' @ rrStatus (tsResult t) @ '' =='' @ [CHR 0x0A]"

text \<open>
  \<open>runProvider\<close> keeps every frame and mirrors those the mirror takes in time (or before the context
  ends); the transcript does not depend on the mirror.
\<close>

definition runProvider :: "(Frame \<Rightarrow> bool) \<Rightarrow> Frame list \<times> RunResult \<Rightarrow> Transcript \<times> Frame list" where
  "runProvider taken r = (\<lparr> tsFrames = fst r, tsResult = snd r \<rparr>, filter taken (fst r))"

section \<open>Lemmas\<close>

definition terminal_statuses :: "string set" where
  "terminal_statuses = {StatusCompleted, StatusFailed, StatusCancelled, StatusTimeout}"

lemma running_not_terminal [simp]: "StatusRunning \<notin> terminal_statuses"
  by (simp add: terminal_statuses_def status_defs)

lemma frame_index [simp]: "frIndex (stdout_frame sp i) = i" "frIndex (stderr_frame i) = i"
  by (simp_all add: stdout_frame_def stderr_frame_def)

lemma mock_loop_status: "mock_loop c w sp is = (fs, ws, st) \<Longrightarrow> st \<in> terminal_statuses"
  by (induction "is" arbitrary: fs ws) (auto simp: terminal_statuses_def split: if_splits prod.splits)

lemma mock_loop_prefix: "mock_loop c w sp is = (fs, ws, st) \<Longrightarrow> prefix (map frIndex fs) is"
  by (induction "is" arbitrary: fs ws) (auto split: if_splits prod.splits)

lemma mock_loop_completed:
  "mock_loop c w sp is = (fs, ws, StatusCompleted) \<Longrightarrow>
     length fs = length is \<and> \<not> (rsMockFailAt sp > 0 \<and> rsMockFailAt sp \<in> set is)"
  by (induction "is" arbitrary: fs ws) (auto simp: status_defs split: if_splits prod.splits)

section \<open>Properties\<close>

text \<open>
  The mock provider always ends, in a terminal status, with frames numbered 1, 2, ... without a
  gap; it reports COMPLETED only after a frame for every step, none of them the step at which it
  was told to fail.
\<close>

theorem mock_run_ends:
  "case MockProvider_Run digest6 cancelled writable sp of (fs, ws, res) \<Rightarrow>
     rrStatus res \<in> terminal_statuses
     \<and> map frIndex fs = take (length fs) [1..mock_step_count sp]
     \<and> (if rrStatus res = StatusCompleted then int (length fs) = mock_step_count sp
          \<and> rsMockFailAt sp \<notin> {1..mock_step_count sp} else True)"
proof -
  obtain fs ws st where r: "mock_loop cancelled writable sp [1..mock_step_count sp] = (fs, ws, st)"
    by (metis prod_cases3)
  have "map frIndex fs = take (length fs) [1..mock_step_count sp]"
    using mock_loop_prefix [OF r] by (auto simp: prefix_def)
  moreover have "st = StatusCompleted \<Longrightarrow> int (length fs) = mock_step_count sp \<and> rsMockFailAt sp \<notin> {1..mock_step_count sp}"
    using mock_loop_completed [of cancelled writable sp "[1..mock_step_count sp]" fs ws] r
    by (auto simp: mock_step_count_def)
  ultimately show ?thesis
    using mock_loop_status [OF r] by (simp add: MockProvider_Run_def Let_def r)
qed

text \<open>
  The file the mock provider writes is not confined to the workspace: a name that starts with
  two dots leads out of it.
\<close>

theorem mock_write_escapes_workspace:
  "case MockProvider_Run (\<lambda>_. []) (\<lambda>_. False) True
      \<lparr> rsWorkspacePath = ''/work/ws'', rsPrompt = ''p'', rsMockSteps = 1, rsMockDelayMS = 0, rsMockFailAt = 0,
        rsMockWriteFile = ''../../etc/cron'', rsMockWriteContent = ''x'' \<rparr> of
     (fs, ws, res) \<Rightarrow> ws = [(''/etc/cron'', ''x'')] \<and> rrStatus res = StatusCompleted"
  by code_simp

end
