(* ===== verification/AgentStore.thy ===== *)
theory AgentStore
  imports ContextIndex StoreSamples AgentProvider
begin

text \<open>
  The agent harness's store and handlers (\<open>plugins/agent-harness/store.go\<close>, \<open>handlers.go\<close>,
  \<open>runreg.go\<close>): a run is recorded as started, and ends once, completed with its transcript or
  cancelled. The registry knows the live runs, and which of them have been told to stop.
\<close>

record AgentRun =
  agID :: string
  agWorkContextID :: string
  agWorkspacePath :: string
  agPrompt :: string
  agProvider :: string
  agHarnessNativeID :: string
  agStatus :: string
  agRawSessionRef :: string
  agProviderMetadata :: string
  agFrameCount :: int
  agStartedAt :: string
  agEndedAt :: string

record completedData =
  cmID :: string
  cmStatus :: string
  cmRawSessionRef :: string
  cmFrameCount :: int
  cmProviderMetadata :: string
  cmEndedAt :: string

datatype agent_data =
    RunStarted AgentRun | RunCompleted completedData | RunCancelled string string
  | RunBadData string | RunUnknownOp string

datatype agent_error = RunNotFound | RunAlreadyTerminal | RunDataError string | UnknownRunOp string

type_synonym agent_state = "AgentRun context_index"
type_synonym agent_store = "(agent_data, agent_state) log_store"

definition completed_run :: "completedData \<Rightarrow> AgentRun \<Rightarrow> AgentRun" where
  "completed_run d ar =
     ar\<lparr> agStatus := cmStatus d, agRawSessionRef := cmRawSessionRef d, agFrameCount := cmFrameCount d,
         agProviderMetadata := cmProviderMetadata d, agEndedAt := cmEndedAt d \<rparr>"

definition cancelled_run :: "string \<Rightarrow> AgentRun \<Rightarrow> AgentRun" where
  "cancelled_run now ar = ar\<lparr> agStatus := StatusCancelled, agEndedAt := now \<rparr>"

fun agent_apply :: "agent_data \<Rightarrow> agent_state \<Rightarrow> (agent_error, agent_state) result" where
  "agent_apply (RunStarted ar) s = Ok (index_record agID agWorkContextID ar s)"
| "agent_apply (RunCompleted d) s =
     (case cxByID s (cmID d) of
        None \<Rightarrow> Err RunNotFound
      | Some ar \<Rightarrow> Ok (s\<lparr> cxByID := (cxByID s)(cmID d \<mapsto> completed_run d ar) \<rparr>))"
| "agent_apply (RunCancelled i now) s =
     (case cxByID s i of
        None \<Rightarrow> Err RunNotFound
      | Some ar \<Rightarrow> Ok (s\<lparr> cxByID := (cxByID s)(i \<mapsto> cancelled_run now ar) \<rparr>))"
| "agent_apply (RunBadData op) s = Err (RunDataError op)"
| "agent_apply (RunUnknownOp op) s = Err (UnknownRunOp op)"

definition agent_Load :: "agent_data log_file \<Rightarrow> (agent_error load_log_error, agent_store) result" where
  "agent_Load f = load_log agent_apply empty_index f"

definition agent_append ::
  "write_outcome \<Rightarrow> string \<Rightarrow> agent_data \<Rightarrow> agent_store \<Rightarrow> (agent_error append_error, unit) result \<times> agent_store" where
  "agent_append = append_log agent_apply"

definition RecordStarted ::
  "write_outcome \<Rightarrow> string \<Rightarrow> AgentRun \<Rightarrow> agent_store \<Rightarrow> (agent_error append_error, unit) result \<times> agent_store" where
  "RecordStarted w now ar s = agent_append w now (RunStarted ar) s"

text \<open>The guard both ends of a run share.\<close>

definition if_running ::
  "string \<Rightarrow> (agent_store \<Rightarrow> (agent_error append_error, unit) result \<times> agent_store) \<Rightarrow> agent_store
   \<Rightarrow> (agent_error append_error, unit) result \<times> agent_store" where
  "if_running i op s =
     (case cxByID (lsState s) i of
        None \<Rightarrow> (Err (StoreError RunNotFound), s)
      | Some ar \<Rightarrow> if agStatus ar \<noteq> StatusRunning then (Err (StoreError RunAlreadyTerminal), s) else op s)"

definition RecordCompleted ::
  "write_outcome \<Rightarrow> string \<Rightarrow> string \<Rightarrow> string \<Rightarrow> string \<Rightarrow> int \<Rightarrow> string \<Rightarrow> agent_store
   \<Rightarrow> (agent_error append_error, unit) result \<times> agent_store" where
  "RecordCompleted w now i status ref frames meta s =
     if_running i (agent_append w now (RunCompleted
       \<lparr> cmID = i, cmStatus = status, cmRawSessionRef = ref, cmFrameCount = frames, cmProviderMetadata = meta,
         cmEndedAt = now \<rparr>)) s"

definition RecordCancelled ::
  "write_outcome \<Rightarrow> string \<Rightarrow> string \<Rightarrow> agent_store \<Rightarrow> (agent_error append_error, unit) result \<times> agent_store" where
  "RecordCancelled w now i s = if_running i (agent_append w now (RunCancelled i now)) s"

definition agent_GetByID :: "agent_state \<Rightarrow> string \<Rightarrow> AgentRun option" where
  "agent_GetByID s i = cxByID s i"

definition agent_QueryByContext :: "agent_state \<Rightarrow> string \<Rightarrow> AgentRun list" where
  "agent_QueryByContext s c = index_query s c"

section \<open>The registry of live runs\<close>

text \<open>For each live run, whether its context has been cancelled.\<close>

type_synonym runRegistry = "string \<Rightarrow> bool option"

definition runreg_register :: "string \<Rightarrow> runRegistry \<Rightarrow> runRegistry" where
  "runreg_register i r = r(i \<mapsto> False)"

definition runreg_stop :: "string \<Rightarrow> runRegistry \<Rightarrow> bool \<times> runRegistry" where
  "runreg_stop i r = (case r i of None \<Rightarrow> (False, r) | Some _ \<Rightarrow> (True, r(i \<mapsto> True)))"

definition runreg_done :: "string \<Rightarrow> runRegistry \<Rightarrow> runRegistry" where
  "runreg_done i r = r(i := None)"

section \<open>Handlers\<close>

record agentRunRequest =
  aqWorkContextID :: string
  aqWorkspacePath :: string
  aqPrompt :: string
  aqProvider :: string
  aqMockSteps :: int
  aqMockDelayMS :: int
  aqMockFailAt :: int
  aqMockWriteFile :: string
  aqMockWriteContent :: string

definition provider_name :: "string \<Rightarrow> agentRunRequest \<Rightarrow> string" where
  "provider_name dflt q =
     (let n = (if aqProvider q = [] then dflt else aqProvider q) in if n = [] then ''mock'' else n)"

definition new_run :: "string \<Rightarrow> string \<Rightarrow> string \<Rightarrow> agentRunRequest \<Rightarrow> AgentRun" where
  "new_run newID now name q =
     \<lparr> agID = newID, agWorkContextID = aqWorkContextID q, agWorkspacePath = aqWorkspacePath q,
       agPrompt = aqPrompt q, agProvider = name, agHarnessNativeID = name @ ''-'' @ newID,
       agStatus = StatusRunning, agRawSessionRef = [], agProviderMetadata = [], agFrameCount = 0,
       agStartedAt = now, agEndedAt = [] \<rparr>"

definition run_spec :: "agentRunRequest \<Rightarrow> RunSpec" where
  "run_spec q =
     \<lparr> rsWorkspacePath = aqWorkspacePath q, rsPrompt = aqPrompt q, rsMockSteps = aqMockSteps q,
       rsMockDelayMS = aqMockDelayMS q, rsMockFailAt = aqMockFailAt q, rsMockWriteFile = aqMockWriteFile q,
       rsMockWriteContent = aqMockWriteContent q \<rparr>"

text \<open>
  \<open>startAgentRun\<close> up to the record of the start; what follows, registering the run and starting
  its goroutine, are steps of their own in \<open>AgentRuns\<close>.
\<close>

definition startAgentRun ::
  "(agent_error append_error write_error \<Rightarrow> string) \<Rightarrow> store_env \<Rightarrow> string set \<Rightarrow> string \<Rightarrow> string
   \<Rightarrow> 'p Envelope \<Rightarrow> agentRunRequest \<Rightarrow> agent_store \<Rightarrow> AgentRun reply \<times> agent_store" where
  "startAgentRun render env providers dflt newID e q s =
     (let name = provider_name dflt q
      in if aqWorkContextID q = [] \<or> aqWorkspacePath q = [] \<or> aqPrompt q = []
         then (Err (proto_error ''INVALID'' ''work_context_id, workspace_path and prompt are required''), s)
         else if name \<notin> providers then (Err (proto_error ''INVALID'' (''unknown provider '' @ [CHR 0x22] @ name @ [CHR 0x22])), s)
         else (let ar = new_run newID (seNow env) name q
               in case fenced env e (RecordStarted (seWrite env) (seNow env) ar) s of
                    (Inl er, s') \<Rightarrow> (Err (io_error (render er)), s')
                  | (Inr _, s') \<Rightarrow> (Ok ar, s')))"

definition agentRunHandler ::
  "(agent_error append_error write_error \<Rightarrow> string) \<Rightarrow> store_env \<Rightarrow> string set \<Rightarrow> string \<Rightarrow> string
   \<Rightarrow> agentRunRequest option Envelope \<Rightarrow> agent_store \<Rightarrow> AgentRun reply \<times> agent_store" where
  "agentRunHandler render env providers dflt newID e s =
     (case ePayload e of
        None \<Rightarrow> (Err (proto_error ''INVALID'' ''work_context_id, workspace_path and prompt are required''), s)
      | Some q \<Rightarrow> startAgentRun render env providers dflt newID e q s)"

text \<open>The end of \<open>runOnce\<close>: the transcript is stored (or not), and the result recorded under the fence.\<close>

definition runOnce ::
  "store_env \<Rightarrow> 'p Envelope \<Rightarrow> (string \<Rightarrow> string option) \<Rightarrow> (Frame \<Rightarrow> string) \<Rightarrow> string \<Rightarrow> Transcript
   \<Rightarrow> agent_store \<Rightarrow> agent_store" where
  "runOnce env e blobPut frame_json i t s =
     (let uri = (case blobPut (Transcript_Bytes frame_json t) of None \<Rightarrow> [] | Some u \<Rightarrow> u)
      in snd (fenced env e (RecordCompleted (seWrite env) (seNow env) i (rrStatus (tsResult t)) uri
               (int (length (tsFrames t))) (rrProviderMeta (tsResult t))) s))"

definition agent_getHandler :: "string option Envelope \<Rightarrow> agent_state \<Rightarrow> AgentRun reply" where
  "agent_getHandler e s =
     (case ePayload e of
        None \<Rightarrow> Err (proto_error ''INVALID'' ''agent_run_id is required'')
      | Some i \<Rightarrow>
          if i = [] then Err (proto_error ''INVALID'' ''agent_run_id is required'')
          else (case agent_GetByID s i of
                  None \<Rightarrow> Err (proto_error ''NOT_FOUND'' ''agent run not found'')
                | Some r \<Rightarrow> Ok r))"

definition agent_queryHandler :: "string option Envelope \<Rightarrow> agent_state \<Rightarrow> AgentRun list reply" where
  "agent_queryHandler e s =
     (case ePayload e of
        None \<Rightarrow> Err (proto_error ''INVALID'' ''work_context_id is required'')
      | Some c \<Rightarrow>
          if c = [] then Err (proto_error ''INVALID'' ''work_context_id is required'')
          else Ok (agent_QueryByContext s c))"

text \<open>
  \<open>cancelHandler\<close> in three parts, between which other requests and runs go on: the check and the
  stop, the answer once a live run is done, and the record of a run that is not live.
\<close>

datatype cancel_next = Answer "AgentRun reply" | WaitForRun string | StoreOnly string

definition cancel_begin ::
  "string option Envelope \<Rightarrow> agent_state \<Rightarrow> runRegistry \<Rightarrow> cancel_next \<times> runRegistry" where
  "cancel_begin e s r =
     (case ePayload e of
        None \<Rightarrow> (Answer (Err (proto_error ''INVALID'' ''agent_run_id is required'')), r)
      | Some i \<Rightarrow>
          if i = [] then (Answer (Err (proto_error ''INVALID'' ''agent_run_id is required'')), r)
          else (case agent_GetByID s i of
                  None \<Rightarrow> (Answer (Err (proto_error ''NOT_FOUND'' ''agent run not found'')), r)
                | Some ar \<Rightarrow>
                    if agStatus ar \<noteq> StatusRunning
                    then (Answer (Err (proto_error ''CONFLICT'' (''already '' @ agStatus ar))), r)
                    else (case runreg_stop i r of
                            (live, r') \<Rightarrow> (if live then WaitForRun i else StoreOnly i, r'))))"

definition cancel_waited :: "bool \<Rightarrow> string \<Rightarrow> agent_state \<Rightarrow> AgentRun reply" where
  "cancel_waited stopped i s =
     (if \<not> stopped then Err (io_error ''cancel: provider did not stop within 30s'')
      else (case agent_GetByID s i of
              None \<Rightarrow> Err (proto_error ''NOT_FOUND'' ''agent run disappeared after cancel'')
            | Some final \<Rightarrow>
                if agStatus final = StatusRunning
                then Err (io_error ''cancel: provider stopped but terminal record was not persisted'')
                else Ok final))"

definition cancel_store_only ::
  "(agent_error append_error write_error \<Rightarrow> string) \<Rightarrow> store_env \<Rightarrow> 'p Envelope \<Rightarrow> string
   \<Rightarrow> agent_store \<Rightarrow> AgentRun option reply \<times> agent_store" where
  "cancel_store_only render env e i s =
     (case agent_GetByID (lsState s) i of
        None \<Rightarrow> (Err (proto_error ''NOT_FOUND'' ''agent run not found''), s)
      | Some cur \<Rightarrow>
          if agStatus cur \<noteq> StatusRunning
          then (Err (proto_error ''CONFLICT'' (''already '' @ agStatus cur)), s)
          else (case fenced env e (RecordCancelled (seWrite env) (seNow env) i) s of
                  (Inr _, s') \<Rightarrow> (Ok (agent_GetByID (lsState s') i), s')
                | (Inl er, s') \<Rightarrow>
                    (if er = FnErr (StoreError RunAlreadyTerminal) then
                       (Err (proto_error ''CONFLICT'' (''already '' @
                          (case agent_GetByID (lsState s') i of None \<Rightarrow> [] | Some a \<Rightarrow> agStatus a))), s')
                     else if er = FnErr (StoreError RunNotFound) then (Err (proto_error ''NOT_FOUND'' (render er)), s')
                     else (Err (io_error (render er)), s'))))"

section \<open>The contract\<close>

fun agent_legal :: "agent_state \<Rightarrow> agent_data \<Rightarrow> bool" where
  "agent_legal s (RunStarted ar) = (cxByID s (agID ar) = None)"
| "agent_legal s (RunCompleted d) = (cxByID s (cmID d) \<noteq> None)"
| "agent_legal s (RunCancelled i now) = (cxByID s i \<noteq> None)"
| "agent_legal s _ = False"

lemma run_ends_ids [simp]:
  "agID (completed_run d ar) = agID ar" "agWorkContextID (completed_run d ar) = agWorkContextID ar"
  "agID (cancelled_run now ar) = agID ar" "agWorkContextID (cancelled_run now ar) = agWorkContextID ar"
  by (simp_all add: completed_run_def cancelled_run_def)

lemma index_inv_change:
  assumes "index_inv agID agWorkContextID s" and "cxByID s i = Some ar"
    and "agID ar' = agID ar" and "agWorkContextID ar' = agWorkContextID ar"
  shows "index_inv agID agWorkContextID (s\<lparr> cxByID := (cxByID s)(i \<mapsto> ar') \<rparr>)"
  using index_inv_replace [OF assms(1), of ar' ar] index_invD(1) [OF assms(1,2)] assms
  by (simp add: index_replace_def)

interpretation agent_log: recording agent_apply "index_inv agID agWorkContextID" agent_legal
  agID agWorkContextID RunStarted
proof unfold_locales
  show "index_inv agID agWorkContextID empty_index" by (rule index_inv_empty)
next
  fix s d
  assume "index_inv agID agWorkContextID s" "agent_legal s d"
  then show "\<exists>s'. agent_apply d s = Ok s' \<and> index_inv agID agWorkContextID s'"
    by (cases d) (auto intro: index_inv_record, (rule index_inv_change; simp)+)
qed simp_all

abbreviation agent_good :: "agent_store \<Rightarrow> bool" where
  "agent_good \<equiv> good_store agent_apply empty_index (index_inv agID agWorkContextID)"

abbreviation agent_writes :: "write_outcome \<Rightarrow> agent_store \<Rightarrow> agent_store \<Rightarrow> bool" where
  "agent_writes \<equiv> writes_legal agent_apply agent_legal"

lemma startAgentRun_reply:
  "record_reply agent_apply RunStarted
     (\<lambda>ar. ar = new_run newID (seNow env) (provider_name dflt q) q \<and> provider_name dflt q \<in> providers \<and> good_fence env e)
     (seWrite env) (seNow env) s (startAgentRun render env providers dflt newID e q s)"
proof -
  have f: "RecordStarted w now r = append_log agent_apply w now (RunStarted r)" for w now r
    by (simp add: fun_eq_iff RecordStarted_def agent_append_def)
  show ?thesis
    by (simp add: startAgentRun_def f Let_def) (intro impI record_reply_fenced_writeI; simp)
qed

lemma if_running_writes:
  assumes "\<And>ar. cxByID (lsState s) i = Some ar \<Longrightarrow> agStatus ar = StatusRunning \<Longrightarrow> agent_writes w s (snd (op s))"
  shows "agent_writes w s (snd (if_running i op s))"
  using assms by (simp add: if_running_def split: option.split)

lemma writes_legal_log: "agent_legal (lsState s) d \<Longrightarrow> agent_writes w s (snd (agent_append w now d s))"
  unfolding writes_legal_def agent_append_def by blast

lemma runOnce_writes: "agent_writes (seWrite env) s (runOnce env e blobPut frame_json i t s)"
  unfolding runOnce_def Let_def RecordCompleted_def
  by (intro writes_legal_fenced if_running_writes writes_legal_log) simp

lemma cancel_store_only_writes: "agent_writes (seWrite env) s (snd (cancel_store_only render env e i s))"
proof -
  have "agent_writes (seWrite env) s (snd (fenced env e (RecordCancelled (seWrite env) (seNow env) i) s))"
    unfolding RecordCancelled_def by (intro writes_legal_fenced if_running_writes writes_legal_log) simp
  then show ?thesis
    unfolding cancel_store_only_def
    by (auto split: option.split prod.splits sum.splits)
qed

end
