(* ===== verification/AgentRuns.thy ===== *)
theory AgentRuns
  imports AgentStore
begin

text \<open>
  Agent runs and their cancellation as interleaved steps (\<open>handlers.go\<close>, \<open>runreg.go\<close>): a run is
  recorded, then registered, then its goroutine ends it and takes it off the registry; a cancel
  checks and stops, and may later write a record of its own. Between these steps anything else may
  happen. \<open>run_step\<close> is the specification of one run's record.
\<close>

datatype run_phase = Unregistered | Working | Ended

record agent_sys =
  asStore :: agent_store
  asRuns :: runRegistry
  asPhase :: "string \<Rightarrow> run_phase option"
  asStoreOnly :: "string set"

definition agent_init :: agent_sys where
  "agent_init = \<lparr> asStore = fresh_store empty_index, asRuns = (\<lambda>_. None), asPhase = (\<lambda>_. None), asStoreOnly = {} \<rparr>"

abbreviation as_lookup :: "agent_sys \<Rightarrow> string \<Rightarrow> AgentRun option" where
  "as_lookup \<sigma> i \<equiv> agent_GetByID (lsState (asStore \<sigma>)) i"

definition note_cancel :: "cancel_next \<Rightarrow> string set \<Rightarrow> string set" where
  "note_cancel n is = (case n of StoreOnly i \<Rightarrow> insert i is | _ \<Rightarrow> is)"

inductive agent_step :: "agent_sys \<Rightarrow> agent_sys \<Rightarrow> bool" where
  started: "startAgentRun render env providers dflt newID (e :: agentRunRequest option Envelope) q (asStore \<sigma>) = (Inr ar, s') \<Longrightarrow> as_lookup \<sigma> newID = None
    \<Longrightarrow> agent_step \<sigma> (\<sigma>\<lparr> asStore := s', asPhase := (asPhase \<sigma>)(newID \<mapsto> Unregistered) \<rparr>)"
| refused: "startAgentRun render env providers dflt newID (e :: agentRunRequest option Envelope) q (asStore \<sigma>) = (Inl er, s') \<Longrightarrow> as_lookup \<sigma> newID = None
    \<Longrightarrow> agent_step \<sigma> (\<sigma>\<lparr> asStore := s' \<rparr>)"
| registered: "asPhase \<sigma> i = Some Unregistered
    \<Longrightarrow> agent_step \<sigma> (\<sigma>\<lparr> asRuns := runreg_register i (asRuns \<sigma>), asPhase := (asPhase \<sigma>)(i \<mapsto> Working) \<rparr>)"
| ended: "asPhase \<sigma> i = Some Working \<Longrightarrow> rrStatus (tsResult t) \<in> terminal_statuses
    \<Longrightarrow> agent_step \<sigma> (\<sigma>\<lparr> asStore := runOnce env (e :: agentRunRequest option Envelope) blobPut frame_json i t (asStore \<sigma>),
                          asPhase := (asPhase \<sigma>)(i \<mapsto> Ended) \<rparr>)"
| deregistered: "asPhase \<sigma> i = Some Ended
    \<Longrightarrow> agent_step \<sigma> (\<sigma>\<lparr> asRuns := runreg_done i (asRuns \<sigma>), asPhase := (asPhase \<sigma>)(i := None) \<rparr>)"
| cancelling: "cancel_begin c (lsState (asStore \<sigma>)) (asRuns \<sigma>) = (n, r')
    \<Longrightarrow> agent_step \<sigma> (\<sigma>\<lparr> asRuns := r', asStoreOnly := note_cancel n (asStoreOnly \<sigma>) \<rparr>)"
| cancelled: "i \<in> asStoreOnly \<sigma> \<Longrightarrow> cancel_store_only render env (e :: string option Envelope) i (asStore \<sigma>) = (res, s')
    \<Longrightarrow> agent_step \<sigma> (\<sigma>\<lparr> asStore := s' \<rparr>)"

section \<open>The life of a run's record\<close>

definition same_run :: "AgentRun \<Rightarrow> AgentRun \<Rightarrow> bool" where
  "same_run a b \<longleftrightarrow> agID a = agID b \<and> agWorkContextID a = agWorkContextID b \<and> agWorkspacePath a = agWorkspacePath b
     \<and> agPrompt a = agPrompt b \<and> agProvider a = agProvider b \<and> agHarnessNativeID a = agHarnessNativeID b
     \<and> agStartedAt a = agStartedAt b"

inductive run_step :: "AgentRun option \<Rightarrow> AgentRun option \<Rightarrow> bool" where
  starts: "agStatus ar = StatusRunning \<Longrightarrow> run_step None (Some ar)"
| ends: "agStatus ar = StatusRunning \<Longrightarrow> same_run ar ar' \<Longrightarrow> agStatus ar' \<in> terminal_statuses
    \<Longrightarrow> run_step (Some ar) (Some ar')"

inductive_cases run_step_Some: "run_step (Some ar) x"

lemma ended_stays:
  "run_step\<^sup>*\<^sup>* x y \<Longrightarrow> x = Some ar \<Longrightarrow> agStatus ar \<noteq> StatusRunning \<Longrightarrow> y = x"
  by (induction rule: rtranclp_induct) (auto elim: run_step_Some)

lemma started_keeps_identity:
  "run_step\<^sup>*\<^sup>* x y \<Longrightarrow> x = Some ar \<Longrightarrow> (\<exists>ar'. y = Some ar' \<and> same_run ar ar')"
  by (induction rule: rtranclp_induct) (auto elim: run_step_Some simp: same_run_def)

lemma started_ends_terminal:
  "run_step\<^sup>*\<^sup>* x y \<Longrightarrow> x = Some ar \<Longrightarrow> y = x \<or> (\<exists>ar'. y = Some ar' \<and> agStatus ar' \<in> terminal_statuses)"
  by (induction rule: rtranclp_induct) (auto elim: run_step_Some)

definition lives :: "agent_state \<Rightarrow> agent_state \<Rightarrow> bool" where
  "lives s s' \<longleftrightarrow> (\<forall>i. run_step\<^sup>*\<^sup>* (cxByID s i) (cxByID s' i))"

lemma lives_refl [simp]: "lives s s"
  by (simp add: lives_def)

lemma lives_trans: "lives s t \<Longrightarrow> lives t u \<Longrightarrow> lives s u"
  unfolding lives_def by (metis rtranclp_trans)

lemma lives_one:
  assumes "run_step (cxByID s i) (Some ar)" and "cxByID s' = (cxByID s)(i \<mapsto> ar)"
  shows "lives s s'"
  using assms by (auto simp: lives_def)

lemma if_running_lives:
  assumes "\<And>ar. cxByID (lsState s) i = Some ar \<Longrightarrow> agStatus ar = StatusRunning \<Longrightarrow> lives (lsState s) (lsState (snd (op s)))"
  shows "lives (lsState s) (lsState (snd (if_running i op s)))"
  using assms by (simp add: if_running_def split: option.split)

lemma append_lives:
  assumes "\<And>s'. agent_apply d (lsState s) = Inr s' \<Longrightarrow> lives (lsState s) s'"
  shows "lives (lsState s) (lsState (snd (agent_append w now d s)))"
  using assms by (auto simp: agent_append_def append_log_def Let_def split: sum.split)

lemma fenced_lives:
  "lives (lsState s) (lsState (snd (fn s))) \<Longrightarrow> lives (lsState s) (lsState (snd (fenced env e fn s)))"
  by (simp add: fenced_state)

lemma RecordStarted_lives:
  assumes "cxByID (lsState s) (agID ar) = None" and "agStatus ar = StatusRunning"
  shows "lives (lsState s) (lsState (snd (RecordStarted w now ar s)))"
  unfolding RecordStarted_def
  using assms by (intro append_lives) (auto simp: index_record_def intro!: lives_one run_step.starts)

lemma RecordCompleted_lives:
  assumes "status \<in> terminal_statuses"
  shows "lives (lsState s) (lsState (snd (RecordCompleted w now i status ref n meta s)))"
  unfolding RecordCompleted_def
proof (intro if_running_lives append_lives)
  fix ar s'
  let ?d = "\<lparr> cmID = i, cmStatus = status, cmRawSessionRef = ref, cmFrameCount = n, cmProviderMetadata = meta,
         cmEndedAt = now \<rparr>"
  assume "cxByID (lsState s) i = Some ar" "agStatus ar = StatusRunning" "agent_apply (RunCompleted ?d) (lsState s) = Inr s'"
  moreover from this assms have "run_step (Some ar) (Some (completed_run ?d ar))"
    by (intro run_step.ends) (simp_all add: same_run_def completed_run_def)
  ultimately show "lives (lsState s) s'" by (intro lives_one [of _ i "completed_run ?d ar"]) auto
qed

lemma RecordCancelled_lives: "lives (lsState s) (lsState (snd (RecordCancelled w now i s)))"
  unfolding RecordCancelled_def
proof (intro if_running_lives append_lives)
  fix ar s'
  assume "cxByID (lsState s) i = Some ar" "agStatus ar = StatusRunning" "agent_apply (RunCancelled i now) (lsState s) = Inr s'"
  moreover from this have "run_step (Some ar) (Some (cancelled_run now ar))"
    by (intro run_step.ends) (simp_all add: same_run_def cancelled_run_def terminal_statuses_def)
  ultimately show "lives (lsState s) s'" by (intro lives_one [of _ i "cancelled_run now ar"]) auto
qed

lemma startAgentRun_lives:
  assumes "cxByID (lsState s) newID = None"
  shows "lives (lsState s) (lsState (snd (startAgentRun render env providers dflt newID e q s)))"
proof -
  have "lives (lsState s) (lsState (snd (fenced env e (RecordStarted (seWrite env) (seNow env)
      (new_run newID (seNow env) (provider_name dflt q) q)) s)))"
    using assms by (intro fenced_lives RecordStarted_lives) (simp_all add: new_run_def)
  then show ?thesis by (simp add: startAgentRun_def Let_def)
qed

lemma runOnce_lives:
  "rrStatus (tsResult t) \<in> terminal_statuses \<Longrightarrow> lives (lsState s) (lsState (runOnce env e blobPut frame_json i t s))"
  unfolding runOnce_def Let_def by (intro fenced_lives RecordCompleted_lives)

lemma cancel_store_only_lives: "lives (lsState s) (lsState (snd (cancel_store_only render env e i s)))"
  using fenced_lives [where fn = "RecordCancelled (seWrite env) (seNow env) i" and s = s and env = env and e = e, OF RecordCancelled_lives]
  unfolding cancel_store_only_def by (auto split: option.split prod.splits sum.splits)

lemma agent_step_lives: "agent_step \<sigma> \<sigma>' \<Longrightarrow> lives (lsState (asStore \<sigma>)) (lsState (asStore \<sigma>'))"
proof (induction rule: agent_step.induct)
  case (started render env providers dflt newID e q \<sigma> ar s')
  with startAgentRun_lives [of "asStore \<sigma>" newID render env providers dflt e q] show ?case by (simp add: agent_GetByID_def)
next
  case (refused render env providers dflt newID e q \<sigma> er s')
  with startAgentRun_lives [of "asStore \<sigma>" newID render env providers dflt e q] show ?case by (simp add: agent_GetByID_def)
next
  case (cancelled i \<sigma> render env e res s')
  with cancel_store_only_lives [of "asStore \<sigma>" render env e i] show ?case by simp
qed (simp_all add: runOnce_lives)

lemma agent_steps_lives: "agent_step\<^sup>*\<^sup>* \<sigma> \<sigma>' \<Longrightarrow> lives (lsState (asStore \<sigma>)) (lsState (asStore \<sigma>'))"
  by (induction rule: rtranclp_induct) (auto intro: lives_trans agent_step_lives)

section \<open>The registry and the goroutines\<close>

text \<open>A run is registered exactly while its goroutine is under way, and only recorded runs have one.\<close>

definition agent_inv :: "agent_sys \<Rightarrow> bool" where
  "agent_inv \<sigma> \<longleftrightarrow>
     index_inv agID agWorkContextID (lsState (asStore \<sigma>))
     \<and> (\<forall>i. asRuns \<sigma> i \<noteq> None \<longleftrightarrow> asPhase \<sigma> i = Some Working \<or> asPhase \<sigma> i = Some Ended)
     \<and> (\<forall>i. asPhase \<sigma> i \<noteq> None \<longrightarrow> as_lookup \<sigma> i \<noteq> None)"

lemma agent_init_inv: "agent_inv agent_init"
  by (simp add: agent_inv_def agent_init_def index_inv_empty agent_GetByID_def)

lemma lives_known: "lives s s' \<Longrightarrow> cxByID s i \<noteq> None \<Longrightarrow> cxByID s' i \<noteq> None"
  unfolding lives_def using started_keeps_identity by (metis not_None_eq)

lemma cancel_begin_runs:
  "cancel_begin c s r = (n, r') \<Longrightarrow> (r' i = None \<longleftrightarrow> r i = None)
     \<and> (case n of WaitForRun j \<Rightarrow> r' j = Some True \<and> r' = r(j \<mapsto> True) | _ \<Rightarrow> r' = r)"
  by (auto simp: cancel_begin_def runreg_stop_def split: option.splits if_splits)

lemma startAgentRun_index:
  assumes "index_inv agID agWorkContextID (lsState s)" and "cxByID (lsState s) newID = None"
  shows "index_inv agID agWorkContextID (lsState (snd (startAgentRun render env providers dflt newID e q s)))"
  by (rule agent_log.op_keeps_inv [OF assms(1) record_reply_writes [OF startAgentRun_reply]])
    (simp add: assms(2) new_run_def)

lemma startAgentRun_recorded:
  assumes "startAgentRun render env providers dflt newID e q s = (Inr ar, s')"
  shows "cxByID (lsState s') newID = Some ar"
proof -
  have "record_reply agent_apply RunStarted
     (\<lambda>ar. ar = new_run newID (seNow env) (provider_name dflt q) q \<and> provider_name dflt q \<in> providers \<and> good_fence env e)
     (seWrite env) (seNow env) s (Inr ar :: AgentRun reply, s')"
    using startAgentRun_reply assms by metis
  then show ?thesis
    by (rule record_replyE)
      (auto simp: append_log_def Let_def index_record_def new_run_def split: if_splits)
qed

lemma agent_step_inv:
  assumes "agent_step \<sigma> \<sigma>'" and "agent_inv \<sigma>"
  shows "agent_inv \<sigma>'"
proof -
  have known: "as_lookup \<sigma> i \<noteq> None \<Longrightarrow> as_lookup \<sigma>' i \<noteq> None" for i
    using lives_known [OF agent_step_lives [OF assms(1)]] by (simp add: agent_GetByID_def)
  show ?thesis
    using assms(1)
  proof cases
    case (started render env providers dflt newID e q ar s')
    with startAgentRun_index [of "asStore \<sigma>" newID render env providers dflt e q] startAgentRun_recorded [OF started(2)] assms(2) known
    show ?thesis
      unfolding agent_inv_def by (auto simp: agent_GetByID_def)
  next
    case (refused render env providers dflt newID e q er s')
    with startAgentRun_index [of "asStore \<sigma>" newID render env providers dflt e q] assms(2) known
    show ?thesis
      unfolding agent_inv_def by (auto simp: agent_GetByID_def)
  next
    case (registered i)
    with assms(2) show ?thesis
      unfolding agent_inv_def by (auto simp: runreg_register_def)
  next
    case (ended i t env e blobPut frame_json)
    with assms(2) known agent_log.op_keeps_inv [OF _ runOnce_writes, of "asStore \<sigma>" env e blobPut frame_json i t]
    show ?thesis
      unfolding agent_inv_def by auto
  next
    case (deregistered i)
    with assms(2) show ?thesis
      unfolding agent_inv_def by (auto simp: runreg_done_def)
  next
    case (cancelling c n r')
    with assms(2) cancel_begin_runs [OF cancelling(2)] show ?thesis
      unfolding agent_inv_def by auto
  next
    case (cancelled i render env e res s')
    with assms(2) known agent_log.op_keeps_inv [OF _ cancel_store_only_writes, of "asStore \<sigma>" render env e i]
    show ?thesis
      unfolding agent_inv_def by auto
  qed
qed

lemma agent_steps_inv: "agent_step\<^sup>*\<^sup>* \<sigma> \<sigma>' \<Longrightarrow> agent_inv \<sigma> \<Longrightarrow> agent_inv \<sigma>'"
  by (induction rule: rtranclp_induct) (auto intro: agent_step_inv)

section \<open>Properties\<close>

text \<open>
  C12: however starts, ends and cancels interleave, and whatever the disk and the fence do to them,
  a run that is recorded keeps its identity, moves only from RUNNING to a terminal status, and once
  there its record never changes again; and a run is in the registry exactly while its goroutine
  works on it.
\<close>

theorem runs_end_once:
  assumes "agent_step\<^sup>*\<^sup>* agent_init \<sigma>" and "agent_step\<^sup>*\<^sup>* \<sigma> \<sigma>'"
  shows "agent_inv \<sigma>'
    \<and> (case as_lookup \<sigma> i of
         None \<Rightarrow> True
       | Some ar \<Rightarrow> (case as_lookup \<sigma>' i of
             None \<Rightarrow> False
           | Some ar' \<Rightarrow> same_run ar ar'
               \<and> (if agStatus ar = StatusRunning then ar' = ar \<or> agStatus ar' \<in> terminal_statuses else ar' = ar)))"
proof -
  have inv: "agent_inv \<sigma>'" using agent_steps_inv agent_init_inv assms by blast
  have l: "run_step\<^sup>*\<^sup>* (as_lookup \<sigma> i) (as_lookup \<sigma>' i)"
    using agent_steps_lives [OF assms(2)] by (simp add: lives_def agent_GetByID_def)
  show ?thesis
  proof (cases "as_lookup \<sigma> i")
    case (Some ar)
    obtain ar' where ar': "as_lookup \<sigma>' i = Some ar'" "same_run ar ar'"
      using started_keeps_identity [OF l Some] by blast
    have "ar' = ar \<or> agStatus ar' \<in> terminal_statuses"
      using started_ends_terminal [OF l Some] ar'(1) Some by auto
    with Some ar' ended_stays [OF l Some] inv show ?thesis by auto
  qed (use inv in simp)
qed

definition sample_agent_request :: agentRunRequest where
  "sample_agent_request = \<lparr> aqWorkContextID = ''c'', aqWorkspacePath = ''/w'', aqPrompt = ''go'', aqProvider = [],
     aqMockSteps = 0, aqMockDelayMS = 0, aqMockFailAt = 0, aqMockWriteFile = [], aqMockWriteContent = [] \<rparr>"

definition sample_run :: AgentRun where
  "sample_run = new_run ''r'' ''t'' ''mock'' sample_agent_request"

definition sample_started :: agent_sys where
  "sample_started = agent_init\<lparr>
     asStore := snd (startAgentRun (\<lambda>_. []) (sample_store_env Written) {''mock''} ''mock'' ''r''
       (sample_request (Some sample_agent_request)) sample_agent_request (fresh_store empty_index)),
     asPhase := [''r'' \<mapsto> Unregistered] \<rparr>"

lemma sample_start:
  "startAgentRun (\<lambda>_. []) (sample_store_env Written) {''mock''} ''mock'' ''r''
     (sample_request (Some sample_agent_request)) sample_agent_request (fresh_store empty_index) =
   (Inr sample_run, asStore sample_started)"
  "as_lookup sample_started ''r'' = Some sample_run" "asRuns sample_started = (\<lambda>_. None)"
  "asPhase sample_started = [''r'' \<mapsto> Unregistered]" "asStoreOnly sample_started = {}"
  by (simp_all add: sample_started_def startAgentRun_def sample_agent_request_def provider_name_def sample_run_def
      RecordStarted_def agent_append_def append_log_def Let_def index_record_def new_run_def agent_GetByID_def agent_init_def)

lemma sample_started_step: "agent_step agent_init sample_started"
proof -
  have "asStore agent_init = fresh_store empty_index" by (simp add: agent_init_def)
  with sample_start(1) have "startAgentRun (\<lambda>_. []) (sample_store_env Written) {''mock''} ''mock'' ''r''
     (sample_request (Some sample_agent_request)) sample_agent_request (asStore agent_init) =
   (Inr sample_run, asStore sample_started)" by simp
  from agent_step.started [OF this] show ?thesis
    by (simp add: agent_GetByID_def sample_started_def agent_init_def)
qed

theorem runs_end_once_witness:
  "agent_inv sample_started \<and> as_lookup sample_started ''r'' = Some sample_run"
proof -
  have "agent_step\<^sup>*\<^sup>* agent_init sample_started"
    using sample_started_step by (rule r_into_rtranclp)
  from runs_end_once [OF this, of sample_started "''r''"] sample_start(2) show ?thesis by simp
qed

definition sample_cancelled :: agent_store where
  "sample_cancelled = snd (cancel_store_only (\<lambda>_. []) (sample_store_env Written) (sample_request (Some ''r'')) ''r''
     (asStore sample_started))"

definition sample_escaped :: agent_sys where
  "sample_escaped = \<lparr> asStore = sample_cancelled, asRuns = [''r'' \<mapsto> False], asPhase = [''r'' \<mapsto> Working],
     asStoreOnly = {''r''} \<rparr>"

lemma sample_cancel:
  "cancel_store_only (\<lambda>_. []) (sample_store_env Written) (sample_request (Some ''r'')) ''r'' (asStore sample_started) =
     (Inr (Some (cancelled_run ''t'' sample_run)), sample_cancelled)"
  "agent_GetByID (lsState sample_cancelled) ''r'' = Some (cancelled_run ''t'' sample_run)"
  "agStatus sample_run = StatusRunning"
  using sample_start(2)
  by (auto simp: sample_cancelled_def cancel_store_only_def RecordCancelled_def if_running_def agent_append_def append_log_def
      Let_def agent_GetByID_def sample_run_def new_run_def)

text \<open>
  A cancel that comes after a run is recorded and before it is registered finds no live run and
  records it as cancelled; the run is then registered and works on, its context not cancelled,
  although its record, and the answer to the caller, say CANCELLED.
\<close>

theorem cancel_misses_unregistered_run:
  "agent_step\<^sup>*\<^sup>* agent_init sample_escaped
   \<and> (case as_lookup sample_escaped ''r'' of None \<Rightarrow> False | Some ar \<Rightarrow> agStatus ar = StatusCancelled)
   \<and> asPhase sample_escaped ''r'' = Some Working \<and> asRuns sample_escaped ''r'' = Some False"
proof -
  let ?c = "sample_request (Some ''r'')"
  let ?a = "sample_started\<lparr> asStoreOnly := {''r''} \<rparr>" and ?b = "sample_started\<lparr> asStoreOnly := {''r''}, asStore := sample_cancelled \<rparr>"
  have "cancel_begin ?c (lsState (asStore sample_started)) (asRuns sample_started) = (StoreOnly ''r'', asRuns sample_started)"
    using sample_start sample_cancel(3) by (simp add: cancel_begin_def runreg_stop_def)
  from agent_step.cancelling [OF this] have 1: "agent_step sample_started ?a"
    by (simp add: note_cancel_def sample_started_def agent_init_def)
  have 2: "agent_step ?a ?b"
    using agent_step.cancelled [of "''r''" ?a, where render = "\<lambda>_. []" and env = "sample_store_env Written" and e = ?c] sample_cancel(1)
    by simp
  have "asPhase ?b ''r'' = Some Unregistered" by (simp add: sample_start)
  from agent_step.registered [OF this] have 3: "agent_step ?b sample_escaped"
    by (simp add: sample_started_def agent_init_def runreg_register_def sample_escaped_def)
  from 1 2 3 sample_started_step have "agent_step\<^sup>*\<^sup>* agent_init sample_escaped"
    by (meson rtranclp.rtrancl_into_rtrancl rtranclp.rtrancl_refl)
  then show ?thesis
    using sample_cancel(2) by (simp add: sample_escaped_def cancelled_run_def)
qed

text \<open>
  Cancelling a live run answers with its final record: once the run has stopped and its result
  was recorded under a good fence, the answer carries the transcript's status and number of
  frames. When the record could not be written the answer says so and the run stays RUNNING.
\<close>

theorem cancel_of_live_run_reports_result:
  assumes "as_lookup \<sigma> i = Some ar" and "agStatus ar = StatusRunning" and "rrStatus (tsResult t) \<in> terminal_statuses"
    and "s' = runOnce env e blobPut frame_json i t (asStore \<sigma>)"
  shows "case cancel_waited True i (lsState s') of
      Inr final \<Rightarrow> good_fence env e \<and> seWrite env = Written \<and> agStatus final = rrStatus (tsResult t)
        \<and> agFrameCount final = int (length (tsFrames t)) \<and> same_run ar final
    | Inl er \<Rightarrow> \<not> (good_fence env e \<and> seWrite env = Written) \<and> agent_GetByID (lsState s') i = Some ar"
proof (cases "good_fence env e \<and> seWrite env = Written")
  case True
  then show ?thesis
    using assms
    by (auto simp: runOnce_def fenced_state good_fence_def RecordCompleted_def if_running_def agent_append_def append_log_def
        Let_def agent_GetByID_def cancel_waited_def completed_run_def same_run_def)
next
  case False
  then have "lsState s' = lsState (asStore \<sigma>)"
    using assms(1,2,4)
    by (auto simp: runOnce_def fenced_state good_fence_def RecordCompleted_def if_running_def agent_append_def append_log_def
        Let_def agent_GetByID_def)
  then show ?thesis using False assms by (auto simp: cancel_waited_def agent_GetByID_def)
qed

theorem cancel_of_live_run_reports_result_witness:
  "case cancel_waited True ''r'' (lsState (runOnce (sample_store_env Written) (sample_request ()) Some (\<lambda>_. []) ''r''
      \<lparr> tsFrames = [], tsResult = \<lparr> rrStatus = StatusCancelled, rrNativeID = [], rrProviderMeta = [] \<rparr> \<rparr>
      (asStore sample_started))) of
     Inr final \<Rightarrow> agStatus final = StatusCancelled | Inl er \<Rightarrow> False"
  using cancel_of_live_run_reports_result [OF sample_start(2) sample_cancel(3) _ refl, where env = "sample_store_env Written"
      and t = "\<lparr> tsFrames = [], tsResult = \<lparr> rrStatus = StatusCancelled, rrNativeID = [], rrProviderMeta = [] \<rparr> \<rparr>"
      and e = "sample_request ()" and blobPut = Some and frame_json = "\<lambda>_. []"]
  by (auto simp: terminal_statuses_def split: sum.splits)

end
