(* ===== verification/Journal.thy ===== *)
theory Journal
  imports StoreSamples
begin

text \<open>
  The event journal (\<open>plugins/foundation/event-journal/main.go\<close>, and the kernel's copy of it,
  \<open>kernel/plugins/event-journal/main.go\<close>): an append-only file of records, each carrying the hash of
  its own contents and of the record before it. \<open>hash\<close> is the hex SHA-256 of the JSON of the hashed
  fields, None where the JSON cannot be made; \<open>len\<close> is the length of a record's line, and \<open>mx\<close> the
  longest token the scanner takes, 16 MiB in the foundation plugin and 64 KiB in the kernel's copy.
\<close>

record EventRecord =
  erID :: string
  erType :: string
  erTimestamp :: string
  erTraceID :: string
  erCorrelationID :: string
  erCausationID :: string
  erCaller :: string
  erPrincipal :: string
  erActorChain :: "string list"
  erSource :: string
  erPayload :: string
  erPreviousSHA256 :: string
  erSHA256 :: string

datatype hashMaterial =
  HashMaterial string string string string string string string string "string list" string string string

definition material :: "EventRecord \<Rightarrow> hashMaterial" where
  "material r = HashMaterial (erID r) (erType r) (erTimestamp r) (erTraceID r) (erCorrelationID r) (erCausationID r)
     (erCaller r) (erPrincipal r) (erActorChain r) (erSource r) (erPayload r) (erPreviousSHA256 r)"

definition journal_digest :: "(hashMaterial \<Rightarrow> string option) \<Rightarrow> EventRecord \<Rightarrow> string option" where
  "journal_digest hash r = hash (material r)"

text \<open>A line is a record or something else of some length; the last line may lack its newline.\<close>

datatype journal_line = EventLine EventRecord | NotARecord nat

record journal_file =
  jfLines :: "journal_line list"
  jfTail :: "journal_line option"

record journal =
  joFile :: "journal_file option"
  joLastHash :: string

definition line_length :: "(EventRecord \<Rightarrow> nat) \<Rightarrow> journal_line \<Rightarrow> nat" where
  "line_length len l = (case l of EventLine r \<Rightarrow> len r | NotARecord n \<Rightarrow> n)"

definition scanned_lines :: "journal_file \<Rightarrow> journal_line list" where
  "scanned_lines f = jfLines f @ (case jfTail f of None \<Rightarrow> [] | Some l \<Rightarrow> [l])"

datatype journal_error =
  LineTooLong | LineUndecodable nat | PreviousMismatch nat | DigestFailed nat | HashMismatch nat

section \<open>Verification\<close>

definition check_line ::
  "(hashMaterial \<Rightarrow> string option) \<Rightarrow> (EventRecord \<Rightarrow> nat) \<Rightarrow> nat \<Rightarrow> nat \<Rightarrow> string \<Rightarrow> journal_line
   \<Rightarrow> (journal_error, EventRecord) result" where
  "check_line hash len mx n prev l =
     (if mx \<le> line_length len l then Err LineTooLong
      else (case l of
              NotARecord _ \<Rightarrow> Err (LineUndecodable n)
            | EventLine r \<Rightarrow>
                if erPreviousSHA256 r \<noteq> prev then Err (PreviousMismatch n)
                else (case journal_digest hash r of
                        None \<Rightarrow> Err (DigestFailed n)
                      | Some got \<Rightarrow> if got \<noteq> erSHA256 r then Err (HashMismatch n) else Ok r)))"

fun verify_lines ::
  "(hashMaterial \<Rightarrow> string option) \<Rightarrow> (EventRecord \<Rightarrow> nat) \<Rightarrow> nat \<Rightarrow> nat \<Rightarrow> string \<Rightarrow> journal_line list
   \<Rightarrow> (journal_error, string) result" where
  "verify_lines hash len mx n prev [] = Ok prev"
| "verify_lines hash len mx n prev (l # ls) =
     (case check_line hash len mx (Suc n) prev l of
        Inl e \<Rightarrow> Err e
      | Inr r \<Rightarrow> verify_lines hash len mx (Suc n) (erSHA256 r) ls)"

text \<open>Reading the file at the start; an error is a panic of the plugin.\<close>

definition verifyAndLoadTail ::
  "(hashMaterial \<Rightarrow> string option) \<Rightarrow> (EventRecord \<Rightarrow> nat) \<Rightarrow> nat \<Rightarrow> journal_file option
   \<Rightarrow> (journal_error, journal) result" where
  "verifyAndLoadTail hash len mx f =
     (case f of
        None \<Rightarrow> Ok \<lparr> joFile = None, joLastHash = [] \<rparr>
      | Some g \<Rightarrow>
          (case verify_lines hash len mx 0 [] (scanned_lines g) of
             Inl e \<Rightarrow> Err e
           | Inr prev \<Rightarrow> Ok \<lparr> joFile = f, joLastHash = prev \<rparr>))"

section \<open>Append\<close>

definition merge_event :: "(EventRecord \<Rightarrow> nat) \<Rightarrow> journal_line option \<Rightarrow> EventRecord \<Rightarrow> journal_line" where
  "merge_event len t r = (case t of None \<Rightarrow> EventLine r | Some l \<Rightarrow> NotARecord (line_length len l + len r))"

definition write_event ::
  "(EventRecord \<Rightarrow> nat) \<Rightarrow> write_outcome \<Rightarrow> nat \<Rightarrow> EventRecord \<Rightarrow> journal_file option \<Rightarrow> journal_file option" where
  "write_event len w part r f0 =
     (let f = (case f0 of None \<Rightarrow> \<lparr> jfLines = [], jfTail = None \<rparr> | Some g \<Rightarrow> g);
          old = (case jfTail f of None \<Rightarrow> 0 | Some l \<Rightarrow> line_length len l);
          whole = \<lparr> jfLines = jfLines f @ [merge_event len (jfTail f) r], jfTail = None \<rparr>
      in case w of
           Written \<Rightarrow> Some whole
         | NotSynced \<Rightarrow> Some whole
         | NothingWritten \<Rightarrow> f0
         | PartWritten \<Rightarrow> Some (f\<lparr> jfTail := Some (NotARecord (old + part)) \<rparr>)
         | NewlineMissing \<Rightarrow> Some (f\<lparr> jfTail := Some (merge_event len (jfTail f) r) \<rparr>))"

datatype journal_write_error = RecordNotHashed | JournalWriteFailed

text \<open>What runs under the fence: chain the record to the last one, hash it, write it.\<close>

definition append_event ::
  "(hashMaterial \<Rightarrow> string option) \<Rightarrow> (EventRecord \<Rightarrow> nat) \<Rightarrow> write_outcome \<Rightarrow> nat \<Rightarrow> EventRecord \<Rightarrow> journal
   \<Rightarrow> (journal_write_error, EventRecord) result \<times> journal" where
  "append_event hash len w part rec0 j =
     (let r1 = rec0\<lparr> erPreviousSHA256 := joLastHash j \<rparr>
      in case journal_digest hash r1 of
           None \<Rightarrow> (Err RecordNotHashed, j)
         | Some h \<Rightarrow>
             let r2 = r1\<lparr> erSHA256 := h \<rparr>;
                 j1 = j\<lparr> joFile := write_event len w part r2 (joFile j) \<rparr>
             in if w \<noteq> Written then (Err JournalWriteFailed, j1)
                else (Ok r2, j1\<lparr> joLastHash := h \<rparr>))"

record AppendRequest =
  apType :: string
  apSource :: string
  apPayload :: string

definition new_event :: "string \<Rightarrow> string \<Rightarrow> 'p Envelope \<Rightarrow> AppendRequest \<Rightarrow> EventRecord" where
  "new_event newID now e q =
     \<lparr> erID = newID, erType = apType q, erTimestamp = now, erTraceID = eTraceID e, erCorrelationID = eCorrelationID e,
       erCausationID = eCausationID e, erCaller = eCaller e, erPrincipal = ePrincipal e, erActorChain = eActorChain e,
       erSource = apSource q, erPayload = apPayload q, erPreviousSHA256 = [], erSHA256 = [] \<rparr>"

definition appendHandler ::
  "(journal_write_error write_error \<Rightarrow> string) \<Rightarrow> (hashMaterial \<Rightarrow> string option) \<Rightarrow> (EventRecord \<Rightarrow> nat)
   \<Rightarrow> store_env \<Rightarrow> nat \<Rightarrow> string \<Rightarrow> AppendRequest option Envelope \<Rightarrow> journal \<Rightarrow> EventRecord reply \<times> journal" where
  "appendHandler render hash len env part newID e j =
     (case ePayload e of
        None \<Rightarrow> (Err (proto_error ''INVALID'' ''invalid event''), j)
      | Some q \<Rightarrow>
          if apType q = [] then (Err (proto_error ''INVALID'' ''invalid event''), j)
          else (case fenced env e (append_event hash len (seWrite env) part (new_event newID (seNow env) e q)) j of
                  (Inl er, j') \<Rightarrow> (Err (io_error (render er)), j')
                | (Inr r, j') \<Rightarrow> (Ok r, j')))"

section \<open>Replay\<close>

record ReplayRequest =
  ryAfter :: int
  ryLimit :: int

record ReplayResponse =
  rsRecords :: "EventRecord list"
  rsNext :: int

definition page_limit :: "ReplayRequest \<Rightarrow> int" where
  "page_limit q = (if ryLimit q \<le> 0 \<or> ryLimit q > 1000 then 100 else ryLimit q)"

fun replay_lines ::
  "(hashMaterial \<Rightarrow> string option) \<Rightarrow> (EventRecord \<Rightarrow> nat) \<Rightarrow> nat \<Rightarrow> int \<Rightarrow> int \<Rightarrow> nat \<Rightarrow> string \<Rightarrow> EventRecord list
   \<Rightarrow> journal_line list \<Rightarrow> (journal_error, EventRecord list) result" where
  "replay_lines hash len mx after limit idx prev out [] = Ok out"
| "replay_lines hash len mx after limit idx prev out (l # ls) =
     (case check_line hash len mx (Suc idx) prev l of
        Inl e \<Rightarrow> Err e
      | Inr r \<Rightarrow>
          replay_lines hash len mx after limit (Suc idx) (erSHA256 r)
            (if int idx \<ge> after \<and> int (length out) < limit then out @ [r] else out) ls)"

definition replay_failure :: "(journal_error \<Rightarrow> string) \<Rightarrow> journal_error \<Rightarrow> Error" where
  "replay_failure render e =
     (if e = LineTooLong then proto_error ''IO'' (render e) else proto_error ''INTEGRITY_ERROR'' (render e))"

definition replayHandler ::
  "(journal_error \<Rightarrow> string) \<Rightarrow> (hashMaterial \<Rightarrow> string option) \<Rightarrow> (EventRecord \<Rightarrow> nat) \<Rightarrow> nat
   \<Rightarrow> ReplayRequest \<Rightarrow> journal \<Rightarrow> ReplayResponse reply" where
  "replayHandler render hash len mx q j =
     (case joFile j of
        None \<Rightarrow> Ok \<lparr> rsRecords = [], rsNext = ryAfter q \<rparr>
      | Some f \<Rightarrow>
          (case replay_lines hash len mx (ryAfter q) (page_limit q) 0 [] [] (scanned_lines f) of
             Inl e \<Rightarrow> Err (replay_failure render e)
           | Inr out \<Rightarrow> Ok \<lparr> rsRecords = out, rsNext = ryAfter q + int (length out) \<rparr>))"

text \<open>
  The loop with which the session and workflow plugins read the whole journal
  (\<open>plugins/session/main.go\<close>): pages of a hundred until one makes no progress. \<open>fuel\<close> bounds the
  pages; None is running out of it.
\<close>

fun replay_all ::
  "(ReplayRequest \<Rightarrow> ReplayResponse reply) \<Rightarrow> nat \<Rightarrow> int \<Rightarrow> EventRecord list \<Rightarrow> EventRecord list reply option" where
  "replay_all query 0 after acc = None"
| "replay_all query (Suc fuel) after acc =
     (case query \<lparr> ryAfter = after, ryLimit = 100 \<rparr> of
        Inl er \<Rightarrow> Some (Err er)
      | Inr p \<Rightarrow>
          if rsNext p \<le> after then Some (Ok (acc @ rsRecords p))
          else replay_all query fuel (rsNext p) (acc @ rsRecords p))"

section \<open>The two copies\<close>

text \<open>
  The foundation plugin gives the scanner a buffer of 16 MiB. The kernel's copy leaves it at the
  default 64 KiB, and its replay of a journal that does not exist yet answers with the zero response.
\<close>

definition foundation_max :: nat where "foundation_max = 16 * 1024 * 1024"
definition kernel_max :: nat where "kernel_max = 64 * 1024"

definition kernel_verifyAndLoadTail ::
  "(hashMaterial \<Rightarrow> string option) \<Rightarrow> (EventRecord \<Rightarrow> nat) \<Rightarrow> journal_file option \<Rightarrow> (journal_error, journal) result" where
  "kernel_verifyAndLoadTail hash len f = verifyAndLoadTail hash len kernel_max f"

text \<open>
  Its append is the same, once as a method of the journal, which keeps the chained record to itself, and once
  inside the handler.
\<close>

definition kernel_append ::
  "(hashMaterial \<Rightarrow> string option) \<Rightarrow> (EventRecord \<Rightarrow> nat) \<Rightarrow> write_outcome \<Rightarrow> nat \<Rightarrow> EventRecord \<Rightarrow> journal
   \<Rightarrow> (journal_write_error, unit) result \<times> journal" where
  "kernel_append hash len w part rec0 j =
     (case append_event hash len w part rec0 j of
        (Inl er, j') \<Rightarrow> (Err er, j')
      | (Inr _, j') \<Rightarrow> (Ok (), j'))"

definition kernel_appendHandler ::
  "(journal_write_error write_error \<Rightarrow> string) \<Rightarrow> (hashMaterial \<Rightarrow> string option) \<Rightarrow> (EventRecord \<Rightarrow> nat)
   \<Rightarrow> store_env \<Rightarrow> nat \<Rightarrow> string \<Rightarrow> AppendRequest option Envelope \<Rightarrow> journal \<Rightarrow> EventRecord reply \<times> journal" where
  "kernel_appendHandler render hash len env part newID e j =
     (case ePayload e of
        None \<Rightarrow> (Err (proto_error ''INVALID'' ''invalid event''), j)
      | Some q \<Rightarrow>
          if apType q = [] then (Err (proto_error ''INVALID'' ''invalid event''), j)
          else (case fenced env e (append_event hash len (seWrite env) part (new_event newID (seNow env) e q)) j of
                  (Inl er, j') \<Rightarrow> (Err (io_error (render er)), j')
                | (Inr r, j') \<Rightarrow> (Ok r, j')))"

definition kernel_replayHandler ::
  "(journal_error \<Rightarrow> string) \<Rightarrow> (hashMaterial \<Rightarrow> string option) \<Rightarrow> (EventRecord \<Rightarrow> nat)
   \<Rightarrow> ReplayRequest \<Rightarrow> journal \<Rightarrow> ReplayResponse reply" where
  "kernel_replayHandler render hash len q j =
     (if joFile j = None then Ok \<lparr> rsRecords = [], rsNext = 0 \<rparr>
      else replayHandler render hash len kernel_max q j)"

section \<open>Chains\<close>

text \<open>The records of a file whose lines all verify, and the invariant of the journal.\<close>

fun chained :: "(hashMaterial \<Rightarrow> string option) \<Rightarrow> string \<Rightarrow> EventRecord list \<Rightarrow> bool" where
  "chained hash prev [] = True"
| "chained hash prev (r # rs) \<longleftrightarrow>
     erPreviousSHA256 r = prev \<and> journal_digest hash r = Some (erSHA256 r) \<and> chained hash (erSHA256 r) rs"

definition chain_end :: "string \<Rightarrow> EventRecord list \<Rightarrow> string" where
  "chain_end prev rs = (if rs = [] then prev else erSHA256 (last rs))"

lemma chain_end_simps [simp]:
  "chain_end prev [] = prev" "chain_end prev (r # rs) = chain_end (erSHA256 r) rs"
  "chain_end prev (rs @ [r]) = erSHA256 r"
  by (simp_all add: chain_end_def)

lemma chained_snoc:
  "chained hash prev (rs @ [r]) \<longleftrightarrow> chained hash prev rs \<and> erPreviousSHA256 r = chain_end prev rs
     \<and> journal_digest hash r = Some (erSHA256 r)"
  by (induction rs arbitrary: prev) auto

definition journal_of :: "(hashMaterial \<Rightarrow> string option) \<Rightarrow> (EventRecord \<Rightarrow> nat) \<Rightarrow> nat \<Rightarrow> EventRecord list \<Rightarrow> journal \<Rightarrow> bool" where
  "journal_of hash len mx rs j \<longleftrightarrow>
     (case joFile j of
        None \<Rightarrow> rs = []
      | Some f \<Rightarrow> f = \<lparr> jfLines = map EventLine rs, jfTail = None \<rparr>)
     \<and> chained hash [] rs \<and> (\<forall>r \<in> set rs. len r < mx) \<and> joLastHash j = chain_end [] rs"

lemma check_line_Ok:
  "check_line hash len mx n prev l = Inr r \<longleftrightarrow>
     l = EventLine r \<and> len r < mx \<and> erPreviousSHA256 r = prev \<and> journal_digest hash r = Some (erSHA256 r)"
  by (auto simp: check_line_def line_length_def split: journal_line.splits option.splits if_splits)

lemma verify_map:
  "verify_lines hash len mx n prev (map EventLine rs) = Inr h \<longleftrightarrow>
     chained hash prev rs \<and> (\<forall>r \<in> set rs. len r < mx) \<and> h = chain_end prev rs"
proof (induction rs arbitrary: n prev)
  case (Cons r rs)
  show ?case
  proof (cases "check_line hash len mx (Suc n) prev (EventLine r)")
    case (Inl e)
    then have "\<not> (len r < mx \<and> erPreviousSHA256 r = prev \<and> journal_digest hash r = Some (erSHA256 r))"
      using check_line_Ok [of hash len mx "Suc n" prev "EventLine r" r] by auto
    with Inl show ?thesis by auto
  next
    case (Inr r')
    then have "r' = r" "len r < mx \<and> erPreviousSHA256 r = prev \<and> journal_digest hash r = Some (erSHA256 r)"
      by (auto simp: check_line_Ok)
    with Inr Cons.IH show ?thesis by auto
  qed
qed auto

lemma verify_events: "verify_lines hash len mx n prev ls = Inr h \<Longrightarrow> \<exists>rs. ls = map EventLine rs"
proof (induction ls arbitrary: n prev)
  case (Cons l ls)
  then obtain r where r: "check_line hash len mx (Suc n) prev l = Inr r"
    "verify_lines hash len mx (Suc n) (erSHA256 r) ls = Inr h" by (auto split: sum.splits)
  from Cons.IH [OF r(2)] r(1) show ?case by (auto simp: check_line_Ok intro: exI [of _ "r # rs" for rs])
qed simp

lemma load_chain:
  assumes "verifyAndLoadTail hash len mx (Some f) = Inr j"
  obtains rs where "scanned_lines f = map EventLine rs" "chained hash [] rs" "\<forall>r \<in> set rs. len r < mx"
    "joLastHash j = chain_end [] rs" "joFile j = Some f"
proof -
  from assms obtain h where v: "verify_lines hash len mx 0 [] (scanned_lines f) = Inr h"
    and j: "j = \<lparr> joFile = Some f, joLastHash = h \<rparr>"
    by (auto simp: verifyAndLoadTail_def split: sum.splits)
  obtain rs where rs: "scanned_lines f = map EventLine rs" using verify_events [OF v] by blast
  from v [unfolded rs verify_map] that [OF rs] j show thesis by simp
qed

lemma scanned_whole [simp]: "scanned_lines \<lparr> jfLines = ls, jfTail = None \<rparr> = ls"
  by (simp add: scanned_lines_def)

lemma journal_of_load: "journal_of hash len mx rs j \<Longrightarrow> verifyAndLoadTail hash len mx (joFile j) = Inr j"
  by (cases j) (auto simp: journal_of_def verifyAndLoadTail_def split: option.splits sum.splits
      dest: verify_map [THEN iffD1] simp: verify_map [THEN iffD2])

lemma journal_of_append:
  assumes "journal_of hash len mx rs j" and "append_event hash len Written part r0 j = (Inr r, j')" and "len r < mx"
  shows "journal_of hash len mx (rs @ [r]) j'"
  using assms
  by (auto simp: journal_of_def append_event_def Let_def write_event_def merge_event_def journal_digest_def material_def
      chained_snoc split: option.splits)

text \<open>What a replay returns of a sound journal: the page of the request.\<close>

lemma check_chained:
  "len r < mx \<Longrightarrow> journal_digest hash r = Some (erSHA256 r) \<Longrightarrow>
   check_line hash len mx n (erPreviousSHA256 r) (EventLine r) = Inr r"
  by (simp add: check_line_Ok)

lemma replay_chained:
  assumes "chained hash prev rs" and "\<forall>r \<in> set rs. len r < mx" and "0 \<le> limit" and "int (length out) \<le> limit"
  shows "replay_lines hash len mx after limit idx prev out (map EventLine rs) =
     Inr (out @ take (nat limit - length out) (drop (nat (after - int idx)) rs))"
  using assms
proof (induction rs arbitrary: prev idx out)
  case (Cons r rs)
  have c: "check_line hash len mx (Suc idx) prev (EventLine r) = Inr r"
    using Cons.prems by (auto simp: check_line_Ok)
  show ?case
  proof (cases "int idx \<ge> after \<and> int (length out) < limit")
    case True
    then have "nat (after - int idx) = 0" "nat (after - int (Suc idx)) = 0"
      "nat limit - length out = Suc (nat limit - length (out @ [r]))" by auto
    with Cons.IH [of "erSHA256 r" "out @ [r]" "Suc idx"] Cons.prems True c show ?thesis by simp
  next
    case False
    consider "int idx < after" | "int (length out) = limit" using False Cons.prems(4) by linarith
    then show ?thesis
    proof cases
      case 1
      then have "nat (after - int idx) = Suc (nat (after - int (Suc idx)))" by auto
      with Cons.IH [of "erSHA256 r" out "Suc idx"] Cons.prems 1 c show ?thesis by simp
    next
      case 2
      with Cons.IH [of "erSHA256 r" out "Suc idx"] Cons.prems False c show ?thesis by auto
    qed
  qed
qed simp

lemma page_limit_pos [simp]: "0 < page_limit q" "page_limit q \<le> 1000"
  by (auto simp: page_limit_def)

lemma replay_page:
  assumes "journal_of hash len mx rs j"
  shows "replayHandler render hash len mx q j =
     Inr \<lparr> rsRecords = take (nat (page_limit q)) (drop (nat (ryAfter q)) rs),
           rsNext = ryAfter q + int (length (take (nat (page_limit q)) (drop (nat (ryAfter q)) rs))) \<rparr>"
proof (cases "joFile j")
  case None
  with assms show ?thesis by (simp add: journal_of_def replayHandler_def)
next
  case (Some f)
  with assms have "f = \<lparr> jfLines = map EventLine rs, jfTail = None \<rparr>" "chained hash [] rs" "\<forall>r \<in> set rs. len r < mx"
    by (simp_all add: journal_of_def)
  with replay_chained [of hash "[]" rs len mx "page_limit q" "[]" "ryAfter q" 0] Some page_limit_pos [of q] show ?thesis
    by (simp add: replayHandler_def less_imp_le)
qed

lemma replay_all_from:
  assumes "journal_of hash len mx rs j" and "n \<le> length rs" and "length rs - n \<le> 100 * fuel"
  shows "replay_all (\<lambda>q. replayHandler render hash len mx q j) (Suc fuel) (int n) acc = Some (Inr (acc @ drop n rs))"
  using assms(2,3)
proof (induction fuel arbitrary: n acc)
  case (Suc fuel)
  let ?p = "take 100 (drop n rs)"
  have page: "replayHandler render hash len mx \<lparr> ryAfter = int n, ryLimit = 100 \<rparr> j =
      Inr \<lparr> rsRecords = ?p, rsNext = int n + int (length ?p) \<rparr>"
    by (simp add: replay_page [OF assms(1)] page_limit_def)
  show ?case
  proof (cases "n = length rs")
    case True
    then show ?thesis
      using page by (subst replay_all.simps) simp
  next
    case False
    have "replay_all (\<lambda>q. replayHandler render hash len mx q j) (Suc fuel) (int (n + length ?p)) (acc @ ?p) =
        Some (Inr ((acc @ ?p) @ drop (n + length ?p) rs))"
      using Suc.prems False by (intro Suc.IH) auto
    moreover have "?p @ drop (n + length ?p) rs = drop n rs"
      by (metis append_take_drop_id drop_drop add.commute length_take min_def take_all_iff length_drop drop_all linorder_not_le nat_le_linear append.right_neutral)
    ultimately show ?thesis
      using False Suc.prems by (subst replay_all.simps) (simp add: page del: replay_all.simps)
  qed
qed (use assms in \<open>simp add: replay_page [OF assms(1)]\<close>)

section \<open>Tampering\<close>

lemma chained_determined:
  assumes "chained hash [] rs" and "chained hash [] ss" and "chain_end [] rs = chain_end [] ss"
    and "inj_on hash (material ` (set rs \<union> set ss))" and "\<forall>r \<in> set rs \<union> set ss. erSHA256 r \<noteq> []"
  shows "rs = ss"
  using assms
proof (induction rs arbitrary: ss rule: rev_induct)
  case Nil
  then show ?case by (cases ss rule: rev_cases) auto
next
  case (snoc r rs)
  then obtain s ss' where ss: "ss = ss' @ [s]" by (cases ss rule: rev_cases) auto
  have r: "journal_digest hash r = Some (erSHA256 r)" "erPreviousSHA256 r = chain_end [] rs" "chained hash [] rs"
    and s: "journal_digest hash s = Some (erSHA256 s)" "erPreviousSHA256 s = chain_end [] ss'" "chained hash [] ss'"
    using snoc.prems ss by (auto simp: chained_snoc)
  have h: "erSHA256 r = erSHA256 s" using snoc.prems(3) ss by simp
  then have "hash (material r) = hash (material s)" using r s by (simp add: journal_digest_def)
  then have m: "material r = material s" 
    by (intro inj_onD [OF snoc.prems(4)]) (use ss in auto)
  with h have "r = s" by (cases r; cases s) (simp add: material_def)
  moreover have "rs = ss'"
  proof (rule snoc.IH [OF r(3) s(3)])
    show "chain_end [] rs = chain_end [] ss'" using m r(2) s(2) by (simp add: material_def)
    show "inj_on hash (material ` (set rs \<union> set ss'))"
      by (rule inj_on_subset [OF snoc.prems(4)]) (use ss in auto)
    show "\<forall>r \<in> set rs \<union> set ss'. erSHA256 r \<noteq> []" using snoc.prems(5) ss by auto
  qed
  ultimately show ?case by (simp add: ss)
qed

section \<open>Properties\<close>

text \<open>
  C26: an append answered with success to a sound journal leaves it sound, with the record as its
  last, as long as the record's line fits the scanner: it reloads, and the replay after the earlier
  records returns exactly this record. A line that does not fit is accepted all the same, and from
  then on every replay fails and the plugin does not start again.
\<close>

theorem append_then_replay:
  assumes "journal_of hash len mx rs j"
    and "appendHandler render hash len env part newID e j = (Inr r, j')"
  shows "if len r < mx
    then journal_of hash len mx (rs @ [r]) j' \<and> verifyAndLoadTail hash len mx (joFile j') = Inr j'
      \<and> replayHandler render2 hash len mx \<lparr> ryAfter = int (length rs), ryLimit = 1 \<rparr> j' =
          Inr \<lparr> rsRecords = [r], rsNext = int (length rs) + 1 \<rparr>
    else verifyAndLoadTail hash len mx (joFile j') = Inl LineTooLong
      \<and> replayHandler render2 hash len mx q j' = Inl (replay_failure render2 LineTooLong)"
proof -
  obtain r0 where a: "append_event hash len (seWrite env) part r0 j = (Inr r, j')"
    using assms(2) by (auto simp: appendHandler_def fenced_Ok split: option.splits if_splits prod.splits sum.splits)
  then have w: "seWrite env = Written"
    by (auto simp: append_event_def Let_def split: option.splits if_splits)
  note a = a [unfolded w]
  show ?thesis
  proof (cases "len r < mx")
    case True
    from journal_of_append [OF assms(1) a True] have j': "journal_of hash len mx (rs @ [r]) j'" .
    with journal_of_load [OF j'] replay_page [OF j', of render2 "\<lparr> ryAfter = int (length rs), ryLimit = 1 \<rparr>"] True
    show ?thesis by (simp add: page_limit_def)
  next
    case False
    then have f: "joFile j' = Some \<lparr> jfLines = map EventLine rs @ [EventLine r], jfTail = None \<rparr>"
      using assms(1) a
      by (auto simp: journal_of_def append_event_def Let_def write_event_def merge_event_def split: option.splits)
    have c: "chained hash [] rs" "\<forall>r \<in> set rs. len r < mx" using assms(1) by (auto simp: journal_of_def)
    have v: "verify_lines hash len mx n prev (map EventLine rs @ [EventLine r]) = Inl LineTooLong"
      if "chained hash prev rs" "\<forall>r \<in> set rs. len r < mx" for n prev
      using that
    proof (induction rs arbitrary: n prev)
      case (Cons s rs)
      then have "check_line hash len mx (Suc n) prev (EventLine s) = Inr s" by (auto simp: check_line_Ok)
      with Cons show ?case by simp
    qed (use False in \<open>simp add: check_line_def line_length_def\<close>)
    have p: "replay_lines hash len mx after limit n prev out (map EventLine rs @ [EventLine r]) = Inl LineTooLong"
      if "chained hash prev rs" "\<forall>r \<in> set rs. len r < mx" for n prev out after limit
      using that
    proof (induction rs arbitrary: n prev out)
      case (Cons s rs)
      then have "check_line hash len mx (Suc n) prev (EventLine s) = Inr s" by (auto simp: check_line_Ok)
      with Cons show ?case by simp
    qed (use False in \<open>simp add: check_line_def line_length_def\<close>)
    show ?thesis
      using v [OF c, of 0] p [OF c, of _ _ 0 "[]"] False f
      by (simp add: verifyAndLoadTail_def replayHandler_def)
  qed
qed

definition sample_hash :: "hashMaterial \<Rightarrow> string option" where
  "sample_hash m = (case m of HashMaterial i ty ts tr co ca cl pr ac so pa pv \<Rightarrow> Some (''#'' @ i @ pv))"

definition empty_journal :: journal where
  "empty_journal = \<lparr> joFile = None, joLastHash = [] \<rparr>"

definition sample_append :: "write_outcome \<Rightarrow> string \<Rightarrow> journal \<Rightarrow> EventRecord reply \<times> journal" where
  "sample_append w i j = appendHandler (\<lambda>_. []) sample_hash (\<lambda>r. length (erPayload r)) (sample_store_env w) 0 i
     (sample_request (Some \<lparr> apType = ''t'', apSource = ''s'', apPayload = ''{}'' \<rparr>)) j"

lemma empty_journal_of: "journal_of hash len mx [] empty_journal"
  by (simp add: journal_of_def empty_journal_def)

theorem append_then_replay_witness:
  "case sample_append Written ''e1'' empty_journal of
     (Inl er, j') \<Rightarrow> False
   | (Inr r, j') \<Rightarrow> erSHA256 r = ''#e1'' \<and> journal_of sample_hash (\<lambda>r. length (erPayload r)) 16 [r] j'"
proof -
  obtain r j' where r: "sample_append Written ''e1'' empty_journal = (Inr r, j')" "erSHA256 r = ''#e1''" "erPayload r = ''{}''"
    by (simp add: sample_append_def appendHandler_def append_event_def journal_digest_def material_def sample_hash_def
        new_event_def empty_journal_def Let_def)
  from append_then_replay [OF empty_journal_of r(1) [unfolded sample_append_def], of 16] r show ?thesis by simp
qed

text \<open>
  Reading the journal page by page, as the session and workflow plugins do, ends and returns
  every record, in order; it asks for at most one page more than the records fill.
\<close>

theorem replay_all_complete:
  assumes "journal_of hash len mx rs j" and "length rs \<le> 100 * fuel"
  shows "replay_all (\<lambda>q. replayHandler render hash len mx q j) (Suc fuel) 0 [] = Some (Inr rs)"
  using replay_all_from [OF assms(1), of 0 fuel render "[]"] assms(2) by simp

text \<open>
  C28: the journal is tamper-evident: two files that both load and end in the same hash hold the same
  records, as long as the hash does not collide on these records and is never empty. So whoever
  keeps the last hash detects any edit, removal or reordering.
\<close>

theorem last_hash_determines_journal:
  assumes "verifyAndLoadTail hash len mx (Some f) = Inr j" and "verifyAndLoadTail hash len mx (Some g) = Inr k"
    and "joLastHash j = joLastHash k"
    and "inj_on hash (material ` {r. EventLine r \<in> set (scanned_lines f) \<union> set (scanned_lines g)})"
    and "\<forall>r \<in> {r. EventLine r \<in> set (scanned_lines f) \<union> set (scanned_lines g)}. erSHA256 r \<noteq> []"
  shows "scanned_lines f = scanned_lines g"
proof -
  obtain rs where rs: "scanned_lines f = map EventLine rs" "chained hash [] rs" "joLastHash j = chain_end [] rs"
    using load_chain [OF assms(1)] by metis
  obtain ss where ss: "scanned_lines g = map EventLine ss" "chained hash [] ss" "joLastHash k = chain_end [] ss"
    using load_chain [OF assms(2)] by metis
  have "{r. EventLine r \<in> set (scanned_lines f) \<union> set (scanned_lines g)} = set rs \<union> set ss"
    using rs(1) ss(1) by auto
  then have "rs = ss"
    using chained_determined [OF rs(2) ss(2)] rs ss assms(3-5) by simp
  then show ?thesis by (simp add: rs(1) ss(1))
qed

text \<open>A record whose line lost its newline loads to the same hash.\<close>

definition sample_event :: EventRecord where
  "sample_event =
     \<lparr> erID = ''e1'', erType = ''t'', erTimestamp = [], erTraceID = [], erCorrelationID = [], erCausationID = [],
       erCaller = [], erPrincipal = [], erActorChain = [], erSource = [], erPayload = ''{}'', erPreviousSHA256 = [],
       erSHA256 = ''#e1'' \<rparr>"

theorem last_hash_determines_journal_witness:
  "scanned_lines \<lparr> jfLines = [EventLine sample_event], jfTail = None \<rparr>
     = scanned_lines \<lparr> jfLines = [], jfTail = Some (EventLine sample_event) \<rparr>"
proof -
  let ?f = "\<lparr> jfLines = [EventLine sample_event], jfTail = None \<rparr>"
  let ?g = "\<lparr> jfLines = [], jfTail = Some (EventLine sample_event) \<rparr>"
  have l: "verifyAndLoadTail sample_hash (\<lambda>_. 0) 16 (Some f) = Inr \<lparr> joFile = Some f, joLastHash = ''#e1'' \<rparr>"
    if "f \<in> {?f, ?g}" for f
    using that by (auto simp: verifyAndLoadTail_def scanned_lines_def check_line_def line_length_def sample_event_def
        journal_digest_def material_def sample_hash_def)
  show ?thesis
    by (rule last_hash_determines_journal [OF l l, of ?f ?g])
      (auto simp: scanned_lines_def sample_event_def)
qed

text \<open>
  When the disk fails after the record has reached the file, the next append chains to the hash
  before it: from then on every replay fails with an integrity error, and the plugin does not start
  again.
\<close>

theorem unsynced_append_breaks_chain:
  "case sample_append NotSynced ''e1'' empty_journal of (res1, j1) \<Rightarrow>
     (case sample_append Written ''e2'' j1 of (res2, j2) \<Rightarrow>
        \<not> is_ok res1 \<and> is_ok res2
        \<and> verifyAndLoadTail sample_hash (\<lambda>r. length (erPayload r)) 65536 (joFile j2) = Inl (PreviousMismatch 2)
        \<and> (case replayHandler (\<lambda>_. []) sample_hash (\<lambda>r. length (erPayload r)) 65536 q j2 of
             Inl er \<Rightarrow> errCode er = ''INTEGRITY_ERROR'' | Inr p \<Rightarrow> False))"
  by (simp add: sample_append_def appendHandler_def append_event_def journal_digest_def material_def sample_hash_def
        new_event_def empty_journal_def Let_def write_event_def merge_event_def verifyAndLoadTail_def check_line_def
        line_length_def replayHandler_def replay_failure_def proto_error_def)

end
