(* ===== verification/Blob.thy ===== *)
theory Blob
  imports StoreSamples
begin

text \<open>
  The blob plugin (\<open>plugins/foundation/blob/main.go\<close>): bytes stored once under the hex of their
  SHA-256, which is the argument \<open>digest\<close>, and the base64 in which they travel. What the disk does
  to a write is an argument.
\<close>

section \<open>Base64\<close>

definition b64_char :: "nat \<Rightarrow> char" where
  "b64_char n =
     (if n < 26 then char_of (65 + n)
      else if n < 52 then char_of (97 + (n - 26))
      else if n < 62 then char_of (48 + (n - 52))
      else if n = 62 then CHR ''+'' else CHR ''/'')"

definition b64_val :: "char \<Rightarrow> nat option" where
  "b64_val c =
     (let n = (of_char c :: nat)
      in if 65 \<le> n \<and> n \<le> 90 then Some (n - 65)
         else if 97 \<le> n \<and> n \<le> 122 then Some (n - 97 + 26)
         else if 48 \<le> n \<and> n \<le> 57 then Some (n - 48 + 52)
         else if c = CHR ''+'' then Some 62 else if c = CHR ''/'' then Some 63 else None)"

definition byte :: "char \<Rightarrow> nat" where "byte c = of_char c"

fun EncodeToString :: "string \<Rightarrow> string" where
  "EncodeToString [] = []"
| "EncodeToString [a] =
     [b64_char (byte a div 4), b64_char (byte a mod 4 * 16), CHR ''='', CHR ''='']"
| "EncodeToString [a, b] =
     [b64_char (byte a div 4), b64_char (byte a mod 4 * 16 + byte b div 16), b64_char (byte b mod 16 * 4), CHR ''='']"
| "EncodeToString (a # b # c # rest) =
     b64_char (byte a div 4) # b64_char (byte a mod 4 * 16 + byte b div 16)
     # b64_char (byte b mod 16 * 4 + byte c div 64) # b64_char (byte c mod 64) # EncodeToString rest"

text \<open>Decoding in quadruples, once line breaks are dropped; padding only at the end.\<close>

definition dec2 :: "char \<Rightarrow> char \<Rightarrow> char option" where
  "dec2 c1 c2 =
     (case (b64_val c1, b64_val c2) of
        (Some v1, Some v2) \<Rightarrow> Some (char_of (v1 * 4 + v2 div 16))
      | _ \<Rightarrow> None)"

definition dec3 :: "char \<Rightarrow> char \<Rightarrow> char \<Rightarrow> string option" where
  "dec3 c1 c2 c3 =
     (case (dec2 c1 c2, b64_val c2, b64_val c3) of
        (Some x, Some v2, Some v3) \<Rightarrow> Some [x, char_of (v2 mod 16 * 16 + v3 div 4)]
      | _ \<Rightarrow> None)"

fun dec_quads :: "string \<Rightarrow> string option" where
  "dec_quads [] = Some []"
| "dec_quads (c1 # c2 # c3 # c4 # rest) =
     (if c3 = CHR ''='' \<and> c4 = CHR ''='' \<and> rest = [] then map_option (\<lambda>x. [x]) (dec2 c1 c2)
      else if c4 = CHR ''='' \<and> rest = [] then dec3 c1 c2 c3
      else (case (dec3 c1 c2 c3, b64_val c3, b64_val c4, dec_quads rest) of
              (Some xs, Some v3, Some v4, Some ys) \<Rightarrow> Some (xs @ char_of (v3 mod 4 * 64 + v4) # ys)
            | _ \<Rightarrow> None))"
| "dec_quads _ = None"

definition DecodeString :: "string \<Rightarrow> string option" where
  "DecodeString s = dec_quads (filter (\<lambda>c. c \<noteq> CHR 0x0D \<and> c \<noteq> CHR 0x0A) s)"

lemma b64_val_char: "n < 64 \<Longrightarrow> b64_val (b64_char n) = Some n"
  by (auto simp: b64_val_def b64_char_def of_char_of Let_def)

lemma b64_char_plain:
  "n < 64 \<Longrightarrow> b64_char n \<noteq> CHR ''='' \<and> b64_char n \<noteq> CHR 0x0D \<and> b64_char n \<noteq> CHR 0x0A"
proof -
  assume "n < 64"
  then have "b64_val (b64_char n) \<noteq> None" by (simp add: b64_val_char)
  moreover have "b64_val (CHR ''='') = None" "b64_val (CHR 0x0D) = None" "b64_val (CHR 0x0A) = None"
    by (simp_all add: b64_val_def)
  ultimately show ?thesis by metis
qed

lemma byte_bound [simp]: "byte c < 256"
  by (simp add: byte_def)

lemma byte_back [simp]: "char_of (byte c) = c"
  by (simp add: byte_def)

lemma byte_parts [simp]:
  "byte c div 4 < 64" "byte c div 16 < 16" "byte c div 64 < 4"
  "byte c div 16 div 16 = 0" "byte c div 64 div 4 = 0"
  "byte c div 16 mod 16 = byte c div 16" "byte c div 64 mod 4 = byte c div 64"
  using byte_bound [of c] by (simp_all add: div_less_iff_less_mult)

lemma sextets:
  "byte a mod 4 * 16 < 64" "byte a mod 4 * 16 + byte b div 16 < 64"
  "byte b mod 16 * 4 < 64" "byte b mod 16 * 4 + byte c div 64 < 64" "byte c mod 64 < 64"
  using mod_less_divisor [of 4 "byte a"] mod_less_divisor [of 16 "byte b"] byte_parts(2) [of b] byte_parts(3) [of c]
  by (simp_all, linarith+)

lemma plain_encoding: "filter (\<lambda>c. c \<noteq> CHR 0x0D \<and> c \<noteq> CHR 0x0A) (EncodeToString s) = EncodeToString s"
  by (induction s rule: EncodeToString.induct) (simp_all add: b64_char_plain sextets)

lemma dec_quads_encode: "dec_quads (EncodeToString s) = Some s"
  by (induction s rule: EncodeToString.induct)
    (simp_all add: dec2_def dec3_def b64_val_char b64_char_plain sextets)

lemma decode_encode: "DecodeString (EncodeToString s) = Some s"
  by (simp add: DecodeString_def plain_encoding dec_quads_encode)

section \<open>The store\<close>

text \<open>The objects by the hex of their hash; the temporary files left behind have names of their own.\<close>

type_synonym blob_store = "string \<Rightarrow> string option"

definition uriPrefix :: string where "uriPrefix = ''blob://sha256/''"

definition hex_char :: "char \<Rightarrow> bool" where
  "hex_char c \<longleftrightarrow>
     (let n = (of_char c :: nat) in (48 \<le> n \<and> n \<le> 57) \<or> (97 \<le> n \<and> n \<le> 102) \<or> (65 \<le> n \<and> n \<le> 70))"

definition hexFromURI :: "string \<Rightarrow> string option" where
  "hexFromURI uri =
     (if \<not> hasPrefix uri uriPrefix then None
      else (let h = drop (length uriPrefix) uri
            in if length h \<noteq> 64 \<or> \<not> list_all hex_char h then None else Some h))"

record putResponse =
  prURI :: string
  prSHA256 :: string
  prSize :: int
  prExisted :: bool

record getResponse =
  grContentBase64 :: string
  grSize :: int

record statResponse =
  stExists :: bool
  stSize :: int

text \<open>Where writing the temporary file and renaming it fails, if it does; each removes the file.\<close>

datatype put_disk = PutDone | MkdirFails | OpenFails | WriteFails | CloseFails | RenameFails

definition put_object ::
  "(string \<Rightarrow> string) \<Rightarrow> put_disk \<Rightarrow> string \<Rightarrow> blob_store \<Rightarrow> (put_disk, putResponse) result \<times> blob_store" where
  "put_object digest d raw s =
     (let h = digest raw
      in case s h of
           Some old \<Rightarrow> (Ok \<lparr> prURI = uriPrefix @ h, prSHA256 = h, prSize = int (length old), prExisted = True \<rparr>, s)
         | None \<Rightarrow>
             if d \<noteq> PutDone then (Err d, s)
             else (Ok \<lparr> prURI = uriPrefix @ h, prSHA256 = h, prSize = int (length raw), prExisted = False \<rparr>,
                   s(h \<mapsto> raw)))"

definition putHandler ::
  "(put_disk write_error \<Rightarrow> string) \<Rightarrow> (string \<Rightarrow> string) \<Rightarrow> store_env \<Rightarrow> put_disk \<Rightarrow> string option Envelope
   \<Rightarrow> blob_store \<Rightarrow> putResponse reply \<times> blob_store" where
  "putHandler render digest env d e s =
     (case ePayload e of
        None \<Rightarrow> (Err (proto_error ''INVALID'' ''bad request''), s)
      | Some content \<Rightarrow>
          (case DecodeString content of
             None \<Rightarrow> (Err (proto_error ''INVALID'' ''content_base64 is not valid base64''), s)
           | Some raw \<Rightarrow>
               (case fenced env e (put_object digest d raw) s of
                  (Inl er, s') \<Rightarrow> (Err (io_error (render er)), s')
                | (Inr p, s') \<Rightarrow> (Ok p, s'))))"

definition blob_getHandler :: "string \<Rightarrow> blob_store \<Rightarrow> getResponse reply" where
  "blob_getHandler uri s =
     (case hexFromURI uri of
        None \<Rightarrow> Err (proto_error ''INVALID'' ''uri must be blob://sha256/<64-hex>'')
      | Some h \<Rightarrow>
          (case s h of
             None \<Rightarrow> Err (proto_error ''NOT_FOUND'' ''no such blob'')
           | Some raw \<Rightarrow> Ok \<lparr> grContentBase64 = EncodeToString raw, grSize = int (length raw) \<rparr>))"

definition statHandler :: "string \<Rightarrow> blob_store \<Rightarrow> statResponse reply" where
  "statHandler uri s =
     (case hexFromURI uri of
        None \<Rightarrow> Err (proto_error ''INVALID'' ''uri must be blob://sha256/<64-hex>'')
      | Some h \<Rightarrow>
          (case s h of
             None \<Rightarrow> Ok \<lparr> stExists = False, stSize = 0 \<rparr>
           | Some raw \<Rightarrow> Ok \<lparr> stExists = True, stSize = int (length raw) \<rparr>))"

section \<open>Properties\<close>

text \<open>Every object is stored under the hash of its bytes.\<close>

definition content_addressed :: "(string \<Rightarrow> string) \<Rightarrow> blob_store \<Rightarrow> bool" where
  "content_addressed digest s \<longleftrightarrow> (\<forall>h raw. s h = Some raw \<longrightarrow> digest raw = h)"

lemma put_object_addressed:
  "content_addressed digest s \<Longrightarrow> content_addressed digest (snd (put_object digest d raw s))"
  by (auto simp: content_addressed_def put_object_def Let_def split: option.split)

lemma hexFromURI_digest:
  "length h = 64 \<Longrightarrow> list_all hex_char h \<Longrightarrow> hexFromURI (uriPrefix @ h) = Some h"
  by (simp add: hexFromURI_def hasPrefix_def)

lemma put_then_get:
  assumes "content_addressed digest s" and "ePayload e = Some (EncodeToString raw)"
    and "putHandler render digest env d e s = (Inr p, s')"
    and "length (digest raw) = 64" and "list_all hex_char (digest raw)"
    and "inj_on digest (insert raw (ran s))"
    and "s' \<subseteq>\<^sub>m s''"
  shows "content_addressed digest s' \<and> s \<subseteq>\<^sub>m s'
    \<and> blob_getHandler (prURI p) s'' = Inr \<lparr> grContentBase64 = EncodeToString raw, grSize = int (length raw) \<rparr>"
proof -
  have p: "put_object digest d raw s = (Inr p, s')"
    using assms(2,3) by (auto simp: putHandler_def decode_encode fenced_Ok split: prod.splits sum.splits)
  have "s' (digest raw) = Some raw \<and> prURI p = uriPrefix @ digest raw \<and> s \<subseteq>\<^sub>m s'"
  proof (cases "s (digest raw)")
    case (Some old)
    then have "digest old = digest raw" using assms(1) by (auto simp: content_addressed_def)
    then have "old = raw" by (rule inj_onD [OF assms(6)]) (use Some in \<open>auto simp: ran_def\<close>)
    with Some p show ?thesis by (auto simp: put_object_def Let_def)
  next
    case None
    with p show ?thesis by (auto simp: put_object_def Let_def map_le_def split: if_splits)
  qed
  moreover from this have "s'' (digest raw) = Some raw" using assms(7) by (auto simp: map_le_def dom_def)
  moreover have "content_addressed digest s'"
    using put_object_addressed [OF assms(1), of d raw] p by simp
  ultimately show ?thesis
    using hexFromURI_digest [OF assms(4,5)] by (simp add: blob_getHandler_def)
qed

text \<open>
  What is put is what is got: bytes sent in base64 and stored with success are returned, in base64
  again, for the URI of the answer, however many puts come in between; no put ever changes an
  object that is there, and objects stay addressed by their contents. Hash collisions among the
  stored bytes apart.
\<close>

theorem blob_roundtrip:
  assumes "content_addressed digest s" and "ePayload e = Some (EncodeToString raw)"
    and "putHandler render digest env d e s = (Inr p, s')"
    and "length (digest raw) = 64" and "list_all hex_char (digest raw)"
    and "inj_on digest (insert raw (ran s))"
    and "s' \<subseteq>\<^sub>m s''"
  shows "content_addressed digest s' \<and> s \<subseteq>\<^sub>m s'
    \<and> blob_getHandler (prURI p) s'' = Inr \<lparr> grContentBase64 = EncodeToString raw, grSize = int (length raw) \<rparr>"
  using assms by (rule put_then_get)

lemma puts_only_add: "s \<subseteq>\<^sub>m snd (putHandler render digest env d e s)"
  by (auto simp: putHandler_def fenced_state put_object_def Let_def map_le_def split: option.split)

theorem blob_roundtrip_witness:
  "case putHandler (\<lambda>_. []) (\<lambda>_. replicate 64 (CHR ''a'')) (sample_store_env Written) PutDone
      (sample_request (Some (EncodeToString ''hi!''))) (\<lambda>_. None) of
     (Inl er, s') \<Rightarrow> False
   | (Inr p, s') \<Rightarrow> blob_getHandler (prURI p) s' = Inr \<lparr> grContentBase64 = ''aGkh'', grSize = 3 \<rparr>"
proof -
  let ?put = "putHandler (\<lambda>_. []) (\<lambda>_. replicate 64 (CHR ''a'')) (sample_store_env Written) PutDone
      (sample_request (Some (EncodeToString ''hi!''))) (\<lambda>_. None)"
  obtain p s' where r: "?put = (Inr p, s')"
    by (simp add: putHandler_def decode_encode put_object_def Let_def del: EncodeToString.simps)
  have "list_all hex_char (replicate 64 (CHR ''a''))" by (simp add: hex_char_def list_all_length)
  moreover have "EncodeToString ''hi!'' = ''aGkh''" by code_simp
  ultimately show ?thesis
    using blob_roundtrip [OF _ _ r, of "''hi!''" s'] r by (simp add: content_addressed_def del: EncodeToString.simps)
qed

end
