(* ===== verification/Supervisor.thy ===== *)
theory Supervisor
  imports Router RegistryFacts
begin

text \<open>
  The supervisor (\<open>kernel/internal/supervisor/supervisor.go\<close>) and the kernel's start-up loop
  (\<open>kernel/cmd/kernel/main.go\<close>): plugins are launched, checked by a handshake, registered, watched,
  and restarted; their health follows that of the capabilities they require. What the operating
  system and the new process answer, and the order in which Go iterates over the runs, are
  arguments.
\<close>

datatype PluginState =
  StateInstalled | StateStarting | StateReady | StateDegraded | StateBlocked | StateFailed | StateStopped

datatype start_error =
    ExecutableMissing | PipeFailed | SpawnFailed | PriorityFailed | HandshakeFailed | NotReady kind
  | ReadyUndecodable | IncompatibleReady | ManifestHashMismatch | NoContractMetadata Capability
  | HandlerKindMismatch Capability | HandlerMissing Capability | RegisterFailed register_error

datatype status_reason =
    NoReason | MissingReq "Capability list" | MissingOpt "Capability list" | HostStopping | RuntimeExited
  | Restarting | StartFailed start_error | ManifestRejected string | BlockedAtBoot "Capability list"

record PluginStatus =
  psPluginID :: string
  psState :: PluginState
  psRuntimeID :: string
  psReason :: status_reason

record SupRun =
  suID :: string
  suManifest :: Manifest
  suPath :: string
  suHash :: string
  suAttempts :: int

record Supervisor =
  svRuns :: "(string \<times> SupRun) list"
  svManifests :: "string \<Rightarrow> Manifest option"
  svStatuses :: "(string \<times> PluginStatus) list"
  svRouter :: Router

text \<open>The supervisor and the router share one registry.\<close>

definition svReg :: "Supervisor \<Rightarrow> Registry" where
  "svReg sv = rtReg (svRouter sv)"

definition set_reg :: "Registry \<Rightarrow> Supervisor \<Rightarrow> Supervisor" where
  "set_reg reg sv = sv\<lparr> svRouter := (svRouter sv)\<lparr> rtReg := reg \<rparr> \<rparr>"

definition Supervisor_New :: "Router \<Rightarrow> Supervisor" where
  "Supervisor_New rt = \<lparr> svRuns = [], svManifests = (\<lambda>_. None), svStatuses = [], svRouter = rt \<rparr>"

section \<open>Statuses\<close>

definition setStatus :: "string \<Rightarrow> PluginState \<Rightarrow> string \<Rightarrow> status_reason \<Rightarrow> Supervisor \<Rightarrow> Supervisor" where
  "setStatus pid st rid why sv =
     sv\<lparr> svStatuses := AList.update pid
           \<lparr> psPluginID = pid, psState = st, psRuntimeID = rid, psReason = why \<rparr> (svStatuses sv) \<rparr>"

definition Track :: "Manifest \<Rightarrow> Supervisor \<Rightarrow> Supervisor" where
  "Track m sv =
     (let pid = mPluginID m; sv1 = sv\<lparr> svManifests := (svManifests sv)(pid \<mapsto> m) \<rparr>
      in if map_of (svStatuses sv1) pid = None then setStatus pid StateInstalled [] NoReason sv1 else sv1)"

definition MarkBlocked :: "Manifest \<Rightarrow> Capability list \<Rightarrow> Supervisor \<Rightarrow> Supervisor" where
  "MarkBlocked m missing sv = setStatus (mPluginID m) StateBlocked [] (BlockedAtBoot missing) (Track m sv)"

definition MarkManifestRejected :: "string \<Rightarrow> string \<Rightarrow> string \<Rightarrow> Supervisor \<Rightarrow> Supervisor" where
  "MarkManifestRejected pid path why sv =
     setStatus (if pid = [] then path else pid) StateFailed [] (ManifestRejected why) sv"

definition sup_Status :: "Supervisor \<Rightarrow> string \<Rightarrow> PluginStatus option" where
  "sup_Status sv pid = map_of (svStatuses sv) pid"

definition Statuses :: "Supervisor \<Rightarrow> PluginStatus list" where
  "Statuses sv = stable_sort (\<lambda>a b. psPluginID a < psPluginID b) (map snd (svStatuses sv))"

definition RuntimeIDs :: "Supervisor \<Rightarrow> string list" where
  "RuntimeIDs sv = sort (map fst (svRuns sv))"

section \<open>Dependencies\<close>

definition reconcile_run :: "SupRun \<Rightarrow> bool \<times> Supervisor \<Rightarrow> bool \<times> Supervisor" where
  "reconcile_run run p =
     (case p of (changed, sv) \<Rightarrow>
        let missingReq = MissingHealthyRequired (svReg sv) (suManifest run);
            depOK = (missingReq = []);
            (ch, reg) = MarkDependencyHealth (svReg sv) (suID run) depOK;
            sv1 = set_reg reg sv;
            pid = mPluginID (suManifest run);
            missingOpt = MissingHealthyOptional reg (suManifest run)
        in (changed \<or> ch,
            if \<not> depOK then setStatus pid StateBlocked (suID run) (MissingReq missingReq) sv1
            else if missingOpt \<noteq> [] then setStatus pid StateDegraded (suID run) (MissingOpt missingOpt) sv1
            else setStatus pid StateReady (suID run) NoReason sv1))"

definition reconcile_pass :: "(SupRun list \<Rightarrow> SupRun list) \<Rightarrow> Supervisor \<Rightarrow> bool \<times> Supervisor" where
  "reconcile_pass ord sv = foldl (\<lambda>p run. reconcile_run run p) (False, sv) (ord (map snd (svRuns sv)))"

fun reconcile_loop :: "(nat \<Rightarrow> SupRun list \<Rightarrow> SupRun list) \<Rightarrow> nat \<Rightarrow> nat \<Rightarrow> Supervisor \<Rightarrow> Supervisor" where
  "reconcile_loop ords pass 0 sv = sv"
| "reconcile_loop ords pass (Suc n) sv =
     (case reconcile_pass (ords pass) sv of
        (changed, sv') \<Rightarrow> if changed then reconcile_loop ords (Suc pass) n sv' else sv')"

definition reconcileDependencies :: "(nat \<Rightarrow> SupRun list \<Rightarrow> SupRun list) \<Rightarrow> Supervisor \<Rightarrow> Supervisor" where
  "reconcileDependencies ords sv = reconcile_loop ords 0 8 sv"

section \<open>Starting a plugin\<close>

record HandlerDescriptor =
  hdKind :: kind
  hdCapability :: string
  hdMajor :: int

record Ready =
  rdRuntimeProtocol :: string
  rdPluginID :: string
  rdPluginVersion :: string
  rdManifestHash :: string
  rdHandlers :: "HandlerDescriptor list"

text \<open>
  One launch: the runtime id made for it, whether the executable, the pipes, the process and its
  priority can be had, and the reply to hello (None when the call fails), with its payload as
  decoded (None when it does not).
\<close>

record launch =
  laRuntimeID :: string
  laExecutable :: bool
  laPipes :: bool
  laSpawn :: bool
  laPriority :: bool
  laReply :: "(kind \<times> Ready option) option"

definition check_handler :: "Registry \<Rightarrow> HandlerDescriptor list \<Rightarrow> Capability \<Rightarrow> start_error option" where
  "check_handler reg hs ex =
     (case ContractMetadata reg (cContract ex) of
        None \<Rightarrow> Some (NoContractMetadata ex)
      | Some meta \<Rightarrow>
          (case find (\<lambda>h. hdCapability h = cName ex \<and> hdMajor h = cMajor ex) hs of
             None \<Rightarrow> Some (HandlerMissing ex)
           | Some h \<Rightarrow> if hdKind h \<noteq> mdKind meta then Some (HandlerKindMismatch ex) else None))"

definition handshake :: "Registry \<Rightarrow> Manifest \<Rightarrow> string \<Rightarrow> launch \<Rightarrow> start_error option" where
  "handshake reg m hash la =
     (if \<not> laExecutable la then Some ExecutableMissing
      else if \<not> laPipes la then Some PipeFailed
      else if \<not> laSpawn la then Some SpawnFailed
      else if resCPUWeight (mResources m) > 0 \<and> \<not> laPriority la then Some PriorityFailed
      else (case laReply la of
              None \<Rightarrow> Some HandshakeFailed
            | Some (kd, body) \<Rightarrow>
                if kd \<noteq> KindReady then Some (NotReady kd)
                else (case body of
                        None \<Rightarrow> Some ReadyUndecodable
                      | Some rd \<Rightarrow>
                          if rdRuntimeProtocol rd \<noteq> RuntimeProtocol \<or> rdPluginID rd \<noteq> mPluginID m
                          then Some IncompatibleReady
                          else if rdManifestHash rd \<noteq> [] \<and> rdManifestHash rd \<noteq> hash then Some ManifestHashMismatch
                          else first_err (check_handler reg (rdHandlers rd)) (mExports m))))"

definition sup_start ::
  "(nat \<Rightarrow> SupRun list \<Rightarrow> SupRun list) \<Rightarrow> launch \<Rightarrow> Manifest \<Rightarrow> string \<Rightarrow> string \<Rightarrow> int \<Rightarrow> Supervisor
   \<Rightarrow> (start_error, SupRun) result \<times> Supervisor" where
  "sup_start ords la m path hash attempt sv =
     (case handshake (svReg sv) m hash la of
        Some e \<Rightarrow> (Err e, sv)
      | None \<Rightarrow>
          let rid = laRuntimeID la;
              run = \<lparr> suID = rid, suManifest = m, suPath = path, suHash = hash, suAttempts = attempt \<rparr>;
              sv1 = sv\<lparr> svRuns := AList.update rid run (svRuns sv) \<rparr>
          in (case RegisterRuntime (svReg sv1) m rid of
                Inl e \<Rightarrow> (Err (RegisterFailed e), sv1\<lparr> svRuns := AList.delete rid (svRuns sv1) \<rparr>)
              | Inr reg \<Rightarrow>
                  (Ok run,
                   reconcileDependencies ords
                     (setStatus (mPluginID m) StateReady rid NoReason
                        (let sv2 = set_reg reg sv1
                         in sv2\<lparr> svRouter := AddClient (svRouter sv2) rid (mPluginID m) \<rparr>)))))"

definition sup_Start ::
  "(nat \<Rightarrow> SupRun list \<Rightarrow> SupRun list) \<Rightarrow> launch \<Rightarrow> Manifest \<Rightarrow> string \<Rightarrow> string \<Rightarrow> Supervisor
   \<Rightarrow> (start_error, SupRun) result \<times> Supervisor" where
  "sup_Start ords la m path hash sv =
     (case sup_start ords la m path hash 0 (setStatus (mPluginID m) StateStarting [] NoReason (Track m sv)) of
        (Inl e, sv') \<Rightarrow> (Err e, setStatus (mPluginID m) StateFailed [] (StartFailed e) sv')
      | (Inr run, sv') \<Rightarrow> (Ok run, sv'))"

section \<open>Watching\<close>

text \<open>
  The exit of a process: \<open>stopping\<close> whether the host is, \<open>again\<close> whether it is when the restart would
  come, \<open>newID\<close> and \<open>accepts\<close> what the router needs, and the launch of the restart.
\<close>

definition exit_marks ::
  "bool \<Rightarrow> (string \<Rightarrow> string) \<Rightarrow> (nat \<Rightarrow> bool) \<Rightarrow> SupRun \<Rightarrow> Supervisor \<Rightarrow> Supervisor" where
  "exit_marks stopping newID accepts run sv =
     (let pid = mPluginID (suManifest run);
          sv0 = set_reg (MarkHealth (svReg sv) (suID run) False) sv;
          sv1 = sv0\<lparr> svRouter := RemoveClient (svRouter sv0) (suID run) newID accepts,
                    svRuns := AList.delete (suID run) (svRuns sv0) \<rparr>
      in if stopping then setStatus pid StateStopped [] HostStopping sv1
         else setStatus pid StateFailed [] RuntimeExited sv1)"

definition sup_exit ::
  "(nat \<Rightarrow> SupRun list \<Rightarrow> SupRun list) \<Rightarrow> bool \<Rightarrow> (string \<Rightarrow> string) \<Rightarrow> (nat \<Rightarrow> bool) \<Rightarrow> SupRun \<Rightarrow> Supervisor \<Rightarrow> Supervisor" where
  "sup_exit ords stopping newID accepts run sv =
     (let sv' = reconcileDependencies ords (exit_marks stopping newID accepts run sv)
      in set_reg (RemoveRuntime (svReg sv') (suID run)) sv')"

definition may_restart :: "bool \<Rightarrow> SupRun \<Rightarrow> bool" where
  "may_restart stopping run \<longleftrightarrow>
     rpMode (mRestart (suManifest run)) = ''on_failure''
     \<and> suAttempts run < rpMaxAttempts (mRestart (suManifest run)) \<and> \<not> stopping"

definition sup_restart ::
  "(nat \<Rightarrow> SupRun list \<Rightarrow> SupRun list) \<Rightarrow> launch \<Rightarrow> SupRun \<Rightarrow> Supervisor \<Rightarrow> Supervisor" where
  "sup_restart ords la run sv =
     (let pid = mPluginID (suManifest run)
      in case sup_start ords la (suManifest run) (suPath run) (suHash run) (suAttempts run + 1)
                (setStatus pid StateStarting [] Restarting sv) of
           (Inl e, sv') \<Rightarrow> setStatus pid StateFailed [] (StartFailed e) sv'
         | (Inr _, sv') \<Rightarrow> sv')"

text \<open>
  One beat of a run's heartbeat: its resident memory if it can be measured, and the ping. The
  process is killed when the memory policy fails; its exit follows.
\<close>

definition memory_exceeded :: "int option \<Rightarrow> Manifest \<Rightarrow> bool" where
  "memory_exceeded rss m \<longleftrightarrow>
     resMemoryMB (mResources m) > 0
     \<and> (case rss of None \<Rightarrow> True | Some b \<Rightarrow> b > wrap64 (resMemoryMB (mResources m) * 1024 * 1024))"

definition heartbeat_tick ::
  "(nat \<Rightarrow> SupRun list \<Rightarrow> SupRun list) \<Rightarrow> int option \<Rightarrow> bool \<Rightarrow> SupRun \<Rightarrow> Supervisor \<Rightarrow> bool \<times> Supervisor" where
  "heartbeat_tick ords rss pong run sv =
     (if map_of (svRuns sv) (suID run) = None then (False, sv)
      else if memory_exceeded rss (suManifest run)
      then (False, set_reg (MarkHealth (svReg sv) (suID run) False) sv)
      else (True, reconcileDependencies ords
             (set_reg (if pong then RecordHeartbeatSuccess (svReg sv) (suID run)
                       else RecordHeartbeatFailure (svReg sv) (suID run)) sv)))"

section \<open>The start-up of the kernel\<close>

text \<open>
  One pass over the pending plugins: those whose required capabilities have no healthy provider
  stay pending, the others are started. \<open>launches\<close> gives the launch of each plugin.
\<close>

fun boot_pass ::
  "(nat \<Rightarrow> SupRun list \<Rightarrow> SupRun list) \<Rightarrow> (Loaded \<Rightarrow> launch) \<Rightarrow> Loaded list \<Rightarrow> Supervisor
   \<Rightarrow> Loaded list \<times> bool \<times> Supervisor" where
  "boot_pass ords launches [] sv = ([], False, sv)"
| "boot_pass ords launches (x # xs) sv =
     (if MissingHealthyRequired (svReg sv) (ldManifest x) \<noteq> [] then
        (case boot_pass ords launches xs sv of (next, progress, sv') \<Rightarrow> (x # next, progress, sv'))
      else (case sup_Start ords (launches x) (ldManifest x) (ldPath x) (ldHash x) sv of
              (res, sv1) \<Rightarrow>
                (case boot_pass ords launches xs sv1 of
                   (next, progress, sv') \<Rightarrow> (next, is_ok res \<or> progress, sv'))))"

definition block_all :: "Loaded list \<Rightarrow> Supervisor \<Rightarrow> Supervisor" where
  "block_all xs sv =
     foldl (\<lambda>s x. MarkBlocked (ldManifest x) (MissingHealthyRequired (svReg s) (ldManifest x)) s) sv xs"

lemma boot_pass_shrinks:
  "boot_pass ords launches xs sv = (next, progress, sv') \<Longrightarrow>
     length next \<le> length xs \<and> (progress \<longrightarrow> length next < length xs)"
proof (induction xs arbitrary: sv "next" progress)
  case (Cons x xs)
  then show ?case by (fastforce split: if_splits prod.splits simp: le_SucI less_Suc_eq_le)
qed simp

function boot_loop ::
  "(nat \<Rightarrow> SupRun list \<Rightarrow> SupRun list) \<Rightarrow> (Loaded \<Rightarrow> launch) \<Rightarrow> Loaded list \<Rightarrow> Supervisor \<Rightarrow> Supervisor" where
  "boot_loop ords launches pending sv =
     (if pending = [] then sv
      else (case boot_pass ords launches pending sv of
              (next, progress, sv') \<Rightarrow>
                if progress then boot_loop ords launches next sv' else block_all next sv'))"
  by pat_completeness auto
termination
  by (relation "measure (\<lambda>(ords, launches, pending, sv). length pending)")
    (auto dest!: boot_pass_shrinks [OF sym])

declare boot_loop.simps [simp del]

text \<open>
  The kernel's start: rejected manifests are marked, the admitted ones tracked and started as their
  requirements come up.
\<close>

definition kernel_boot ::
  "(nat \<Rightarrow> SupRun list \<Rightarrow> SupRun list) \<Rightarrow> (Loaded \<Rightarrow> launch) \<Rightarrow> (reject_reason \<Rightarrow> string)
   \<Rightarrow> (string \<times> (Manifest \<times> string) option) list \<Rightarrow> Router \<Rightarrow> Supervisor" where
  "kernel_boot ords launches render files rt =
     (case LoadAndAdmit (rtReg rt) files of
        (loaded, rejected, reg) \<Rightarrow>
          let sv0 = Supervisor_New (rt\<lparr> rtReg := reg \<rparr>);
              sv1 = foldl (\<lambda>s f. MarkManifestRejected (flPluginID f) (flPath f) (render (flReason f)) s) sv0 rejected;
              sv2 = foldl (\<lambda>s x. Track (ldManifest x) s) sv1 loaded
          in boot_loop ords launches loaded sv2)"

end
