(* ===== verification/SupervisorProps.thy ===== *)
theory SupervisorProps
  imports Supervisor Samples RouterFacts "HOL-Library.Multiset"
begin

text \<open>
  What the supervisor guarantees: a reconciliation that settles has every status right, an exited
  run leaves nothing behind, restarts are bounded, the start-up loop ends with every plugin accounted
  for, and only a plugin that offers what its manifest exports is started.
\<close>

section \<open>Frames\<close>

lemma svReg_simps [simp]:
  "svReg (set_reg reg sv) = reg" "svReg (setStatus pid st rid why sv) = svReg sv"
  "svReg (sv\<lparr> svRuns := rs \<rparr>) = svReg sv" "svReg (sv\<lparr> svRouter := rt \<rparr>) = rtReg rt" "svReg (Track m sv) = svReg sv"
  by (simp_all add: svReg_def set_reg_def setStatus_def Track_def Let_def)

lemma svRuns_simps [simp]:
  "svRuns (set_reg reg sv) = svRuns sv" "svRuns (setStatus pid st rid why sv) = svRuns sv"
  "svRuns (Track m sv) = svRuns sv"
  by (simp_all add: set_reg_def setStatus_def Track_def Let_def)

lemma svStatuses_simps [simp]:
  "svStatuses (set_reg reg sv) = svStatuses sv" "svStatuses (sv\<lparr> svRuns := rs \<rparr>) = svStatuses sv"
  by (simp_all add: set_reg_def)

lemma svRouter_simps [simp]:
  "svRouter (setStatus pid st rid why sv) = svRouter sv" "svRouter (Track m sv) = svRouter sv"
  by (simp_all add: setStatus_def Track_def Let_def)

lemma status_of_setStatus [simp]:
  "sup_Status (setStatus pid st rid why sv) q =
     (if q = pid then Some \<lparr> psPluginID = pid, psState = st, psRuntimeID = rid, psReason = why \<rparr> else sup_Status sv q)"
  by (simp add: sup_Status_def setStatus_def update_conv')

lemma status_set_reg [simp]: "sup_Status (set_reg reg sv) q = sup_Status sv q"
  by (simp add: sup_Status_def)

section \<open>Reconciliation\<close>

definition run_plugin :: "SupRun \<Rightarrow> string" where
  "run_plugin run = mPluginID (suManifest run)"

text \<open>The state a run's plugin should be in, given the registry.\<close>

definition due_state :: "Registry \<Rightarrow> SupRun \<Rightarrow> PluginState" where
  "due_state reg run =
     (if MissingHealthyRequired reg (suManifest run) \<noteq> [] then StateBlocked
      else if MissingHealthyOptional reg (suManifest run) \<noteq> [] then StateDegraded else StateReady)"

lemma MarkDependencyHealth_unchanged:
  assumes "provider_inv r" and "\<not> fst (MarkDependencyHealth r rid b)"
  shows "snd (MarkDependencyHealth r rid b) = r"
    and "list_all (\<lambda>p. pDependenciesHealthy p = b) (runtime_providers r rid)"
proof -
  let ?f = "mark_dependencies b"
  have d: "pDependenciesHealthy p = b" if "p \<in> set (runtime_providers r rid)" for p
    using assms(2) that by (auto simp: MarkDependencyHealth_def Let_def list_ex_iff)
  then show "list_all (\<lambda>p. pDependenciesHealthy p = b) (runtime_providers r rid)"
    by (simp add: list_all_iff)
  have same: "?f p = p" if "(k, ps) \<in> set (rProviders r)" "p \<in> set ps" "pRuntimeID p = rid" for k ps p
  proof -
    have "p \<in> set (runtime_providers r rid)"
      using that by (force simp: runtime_providers_def all_providers_def)
    then have "pDependenciesHealthy p = b" by (rule d)
    moreover have "health_ok p"
      using assms(1) [unfolded provider_inv_def, THEN conjunct2, rule_format, OF that(1)] that(2) by blast
    ultimately show ?thesis
      by (cases p) (simp add: mark_dependencies_def recomputeHealth_def health_ok_def)
  qed
  have "map (\<lambda>(k, ps). (k, map (\<lambda>p. if pRuntimeID p = rid then ?f p else p) ps)) (rProviders r) = rProviders r"
    by (rule map_idI) (auto intro!: map_idI same)
  then have "on_runtime rid ?f r = r" by (simp add: on_runtime_def)
  moreover have "\<not> list_ex (\<lambda>p. pHealthy p \<and> \<not> pHealthy (?f p)) (runtime_providers r rid)"
    using same by (auto simp: list_ex_iff runtime_providers_def all_providers_def)
  ultimately show "snd (MarkDependencyHealth r rid b) = r"
    by (simp add: MarkDependencyHealth_def Let_def)
qed

lemma reconcile_run_changed: "fst (reconcile_run run (c, sv)) = (c \<or> fst (MarkDependencyHealth (svReg sv) (suID run)
    (MissingHealthyRequired (svReg sv) (suManifest run) = [])))"
  by (auto simp: reconcile_run_def Let_def split: prod.split)

lemma reconcile_run_unchanged:
  assumes "provider_inv (svReg sv)" and "reconcile_run run (c, sv) = (False, sv')"
  shows "\<not> c" "svReg sv' = svReg sv"
    "sup_Status sv' q = (if q = run_plugin run
       then Some \<lparr> psPluginID = q, psState = due_state (svReg sv) run, psRuntimeID = suID run,
              psReason = psReason (the (sup_Status sv' q)) \<rparr>
       else sup_Status sv q)"
    "list_all (\<lambda>p. pDependenciesHealthy p = (MissingHealthyRequired (svReg sv) (suManifest run) = []))
       (runtime_providers (svReg sv) (suID run))"
    "svRuns sv' = svRuns sv"
proof -
  let ?ok = "MissingHealthyRequired (svReg sv) (suManifest run) = []"
  have n: "\<not> c" "\<not> fst (MarkDependencyHealth (svReg sv) (suID run) ?ok)"
    using reconcile_run_changed [of run c sv] assms(2) by auto
  obtain ch reg where m: "MarkDependencyHealth (svReg sv) (suID run) ?ok = (ch, reg)" by force
  with MarkDependencyHealth_unchanged [OF assms(1) n(2)] n
  have reg: "reg = svReg sv" "\<not> ch" "list_all (\<lambda>p. pDependenciesHealthy p = ?ok) (runtime_providers (svReg sv) (suID run))"
    by auto
  show "\<not> c" "list_all (\<lambda>p. pDependenciesHealthy p = ?ok) (runtime_providers (svReg sv) (suID run))"
    using n reg by auto
  show "svReg sv' = svReg sv" "svRuns sv' = svRuns sv"
    using assms(2) m reg by (auto simp: reconcile_run_def Let_def split: if_splits)
  show "sup_Status sv' q = (if q = run_plugin run
       then Some \<lparr> psPluginID = q, psState = due_state (svReg sv) run, psRuntimeID = suID run,
              psReason = psReason (the (sup_Status sv' q)) \<rparr>
       else sup_Status sv q)"
    using assms(2) m reg by (auto simp: reconcile_run_def Let_def run_plugin_def due_state_def split: if_splits)
qed

lemma reconcile_fold_unchanged:
  assumes "provider_inv (svReg sv)" and "foldl (\<lambda>p run. reconcile_run run p) (c, sv) runs = (False, sv')"
    and "distinct (map run_plugin runs)"
  shows "\<not> c \<and> svReg sv' = svReg sv
    \<and> (\<forall>q. q \<notin> run_plugin ` set runs \<longrightarrow> sup_Status sv' q = sup_Status sv q)
    \<and> (\<forall>run \<in> set runs. (\<exists>st. sup_Status sv' (run_plugin run) = Some st \<and> psState st = due_state (svReg sv) run)
         \<and> list_all (\<lambda>p. pDependenciesHealthy p = (MissingHealthyRequired (svReg sv) (suManifest run) = []))
             (runtime_providers (svReg sv) (suID run)))"
  using assms
proof (induction runs arbitrary: c sv)
  case (Cons run runs)
  obtain c1 sv1 where r: "reconcile_run run (c, sv) = (c1, sv1)" by force
  with Cons.prems have f: "foldl (\<lambda>p run. reconcile_run run p) (c1, sv1) runs = (False, sv')" by simp
  have c1: "\<not> c1"
  proof
    assume "c1"
    have "fst (foldl (\<lambda>p run. reconcile_run run p) (True, s) rs)" for s rs
    proof (induction rs arbitrary: s)
      case (Cons a rs)
      have "fst (reconcile_run a (True, s))" by (simp add: reconcile_run_changed)
      then obtain s1 where "reconcile_run a (True, s) = (True, s1)" by (cases "reconcile_run a (True, s)") auto
      with Cons show ?case by simp
    qed simp
    with \<open>c1\<close> f show False by (metis fst_conv)
  qed
  note u = reconcile_run_unchanged [OF Cons.prems(1), of run c sv1]
  have u1: "\<not> c" "svReg sv1 = svReg sv" using u r c1 by auto
  have u2: "\<exists>st. sup_Status sv1 (run_plugin run) = Some st \<and> psState st = due_state (svReg sv) run"
    using u(3) [of "run_plugin run"] r c1 by auto
  have u3: "q \<noteq> run_plugin run \<Longrightarrow> sup_Status sv1 q = sup_Status sv q" for q
    using u(3) [of q] r c1 by auto
  have u4: "list_all (\<lambda>p. pDependenciesHealthy p = (MissingHealthyRequired (svReg sv) (suManifest run) = []))
       (runtime_providers (svReg sv) (suID run))" using u(4) r c1 by auto
  from Cons.IH [OF _ f] Cons.prems u1 have IH: "svReg sv' = svReg sv"
    "\<forall>q. q \<notin> run_plugin ` set runs \<longrightarrow> sup_Status sv' q = sup_Status sv1 q"
    "\<forall>run \<in> set runs. (\<exists>st. sup_Status sv' (run_plugin run) = Some st \<and> psState st = due_state (svReg sv) run)
         \<and> list_all (\<lambda>p. pDependenciesHealthy p = (MissingHealthyRequired (svReg sv) (suManifest run) = []))
             (runtime_providers (svReg sv) (suID run))"
    by auto
  have "run_plugin run \<notin> run_plugin ` set runs" using Cons.prems(3) by auto
  with IH(2) have "sup_Status sv' (run_plugin run) = sup_Status sv1 (run_plugin run)" by blast
  with u2 have "\<exists>st. sup_Status sv' (run_plugin run) = Some st \<and> psState st = due_state (svReg sv) run" by simp
  with u1 u3 u4 IH show ?case by auto
qed simp

text \<open>The statuses of the runs are right and their providers' dependency flags are up to date.\<close>

definition settled :: "Supervisor \<Rightarrow> SupRun list \<Rightarrow> bool" where
  "settled sv runs \<longleftrightarrow>
     list_all (\<lambda>run.
         (case sup_Status sv (run_plugin run) of
            None \<Rightarrow> False | Some st \<Rightarrow> psState st = due_state (svReg sv) run)
         \<and> list_all (\<lambda>p. pDependenciesHealthy p = (MissingHealthyRequired (svReg sv) (suManifest run) = []))
             (runtime_providers (svReg sv) (suID run))) runs"

text \<open>Each of \<open>n\<close> passes still changed something.\<close>

fun always_changes :: "(nat \<Rightarrow> SupRun list \<Rightarrow> SupRun list) \<Rightarrow> nat \<Rightarrow> nat \<Rightarrow> Supervisor \<Rightarrow> bool" where
  "always_changes ords pass 0 sv = True"
| "always_changes ords pass (Suc n) sv =
     (case reconcile_pass (ords pass) sv of (changed, sv') \<Rightarrow> changed \<and> always_changes ords (Suc pass) n sv')"

lemma reconcile_run_reg:
  "svReg (snd (reconcile_run run p)) = snd (MarkDependencyHealth (svReg (snd p)) (suID run)
     (MissingHealthyRequired (svReg (snd p)) (suManifest run) = []))"
  by (auto simp: reconcile_run_def Let_def split: prod.splits)

lemma reconcile_run_frame:
  "svRuns (snd (reconcile_run run p)) = svRuns (snd p)"
  "provider_inv (svReg (snd p)) \<Longrightarrow> provider_inv (svReg (snd (reconcile_run run p)))"
  by (auto simp: reconcile_run_def Let_def split: prod.splits)[1] (simp only: reconcile_run_reg provider_inv_health)

lemma reconcile_fold_frame:
  "svRuns (snd (foldl (\<lambda>p run. reconcile_run run p) p runs)) = svRuns (snd p)"
  "provider_inv (svReg (snd p)) \<Longrightarrow> provider_inv (svReg (snd (foldl (\<lambda>p run. reconcile_run run p) p runs)))"
  by (induction runs arbitrary: p) (simp_all add: reconcile_run_frame)

lemma reconcile_pass_frame:
  assumes "reconcile_pass ord sv = (b, sv')"
  shows "svRuns sv' = svRuns sv" "provider_inv (svReg sv) \<Longrightarrow> provider_inv (svReg sv')"
  using reconcile_fold_frame [of "(False, sv)" "ord (map snd (svRuns sv))"] assms by (simp_all add: reconcile_pass_def)

lemma unchanged_pass_settled:
  assumes "provider_inv (svReg sv)" "reconcile_pass ord sv = (False, sv')"
    and "distinct (map run_plugin (ord (map snd (svRuns sv))))"
  shows "settled sv' (ord (map snd (svRuns sv)))"
  using reconcile_fold_unchanged [OF assms(1) assms(2) [unfolded reconcile_pass_def] assms(3)]
  by (fastforce simp: settled_def list_all_iff)

lemma settled_set: "set xs = set ys \<Longrightarrow> settled sv xs = settled sv ys"
  by (simp add: settled_def list_all_iff)

lemma reconcile_loop_settles:
  assumes "provider_inv (svReg sv)" and "\<forall>pass xs. mset (ords pass xs) = mset xs"
    and "distinct (map (run_plugin \<circ> snd) (svRuns sv))"
  shows "settled (reconcile_loop ords pass n sv) (map snd (svRuns sv)) \<or> always_changes ords pass n sv"
  using assms
proof (induction n arbitrary: sv pass)
  case (Suc n)
  obtain ch sv' where r: "reconcile_pass (ords pass) sv = (ch, sv')" by force
  note fr = reconcile_pass_frame [OF r]
  show ?case
  proof (cases ch)
    case True
    with Suc.IH [of sv' "Suc pass"] Suc.prems fr r show ?thesis by simp
  next
    case False
    have m: "mset (ords pass (map snd (svRuns sv))) = mset (map snd (svRuns sv))" using Suc.prems(2) by blast
    then have "mset (map run_plugin (ords pass (map snd (svRuns sv)))) = mset (map run_plugin (map snd (svRuns sv)))"
      by (simp only: mset_map)
    then have "distinct (map run_plugin (ords pass (map snd (svRuns sv))))"
      using mset_eq_imp_distinct_iff Suc.prems(3) by (metis map_map)
    moreover have "reconcile_pass (ords pass) sv = (False, sv')" using r False by simp
    ultimately have "settled sv' (ords pass (map snd (svRuns sv)))"
      using unchanged_pass_settled [OF Suc.prems(1)] by blast
    then have "settled sv' (map snd (svRuns sv))"
      using settled_set [OF mset_eq_setD [OF m]] by (rule iffD1 [rotated])
    with r False show ?thesis by simp
  qed
qed simp

text \<open>
  After the dependencies have been reconciled, every running plugin's status is the one its
  dependencies call for in the registry as it then is (blocked, degraded or ready), and its providers
  are marked accordingly, whatever order Go's map iteration gives; unless all of the eight passes
  changed something.
\<close>

theorem reconcile_settles_statuses:
  assumes "provider_inv (svReg sv)" and "\<forall>pass xs. mset (ords pass xs) = mset xs"
    and "distinct (map (run_plugin \<circ> snd) (svRuns sv))"
  shows "settled (reconcileDependencies ords sv) (map snd (svRuns sv)) \<or> always_changes ords 0 8 sv"
  unfolding reconcileDependencies_def by (rule reconcile_loop_settles [OF assms])

definition sample_run :: SupRun where
  "sample_run = \<lparr> suID = ''rt-1'', suManifest = work_manifest, suPath = [], suHash = [], suAttempts = 0 \<rparr>"

definition sample_supervisor :: Supervisor where
  "sample_supervisor =
     \<lparr> svRuns = [(''rt-1'', sample_run)], svManifests = (\<lambda>_. None), svStatuses = [],
       svRouter = router_New sample_running Map.empty (\<lambda>_. None) \<rparr>"


lemma sample_settles:
  "provider_inv sample_running"
  "\<not> always_changes (\<lambda>_ xs. xs) 0 8 sample_supervisor"
  by (simp_all add: provider_inv_def sample_supervisor_def sample_run_def reconcile_pass_def reconcile_run_def
        svReg_def set_reg_def router_New_def MissingHealthyRequired_def MarkDependencyHealth_def runtime_providers_def
        all_providers_def sample_defs health_ok_def Let_def eval_nat_numeral)

theorem reconcile_settles_statuses_witness:
  "settled (reconcileDependencies (\<lambda>_ xs. xs) sample_supervisor) [sample_run]"
  using reconcile_settles_statuses [of sample_supervisor "\<lambda>_ xs. xs"] sample_settles
  by (simp add: sample_supervisor_def svReg_def router_New_def)

section \<open>Starting\<close>

lemma reconcile_fold_preserves:
  assumes "\<And>run b sv. P sv \<Longrightarrow> P (snd (reconcile_run run (b, sv)))" and "P (snd p)"
  shows "P (snd (foldl (\<lambda>p run. reconcile_run run p) p runs))"
  using assms(2)
proof (induction runs arbitrary: p)
  case (Cons run runs)
  have "P (snd (reconcile_run run p))" using assms(1) [of "snd p" run "fst p"] Cons.prems by simp
  then show ?case using Cons.IH by simp
qed simp

lemma reconcile_preserves:
  assumes "\<And>run b sv. P sv \<Longrightarrow> P (snd (reconcile_run run (b, sv)))" and "P sv"
  shows "P (reconcileDependencies ords sv)"
proof -
  have "P sv \<Longrightarrow> P (reconcile_loop ords pass n sv)" for pass n
  proof (induction n arbitrary: pass sv)
    case (Suc n)
    obtain ch sv' where r: "reconcile_pass (ords pass) sv = (ch, sv')" by force
    have "P sv'"
      using reconcile_fold_preserves [of P "(False, sv)", OF assms(1)] Suc.prems r
      by (metis reconcile_pass_def snd_conv)
    with Suc.IH r show ?case by simp
  qed simp
  with assms(2) show ?thesis by (simp add: reconcileDependencies_def)
qed

lemma reconcile_run_router:
  "svRouter (snd (reconcile_run run (b, sv))) = (svRouter sv)\<lparr> rtReg := svReg (snd (reconcile_run run (b, sv))) \<rparr>"
  by (auto simp: reconcile_run_def Let_def set_reg_def svReg_def setStatus_def split: prod.splits)

lemma reconcile_frame [simp]:
  "svRuns (reconcileDependencies ords sv) = svRuns sv"
  "rtClients (svRouter (reconcileDependencies ords sv)) = rtClients (svRouter sv)"
  "rtStreams (svRouter (reconcileDependencies ords sv)) = rtStreams (svRouter sv)"
  by (rule reconcile_preserves [where P = "\<lambda>s. svRuns s = svRuns sv"],
      simp add: reconcile_run_frame, simp,
      rule reconcile_preserves [where P = "\<lambda>s. rtClients (svRouter s) = rtClients (svRouter sv)"],
      simp add: reconcile_run_router, simp,
      rule reconcile_preserves [where P = "\<lambda>s. rtStreams (svRouter s) = rtStreams (svRouter sv)"],
      simp add: reconcile_run_router, simp)

text \<open>The statuses a plugin can be left in: reconciling gives only these.\<close>

definition resting :: "PluginStatus option \<Rightarrow> bool" where
  "resting st = (case st of
     None \<Rightarrow> False | Some s \<Rightarrow> psState s \<in> {StateReady, StateDegraded, StateBlocked, StateFailed})"

lemma resting_simps [simp]:
  "resting (Some \<lparr> psPluginID = p, psState = st, psRuntimeID = r, psReason = w \<rparr>)
     = (st \<in> {StateReady, StateDegraded, StateBlocked, StateFailed})"
  "\<not> resting None"
  by (simp_all add: resting_def)

lemma reconcile_resting: "resting (sup_Status sv q) \<Longrightarrow> resting (sup_Status (reconcileDependencies ords sv) q)"
  by (rule reconcile_preserves [where P = "\<lambda>s. resting (sup_Status s q)"])
    (auto simp: reconcile_run_def Let_def split: prod.splits)

text \<open>A provider of a runtime stays one through every update of health.\<close>

definition provided_by :: "string \<Rightarrow> Manifest \<Rightarrow> Registry \<Rightarrow> Capability \<Rightarrow> bool" where
  "provided_by rid m reg ex =
     list_ex (\<lambda>p. pRuntimeID p = rid \<and> pManifest p = m) (registry_Providers reg (cName ex) (cMajor ex))"

lemma providers_at_on_runtime:
  "providers_at (on_runtime rid f r) k = map (\<lambda>p. if pRuntimeID p = rid then f p else p) (providers_at r k)"
  by (simp add: providers_at_def on_runtime_def map_of_map split: option.split)

lemma providers_at_same: "rProviders r' = rProviders r \<Longrightarrow> providers_at r' k = providers_at r k"
  by (simp add: providers_at_def)

lemma provided_by_MarkDependencyHealth:
  "provided_by rid m reg ex \<Longrightarrow> provided_by rid m (snd (MarkDependencyHealth reg r b)) ex"
proof -
  have "providers_at (snd (MarkDependencyHealth reg r b)) k
      = map (\<lambda>p. if pRuntimeID p = r then mark_dependencies b p else p) (providers_at reg k)" for k
    using providers_at_on_runtime [of r "mark_dependencies b" reg k]
    by (simp add: MarkDependencyHealth_def Let_def providers_at_same [OF clearWriter_frame(1)])
  moreover have "pRuntimeID (if c then mark_dependencies b p else p) = pRuntimeID p
      \<and> pManifest (if c then mark_dependencies b p else p) = pManifest p" for c p
    using provider_updates_identity(2) by (simp add: keeps_identity_def)
  ultimately show "provided_by rid m reg ex \<Longrightarrow> provided_by rid m (snd (MarkDependencyHealth reg r b)) ex"
    by (auto simp only: provided_by_def registry_Providers_def list_ex_iff list.set_map image_iff bex_simps)
qed

lemma reconcile_provided:
  "provided_by rid m (svReg sv) ex \<Longrightarrow> provided_by rid m (svReg (reconcileDependencies ords sv)) ex"
  by (rule reconcile_preserves [where P = "\<lambda>s. provided_by rid m (svReg s) ex"])
    (simp_all add: reconcile_run_reg provided_by_MarkDependencyHealth)

lemma set_providers_at_add:
  "set (providers_at (add_provider m rid c r) k) =
     (if k = (cName c, cMajor c) then insert (new_provider m rid c) (set (providers_at r k)) else set (providers_at r k))"
  by (auto simp add: providers_at_def add_provider_def Let_def update_conv')

lemma add_provider_provided:
  "provided_by rid m (add_provider m rid c r) ex \<longleftrightarrow> (cName c, cMajor c) = (cName ex, cMajor ex) \<or> provided_by rid m r ex"
proof -
  have "pRuntimeID (new_provider m rid c) = rid \<and> pManifest (new_provider m rid c) = m"
    by (simp add: new_provider_def)
  then show ?thesis by (auto simp: set_providers_at_add provided_by_def registry_Providers_def list_ex_iff)
qed

lemma RegisterRuntime_provides:
  assumes "RegisterRuntime r m rid = Inr r'" "ex \<in> set (mExports m)"
  shows "provided_by rid m r' ex"
proof -
  have "ex \<in> set cs \<or> provided_by rid m r ex \<Longrightarrow> provided_by rid m (fold (add_provider m rid) cs r) ex" for cs r
    by (induction cs arbitrary: r) (auto simp: add_provider_provided)
  with assms show ?thesis by (auto simp: RegisterRuntime_def split: option.splits)
qed

text \<open>The ready message is this plugin's, and has a handler of the contract's kind for every export.\<close>

definition export_offered :: "Registry \<Rightarrow> HandlerDescriptor list \<Rightarrow> Capability \<Rightarrow> bool" where
  "export_offered reg hs ex =
     (case ContractMetadata reg (cContract ex) of
        None \<Rightarrow> False
      | Some meta \<Rightarrow> list_ex (\<lambda>h. hdCapability h = cName ex \<and> hdMajor h = cMajor ex \<and> hdKind h = mdKind meta) hs)"

definition offers_exports :: "Registry \<Rightarrow> Manifest \<Rightarrow> string \<Rightarrow> launch \<Rightarrow> bool" where
  "offers_exports reg m hash la =
     (case laReply la of
        Some (kd, Some rd) \<Rightarrow>
          kd = KindReady \<and> rdPluginID rd = mPluginID m \<and> rdManifestHash rd \<in> {[], hash}
          \<and> list_all (export_offered reg (rdHandlers rd)) (mExports m)
      | _ \<Rightarrow> False)"

lemma check_handler_None:
  assumes "check_handler reg hs ex = None"
  shows "export_offered reg hs ex"
proof -
  obtain meta h where "ContractMetadata reg (cContract ex) = Some meta"
    and f: "find (\<lambda>h. hdCapability h = cName ex \<and> hdMajor h = cMajor ex) hs = Some h" and "hdKind h = mdKind meta"
    using assms by (auto simp: check_handler_def split: option.splits if_splits)
  with find_SomeD [OF f] show ?thesis by (auto simp: export_offered_def list_ex_iff)
qed

lemma handshake_offers: "handshake reg m hash la = None \<Longrightarrow> offers_exports reg m hash la"
  using check_handler_None
  by (auto simp: handshake_def offers_exports_def first_err_None list_all_iff split: if_splits option.splits prod.splits)

text \<open>
  Starting a plugin either fails, and then nothing is left running: the router and the registry are
  as before, no run is recorded for the new runtime and the plugin is marked failed with the error; or it
  succeeds, and then the plugin has said ready with a handler of the contract's kind for each of its
  exports, its run is recorded as a first attempt, it is a client of the router and a provider of every
  export, and its status is ready, degraded or blocked.
\<close>

theorem start_behaviour:
  "case sup_Start ords la m path hash sv of
     (Inl e, sv') \<Rightarrow>
       svRouter sv' = svRouter sv
       \<and> (map_of (svRuns sv'))(laRuntimeID la := None) = (map_of (svRuns sv))(laRuntimeID la := None)
       \<and> sup_Status sv' (mPluginID m) =
           Some \<lparr> psPluginID = mPluginID m, psState = StateFailed, psRuntimeID = [], psReason = StartFailed e \<rparr>
   | (Inr run, sv') \<Rightarrow>
       offers_exports (svReg sv) m hash la
       \<and> suID run = laRuntimeID la \<and> suManifest run = m \<and> suAttempts run = 0
       \<and> map_of (svRuns sv') = (map_of (svRuns sv))(laRuntimeID la \<mapsto> run)
       \<and> map_of (rtClients (svRouter sv')) (laRuntimeID la) = Some (mPluginID m)
       \<and> list_all (provided_by (laRuntimeID la) m (svReg sv')) (mExports m)
       \<and> resting (sup_Status sv' (mPluginID m))"
proof (cases "sup_Start ords la m path hash sv")
  case (Pair res sv')
  show ?thesis
  proof (cases res)
    case (Inl e)
    with Pair show ?thesis
      by (auto simp: sup_Start_def sup_start_def Let_def update_conv' delete_conv' fun_eq_iff split: option.splits sum.splits prod.splits)
  next
    case (Inr run)
    with Pair show ?thesis
      by (auto simp: sup_Start_def sup_start_def Let_def update_conv' AddClient_def set_reg_def list_all_iff
          intro!: reconcile_provided reconcile_resting RegisterRuntime_provides handshake_offers
          split: option.splits sum.splits prod.splits)
  qed
qed

end
