(* ===== verification/SupervisorLife.thy ===== *)
theory SupervisorLife
  imports SupervisorProps
begin

text \<open>
  A plugin's life under the supervisor: what its exit removes and tells its dependents, how often it is
  restarted, and the start-up loop that launches every plugin once its requirements are up.
\<close>

section \<open>Exit\<close>

text \<open>Nothing of the runtime is left in the registry, the router or the supervisor.\<close>

definition no_trace :: "string \<Rightarrow> Supervisor \<Rightarrow> bool" where
  "no_trace rid sv \<longleftrightarrow>
     runtime_providers (svReg sv) rid = []
     \<and> map_of (svRuns sv) rid = None
     \<and> map_of (rtClients (svRouter sv)) rid = None
     \<and> list_all (\<lambda>(_, sr). srProviderRuntime sr \<noteq> rid \<and> srConsumerRuntime sr \<noteq> rid) (rtStreams (svRouter sv))"

definition process_down :: "string \<Rightarrow> Registry \<Rightarrow> bool" where
  "process_down rid reg \<longleftrightarrow> list_all (\<lambda>p. \<not> pProcessHealthy p \<and> \<not> pHealthy p) (runtime_providers reg rid)"

lemma runtime_providers_on_runtime:
  assumes "keeps_identity f"
  shows "runtime_providers (on_runtime r' f r) rid =
     (if rid = r' then map f (runtime_providers r rid) else runtime_providers r rid)"
proof -
  have "filter (\<lambda>p. pRuntimeID p = rid) (map (\<lambda>p. if pRuntimeID p = r' then f p else p) ps) =
      (if rid = r' then map f (filter (\<lambda>p. pRuntimeID p = rid) ps) else filter (\<lambda>p. pRuntimeID p = rid) ps)" for ps
    using assms by (induction ps) (auto simp: keeps_identity_def)
  then show ?thesis by (simp add: runtime_providers_def all_providers_on_runtime)
qed

lemma runtime_providers_clearWriter [simp]: "runtime_providers (clearWriter r' r) rid = runtime_providers r rid"
  by (simp add: runtime_providers_def frame_simps)

lemma runtime_providers_marks:
  "runtime_providers (MarkHealth r r' b) rid = runtime_providers (on_runtime r' (mark_process b) r) rid"
  "runtime_providers (snd (MarkDependencyHealth r r' b)) rid = runtime_providers (on_runtime r' (mark_dependencies b) r) rid"
  by (simp_all add: MarkHealth_def update_and_clear_def MarkDependencyHealth_def Let_def)

lemma MarkHealth_down: "process_down rid (MarkHealth r rid False)"
  unfolding process_down_def runtime_providers_marks runtime_providers_on_runtime [OF provider_updates_identity(1)]
  by (simp add: list_all_iff mark_process_def recomputeHealth_def)

lemma MarkDependencyHealth_down:
  assumes "process_down rid r"
  shows "process_down rid (snd (MarkDependencyHealth r rid' b))"
proof -
  have "\<not> pProcessHealthy p \<Longrightarrow> \<not> pProcessHealthy (mark_dependencies b p) \<and> \<not> pHealthy (mark_dependencies b p)" for p
    by (simp add: mark_dependencies_def recomputeHealth_def)
  with assms show ?thesis
    unfolding process_down_def runtime_providers_marks runtime_providers_on_runtime [OF provider_updates_identity(2)]
    by (auto simp: list_all_iff)
qed

lemma reconcile_down:
  "process_down rid (svReg sv) \<Longrightarrow> process_down rid (svReg (reconcileDependencies ords sv))"
  by (rule reconcile_preserves [where P = "\<lambda>s. process_down rid (svReg s)"])
    (simp_all add: reconcile_run_reg MarkDependencyHealth_down)

lemma reconcile_inv: "provider_inv (svReg sv) \<Longrightarrow> provider_inv (svReg (reconcileDependencies ords sv))"
  by (rule reconcile_preserves [where P = "\<lambda>s. provider_inv (svReg s)"])
    (simp_all add: reconcile_run_frame)

lemma all_providers_RemoveRuntime:
  "all_providers (RemoveRuntime r rid) = filter (\<lambda>p. pRuntimeID p \<noteq> rid) (all_providers r)"
proof -
  have "concat (map snd (filter (\<lambda>(k, ps). ps \<noteq> []) (map (\<lambda>(k, ps). (k, filter P ps)) xs)))
      = filter P (concat (map snd xs))"
    for P :: "Provider \<Rightarrow> bool" and xs :: "(cap_key \<times> Provider list) list"
    by (induction xs) auto
  then show ?thesis
    by (simp add: RemoveRuntime_def all_providers_def frame_simps)
qed

lemma providers_at_RemoveRuntime:
  assumes "provider_inv r"
  shows "providers_at (RemoveRuntime r rid) k = filter (\<lambda>p. pRuntimeID p \<noteq> rid) (providers_at r k)"
proof -
  have "(case map_of (filter (\<lambda>(k, ps). ps \<noteq> []) (map (\<lambda>(k, ps). (k, filter P ps)) xs)) k of None \<Rightarrow> [] | Some ps \<Rightarrow> ps)
      = filter P (case map_of xs k of None \<Rightarrow> [] | Some ps \<Rightarrow> ps)"
    if "distinct (map fst xs)" for P :: "Provider \<Rightarrow> bool" and xs :: "(cap_key \<times> Provider list) list"
    using that
  proof (induction xs)
    case (Cons x xs)
    then have "map_of xs (fst x) = None" by (simp add: map_of_eq_None_iff)
    with Cons show ?case by (cases x) (auto split: option.splits)
  qed simp
  with assms show ?thesis
    by (simp add: providers_at_def RemoveRuntime_def frame_simps provider_inv_def)
qed

lemma healthy_provider_RemoveRuntime:
  assumes "provider_inv r" "process_down rid r"
  shows "healthy_provider (RemoveRuntime r rid) need = healthy_provider r need"
  using assms providers_at_subset [of r "(cName need, cMajor need)"]
  by (auto simp: healthy_provider_def providers_at_RemoveRuntime list_ex_iff process_down_def list_all_iff
      runtime_providers_def)

lemma settled_RemoveRuntime:
  assumes "provider_inv (svReg sv)" "process_down rid (svReg sv)" "rid \<notin> suID ` set runs" "settled sv runs"
  shows "settled (set_reg (RemoveRuntime (svReg sv) rid) sv) runs"
proof -
  have "MissingHealthyRequired (RemoveRuntime (svReg sv) rid) m = MissingHealthyRequired (svReg sv) m"
    "MissingHealthyOptional (RemoveRuntime (svReg sv) rid) m = MissingHealthyOptional (svReg sv) m" for m
    using assms by (simp_all add: MissingHealthyRequired_def MissingHealthyOptional_def healthy_provider_RemoveRuntime)
  moreover have "runtime_providers (RemoveRuntime (svReg sv) rid) r = runtime_providers (svReg sv) r" if "r \<noteq> rid" for r
    using that by (auto simp: runtime_providers_def all_providers_RemoveRuntime intro!: filter_cong)
  moreover have "suID run \<noteq> rid" if "run \<in> set runs" for run using assms(3) that by auto
  moreover from calculation have "due_state (RemoveRuntime (svReg sv) rid) run = due_state (svReg sv) run" for run
    by (simp add: due_state_def)
  ultimately show ?thesis
    using assms(4) unfolding settled_def list_all_iff by (simp cong: option.case_cong)
qed

lemma RemoveClient_effect:
  "rtReg (RemoveClient r rid ids accepts) = rtReg r"
  "rtClients (RemoveClient r rid ids accepts) = AList.delete rid (rtClients r)"
  "rtStreams (RemoveClient r rid ids accepts) =
     filter (\<lambda>(_, sr). srProviderRuntime sr \<noteq> rid \<and> srConsumerRuntime sr \<noteq> rid) (rtStreams r)"
  by (simp_all add: RemoveClient_def Let_def
      fold_frame [of rtReg "cancel_lost ids"] fold_frame [of rtReg "close_affected ids accepts"]
      fold_frame [of rtClients "cancel_lost ids"] fold_frame [of rtClients "close_affected ids accepts"]
      fold_frame [of rtStreams "cancel_lost ids"] fold_frame [of rtStreams "close_affected ids accepts"]
      cancel_lost_def close_affected_def frame_simps split: option.split)


text \<open>A second plugin requires the capability of the first, which exits.\<close>

definition dependent_run :: SupRun where
  "dependent_run =
     sample_run\<lparr> suID := ''rt-2'', suManifest := sample_manifest ''app'' [sample_cap [] ''app.run''] [work_cap] \<rparr>"

definition sample_pair :: Supervisor where
  "sample_pair =
     (case RegisterRuntime sample_running (suManifest dependent_run) ''rt-2'' of
        Inl e \<Rightarrow> sample_supervisor
      | Inr reg \<Rightarrow>
          set_reg reg (sample_supervisor\<lparr> svRuns := [(''rt-1'', sample_run), (''rt-2'', dependent_run)] \<rparr>))"

lemma sample_pair_inv: "provider_inv (svReg sample_pair)"
proof (cases "RegisterRuntime sample_running (suManifest dependent_run) ''rt-2''")
  case (Inl e)
  then show ?thesis using sample_settles(1) by (simp add: sample_pair_def sample_supervisor_def svReg_def router_New_def)
next
  case (Inr reg)
  with provider_inv_RegisterRuntime [OF sample_settles(1) Inr] show ?thesis by (simp add: sample_pair_def)
qed

lemma sample_pair_eq:
  "sample_pair = set_reg
     (sample_running\<lparr> rProviders := rProviders sample_running
        @ [((''app.run'', 1), [new_provider (suManifest dependent_run) ''rt-2'' (sample_cap [] ''app.run'')])] \<rparr>)
     (sample_supervisor\<lparr> svRuns := [(''rt-1'', sample_run), (''rt-2'', dependent_run)] \<rparr>)"
  by (simp add: sample_pair_def dependent_run_def sample_run_def RegisterRuntime_def sample_defs storage_conflict_def
      reserve_storage_def add_provider_def providers_at_def Let_def stable_sort_def)

lemmas pair_defs =
  exit_marks_def reconcile_pass_def reconcile_run_def sample_supervisor_def sample_run_def dependent_run_def
  svReg_def set_reg_def setStatus_def router_New_def RemoveClient_def MissingHealthyRequired_def
  MissingHealthyOptional_def healthy_provider_def providers_at_def MarkHealth_def update_and_clear_def on_runtime_def
  unhealthy_after_def clearWriter_def mark_process_def mark_dependencies_def recomputeHealth_def
  MarkDependencyHealth_def runtime_providers_def all_providers_def sample_defs eval_nat_numeral

lemma sample_pair_changes:
  "\<not> always_changes (\<lambda>_ xs. xs) 0 8 (exit_marks False id (\<lambda>_. True) sample_run sample_pair)"
  by (simp add: sample_pair_eq pair_defs Let_def)


section \<open>The start of the kernel\<close>

text \<open>What a plugin that was launched can be: up (with its dependencies or not), or failed.\<close>

definition launched :: "PluginStatus option \<Rightarrow> bool" where
  "launched st =
     (case st of
        None \<Rightarrow> False
      | Some s \<Rightarrow>
          psState s \<in> {StateReady, StateDegraded, StateFailed}
          \<or> (psState s = StateBlocked \<and> (case psReason s of MissingReq ms \<Rightarrow> ms \<noteq> [] | _ \<Rightarrow> False)))"

lemma launched_simps [simp]:
  "launched (Some \<lparr> psPluginID = p, psState = st, psRuntimeID = r, psReason = w \<rparr>)
     = (st \<in> {StateReady, StateDegraded, StateFailed}
        \<or> (st = StateBlocked \<and> (case w of MissingReq ms \<Rightarrow> ms \<noteq> [] | _ \<Rightarrow> False)))"
  "\<not> launched None"
  by (simp_all add: launched_def)

lemma reconcile_launched: "launched (sup_Status sv q) \<Longrightarrow> launched (sup_Status (reconcileDependencies ords sv) q)"
  by (rule reconcile_preserves [where P = "\<lambda>s. launched (sup_Status s q)"])
    (auto simp: reconcile_run_def Let_def split: prod.splits)

lemma sup_Status_frame [simp]:
  "sup_Status (sv\<lparr> svRuns := rs \<rparr>) q = sup_Status sv q" "sup_Status (sv\<lparr> svRouter := rt \<rparr>) q = sup_Status sv q"
  by (simp_all add: sup_Status_def)

lemma sup_Status_Track [simp]: "sup_Status sv q \<noteq> None \<Longrightarrow> sup_Status (Track m sv) q = sup_Status sv q"
  by (auto simp: Track_def Let_def) (auto simp: sup_Status_def setStatus_def)

lemma sup_Start_launched:
  assumes "sup_Start ords la m path hash sv = (res, sv')"
  shows "launched (sup_Status sv' (mPluginID m))"
    and "launched (sup_Status sv q) \<Longrightarrow> launched (sup_Status sv' q)"
    and "\<not> is_ok res \<Longrightarrow> svReg sv' = svReg sv"
proof -
  have n: "launched (sup_Status sv q) \<Longrightarrow> sup_Status (Track m sv) q = sup_Status sv q"
    by (auto simp: launched_def split: option.splits)
  show "launched (sup_Status sv' (mPluginID m))"
    using assms by (auto simp: sup_Start_def sup_start_def Let_def intro!: reconcile_launched
        split: option.splits sum.splits prod.splits)
  show "\<not> is_ok res \<Longrightarrow> svReg sv' = svReg sv"
    using assms by (auto simp: sup_Start_def sup_start_def Let_def split: option.splits sum.splits prod.splits)
  show "launched (sup_Status sv q) \<Longrightarrow> launched (sup_Status sv' q)"
    using assms n by (auto simp: sup_Start_def sup_start_def Let_def intro!: reconcile_launched
        split: option.splits sum.splits prod.splits)
qed

definition loaded_id :: "Loaded \<Rightarrow> string" where
  "loaded_id x = mPluginID (ldManifest x)"

lemma boot_pass_launches:
  assumes "boot_pass ords launches xs sv = (next, progress, sv')"
  shows "(launched (sup_Status sv q) \<longrightarrow> launched (sup_Status sv' q)) \<and> set next \<subseteq> set xs
    \<and> (\<forall>x \<in> set xs. x \<in> set next \<or> launched (sup_Status sv' (loaded_id x)))
    \<and> (\<not> progress \<longrightarrow> svReg sv' = svReg sv
        \<and> (\<forall>x \<in> set next. MissingHealthyRequired (svReg sv) (ldManifest x) \<noteq> []))"
  using assms
proof (induction xs arbitrary: sv q "next" progress)
  case (Cons x xs)
  show ?case
  proof (cases "MissingHealthyRequired (svReg sv) (ldManifest x) \<noteq> []")
    case True
    with Cons.prems obtain n where n: "boot_pass ords launches xs sv = (n, progress, sv')" "next = x # n"
      by (auto split: prod.splits)
    with Cons.IH [OF n(1)] True show ?thesis by auto
  next
    case False
    obtain res sv1 where st: "sup_Start ords (launches x) (ldManifest x) (ldPath x) (ldHash x) sv = (res, sv1)" by force
    with False Cons.prems obtain pr where n: "boot_pass ords launches xs sv1 = (next, pr, sv')" "progress = (is_ok res \<or> pr)"
      by (auto split: prod.splits)
    note s = sup_Start_launched [OF st]
    from s(1) Cons.IH [OF n(1), of "loaded_id x"] have "launched (sup_Status sv' (loaded_id x))"
      by (simp add: loaded_id_def)
    with Cons.IH [OF n(1), of q] s(2) [of q] s(3) n(2) show ?thesis by auto
  qed
qed simp

lemma block_all_status:
  "svReg (block_all xs sv) = svReg sv
   \<and> (q \<notin> loaded_id ` set xs \<longrightarrow> launched (sup_Status sv q) \<longrightarrow> launched (sup_Status (block_all xs sv) q))
   \<and> (q \<in> loaded_id ` set xs \<longrightarrow> map_option psState (sup_Status (block_all xs sv) q) = Some StateBlocked)"
  unfolding block_all_def
proof (induction xs arbitrary: sv rule: rev_induct)
  case (snoc x xs)
  let ?sv = "foldl (\<lambda>s x. MarkBlocked (ldManifest x) (MissingHealthyRequired (svReg s) (ldManifest x)) s) sv xs"
  have "launched (sup_Status ?sv q) \<or> map_option psState (sup_Status ?sv q) = Some StateBlocked \<Longrightarrow>
      sup_Status (Track (ldManifest x) ?sv) q = sup_Status ?sv q"
    by (auto simp: launched_def split: option.splits)
  with snoc.IH [of sv] show ?case
    by (auto simp: MarkBlocked_def loaded_id_def)
qed simp

text \<open>A plugin was launched, or is blocked by a requirement that has no healthy provider now.\<close>

definition booted :: "Loaded list \<Rightarrow> Supervisor \<Rightarrow> string \<Rightarrow> bool" where
  "booted xs sv q \<longleftrightarrow>
     launched (sup_Status sv q)
     \<or> (map_option psState (sup_Status sv q) = Some StateBlocked
         \<and> list_ex (\<lambda>y. loaded_id y = q \<and> MissingHealthyRequired (svReg sv) (ldManifest y) \<noteq> []) xs)"

lemma booted_mono: "booted ys sv q \<Longrightarrow> set ys \<subseteq> set xs \<Longrightarrow> booted xs sv q"
  by (auto simp: booted_def list_ex_iff)

lemma boot_loop_boots:
  "(launched (sup_Status sv q) \<or> q \<in> loaded_id ` set pending) \<longrightarrow>
     booted pending (boot_loop ords launches pending sv) q"
proof (induction ords launches pending sv rule: boot_loop.induct)
  case (1 ords launches pending sv)
  show ?case
  proof (cases "pending = []")
    case True
    then show ?thesis by (simp add: boot_loop.simps booted_def)
  next
    case False
    obtain nxt progress sv' where p: "boot_pass ords launches pending sv = (nxt, progress, sv')"
      by (metis prod_cases3)
    note bp = boot_pass_launches [OF p, of q]
    have st: "launched (sup_Status sv' q) \<or> q \<in> loaded_id ` set nxt"
      if "launched (sup_Status sv q) \<or> q \<in> loaded_id ` set pending"
      using that bp by auto
    show ?thesis
    proof (cases progress)
      case True
      have e: "boot_loop ords launches pending sv = boot_loop ords launches nxt sv'"
        using False True p by (subst boot_loop.simps) simp
      have "(launched (sup_Status sv' q) \<or> q \<in> loaded_id ` set nxt) \<longrightarrow> booted nxt (boot_loop ords launches nxt sv') q"
        using 1 [OF False p [symmetric] refl True] by simp
      with st bp show ?thesis unfolding e by (blast intro: booted_mono)
    next
      case np: False
      have e: "boot_loop ords launches pending sv = block_all nxt sv'"
        using False np p by (subst boot_loop.simps) simp
      have "booted nxt (block_all nxt sv') q" if "launched (sup_Status sv' q) \<or> q \<in> loaded_id ` set nxt"
        using that block_all_status [of nxt sv' q] bp np
        by (auto simp: booted_def list_ex_iff simp flip: ex_simps) blast+
      with st bp show ?thesis unfolding e by (blast intro: booted_mono)
    qed
  qed
qed

lemma rejected_launched:
  "q \<in> (\<lambda>f. if flPluginID f = [] then flPath f else flPluginID f) ` set fs \<or> launched (sup_Status sv q) \<Longrightarrow>
     launched (sup_Status (foldl (\<lambda>s f. MarkManifestRejected (flPluginID f) (flPath f) (render (flReason f)) s) sv fs) q)"
  by (induction fs arbitrary: sv) (auto simp: MarkManifestRejected_def)

lemma tracked_launched:
  "launched (sup_Status sv q) \<Longrightarrow> launched (sup_Status (foldl (\<lambda>s x. Track (ldManifest x) s) sv xs) q)"
proof (induction xs arbitrary: sv)
  case (Cons x xs)
  then have "launched (sup_Status (Track (ldManifest x) sv) q)" by (auto simp: launched_def split: option.splits)
  with Cons.IH show ?case by simp
qed simp


section \<open>Restarts\<close>

text \<open>
  The supervisor with the runs that have exited and wait out their cooldown, the processes launched so
  far and the starts asked for. Each run is watched: its exit is handled once, and a restart follows
  when the policy asks for one.
\<close>

record sup_system =
  sySup :: Supervisor
  syDead :: "SupRun list"
  syLaunches :: nat
  syStarts :: nat

inductive sup_step :: "int \<Rightarrow> sup_system \<Rightarrow> sup_system \<Rightarrow> bool" for K where
  starts: "rpMaxAttempts (mRestart m) \<le> K \<Longrightarrow>
     sup_step K s (s\<lparr> sySup := snd (sup_Start ords la m path hash (sySup s)),
                      syLaunches := Suc (syLaunches s), syStarts := Suc (syStarts s) \<rparr>)"
| exits: "map_of (svRuns (sySup s)) (suID run) = Some run \<Longrightarrow>
     sup_step K s (s\<lparr> sySup := sup_exit ords stopping newID accepts run (sySup s),
                      syDead := (if may_restart stopping run then run # syDead s else syDead s) \<rparr>)"
| restarts: "run \<in> set (syDead s) \<Longrightarrow>
     sup_step K s (s\<lparr> sySup := sup_restart ords la run (sySup s), syDead := remove1 run (syDead s),
                      syLaunches := Suc (syLaunches s) \<rparr>)"
| beats: "sup_step K s (s\<lparr> sySup := snd (heartbeat_tick ords rss pong run (sySup s)) \<rparr>)"

text \<open>The restarts a run has left, and those of all runs.\<close>

definition restarts_left :: "int \<Rightarrow> SupRun \<Rightarrow> nat" where
  "restarts_left K run = nat (K - suAttempts run)"

definition all_left :: "int \<Rightarrow> sup_system \<Rightarrow> nat" where
  "all_left K s = sum_list (map (restarts_left K \<circ> snd) (svRuns (sySup s))) + sum_list (map (restarts_left K) (syDead s))"

definition sup_inv :: "int \<Rightarrow> sup_system \<Rightarrow> bool" where
  "sup_inv K s \<longleftrightarrow>
     syLaunches s + all_left K s \<le> (nat K + 1) * syStarts s
     \<and> (\<forall>run \<in> snd ` set (svRuns (sySup s)) \<union> set (syDead s). rpMaxAttempts (mRestart (suManifest run)) \<le> K)
     \<and> (\<forall>run \<in> set (syDead s). suAttempts run < rpMaxAttempts (mRestart (suManifest run)))"

lemma sum_update_le:
  "sum_list (map (f \<circ> snd) (AList.update k v xs)) \<le> sum_list (map (f \<circ> snd) xs) + (f v :: nat)"
  by (induction xs) auto

lemma sum_delete_le: "sum_list (map (f \<circ> snd) (AList.delete k xs)) \<le> (sum_list (map (f \<circ> snd) xs) :: nat)"
  by (induction xs) auto

lemma sum_delete_found:
  "map_of xs k = Some v \<Longrightarrow> sum_list (map (f \<circ> snd) (AList.delete k xs)) + f v \<le> (sum_list (map (f \<circ> snd) xs) :: nat)"
proof (induction xs)
  case (Cons x xs)
  then show ?case using sum_delete_le [of f k xs] by (cases x) (auto simp: comp_def split: if_splits)
qed simp

lemma set_update_subset: "snd ` set (AList.update k v xs) \<subseteq> insert v (snd ` set xs)"
  by (induction xs) auto

lemma sup_start_runs:
  assumes "sup_start ords la m path hash a sv = (res, sv')"
  shows "svRuns sv' = svRuns sv \<or> svRuns sv' = AList.delete (laRuntimeID la) (svRuns sv)
     \<or> svRuns sv' = AList.update (laRuntimeID la)
          \<lparr> suID = laRuntimeID la, suManifest = m, suPath = path, suHash = hash, suAttempts = a \<rparr> (svRuns sv)"
proof -
  have "AList.delete k (AList.update k v xs) = AList.delete k xs" for k :: string and v :: SupRun and xs
    by (induction xs) auto
  with assms show ?thesis
    by (auto simp: sup_start_def Let_def split: option.splits sum.splits)
qed

lemma exits_runs: "svRuns (sup_exit ords stopping newID accepts run sv) = AList.delete (suID run) (svRuns sv)"
  by (simp add: sup_exit_def exit_marks_def Let_def)

lemma beat_runs: "svRuns (snd (heartbeat_tick ords rss pong run sv)) = svRuns sv"
  by (simp add: heartbeat_tick_def)

lemma snd_set_delete: "snd ` set (AList.delete k xs) \<subseteq> snd ` set xs"
  by (auto simp: AList.delete_eq)

text \<open>What one more launch does to the potential and to the runs.\<close>

lemma launch_left:
  assumes "sup_start ords la m path hash a sv = (res, sv')"
  shows "sum_list (map (restarts_left K \<circ> snd) (svRuns sv'))
      \<le> sum_list (map (restarts_left K \<circ> snd) (svRuns sv)) + nat (K - a)"
    and "snd ` set (svRuns sv') \<subseteq> snd ` set (svRuns sv) \<union> {run. suManifest run = m}"
proof -
  consider (same) "svRuns sv' = svRuns sv" | (del) "svRuns sv' = AList.delete (laRuntimeID la) (svRuns sv)"
    | (new) run where "suManifest run = m" "suAttempts run = a" "svRuns sv' = AList.update (laRuntimeID la) run (svRuns sv)"
    using sup_start_runs [OF assms] by (metis SupRun.select_convs(2,5))
  then have "sum_list (map (restarts_left K \<circ> snd) (svRuns sv'))
      \<le> sum_list (map (restarts_left K \<circ> snd) (svRuns sv)) + nat (K - a)
    \<and> snd ` set (svRuns sv') \<subseteq> snd ` set (svRuns sv) \<union> {run. suManifest run = m}"
  proof cases
    case del
    then show ?thesis
      using sum_delete_le [of "restarts_left K" "laRuntimeID la" "svRuns sv"] snd_set_delete [of "laRuntimeID la" "svRuns sv"]
      by auto
  next
    case new
    then show ?thesis
      using sum_update_le [of "restarts_left K" "laRuntimeID la" run "svRuns sv"]
        set_update_subset [of "laRuntimeID la" run "svRuns sv"] by (auto simp: restarts_left_def)
  qed auto
  then show "sum_list (map (restarts_left K \<circ> snd) (svRuns sv'))
      \<le> sum_list (map (restarts_left K \<circ> snd) (svRuns sv)) + nat (K - a)"
    and "snd ` set (svRuns sv') \<subseteq> snd ` set (svRuns sv) \<union> {run. suManifest run = m}" by blast+
qed

lemma sup_Start_start:
  "\<exists>sv1. svRuns sv1 = svRuns sv \<and>
     svRuns (snd (sup_Start ords la m path hash sv)) = svRuns (snd (sup_start ords la m path hash 0 sv1))"
  by (rule exI [of _ "setStatus (mPluginID m) StateStarting [] NoReason (Track m sv)"])
    (auto simp: sup_Start_def split: sum.splits prod.splits)

lemma sup_restart_start:
  "\<exists>sv1. svRuns sv1 = svRuns sv \<and>
     svRuns (sup_restart ords la run sv) =
       svRuns (snd (sup_start ords la (suManifest run) (suPath run) (suHash run) (suAttempts run + 1) sv1))"
  by (rule exI [of _ "setStatus (mPluginID (suManifest run)) StateStarting [] Restarting sv"])
    (auto simp: sup_restart_def Let_def split: sum.splits prod.splits)

lemma sup_inv_step:
  assumes "sup_step K s s'" and "sup_inv K s"
  shows "sup_inv K s'"
  using assms
proof (induction rule: sup_step.induct)
  case (starts m s ords la path hash)
  obtain sv1 where r: "svRuns sv1 = svRuns (sySup s)"
    "svRuns (snd (sup_Start ords la m path hash (sySup s))) = svRuns (snd (sup_start ords la m path hash 0 sv1))"
    using sup_Start_start by blast
  obtain res sv' where e: "sup_start ords la m path hash 0 sv1 = (res, sv')" by force
  have "svRuns (snd (sup_Start ords la m path hash (sySup s))) = svRuns sv'" by (simp add: r e)
  with starts launch_left(1) [OF e, of K] launch_left(2) [OF e] show ?case
    by (auto simp: sup_inv_def all_left_def r)
next
  case (exits s run ords stopping newID accepts)
  have "run \<in> snd ` set (svRuns (sySup s))" using exits(1) by (force dest: map_of_SomeD)
  with exits sum_delete_found [OF exits(1), of "restarts_left K"] snd_set_delete [of "suID run" "svRuns (sySup s)"]
  show ?case by (auto simp: sup_inv_def all_left_def exits_runs may_restart_def)
next
  case (restarts run s ords la)
  obtain sv1 where r: "svRuns sv1 = svRuns (sySup s)"
    "svRuns (sup_restart ords la run (sySup s)) =
       svRuns (snd (sup_start ords la (suManifest run) (suPath run) (suHash run) (suAttempts run + 1) sv1))"
    using sup_restart_start by blast
  obtain res sv' where e: "sup_start ords la (suManifest run) (suPath run) (suHash run) (suAttempts run + 1) sv1 = (res, sv')"
    by force
  let ?s' = "s\<lparr> sySup := sup_restart ords la run (sySup s), syDead := remove1 run (syDead s),
                syLaunches := Suc (syLaunches s) \<rparr>"
  have runs: "svRuns (sup_restart ords la run (sySup s)) = svRuns sv'" by (simp add: r e)
  have old: "x \<in> snd ` set (svRuns (sySup s)) \<union> set (syDead s) \<Longrightarrow> rpMaxAttempts (mRestart (suManifest x)) \<le> K" for x
    using restarts(2) unfolding sup_inv_def by blast
  have lt: "x \<in> set (syDead s) \<Longrightarrow> suAttempts x < rpMaxAttempts (mRestart (suManifest x))" for x
    using restarts(2) unfolding sup_inv_def by blast
  have "suAttempts run < K" using old [of run] lt [of run] restarts(1) by simp
  then have "restarts_left K run = nat (K - (suAttempts run + 1)) + 1" by (simp add: restarts_left_def)
  moreover have "sum_list (map (restarts_left K) (remove1 run (syDead s))) + restarts_left K run
      = sum_list (map (restarts_left K) (syDead s))"
    using restarts(1) by (simp add: sum_list_map_remove1)
  ultimately have "all_left K ?s' + 1 \<le> all_left K s"
    using launch_left(1) [OF e, of K] by (simp add: all_left_def runs r)
  moreover have "syLaunches s + all_left K s \<le> (nat K + 1) * syStarts s"
    using restarts(2) by (rule sup_inv_def [THEN iffD1, THEN conjunct1])
  ultimately have "syLaunches ?s' + all_left K ?s' \<le> (nat K + 1) * syStarts ?s'" by simp
  moreover have "rpMaxAttempts (mRestart (suManifest x)) \<le> K" if "x \<in> snd ` set (svRuns sv')" for x
  proof -
    have "x \<in> snd ` set (svRuns (sySup s)) \<union> {x. suManifest x = suManifest run}"
      using subsetD [OF launch_left(2) [OF e] that] by (simp only: r)
    then have "x \<in> snd ` set (svRuns (sySup s)) \<or> suManifest x = suManifest run" by (simp only: Un_iff mem_Collect_eq)
    moreover have "run \<in> snd ` set (svRuns (sySup s)) \<union> set (syDead s)" using restarts(1) by simp
    ultimately show ?thesis using old [of x] old [of run] by (metis UnI1)
  qed
  ultimately have "syLaunches ?s' + all_left K ?s' \<le> (nat K + 1) * syStarts ?s'"
    and new: "x \<in> snd ` set (svRuns (sySup ?s')) \<Longrightarrow> rpMaxAttempts (mRestart (suManifest x)) \<le> K" for x
    by (auto simp: runs)
  moreover have "set (syDead ?s') \<subseteq> set (syDead s)" by (simp add: set_remove1_subset)
  ultimately show ?case unfolding sup_inv_def using old lt new by blast
next
  case beats
  then show ?case by (simp add: sup_inv_def all_left_def beat_runs)
qed

text \<open>
  C22: a plugin that keeps crashing is not restarted for ever: however starts, exits, restarts and
  heartbeats interleave, a supervisor whose plugins allow at most \<open>K\<close> restarts launches at most
  \<open>K + 1\<close> processes for each start it is asked for.
\<close>

theorem restarts_bounded:
  assumes "(sup_step K)\<^sup>*\<^sup>* \<lparr> sySup = Supervisor_New rt, syDead = [], syLaunches = 0, syStarts = 0 \<rparr> s"
  shows "syLaunches s \<le> (nat K + 1) * syStarts s"
proof -
  have "sup_inv K s"
    using assms
  proof (induction rule: rtranclp_induct)
    case base
    show ?case by (simp add: sup_inv_def all_left_def Supervisor_New_def)
  qed (rule sup_inv_step)
  then show ?thesis by (simp add: sup_inv_def)
qed

definition crash_manifest :: Manifest where
  "crash_manifest = (sample_manifest ''crash'' [] [])
     \<lparr> mRestart := \<lparr> rpMode = ''on_failure'', rpMaxAttempts = 1, rpCooldownMS = 0 \<rparr> \<rparr>"

definition crash_launch :: launch where
  "crash_launch =
     \<lparr> laRuntimeID = ''r'', laExecutable = True, laPipes = True, laSpawn = True, laPriority = True,
       laReply = Some (KindReady, Some \<lparr> rdRuntimeProtocol = RuntimeProtocol, rdPluginID = ''crash'',
                          rdPluginVersion = [], rdManifestHash = [], rdHandlers = [] \<rparr>) \<rparr>"

definition crash_run :: SupRun where
  "crash_run = \<lparr> suID = ''r'', suManifest = crash_manifest, suPath = [], suHash = [], suAttempts = 0 \<rparr>"

lemma crash_starts:
  "svRuns (snd (sup_Start ords crash_launch crash_manifest [] [] (Supervisor_New rt))) = [(''r'', crash_run)]"
  by (simp add: sup_Start_def sup_start_def handshake_def crash_launch_def crash_manifest_def crash_run_def
      sample_manifest_def RegisterRuntime_def Supervisor_New_def setStatus_def Track_def Let_def)

theorem restarts_bounded_witness:
  "\<exists>s :: sup_system. syStarts s = 1 \<and> syLaunches s = 2 \<and> syLaunches s \<le> (nat 1 + 1) * syStarts s"
proof -
  let ?rt = "router_New sample_root Map.empty (\<lambda>_. None)"
  let ?s0 = "\<lparr> sySup = Supervisor_New ?rt, syDead = [], syLaunches = 0, syStarts = 0 \<rparr> :: sup_system"
  let ?id = "\<lambda>(_ :: nat) (xs :: SupRun list). xs"
  let ?s1 = "?s0\<lparr> sySup := snd (sup_Start ?id crash_launch crash_manifest [] [] (sySup ?s0)),
       syLaunches := Suc (syLaunches ?s0), syStarts := Suc (syStarts ?s0) \<rparr>"
  let ?s2 = "?s1\<lparr> sySup := sup_exit ?id False id (\<lambda>_. True) crash_run (sySup ?s1),
       syDead := (if may_restart False crash_run then crash_run # syDead ?s1 else syDead ?s1) \<rparr>"
  let ?s3 = "?s2\<lparr> sySup := sup_restart ?id crash_launch crash_run (sySup ?s2),
       syDead := remove1 crash_run (syDead ?s2), syLaunches := Suc (syLaunches ?s2) \<rparr>"
  have "sup_step 1 ?s0 ?s1" by (rule sup_step.starts) (simp add: crash_manifest_def)
  moreover have "sup_step 1 ?s1 ?s2"
    by (rule sup_step.exits) (simp add: crash_starts, simp add: crash_run_def)
  moreover have "may_restart False crash_run" by (simp add: may_restart_def crash_run_def crash_manifest_def)
  then have "sup_step 1 ?s2 ?s3" by (intro sup_step.restarts) simp
  ultimately have "(sup_step 1)\<^sup>*\<^sup>* ?s0 ?s3" by (meson rtranclp.rtrancl_refl rtranclp.rtrancl_into_rtrancl)
  from restarts_bounded [OF this] show ?thesis by (intro exI [of _ ?s3]) simp
qed

end
