(* ===== verification/Workflow.thy ===== *)
theory Workflow
  imports StoreSamples "HOL-Library.AList"
begin

text \<open>
  The engineering workflow (\<open>plugins/engineering-workflow\<close>: \<open>pipeline.go\<close>, \<open>gate.go\<close>,
  \<open>progress.go\<close> and the handlers): one task is taken through workspace, agent, diff, build, test
  and review to done. The capabilities it calls are the record \<open>caps\<close>, as in the source; each answers
  from the calls made so far, which the run records together with their answers, so a \<open>caps\<close> is any
  behaviour of the other plugins whatever.
\<close>

section \<open>Data\<close>

datatype jval = JStr string | JNum int

type_synonym jobject = "(string \<times> jval) list"

record wf_Task =
  wtID :: string
  wtVersion :: int
  wtWorkContextID :: string

record EvItem =
  eiKind :: string
  eiOutcome :: string
  eiEvidenceRefID :: string

record RunRequest =
  rqTaskID :: string
  rqPrompt :: string
  rqProvider :: string
  rqBaseRef :: string
  rqBuildCommand :: "string list"
  rqTestCommand :: "string list"
  rqReviewPollMS :: int
  rqMockAgentWriteFile :: string
  rqMockAgentWriteContent :: string

record wf_RunResult =
  rrWorkContextID :: string
  rrTaskID :: string
  rrOutcome :: string
  rrReason :: string
  rrAgentRunID :: string
  rrDiffArtifactID :: string
  rrBuildToolRunID :: string
  rrTestToolRunID :: string
  rrReviewID :: string
  rrSessionID :: string
  rrEventIDs :: "string list"

record ReviewState =
  rsStatus :: string
  rsDiffArtifactID :: string
  rsAcceptanceResults :: "bool list"

text \<open>A call with its arguments and its answer: an error's text, or the values returned.\<close>

datatype call =
    CWorkGet string "(string, wf_Task \<times> string \<times> int) result"
  | CWorkTransition string string int "(string, int) result"
  | CWorkspaceAlloc string string "(string, string \<times> string) result"
  | CWorkspaceRelease string string "(string, unit) result"
  | CAgentRun string string string string string string "string \<times> (string, string) result"
  | CCollectDiff string string "(string, string \<times> int) result"
  | CToolRun string string string "string list" "(string, string \<times> string) result"
  | CAttachEvidence string string string string string "(string, unit) result"
  | CReviewRequest string string string "EvItem list" "(string, string) result"
  | CReviewGet string "(string, ReviewState) result"
  | CSessionSeal string string string "(string, string) result"
  | CAppendEvent string jobject "(string, string) result"
  | CSleep int

text \<open>
  \<open>agent.run\<close> answers with the run's id, which it has even when the wait for its end fails.
  \<open>cpExpired\<close> is the error of the request's context.
\<close>

record caps =
  cpWorkGet :: "call list \<Rightarrow> string \<Rightarrow> (string, wf_Task \<times> string \<times> int) result"
  cpWorkTransition :: "call list \<Rightarrow> string \<Rightarrow> string \<Rightarrow> int \<Rightarrow> (string, int) result"
  cpWorkspaceAlloc :: "call list \<Rightarrow> string \<Rightarrow> string \<Rightarrow> (string, string \<times> string) result"
  cpWorkspaceRelease :: "call list \<Rightarrow> string \<Rightarrow> string \<Rightarrow> (string, unit) result"
  cpAgentRun :: "call list \<Rightarrow> string \<Rightarrow> string \<Rightarrow> string \<Rightarrow> string \<Rightarrow> string \<Rightarrow> string \<Rightarrow> string \<times> (string, string) result"
  cpCollectDiff :: "call list \<Rightarrow> string \<Rightarrow> string \<Rightarrow> (string, string \<times> int) result"
  cpToolRun :: "call list \<Rightarrow> string \<Rightarrow> string \<Rightarrow> string \<Rightarrow> string list \<Rightarrow> (string, string \<times> string) result"
  cpAttachEvidence :: "call list \<Rightarrow> string \<Rightarrow> string \<Rightarrow> string \<Rightarrow> string \<Rightarrow> string \<Rightarrow> (string, unit) result"
  cpReviewRequest :: "call list \<Rightarrow> string \<Rightarrow> string \<Rightarrow> string \<Rightarrow> EvItem list \<Rightarrow> (string, string) result"
  cpReviewGet :: "call list \<Rightarrow> string \<Rightarrow> (string, ReviewState) result"
  cpSessionSeal :: "call list \<Rightarrow> string \<Rightarrow> string \<Rightarrow> string \<Rightarrow> (string, string) result"
  cpAppendEvent :: "call list \<Rightarrow> string \<Rightarrow> jobject \<Rightarrow> (string, string) result"
  cpExpired :: "call list \<Rightarrow> string option"

section \<open>The gate\<close>

text \<open>The first condition that fails, if one does.\<close>

definition doneGate :: "string \<Rightarrow> string \<Rightarrow> ReviewState \<Rightarrow> string \<Rightarrow> string option" where
  "doneGate build test review currentDiff =
     (if build \<noteq> ''PASS'' then Some (''build: outcome '' @ build)
      else if test \<noteq> ''PASS'' then Some (''test: outcome '' @ test)
      else if rsStatus review \<noteq> ''APPROVED'' then Some (''review: status '' @ rsStatus review)
      else if rsDiffArtifactID review \<noteq> currentDiff
      then Some (''diff: reviewed '' @ rsDiffArtifactID review @ '' != current '' @ currentDiff)
      else if rsAcceptanceResults review = [] then Some ''acceptance: no results''
      else if \<not> list_all (\<lambda>b. b) (rsAcceptanceResults review) then Some ''acceptance: unsatisfied result''
      else None)"

section \<open>The pipeline\<close>

text \<open>The calls made, the result so far, and whether the clean-up has run.\<close>

record pipe =
  piCalls :: "call list"
  piRes :: wf_RunResult
  piCleaned :: bool

text \<open>What the rest of the run knows of the job.\<close>

record job =
  jbReq :: RunRequest
  jbWC :: string
  jbWorkspace :: string
  jbPath :: string

definition called :: "call \<Rightarrow> pipe \<Rightarrow> pipe" where
  "called c s = s\<lparr> piCalls := piCalls s @ [c] \<rparr>"

definition update_res :: "(wf_RunResult \<Rightarrow> wf_RunResult) \<Rightarrow> pipe \<Rightarrow> pipe" where
  "update_res f s = s\<lparr> piRes := f (piRes s) \<rparr>"

definition fail_run :: "string \<Rightarrow> string \<Rightarrow> pipe \<Rightarrow> pipe" where
  "fail_run outcome reason s = update_res (\<lambda>r. r\<lparr> rrOutcome := outcome, rrReason := reason \<rparr>) s"

definition add_event :: "caps \<Rightarrow> job \<Rightarrow> string \<Rightarrow> jobject \<Rightarrow> pipe \<Rightarrow> pipe" where
  "add_event c j t p s =
     (let q = AList.update ''task_id'' (JStr (rqTaskID (jbReq j))) (AList.update ''work_context_id'' (JStr (jbWC j)) p);
          a = cpAppendEvent c (piCalls s) t q
      in update_res (\<lambda>r. case a of
            Inl _ \<Rightarrow> r
          | Inr i \<Rightarrow> if i \<noteq> [] then r\<lparr> rrEventIDs := rrEventIDs r @ [i] \<rparr> else r)
        (called (CAppendEvent t q a) s))"

definition seal_session :: "caps \<Rightarrow> job \<Rightarrow> pipe \<Rightarrow> pipe" where
  "seal_session c j s =
     (let ar = rrAgentRunID (piRes s)
      in if ar = [] then s
         else let a = cpSessionSeal c (piCalls s) (jbWC j) ar (jbPath j);
                  s1 = called (CSessionSeal (jbWC j) ar (jbPath j) a) s
              in case a of
                   Inl _ \<Rightarrow> s1
                 | Inr sid \<Rightarrow>
                     add_event c j ''session.sealed'' [(''session_id'', JStr sid)]
                       (update_res (\<lambda>r. r\<lparr> rrSessionID := sid \<rparr>) s1))"

definition cleanup :: "caps \<Rightarrow> job \<Rightarrow> pipe \<Rightarrow> pipe" where
  "cleanup c j s0 =
     (if piCleaned s0 then s0
      else let s = seal_session c j (s0\<lparr> piCleaned := True \<rparr>);
               a = cpWorkspaceRelease c (piCalls s) (jbWorkspace j) ''preserve'';
               s1 = called (CWorkspaceRelease (jbWorkspace j) ''preserve'' a) s
           in case a of
                Inl _ \<Rightarrow> s1
              | Inr _ \<Rightarrow>
                  add_event c j ''workspace.released''
                    [(''workspace_id'', JStr (jbWorkspace j)), (''policy'', JStr ''preserve'')] s1)"

text \<open>The end of the run: the gate on the reviewed result, and the transition to done.\<close>

definition finish_run :: "caps \<Rightarrow> job \<Rightarrow> string \<Rightarrow> string \<Rightarrow> string \<Rightarrow> string \<Rightarrow> int \<Rightarrow> ReviewState \<Rightarrow> pipe \<Rightarrow> pipe" where
  "finish_run c j bOut tOut diff rid ver rs s0 =
     (let s = add_event c j ''review.decided'' [(''review_id'', JStr rid), (''status'', JStr (rsStatus rs))] s0
      in case doneGate bOut tOut rs diff of
           Some why \<Rightarrow> fail_run ''GATE_FAILED'' why (cleanup c j s)
         | None \<Rightarrow>
             let a = cpWorkTransition c (piCalls s) (jbWC j) ''DONE'' ver;
                 s1 = called (CWorkTransition (jbWC j) ''DONE'' ver a) s
             in case a of
                  Inl e \<Rightarrow> fail_run ''GATE_FAILED'' (''DONE transition: '' @ e) (cleanup c j s1)
                | Inr _ \<Rightarrow>
                    fail_run ''DONE'' []
                      (cleanup c j
                        (add_event c j ''work.transitioned'' [(''from'', JStr ''IN_REVIEW''), (''to'', JStr ''DONE'')] s1)))"

text \<open>
  Waiting for the review: polled until it is no longer pending or the request's deadline has passed.
  \<open>fuel\<close> bounds the polls; None is running out of it.
\<close>

fun await_review :: "caps \<Rightarrow> job \<Rightarrow> int \<Rightarrow> string \<Rightarrow> nat \<Rightarrow> pipe \<Rightarrow> (pipe + ReviewState \<times> pipe) option" where
  "await_review c j poll rid 0 s = None"
| "await_review c j poll rid (Suc fuel) s =
     (case cpExpired c (piCalls s) of
        Some e \<Rightarrow> Some (Inl (fail_run ''TIMEOUT'' e (cleanup c j s)))
      | None \<Rightarrow>
          let a = cpReviewGet c (piCalls s) rid;
              s1 = called (CReviewGet rid a) s
          in case a of
               Inl e \<Rightarrow> Some (Inl (fail_run ''GATE_FAILED'' (''review: '' @ e) (cleanup c j s1)))
             | Inr rs \<Rightarrow>
                 if rsStatus rs \<noteq> ''PENDING'' then Some (Inr (rs, s1))
                 else await_review c j poll rid fuel (called (CSleep poll) s1))"

definition decision_stage ::
  "caps \<Rightarrow> job \<Rightarrow> int \<Rightarrow> nat \<Rightarrow> string \<Rightarrow> string \<Rightarrow> string \<Rightarrow> string \<Rightarrow> int \<Rightarrow> pipe \<Rightarrow> pipe option" where
  "decision_stage c j poll fuel bOut tOut diff rid ver s =
     (case await_review c j poll rid fuel s of
        None \<Rightarrow> None
      | Some (Inl s1) \<Rightarrow> Some s1
      | Some (Inr (rs, s1)) \<Rightarrow> Some (finish_run c j bOut tOut diff rid ver rs s1))"

definition review_stage :: "caps \<Rightarrow> job \<Rightarrow> nat \<Rightarrow> string \<Rightarrow> string \<Rightarrow> string \<times> string \<Rightarrow> string \<times> string \<Rightarrow> int \<Rightarrow> pipe \<Rightarrow> pipe option" where
  "review_stage c j fuel ar diff build test ver0 s0 =
     (case build of (bID, bOut) \<Rightarrow> case test of (tID, tOut) \<Rightarrow>
      let a = cpWorkTransition c (piCalls s0) (jbWC j) ''IN_REVIEW'' ver0;
          s1 = called (CWorkTransition (jbWC j) ''IN_REVIEW'' ver0 a) s0
      in case a of
           Inl e \<Rightarrow> Some (fail_run ''GATE_FAILED'' e (cleanup c j s1))
         | Inr ver \<Rightarrow>
      let s2 = add_event c j ''work.transitioned'' [(''from'', JStr ''IN_PROGRESS''), (''to'', JStr ''IN_REVIEW'')] s1;
          items = [\<lparr> eiKind = ''build'', eiOutcome = bOut, eiEvidenceRefID = bID \<rparr>,
                   \<lparr> eiKind = ''test'', eiOutcome = tOut, eiEvidenceRefID = tID \<rparr>];
          b = cpReviewRequest c (piCalls s2) (jbWC j) ar diff items;
          s3 = called (CReviewRequest (jbWC j) ar diff items b) s2
      in case b of
           Inl e \<Rightarrow> Some (fail_run ''GATE_FAILED'' e (cleanup c j s3))
         | Inr rid \<Rightarrow>
      let s4 = update_res (\<lambda>r. r\<lparr> rrReviewID := rid \<rparr>) s3;
          s5 = add_event c j ''review.requested'' [(''review_id'', JStr rid), (''diff_artifact_id'', JStr diff)] s4;
          s6 = add_event c j ''workflow.waiting_review'' [(''review_id'', JStr rid)] s5;
          poll = (if rqReviewPollMS (jbReq j) \<le> 0 then 500 else rqReviewPollMS (jbReq j))
      in decision_stage c j poll fuel bOut tOut diff rid ver s6)"

text \<open>A tool run with its evidence; the answer of \<open>work.attach_evidence\<close> is not looked at.\<close>

definition tool_stage ::
  "caps \<Rightarrow> job \<Rightarrow> string \<Rightarrow> string list \<Rightarrow> (string \<Rightarrow> wf_RunResult \<Rightarrow> wf_RunResult) \<Rightarrow> pipe
   \<Rightarrow> (string, string \<times> string) result \<times> pipe" where
  "tool_stage c j label argv keep s0 =
     (let a = cpToolRun c (piCalls s0) (jbWC j) (jbPath j) label argv;
          s1 = called (CToolRun (jbWC j) (jbPath j) label argv a) s0
      in case a of
           Inl e \<Rightarrow> (Err e, s1)
         | Inr (tid, out) \<Rightarrow>
      let s2 = update_res (keep tid) s1;
          s3 = add_event c j ''tool.run.completed'' [(''tool_run_id'', JStr tid), (''label'', JStr label), (''outcome'', JStr out)] s2;
          b = cpAttachEvidence c (piCalls s3) (jbWC j) label ''tool.run@1'' tid out;
          s4 = called (CAttachEvidence (jbWC j) label ''tool.run@1'' tid out b) s3
      in (Ok (tid, out),
          add_event c j ''evidence.attached'' [(''kind'', JStr label), (''source_id'', JStr tid), (''outcome'', JStr out)] s4))"

definition evidence_stage :: "caps \<Rightarrow> job \<Rightarrow> nat \<Rightarrow> string \<Rightarrow> int \<Rightarrow> pipe \<Rightarrow> pipe option" where
  "evidence_stage c j fuel ar ver s0 =
     (let a = cpCollectDiff c (piCalls s0) (jbWC j) (jbPath j);
          s1 = called (CCollectDiff (jbWC j) (jbPath j) a) s0
      in case a of
           Inl e \<Rightarrow> Some (fail_run ''GATE_FAILED'' (''diff: '' @ e) (cleanup c j s1))
         | Inr (diff, n) \<Rightarrow>
      let s2 = add_event c j ''diff.collected'' [(''artifact_id'', JStr diff), (''files_changed'', JNum n)]
                 (update_res (\<lambda>r. r\<lparr> rrDiffArtifactID := diff \<rparr>) s1)
      in case tool_stage c j ''build'' (rqBuildCommand (jbReq j)) (\<lambda>i r. r\<lparr> rrBuildToolRunID := i \<rparr>) s2 of
           (Inl e, s3) \<Rightarrow> Some (fail_run ''BUILD_FAILED'' e (cleanup c j s3))
         | (Inr build, s3) \<Rightarrow>
      (case tool_stage c j ''test'' (rqTestCommand (jbReq j)) (\<lambda>i r. r\<lparr> rrTestToolRunID := i \<rparr>) s3 of
           (Inl e, s4) \<Rightarrow> Some (fail_run ''TEST_FAILED'' e (cleanup c j s4))
         | (Inr test, s4) \<Rightarrow> review_stage c j fuel ar diff build test ver s4))"

definition agent_stage :: "caps \<Rightarrow> job \<Rightarrow> nat \<Rightarrow> int \<Rightarrow> pipe \<Rightarrow> pipe option" where
  "agent_stage c j fuel ver0 s0 =
     (let a = cpWorkTransition c (piCalls s0) (jbWC j) ''IN_PROGRESS'' ver0;
          s1 = called (CWorkTransition (jbWC j) ''IN_PROGRESS'' ver0 a) s0
      in case a of
           Inl e \<Rightarrow> Some (fail_run ''GATE_FAILED'' (''transition IN_PROGRESS: '' @ e) (cleanup c j s1))
         | Inr ver \<Rightarrow>
      let s2 = add_event c j ''work.transitioned'' [(''from'', JStr ''PLANNED''), (''to'', JStr ''IN_PROGRESS'')] s1
      in case cpExpired c (piCalls s2) of
           Some e \<Rightarrow> Some (fail_run ''TIMEOUT'' e (cleanup c j s2))
         | None \<Rightarrow>
      let s3 = add_event c j ''agent.run.started'' [] s2;
          q = jbReq j;
          prov = (if rqProvider q = [] then ''mock'' else rqProvider q);
          (ar, out) = cpAgentRun c (piCalls s3) prov (jbWC j) (jbPath j) (rqPrompt q) (rqMockAgentWriteFile q) (rqMockAgentWriteContent q);
          s4 = called (CAgentRun prov (jbWC j) (jbPath j) (rqPrompt q) (rqMockAgentWriteFile q) (rqMockAgentWriteContent q) (ar, out)) s3;
          s5 = update_res (\<lambda>r. r\<lparr> rrAgentRunID := ar \<rparr>) s4
      in case out of
           Inl e \<Rightarrow> Some (fail_run ''AGENT_FAILED'' e (cleanup c j s5))
         | Inr st \<Rightarrow>
      let s6 = add_event c j ''agent.run.completed'' [(''agent_run_id'', JStr ar), (''status'', JStr st)] s5
      in if st \<noteq> ''COMPLETED'' then Some (fail_run ''AGENT_FAILED'' (''agent status '' @ st) (cleanup c j s6))
         else evidence_stage c j fuel ar ver s6)"

definition empty_result :: wf_RunResult where
  "empty_result = \<lparr> rrWorkContextID = [], rrTaskID = [], rrOutcome = [], rrReason = [], rrAgentRunID = [],
     rrDiffArtifactID = [], rrBuildToolRunID = [], rrTestToolRunID = [], rrReviewID = [], rrSessionID = [], rrEventIDs = [] \<rparr>"

definition runPipeline :: "caps \<Rightarrow> nat \<Rightarrow> RunRequest \<Rightarrow> pipe option" where
  "runPipeline c fuel req =
     (let s0 = \<lparr> piCalls = [], piRes = empty_result\<lparr> rrTaskID := rqTaskID req \<rparr>, piCleaned = False \<rparr>;
          a = cpWorkGet c [] (rqTaskID req);
          s1 = called (CWorkGet (rqTaskID req) a) s0
      in case a of
           Inl _ \<Rightarrow> Some (fail_run ''GATE_FAILED'' ''task not found'' s1)
         | Inr (_, wc, ver) \<Rightarrow>
      let s2 = update_res (\<lambda>r. r\<lparr> rrWorkContextID := wc \<rparr>) s1;
          b = cpWorkspaceAlloc c (piCalls s2) wc (rqBaseRef req);
          s3 = called (CWorkspaceAlloc wc (rqBaseRef req) b) s2
      in case b of
           Inl e \<Rightarrow> Some (fail_run ''GATE_FAILED'' (''workspace allocate: '' @ e) s3)
         | Inr (ws, path) \<Rightarrow>
      let j = \<lparr> jbReq = req, jbWC = wc, jbWorkspace = ws, jbPath = path \<rparr>
      in agent_stage c j fuel ver
           (add_event c j ''workspace.allocated'' [(''workspace_id'', JStr ws), (''path'', JStr path)] s3))"

definition runHandler :: "caps \<Rightarrow> nat \<Rightarrow> RunRequest option \<Rightarrow> wf_RunResult reply option" where
  "runHandler c fuel body =
     (case body of
        None \<Rightarrow> Some (Err (proto_error ''INVALID'' ''task_id, prompt, build_command and test_command are required''))
      | Some req \<Rightarrow>
          if rqTaskID req = [] \<or> rqPrompt req = [] \<or> rqBuildCommand req = [] \<or> rqTestCommand req = []
          then Some (Err (proto_error ''INVALID'' ''task_id, prompt, build_command and test_command are required''))
          else map_option (\<lambda>s. Ok (piRes s)) (runPipeline c fuel req))"

section \<open>Progress\<close>

record wf_JournalRecord =
  wjID :: string
  wjType :: string
  wjPayload :: jobject

definition str_field :: "jobject \<Rightarrow> string \<Rightarrow> string" where
  "str_field p k = (case map_of p k of Some (JStr v) \<Rightarrow> v | _ \<Rightarrow> [])"

definition next_stage :: "string \<Rightarrow> wf_JournalRecord \<Rightarrow> string" where
  "next_stage stage r =
     (let p = wjPayload r
      in if wjType r = ''workspace.allocated'' then ''WORKSPACE''
         else if wjType r = ''agent.run.started'' then ''AGENT''
         else if wjType r = ''diff.collected'' then ''DIFF''
         else if wjType r = ''tool.run.completed''
         then (if map_of p ''label'' = Some (JStr ''build'') then ''BUILD''
               else if map_of p ''label'' = Some (JStr ''test'') then ''TEST'' else stage)
         else if wjType r = ''work.transitioned''
         then (if map_of p ''to'' = Some (JStr ''IN_REVIEW'') then ''REVIEW_REQUESTED''
               else if map_of p ''to'' = Some (JStr ''DONE'') then ''DONE'' else stage)
         else if wjType r = ''workflow.waiting_review'' then ''WAITING_REVIEW''
         else if wjType r = ''review.decided'' then ''REVIEWED''
         else if wjType r = ''session.sealed'' then ''SEALED'' else stage)"

definition concerns :: "string \<Rightarrow> wf_JournalRecord \<Rightarrow> bool" where
  "concerns key r \<longleftrightarrow>
     str_field (wjPayload r) ''work_context_id'' = key \<or> str_field (wjPayload r) ''task_id'' = key"

definition project :: "wf_JournalRecord list \<Rightarrow> string \<Rightarrow> string \<times> wf_JournalRecord list" where
  "project rs key = (let matched = filter (concerns key) rs in (foldl next_stage ''CREATED'' matched, matched))"

record wf_progress =
  wpStage :: string
  wpEvents :: "wf_JournalRecord list"
  wpOutcome :: string

definition wf_getHandler ::
  "(string, wf_JournalRecord list) result \<Rightarrow> (string \<times> string) option \<Rightarrow> wf_progress reply" where
  "wf_getHandler replay body =
     (case body of
        None \<Rightarrow> Err (proto_error ''INVALID'' ''exactly one of work_context_id or task_id is required'')
      | Some (wc, task) \<Rightarrow>
          if (wc = []) = (task = [])
          then Err (proto_error ''INVALID'' ''exactly one of work_context_id or task_id is required'')
          else (case replay of
                  Inl e \<Rightarrow> Err (io_error e)
                | Inr recs \<Rightarrow>
                    (case project recs (if wc = [] then task else wc) of
                       (stage, matched) \<Rightarrow>
                         Ok \<lparr> wpStage = stage, wpEvents = matched,
                              wpOutcome = (if stage = ''DONE'' \<or> stage = ''SEALED'' then ''DONE'' else []) \<rparr>)))"

end
