(* ===== verification/WorkflowProps.thy ===== *)
theory WorkflowProps
  imports Workflow
begin

text \<open>
  What a run of the engineering workflow does, whatever the other plugins answer: its calls come in
  the order of the stages, a task is moved to done only through the gate, the workspace is given
  back exactly once, and the run ends with the request's deadline.
\<close>

section \<open>The calls of a run\<close>

text \<open>Journal events and sleeps apart, every call belongs to a stage.\<close>

definition is_note :: "call \<Rightarrow> bool" where
  "is_note x = (case x of CAppendEvent _ _ _ \<Rightarrow> True | CSleep _ \<Rightarrow> True | _ \<Rightarrow> False)"

definition main_calls :: "pipe \<Rightarrow> call list" where
  "main_calls s = filter (\<lambda>x. \<not> is_note x) (piCalls s)"

fun phase :: "call \<Rightarrow> nat" where
  "phase (CWorkGet _ _) = 0"
| "phase (CWorkspaceAlloc _ _ _) = 1"
| "phase (CWorkTransition _ to _ _) = (if to = ''IN_PROGRESS'' then 2 else if to = ''IN_REVIEW'' then 9 else 12)"
| "phase (CAgentRun _ _ _ _ _ _ _) = 3"
| "phase (CCollectDiff _ _ _) = 4"
| "phase (CToolRun _ _ label _ _) = (if label = ''build'' then 5 else 7)"
| "phase (CAttachEvidence _ kind _ _ _ _) = (if kind = ''build'' then 6 else 8)"
| "phase (CReviewRequest _ _ _ _ _) = 10"
| "phase (CReviewGet _ _) = 11"
| "phase (CSessionSeal _ _ _ _) = 13"
| "phase (CWorkspaceRelease _ _ _) = 14"
| "phase (CAppendEvent _ _ _) = 15"
| "phase (CSleep _) = 15"

text \<open>Stages come in order, each once; only the review is looked at more than once.\<close>

definition follows :: "call \<Rightarrow> call \<Rightarrow> bool" where
  "follows x y \<longleftrightarrow> phase x < phase y \<or> (phase x = 11 \<and> phase y = 11)"

definition reached :: "nat \<Rightarrow> pipe \<Rightarrow> bool" where
  "reached k s \<longleftrightarrow> sorted_wrt follows (main_calls s) \<and> list_all (\<lambda>x. phase x < k) (main_calls s) \<and> \<not> piCleaned s"

lemma main_simps [simp]:
  "main_calls (called x s) = main_calls s @ (if is_note x then [] else [x])"
  "main_calls (update_res f s) = main_calls s"
  "main_calls (fail_run o1 why s) = main_calls s"
  "main_calls (add_event c j t p s) = main_calls s"
  "main_calls (s\<lparr> piCleaned := b \<rparr>) = main_calls s"
  by (simp_all add: main_calls_def called_def update_res_def fail_run_def add_event_def is_note_def Let_def)

lemma note_simps [simp]:
  "\<not> is_note (CWorkGet a1 r1)" "\<not> is_note (CWorkTransition a1 a2 a3 r2)" "\<not> is_note (CWorkspaceAlloc a1 a2 r3)"
  "\<not> is_note (CWorkspaceRelease a1 a2 r4)" "\<not> is_note (CAgentRun a1 a2 a4 a5 a6 a7 r5)"
  "\<not> is_note (CCollectDiff a1 a2 r6)" "\<not> is_note (CToolRun a1 a2 a4 a8 r7)"
  "\<not> is_note (CAttachEvidence a1 a2 a4 a5 a6 r8)" "\<not> is_note (CReviewRequest a1 a2 a4 a9 r9)"
  "\<not> is_note (CReviewGet a1 r10)" "\<not> is_note (CSessionSeal a1 a2 a4 r11)"
  "is_note (CAppendEvent a1 a10 r12)" "is_note (CSleep n)"
  by (simp_all add: is_note_def)

lemma res_simps [simp]:
  "piRes (called x s) = piRes s" "piRes (update_res f s) = f (piRes s)"
  "piCleaned (called x s) = piCleaned s" "piCleaned (update_res f s) = piCleaned s"
  "piCleaned (fail_run o1 why s) = piCleaned s" "piCleaned (add_event c j t p s) = piCleaned s"
  "rrAgentRunID (piRes (add_event c j t p s)) = rrAgentRunID (piRes s)"
  "rrOutcome (piRes (add_event c j t p s)) = rrOutcome (piRes s)"
  "rrAgentRunID (piRes (fail_run o1 why s)) = rrAgentRunID (piRes s)"
  "rrOutcome (piRes (fail_run o1 why s)) = o1" "rrReason (piRes (fail_run o1 why s)) = why"
  by (simp_all add: called_def update_res_def fail_run_def add_event_def Let_def split: sum.split)

lemma reached_simps [simp]:
  "reached k (update_res f s) = reached k s" "reached k (add_event c j t p s) = reached k s"
  by (simp_all add: reached_def)

lemma reached_called:
  "reached k s \<Longrightarrow> \<not> is_note x \<Longrightarrow> k \<le> phase x \<Longrightarrow> phase x < k' \<Longrightarrow> reached k' (called x s)"
  by (fastforce simp: reached_def sorted_wrt_append follows_def list_all_iff)

lemma reached_mono: "reached k s \<Longrightarrow> k \<le> k' \<Longrightarrow> reached k' s"
  by (fastforce simp: reached_def list_all_iff)

lemma reached_note: "reached k s \<Longrightarrow> is_note x \<Longrightarrow> reached k (called x s)"
  by (simp add: reached_def)

section \<open>The clean-up\<close>

lemma cleanup_calls:
  assumes "\<not> piCleaned s"
  shows "\<exists>sl a. main_calls (cleanup c j s) = main_calls s @ sl @ [CWorkspaceRelease (jbWorkspace j) ''preserve'' a]
     \<and> (if rrAgentRunID (piRes s) = [] then sl = []
        else \<exists>b. sl = [CSessionSeal (jbWC j) (rrAgentRunID (piRes s)) (jbPath j) b])
     \<and> rrAgentRunID (piRes (cleanup c j s)) = rrAgentRunID (piRes s)"
  using assms by (auto simp: cleanup_def seal_session_def Let_def split: sum.split)

text \<open>
  What justifies moving the task to done: the agent's run completed, the diff was collected, this
  build and this test passed, and a review of this diff with this evidence was seen approved, with
  results that are all satisfied.
\<close>

definition gates_passed :: "job \<Rightarrow> call list \<Rightarrow> bool" where
  "gates_passed j calls \<longleftrightarrow>
     (\<exists>prov ar diff n bID tID rid rs.
        CAgentRun prov (jbWC j) (jbPath j) (rqPrompt (jbReq j)) (rqMockAgentWriteFile (jbReq j))
          (rqMockAgentWriteContent (jbReq j)) (ar, Inr ''COMPLETED'') \<in> set calls
        \<and> CCollectDiff (jbWC j) (jbPath j) (Inr (diff, n)) \<in> set calls
        \<and> CToolRun (jbWC j) (jbPath j) ''build'' (rqBuildCommand (jbReq j)) (Inr (bID, ''PASS'')) \<in> set calls
        \<and> CToolRun (jbWC j) (jbPath j) ''test'' (rqTestCommand (jbReq j)) (Inr (tID, ''PASS'')) \<in> set calls
        \<and> CReviewRequest (jbWC j) ar diff
             [\<lparr> eiKind = ''build'', eiOutcome = ''PASS'', eiEvidenceRefID = bID \<rparr>,
              \<lparr> eiKind = ''test'', eiOutcome = ''PASS'', eiEvidenceRefID = tID \<rparr>] (Inr rid) \<in> set calls
        \<and> CReviewGet rid (Inr rs) \<in> set calls
        \<and> rsStatus rs = ''APPROVED'' \<and> rsDiffArtifactID rs = diff
        \<and> rsAcceptanceResults rs \<noteq> [] \<and> list_all (\<lambda>b. b) (rsAcceptanceResults rs))"

definition closing :: "job \<Rightarrow> string \<Rightarrow> call list \<Rightarrow> bool" where
  "closing j ar l \<longleftrightarrow>
     (\<exists>sl a. l = sl @ [CWorkspaceRelease (jbWorkspace j) ''preserve'' a]
        \<and> (if ar = [] then sl = [] else \<exists>b. sl = [CSessionSeal (jbWC j) ar (jbPath j) b]))"

definition ended :: "job \<Rightarrow> pipe \<Rightarrow> bool" where
  "ended j s \<longleftrightarrow>
     (\<exists>pre l. main_calls s = pre @ l \<and> closing j (rrAgentRunID (piRes s)) l
        \<and> sorted_wrt follows pre \<and> list_all (\<lambda>x. phase x < 13) pre
        \<and> (rrOutcome (piRes s) = ''DONE'' \<longleftrightarrow>
             (\<exists>v w. CWorkTransition (jbWC j) ''DONE'' v (Inr w) \<in> set pre))
        \<and> (\<forall>wc v a. CWorkTransition wc ''DONE'' v a \<in> set pre \<longrightarrow> gates_passed j pre))"

lemma cleanup_closing:
  assumes "\<not> piCleaned s"
  shows "\<exists>l. main_calls (fail_run o1 why (cleanup c j s)) = main_calls s @ l
     \<and> closing j (rrAgentRunID (piRes (fail_run o1 why (cleanup c j s)))) l"
  using cleanup_calls [OF assms, of c j] by (fastforce simp: closing_def)

lemma ended_failed:
  assumes "reached 12 s" and "o1 \<noteq> ''DONE''"
  shows "ended j (fail_run o1 why (cleanup c j s))"
proof -
  have n: "\<not> piCleaned s" using assms(1) by (simp add: reached_def)
  obtain l where l: "main_calls (fail_run o1 why (cleanup c j s)) = main_calls s @ l"
    "closing j (rrAgentRunID (piRes (fail_run o1 why (cleanup c j s)))) l"
    using cleanup_closing [OF n] by blast
  have "CWorkTransition wc ''DONE'' v a \<notin> set (main_calls s)" for wc v a
    using assms(1) by (fastforce simp: reached_def list_all_iff)
  moreover have "sorted_wrt follows (main_calls s)" "list_all (\<lambda>x. phase x < 13) (main_calls s)"
    using assms(1) by (fastforce simp: reached_def list_all_iff)+
  ultimately show ?thesis unfolding ended_def using l assms(2) by (intro exI [of _ "main_calls s"] exI [of _ l]) simp
qed

lemma doneGate_None:
  "doneGate b t rs diff = None \<longleftrightarrow>
     b = ''PASS'' \<and> t = ''PASS'' \<and> rsStatus rs = ''APPROVED'' \<and> rsDiffArtifactID rs = diff
     \<and> rsAcceptanceResults rs \<noteq> [] \<and> list_all (\<lambda>b. b) (rsAcceptanceResults rs)"
  by (simp add: doneGate_def)

lemma gates_mono: "gates_passed j calls \<Longrightarrow> set calls \<subseteq> set calls' \<Longrightarrow> gates_passed j calls'"
  unfolding gates_passed_def
  by (elim exE conjE, intro exI conjI) (assumption | erule (1) subsetD)+

lemma ended_finish:
  assumes "reached 12 s"
    and "doneGate bOut tOut rs diff = None \<Longrightarrow> gates_passed j (main_calls s)"
  shows "ended j (finish_run c j bOut tOut diff rid ver rs s)"
proof -
  let ?s = "add_event c j ''review.decided'' [(''review_id'', JStr rid), (''status'', JStr (rsStatus rs))] s"
  have u: "reached 12 ?s" using assms(1) by simp
  show ?thesis
  proof (cases "doneGate bOut tOut rs diff")
    case (Some why)
    then show ?thesis using ended_failed [OF u] by (simp add: finish_run_def Let_def)
  next
    case None
    let ?a = "cpWorkTransition c (piCalls ?s) (jbWC j) ''DONE'' ver"
    let ?x = "CWorkTransition (jbWC j) ''DONE'' ver ?a"
    let ?s1 = "called ?x ?s"
    have u1: "reached 13 ?s1" by (rule reached_called [OF u]) simp_all
    define s2 where "s2 = (case ?a of Inl e \<Rightarrow> ?s1
      | Inr _ \<Rightarrow> add_event c j ''work.transitioned'' [(''from'', JStr ''IN_REVIEW''), (''to'', JStr ''DONE'')] ?s1)"
    define o1 where "o1 = (case ?a of Inl e \<Rightarrow> ''GATE_FAILED'' | Inr _ \<Rightarrow> ''DONE'')"
    define why where "why = (case ?a of Inl e \<Rightarrow> ''DONE transition: '' @ e | Inr _ \<Rightarrow> [])"
    have r: "finish_run c j bOut tOut diff rid ver rs s = fail_run o1 why (cleanup c j s2)"
      using None by (simp add: finish_run_def Let_def s2_def o1_def why_def split: sum.split)
    have "s2 = ?s1 \<or> (\<exists>t p. s2 = add_event c j t p ?s1)"
      unfolding s2_def by (cases ?a) (simp only: sum.case, blast)+
    then have "reached 13 s2 \<and> main_calls s2 = main_calls s @ [?x]"
      using u1 by (elim disjE exE) (simp only: reached_simps main_simps note_simps if_False simp_thms)+
    then have m: "main_calls s2 = main_calls s @ [?x]" and u2: "reached 13 s2" by blast+
    have "\<not> piCleaned s2" using u2 by (simp add: reached_def)
    from cleanup_closing [OF this] obtain l where l: "main_calls (fail_run o1 why (cleanup c j s2)) = main_calls s2 @ l"
      "closing j (rrAgentRunID (piRes (fail_run o1 why (cleanup c j s2)))) l" by blast
    have "CWorkTransition wc ''DONE'' v a \<notin> set (main_calls s)" for wc v a
      using assms(1) by (fastforce simp: reached_def list_all_iff)
    then have "(o1 = ''DONE'') = (\<exists>v w. CWorkTransition (jbWC j) ''DONE'' v (Inr w) \<in> set (main_calls s2))"
      by (auto simp: m o1_def split: sum.splits)
    moreover have "gates_passed j (main_calls s2)"
      by (rule gates_mono [OF assms(2) [OF None]]) (auto simp: m)
    ultimately show ?thesis
      unfolding r ended_def using l u2 by (intro exI [of _ "main_calls s2"] exI [of _ l]) (simp add: reached_def)
  qed
qed

section \<open>The stages\<close>

lemma ended_stage: "reached k s \<Longrightarrow> k \<le> 12 \<Longrightarrow> o1 \<noteq> ''DONE'' \<Longrightarrow> ended j (fail_run o1 why (cleanup c j s))"
  by (rule ended_failed) (rule reached_mono)

lemma reached_get: "reached 12 s \<Longrightarrow> reached 12 (called (CReviewGet rid a) s)"
  by (fastforce simp: reached_def sorted_wrt_append follows_def list_all_iff)

lemma await_review_ends:
  assumes "reached 12 s" and "await_review c j poll rid fuel s = Some r"
  shows "case r of
      Inl s' \<Rightarrow> ended j s'
    | Inr (rs, s') \<Rightarrow> reached 12 s' \<and> set (main_calls s) \<subseteq> set (main_calls s')
        \<and> CReviewGet rid (Inr rs) \<in> set (main_calls s')"
  using assms
proof (induction fuel arbitrary: s)
  case (Suc fuel)
  let ?a = "cpReviewGet c (piCalls s) rid"
  let ?s1 = "called (CReviewGet rid ?a) s"
  have u1: "reached 12 ?s1" by (rule reached_get [OF Suc.prems(1)])
  show ?case
  proof (cases "cpExpired c (piCalls s)")
    case (Some e)
    with Suc.prems show ?thesis by (auto intro: ended_failed)
  next
    case None
    show ?thesis
    proof (cases ?a)
      case (Inl e)
      have "ended j (fail_run ''GATE_FAILED'' (''review: '' @ e) (cleanup c j ?s1))" by (rule ended_failed [OF u1]) simp
      with Inl None Suc.prems(2) show ?thesis by auto
    next
      case (Inr rs)
      show ?thesis
      proof (cases "rsStatus rs = ''PENDING''")
        case True
        with None Inr Suc.prems(2) have "await_review c j poll rid fuel (called (CSleep poll) ?s1) = Some r" by simp
        from Suc.IH [OF reached_note [OF u1 note_simps(13)] this] show ?thesis by (auto split: sum.split)
      next
        case False
        with None Inr Suc.prems(2) have "r = Inr (rs, ?s1)" by simp
        with u1 Inr show ?thesis by auto
      qed
    qed
  qed
qed simp

lemma review_stage_ends:
  assumes "reached 9 s0" and "review_stage c j fuel ar diff (bID, bOut) (tID, tOut) ver0 s0 = Some s'"
    and "CAgentRun prov (jbWC j) (jbPath j) (rqPrompt (jbReq j)) (rqMockAgentWriteFile (jbReq j))
           (rqMockAgentWriteContent (jbReq j)) (ar, Inr ''COMPLETED'') \<in> set (main_calls s0)"
    and "CCollectDiff (jbWC j) (jbPath j) (Inr (diff, n)) \<in> set (main_calls s0)"
    and "CToolRun (jbWC j) (jbPath j) ''build'' (rqBuildCommand (jbReq j)) (Inr (bID, bOut)) \<in> set (main_calls s0)"
    and "CToolRun (jbWC j) (jbPath j) ''test'' (rqTestCommand (jbReq j)) (Inr (tID, tOut)) \<in> set (main_calls s0)"
  shows "ended j s'"
proof -
  define s1 where "s1 = called (CWorkTransition (jbWC j) ''IN_REVIEW'' ver0
      (cpWorkTransition c (piCalls s0) (jbWC j) ''IN_REVIEW'' ver0)) s0"
  define s2 where "s2 = add_event c j ''work.transitioned'' [(''from'', JStr ''IN_PROGRESS''), (''to'', JStr ''IN_REVIEW'')] s1"
  let ?items = "[\<lparr> eiKind = ''build'', eiOutcome = bOut, eiEvidenceRefID = bID \<rparr>,
                 \<lparr> eiKind = ''test'', eiOutcome = tOut, eiEvidenceRefID = tID \<rparr>]"
  define b where "b = cpReviewRequest c (piCalls s2) (jbWC j) ar diff ?items"
  define s3 where "s3 = called (CReviewRequest (jbWC j) ar diff ?items b) s2"
  have u1: "reached 10 s1" unfolding s1_def by (rule reached_called [OF assms(1)]) simp_all
  then have "reached 10 s2" by (simp add: s2_def)
  then have u3: "reached 11 s3" unfolding s3_def by (rule reached_called) simp_all
  have m3: "set (main_calls s3) \<supseteq> insert (CReviewRequest (jbWC j) ar diff ?items b) (set (main_calls s0))"
    by (auto simp: s3_def s2_def s1_def)
  show ?thesis
  proof (cases "cpWorkTransition c (piCalls s0) (jbWC j) ''IN_REVIEW'' ver0")
    case (Inl e)
    then have "s' = fail_run ''GATE_FAILED'' e (cleanup c j s1)"
      using assms(2) by (simp add: review_stage_def Let_def s1_def)
    then show ?thesis using ended_stage [OF u1] by simp
  next
    case v: (Inr ver)
    show ?thesis
    proof (cases b)
      case (Inl e)
      then have "s' = fail_run ''GATE_FAILED'' e (cleanup c j s3)"
        using assms(2) v by (simp add: review_stage_def Let_def s1_def s2_def s3_def b_def)
      then show ?thesis using ended_stage [OF u3] by simp
    next
      case (Inr rid)
      define s6 where "s6 = add_event c j ''workflow.waiting_review'' [(''review_id'', JStr rid)]
        (add_event c j ''review.requested'' [(''review_id'', JStr rid), (''diff_artifact_id'', JStr diff)]
          (update_res (\<lambda>r. r\<lparr> rrReviewID := rid \<rparr>) s3))"
      define poll where "poll = (if rqReviewPollMS (jbReq j) \<le> 0 then 500 else rqReviewPollMS (jbReq j))"
      have u6: "reached 12 s6" using reached_mono [OF u3, of 12] by (simp add: s6_def)
      obtain r where r: "await_review c j poll rid fuel s6 = Some r"
        and s': "s' = (case r of Inl s7 \<Rightarrow> s7 | Inr (rs, s7) \<Rightarrow> finish_run c j bOut tOut diff rid ver rs s7)"
        using assms(2) v Inr
        by (auto simp: review_stage_def decision_stage_def Let_def s1_def s2_def s3_def b_def s6_def poll_def
            split: option.splits sum.splits prod.splits)
      note aw = await_review_ends [OF u6 r]
      show ?thesis
      proof (cases r)
        case (Inl s7)
        with aw s' show ?thesis by simp
      next
        case (Inr x)
        obtain rs s7 where x: "r = Inr (rs, s7)" using Inr by (cases x) simp
        with aw have a: "reached 12 s7" "set (main_calls s6) \<subseteq> set (main_calls s7)"
          "CReviewGet rid (Inr rs) \<in> set (main_calls s7)" by simp_all
        have sub: "set (main_calls s0) \<subseteq> set (main_calls s7)"
          "CReviewRequest (jbWC j) ar diff ?items b \<in> set (main_calls s7)"
          using a(2) m3 by (auto simp: s6_def)
        have "gates_passed j (main_calls s7)" if "doneGate bOut tOut rs diff = None"
          using that a(3) sub assms(3-6) \<open>b = Inr rid\<close> unfolding doneGate_None gates_passed_def by blast
        then have "ended j (finish_run c j bOut tOut diff rid ver rs s7)" by (rule ended_finish [OF a(1)])
        with x s' show ?thesis by simp
      qed
    qed
  qed
qed

lemma tool_stage_calls:
  assumes "reached k s0" and "label = ''build'' \<and> k = 5 \<or> label = ''test'' \<and> k = 7"
    and "tool_stage c j label argv keep s0 = (r, s1)"
  shows "reached (k + 2) s1 \<and> set (main_calls s0) \<subseteq> set (main_calls s1)
    \<and> CToolRun (jbWC j) (jbPath j) label argv r \<in> set (main_calls s1)"
proof -
  define a where "a = cpToolRun c (piCalls s0) (jbWC j) (jbPath j) label argv"
  define s' where "s' = called (CToolRun (jbWC j) (jbPath j) label argv a) s0"
  have u: "reached (k + 1) s'" unfolding s'_def by (rule reached_called [OF assms(1)]) (use assms(2) in auto)
  have m: "main_calls s' = main_calls s0 @ [CToolRun (jbWC j) (jbPath j) label argv a]" by (simp add: s'_def)
  show ?thesis
  proof (cases a)
    case (Inl e)
    with assms(3) have "s1 = s' \<and> r = a" unfolding tool_stage_def Let_def s'_def a_def by auto
    with u m show ?thesis using reached_mono [OF u, of "k + 2"] by auto
  next
    case (Inr x)
    obtain tid out where x: "a = Inr (tid, out)" using Inr by (cases x) simp
    define s3 where "s3 = add_event c j ''tool.run.completed''
      [(''tool_run_id'', JStr tid), (''label'', JStr label), (''outcome'', JStr out)] (update_res (keep tid) s')"
    define s4 where "s4 = called (CAttachEvidence (jbWC j) label ''tool.run@1'' tid out
      (cpAttachEvidence c (piCalls s3) (jbWC j) label ''tool.run@1'' tid out)) s3"
    have u3: "reached (k + 1) s3" using u by (simp add: s3_def)
    have u4: "reached (k + 2) s4" unfolding s4_def by (rule reached_called [OF u3]) (use assms(2) in auto)
    from assms(3) x have "r = a \<and>
      s1 = add_event c j ''evidence.attached'' [(''kind'', JStr label), (''source_id'', JStr tid), (''outcome'', JStr out)] s4"
      unfolding s4_def s3_def s'_def a_def by (auto simp: tool_stage_def Let_def)
    with u4 m show ?thesis by (simp add: s4_def s3_def) blast
  qed
qed

lemma evidence_stage_ends:
  assumes "reached 4 s0" and "evidence_stage c j fuel ar ver s0 = Some s'"
    and "CAgentRun prov (jbWC j) (jbPath j) (rqPrompt (jbReq j)) (rqMockAgentWriteFile (jbReq j))
           (rqMockAgentWriteContent (jbReq j)) (ar, Inr ''COMPLETED'') \<in> set (main_calls s0)"
  shows "ended j s'"
proof -
  define a where "a = cpCollectDiff c (piCalls s0) (jbWC j) (jbPath j)"
  define s1 where "s1 = called (CCollectDiff (jbWC j) (jbPath j) a) s0"
  have u1: "reached 5 s1" unfolding s1_def by (rule reached_called [OF assms(1)]) simp_all
  have m1: "main_calls s1 = main_calls s0 @ [CCollectDiff (jbWC j) (jbPath j) a]" by (simp add: s1_def)
  show ?thesis
  proof (cases a)
    case (Inl e)
    then have "s' = fail_run ''GATE_FAILED'' (''diff: '' @ e) (cleanup c j s1)"
      using assms(2) by (simp add: evidence_stage_def Let_def a_def s1_def)
    then show ?thesis using ended_stage [OF u1] by simp
  next
    case (Inr x)
    obtain diff n where x: "a = Inr (diff, n)" using Inr by (cases x) simp
    define s2 where "s2 = add_event c j ''diff.collected'' [(''artifact_id'', JStr diff), (''files_changed'', JNum n)]
                 (update_res (\<lambda>r. r\<lparr> rrDiffArtifactID := diff \<rparr>) s1)"
    have u2: "reached 5 s2" using u1 by (simp add: s2_def)
    obtain rb s3 where b: "tool_stage c j ''build'' (rqBuildCommand (jbReq j)) (\<lambda>i r. r\<lparr> rrBuildToolRunID := i \<rparr>) s2 = (rb, s3)"
      by force
    note tb = tool_stage_calls [OF u2 _ b, simplified]
    obtain rt s4 where t: "tool_stage c j ''test'' (rqTestCommand (jbReq j)) (\<lambda>i r. r\<lparr> rrTestToolRunID := i \<rparr>) s3 = (rt, s4)"
      by force
    have u3: "reached 7 s3" using tb by blast
    note tt = tool_stage_calls [OF u3 _ t, simplified]
    have e: "evidence_stage c j fuel ar ver s0 =
       (case rb of Inl e \<Rightarrow> Some (fail_run ''BUILD_FAILED'' e (cleanup c j s3))
        | Inr build \<Rightarrow> (case rt of Inl e \<Rightarrow> Some (fail_run ''TEST_FAILED'' e (cleanup c j s4))
           | Inr test \<Rightarrow> review_stage c j fuel ar diff build test ver s4))"
      using x b t unfolding s2_def s1_def a_def by (simp add: evidence_stage_def Let_def split: sum.split)
    show ?thesis
    proof (cases rb)
      case (Inl e1)
      then have "s' = fail_run ''BUILD_FAILED'' e1 (cleanup c j s3)" using e assms(2) by simp
      then show ?thesis using ended_stage [OF u3] by simp
    next
      case build: (Inr build)
      show ?thesis
      proof (cases rt)
        case (Inl e1)
        then have "s' = fail_run ''TEST_FAILED'' e1 (cleanup c j s4)" using e build assms(2) by simp
        then show ?thesis using ended_stage [of 9 s4] tt by simp
      next
        case test: (Inr test)
        obtain bID bOut where bb: "build = (bID, bOut)" by force
        obtain tID tOut where ts: "test = (tID, tOut)" by force
        have r: "review_stage c j fuel ar diff (bID, bOut) (tID, tOut) ver s4 = Some s'"
          using e build test assms(2) bb ts by simp
        have sub: "set (main_calls s0) \<subseteq> set (main_calls s4)" "CCollectDiff (jbWC j) (jbPath j) (Inr (diff, n)) \<in> set (main_calls s4)"
          using tb tt m1 x by (auto simp: s2_def)
        show ?thesis
          by (rule review_stage_ends [OF _ r, where prov = prov and n = n])
            (use tb tt sub build test bb ts assms(3) in auto)
      qed
    qed
  qed
qed

lemma agent_stage_ends:
  assumes "reached 2 s0" and "agent_stage c j fuel ver0 s0 = Some s'"
  shows "ended j s'"
proof -
  let ?q = "jbReq j"
  define a where "a = cpWorkTransition c (piCalls s0) (jbWC j) ''IN_PROGRESS'' ver0"
  define s1 where "s1 = called (CWorkTransition (jbWC j) ''IN_PROGRESS'' ver0 a) s0"
  define s2 where "s2 = add_event c j ''work.transitioned'' [(''from'', JStr ''PLANNED''), (''to'', JStr ''IN_PROGRESS'')] s1"
  define s3 where "s3 = add_event c j ''agent.run.started'' [] s2"
  define prov where "prov = (if rqProvider ?q = [] then ''mock'' else rqProvider ?q)"
  obtain ar out where run: "cpAgentRun c (piCalls s3) prov (jbWC j) (jbPath j) (rqPrompt ?q) (rqMockAgentWriteFile ?q)
      (rqMockAgentWriteContent ?q) = (ar, out)" by force
  let ?x = "CAgentRun prov (jbWC j) (jbPath j) (rqPrompt ?q) (rqMockAgentWriteFile ?q) (rqMockAgentWriteContent ?q) (ar, out)"
  define s5 where "s5 = update_res (\<lambda>r. r\<lparr> rrAgentRunID := ar \<rparr>) (called ?x s3)"
  have u1: "reached 3 s1" unfolding s1_def by (rule reached_called [OF assms(1)]) simp_all
  then have u3: "reached 3 s3" "reached 3 s2" by (simp_all add: s2_def s3_def)
  have "reached 4 (called ?x s3)" by (rule reached_called [OF u3(1)]) simp_all
  then have u5: "reached 4 s5" by (simp add: s5_def)
  have e: "agent_stage c j fuel ver0 s0 =
     (case a of
        Inl e \<Rightarrow> Some (fail_run ''GATE_FAILED'' (''transition IN_PROGRESS: '' @ e) (cleanup c j s1))
      | Inr ver \<Rightarrow> (case cpExpired c (piCalls s2) of
           Some e \<Rightarrow> Some (fail_run ''TIMEOUT'' e (cleanup c j s2))
         | None \<Rightarrow> (case out of
              Inl e \<Rightarrow> Some (fail_run ''AGENT_FAILED'' e (cleanup c j s5))
            | Inr st \<Rightarrow>
                let s6 = add_event c j ''agent.run.completed'' [(''agent_run_id'', JStr ar), (''status'', JStr st)] s5
                in if st \<noteq> ''COMPLETED'' then Some (fail_run ''AGENT_FAILED'' (''agent status '' @ st) (cleanup c j s6))
                   else evidence_stage c j fuel ar ver s6)))"
    unfolding agent_stage_def Let_def s5_def prov_def s3_def s2_def s1_def a_def
    by (simp only: run [unfolded prov_def s3_def s2_def s1_def a_def] prod.case)
  show ?thesis
  proof (cases a)
    case (Inl e1)
    then show ?thesis using e assms(2) ended_stage [OF u1] by simp
  next
    case v: (Inr ver)
    show ?thesis
    proof (cases "cpExpired c (piCalls s2)")
      case (Some e1)
      then show ?thesis using e v assms(2) ended_stage [OF u3(2)] by simp
    next
      case n: None
      show ?thesis
      proof (cases out)
        case (Inl e1)
        then show ?thesis using e v n assms(2) ended_stage [OF u5] by simp
      next
        case st: (Inr st)
        define s6 where "s6 = add_event c j ''agent.run.completed'' [(''agent_run_id'', JStr ar), (''status'', JStr st)] s5"
        have u6: "reached 4 s6" using u5 by (simp add: s6_def)
        show ?thesis
        proof (cases "st = ''COMPLETED''")
          case True
          have "?x \<in> set (main_calls s6)" by (simp add: s6_def s5_def)
          then show ?thesis
            using e v n st True assms(2) evidence_stage_ends [OF u6, of c j fuel ar ver s' prov] by (simp add: s6_def)
        next
          case False
          then show ?thesis using e v n st assms(2) ended_stage [OF u6] by (simp add: s6_def)
        qed
      qed
    qed
  qed
qed

text \<open>The calls of a run: they stop after the task or the workspace could not be had, or make up a job.\<close>

section \<open>Calls are only added\<close>

definition extends :: "pipe \<Rightarrow> pipe \<Rightarrow> bool" where
  "extends s s' \<longleftrightarrow> (\<exists>l. main_calls s' = main_calls s @ l)"

lemma extends_refl [simp]: "extends s s"
  by (simp add: extends_def)

lemma extends_ops [simp]:
  "extends s0 s \<Longrightarrow> extends s0 (called x s)"
  "extends s0 s \<Longrightarrow> extends s0 (add_event c j t p s)"
  "extends s0 s \<Longrightarrow> extends s0 (update_res f s)"
  "extends s0 s \<Longrightarrow> extends s0 (fail_run o1 why (cleanup c j s))"
proof -
  assume e: "extends s0 s"
  show "extends s0 (called x s)" "extends s0 (add_event c j t p s)" "extends s0 (update_res f s)"
    using e by (auto simp: extends_def)
  show "extends s0 (fail_run o1 why (cleanup c j s))"
  proof (cases "piCleaned s")
    case True
    with e show ?thesis by (simp add: extends_def cleanup_def)
  next
    case False
    from cleanup_calls [OF this, of c j] e show ?thesis by (auto simp: extends_def)
  qed
qed

lemma extends_finish [simp]: "extends s0 s \<Longrightarrow> extends s0 (finish_run c j bOut tOut diff rid ver rs s)"
  by (simp add: finish_run_def Let_def split: sum.split option.split)

lemma extends_await:
  "extends s0 s \<Longrightarrow> await_review c j poll rid fuel s = Some r \<Longrightarrow>
     extends s0 (case r of Inl s' \<Rightarrow> s' | Inr (rs, s') \<Rightarrow> s')"
proof (induction fuel arbitrary: s)
  case (Suc fuel)
  show ?case
    using Suc.prems Suc.IH [of "called (CSleep poll) (called (CReviewGet rid (cpReviewGet c (piCalls s) rid)) s)"]
    by (auto simp: Let_def split: option.splits sum.splits if_splits)
qed simp

definition may_extend :: "pipe \<Rightarrow> pipe option \<Rightarrow> bool" where
  "may_extend s0 r \<longleftrightarrow> (case r of None \<Rightarrow> True | Some s \<Rightarrow> extends s0 s)"

lemma may_extend_Some [simp]: "may_extend s0 (Some s) = extends s0 s"
  by (simp add: may_extend_def)

lemma extends_decision [simp]:
  "extends s0 s \<Longrightarrow> may_extend s0 (decision_stage c j poll fuel bOut tOut diff rid ver s)"
  using extends_await [of s0 s c j poll rid fuel]
  by (auto simp: decision_stage_def may_extend_def split: option.splits sum.splits)

lemma extends_review [simp]: "extends s0 s \<Longrightarrow> may_extend s0 (review_stage c j fuel ar diff build test ver s)"
  by (simp add: review_stage_def Let_def split: sum.split prod.split)

lemma extends_tool:
  "extends s0 s \<Longrightarrow> tool_stage c j label argv keep s = (r, s') \<Longrightarrow> extends s0 s'"
  by (auto simp: tool_stage_def Let_def split: sum.splits prod.splits)

lemma extends_evidence [simp]:
  assumes "extends s0 s"
  shows "may_extend s0 (evidence_stage c j fuel ar ver s)"
proof -
  have t: "extends s0 s1 \<Longrightarrow> may_extend s0
      (case tool_stage c j ''test'' argv keep s1 of
         (Inl e, s4) \<Rightarrow> Some (fail_run ''TEST_FAILED'' e (cleanup c j s4))
       | (Inr test, s4) \<Rightarrow> review_stage c j fuel ar diff build test ver s4)" for s1 argv keep diff build
    using extends_tool [of s0 s1 c j "''test''" argv keep] by (simp split: sum.split prod.split)
  have "extends s0 s1 \<Longrightarrow> may_extend s0
      (case tool_stage c j ''build'' argv keep s1 of
         (Inl e, s3) \<Rightarrow> Some (fail_run ''BUILD_FAILED'' e (cleanup c j s3))
       | (Inr build, s3) \<Rightarrow>
          (case tool_stage c j ''test'' argv2 keep2 s3 of
             (Inl e, s4) \<Rightarrow> Some (fail_run ''TEST_FAILED'' e (cleanup c j s4))
           | (Inr test, s4) \<Rightarrow> review_stage c j fuel ar diff build test ver s4))" for s1 argv keep argv2 keep2 diff
    using extends_tool [of s0 s1 c j "''build''" argv keep] t by (simp split: sum.split prod.split)
  with assms show ?thesis
    by (simp add: evidence_stage_def Let_def split: sum.split prod.split)
qed

lemma extends_agent [simp]: "extends s0 s \<Longrightarrow> may_extend s0 (agent_stage c j fuel ver s)"
  by (simp add: agent_stage_def Let_def split: sum.split prod.split option.split)

text \<open>The calls of a run: they stop when the task or the workspace cannot be had, or make up a job.\<close>

lemma runPipeline_cases:
  assumes "runPipeline c fuel req = Some s"
  obtains e where "main_calls s = [CWorkGet (rqTaskID req) (Inl e)]" "rrOutcome (piRes s) = ''GATE_FAILED''"
  | tk wc ver e where "main_calls s = [CWorkGet (rqTaskID req) (Inr (tk, wc, ver)), CWorkspaceAlloc wc (rqBaseRef req) (Inl e)]"
      "rrOutcome (piRes s) = ''GATE_FAILED''"
  | tk wc ver ws path l where
      "main_calls s = CWorkGet (rqTaskID req) (Inr (tk, wc, ver)) # CWorkspaceAlloc wc (rqBaseRef req) (Inr (ws, path)) # l"
      "ended \<lparr> jbReq = req, jbWC = wc, jbWorkspace = ws, jbPath = path \<rparr> s"
proof -
  define s0 where "s0 = \<lparr> piCalls = [], piRes = empty_result\<lparr> rrTaskID := rqTaskID req \<rparr>, piCleaned = False \<rparr>"
  have u0: "reached 0 s0" "main_calls s0 = []" by (simp_all add: s0_def reached_def main_calls_def)
  define a where "a = cpWorkGet c [] (rqTaskID req)"
  define s1 where "s1 = called (CWorkGet (rqTaskID req) a) s0"
  have u1: "reached 1 s1" unfolding s1_def by (rule reached_called [OF u0(1)]) simp_all
  show thesis
  proof (cases a)
    case (Inl e)
    then have "s = fail_run ''GATE_FAILED'' ''task not found'' s1"
      using assms by (simp add: runPipeline_def Let_def a_def s1_def s0_def)
    with that(1) [of e] Inl show thesis by (simp add: s1_def u0)
  next
    case (Inr x)
    obtain tk wc ver where x: "a = Inr (tk, wc, ver)" using Inr by (cases x) auto
    define s2 where "s2 = update_res (\<lambda>r. r\<lparr> rrWorkContextID := wc \<rparr>) s1"
    define b where "b = cpWorkspaceAlloc c (piCalls s2) wc (rqBaseRef req)"
    define s3 where "s3 = called (CWorkspaceAlloc wc (rqBaseRef req) b) s2"
    have "reached 1 s2" using u1 by (simp add: s2_def)
    then have u3: "reached 2 s3" unfolding s3_def by (rule reached_called) simp_all
    have m3: "main_calls s3 = [CWorkGet (rqTaskID req) (Inr (tk, wc, ver)), CWorkspaceAlloc wc (rqBaseRef req) b]"
      using x by (simp add: s3_def s2_def s1_def u0)
    show thesis
    proof (cases b)
      case (Inl e)
      then have "s = fail_run ''GATE_FAILED'' (''workspace allocate: '' @ e) s3"
        using assms x unfolding s3_def b_def s2_def s1_def a_def s0_def by (simp add: runPipeline_def Let_def)
      with that(2) [of tk wc ver e] Inl m3 show thesis by simp
    next
      case (Inr y)
      obtain ws path where y: "b = Inr (ws, path)" using Inr by (cases y) simp
      let ?j = "\<lparr> jbReq = req, jbWC = wc, jbWorkspace = ws, jbPath = path \<rparr>"
      let ?s4 = "add_event c ?j ''workspace.allocated'' [(''workspace_id'', JStr ws), (''path'', JStr path)] s3"
      have r: "agent_stage c ?j fuel ver ?s4 = Some s"
        using assms x y unfolding s3_def b_def s2_def s1_def a_def s0_def by (simp add: runPipeline_def Let_def)
      have "ended ?j s" by (rule agent_stage_ends [OF _ r]) (simp add: u3)
      moreover have "extends s3 s" using extends_agent [of s3 ?s4 c ?j fuel ver] r by simp
      then obtain l where "main_calls s = main_calls s3 @ l" by (auto simp: extends_def)
      ultimately show thesis using that(3) [of tk wc ver ws path l] m3 y by simp
    qed
  qed
qed

lemma ended_order:
  assumes "ended j s"
  shows "sorted_wrt follows (main_calls s)"
proof -
  obtain pre l where "main_calls s = pre @ l" "closing j (rrAgentRunID (piRes s)) l" "sorted_wrt follows pre"
    "list_all (\<lambda>x. phase x < 13) pre"
    using assms unfolding ended_def by blast
  then show ?thesis
    by (fastforce simp: closing_def sorted_wrt_append follows_def list_all_iff split: if_splits)
qed

text \<open>
  C17: whatever the other plugins answer, the workflow's calls come in the order of its stages, each
  made at most once except looking at the review: task, workspace, transition to in-progress, agent,
  diff, build and its evidence, test and its evidence, transition to in-review, review request,
  reviews, transition to done, session, release.
\<close>

theorem pipeline_in_order:
  assumes "runPipeline c fuel req = Some s"
  shows "sorted_wrt follows (main_calls s)"
  using assms
proof (cases rule: runPipeline_cases)
  case (3 tk wc ver ws path l)
  from 3(2) show ?thesis by (rule ended_order)
qed (simp_all add: follows_def)

text \<open>
  C8: a task is moved to done only when its own gates have passed in this run: the agent completed,
  the build and the test given in the request passed, and the review of this very diff and evidence
  was seen approved with all its results satisfied. The run reports DONE exactly when that move was
  accepted; without a task or a workspace it reports a failed gate.
\<close>

theorem done_only_through_gates:
  assumes "runPipeline c fuel req = Some s"
  shows "case main_calls s of
      CWorkGet _ (Inr (_, wc, _)) # CWorkspaceAlloc _ _ (Inr (ws, path)) # rest \<Rightarrow>
        (rrOutcome (piRes s) = ''DONE'' \<longleftrightarrow> (\<exists>v w. CWorkTransition wc ''DONE'' v (Inr w) \<in> set (main_calls s)))
        \<and> (gates_passed \<lparr> jbReq = req, jbWC = wc, jbWorkspace = ws, jbPath = path \<rparr> (main_calls s)
            \<or> (\<forall>wc v a. CWorkTransition wc ''DONE'' v a \<notin> set (main_calls s)))
    | _ \<Rightarrow> rrOutcome (piRes s) = ''GATE_FAILED''"
  using assms
proof (cases rule: runPipeline_cases)
  case (3 tk wc ver ws path l)
  let ?j = "\<lparr> jbReq = req, jbWC = wc, jbWorkspace = ws, jbPath = path \<rparr>"
  obtain pre cl where e: "main_calls s = pre @ cl" "closing ?j (rrAgentRunID (piRes s)) cl"
    "rrOutcome (piRes s) = ''DONE'' \<longleftrightarrow> (\<exists>v w. CWorkTransition wc ''DONE'' v (Inr w) \<in> set pre)"
    "\<forall>wc v a. CWorkTransition wc ''DONE'' v a \<in> set pre \<longrightarrow> gates_passed ?j pre"
    using 3(2) unfolding ended_def by auto
  have "CWorkTransition wc to v a \<notin> set cl" for wc to v a
    using e(2) by (auto simp: closing_def split: if_splits)
  then have "CWorkTransition wc to v a \<in> set (main_calls s) \<longleftrightarrow> CWorkTransition wc to v a \<in> set pre" for wc to v a
    by (simp add: e(1))
  moreover have "gates_passed ?j pre \<Longrightarrow> gates_passed ?j (main_calls s)"
    by (rule gates_mono) (auto simp: e(1))
  ultimately show ?thesis using e(3,4) by (subst 3(1)) auto
qed simp_all

text \<open>
  C11: a workspace that was allocated is given back exactly once, preserved, as the last call of the
  run, after the session of its agent's run has been sealed once if there was one: on every path, the
  failures included. Without a workspace nothing else is called.
\<close>

theorem workspace_released_once:
  assumes "runPipeline c fuel req = Some s"
  shows "case main_calls s of
      CWorkGet _ (Inr (_, wc, _)) # CWorkspaceAlloc _ _ (Inr (ws, path)) # rest \<Rightarrow>
        (\<exists>work l. rest = work @ l \<and> list_all (\<lambda>x. phase x < 13) work
           \<and> closing \<lparr> jbReq = req, jbWC = wc, jbWorkspace = ws, jbPath = path \<rparr> (rrAgentRunID (piRes s)) l)
    | calls \<Rightarrow> length calls \<le> 2"
  using assms
proof (cases rule: runPipeline_cases)
  case (3 tk wc ver ws path l)
  let ?j = "\<lparr> jbReq = req, jbWC = wc, jbWorkspace = ws, jbPath = path \<rparr>"
  obtain pre cl where e: "main_calls s = pre @ cl" "closing ?j (rrAgentRunID (piRes s)) cl" "list_all (\<lambda>x. phase x < 13) pre"
    using 3(2) unfolding ended_def by auto
  have "length cl \<le> 2" "\<forall>x \<in> set cl. phase x \<ge> 13" using e(2) by (auto simp: closing_def split: if_splits)
  then obtain work where "pre = CWorkGet (rqTaskID req) (Inr (tk, wc, ver)) # CWorkspaceAlloc wc (rqBaseRef req) (Inr (ws, path)) # work"
    using 3(1) e(1) by (cases pre; cases "tl pre"; cases cl; cases "tl cl") auto
  with 3(1) e show ?thesis by auto
qed simp_all

section \<open>The run ends\<close>

lemma await_review_total:
  assumes "\<forall>h. n \<le> length h \<longrightarrow> cpExpired c h \<noteq> None"
  shows "0 < fuel \<Longrightarrow> n < length (piCalls s) + fuel \<Longrightarrow> await_review c j poll rid fuel s \<noteq> None"
proof (induction fuel arbitrary: s)
  case (Suc fuel)
  show ?case
  proof (cases "cpExpired c (piCalls s)")
    case None
    then have "length (piCalls s) < n" using assms by (metis linorder_not_less)
    with Suc.prems have "0 < fuel" "n < length (piCalls s) + 2 + fuel" by simp_all
    with Suc.IH [of "called (CSleep poll) (called (CReviewGet rid (cpReviewGet c (piCalls s) rid)) s)"] None
    show ?thesis by (auto simp: Let_def called_def split: sum.split)
  qed auto
qed simp

lemma evidence_stage_total:
  assumes "\<And>poll b t diff rid v s. decision_stage c j poll fuel b t diff rid v s \<noteq> None"
  shows "evidence_stage c j fuel ar ver s \<noteq> None"
proof -
  have "review_stage c j fuel ar diff b t v s1 \<noteq> None" for diff b t v s1
    using assms by (simp add: review_stage_def Let_def split: sum.split prod.split)
  then show ?thesis by (simp add: evidence_stage_def Let_def split: sum.split prod.split)
qed

text \<open>
  C18: a run ends: when the request's deadline passes after some number of calls, the loop that waits
  for the review cannot go on for longer than that many polls, and the run returns a result.
\<close>

theorem pipeline_ends:
  assumes "\<forall>h. n \<le> length h \<longrightarrow> cpExpired c h \<noteq> None" and "n < fuel"
  shows "\<exists>s. runPipeline c fuel req = Some s"
proof -
  have "await_review c j poll rid fuel s \<noteq> None" for j poll rid s
    using assms(2) by (intro await_review_total [OF assms(1)]) auto
  then have "decision_stage c j poll fuel b t diff rid v s \<noteq> None" for j poll b t diff rid v s
    by (simp add: decision_stage_def split: option.split sum.split prod.split)
  then have "evidence_stage c j fuel ar ver s \<noteq> None" for j ar ver s
    by (rule evidence_stage_total)
  then have "agent_stage c j fuel ver s \<noteq> None" for j ver s
    by (simp add: agent_stage_def Let_def split: sum.split prod.split option.split)
  then have "runPipeline c fuel req \<noteq> None"
    by (simp add: runPipeline_def Let_def split: sum.split prod.split)
  then show ?thesis by simp
qed

section \<open>Samples\<close>

definition sample_job :: RunRequest where
  "sample_job = \<lparr> rqTaskID = ''t1'', rqPrompt = ''go'', rqProvider = [], rqBaseRef = ''main'', rqBuildCommand = [''b''],
     rqTestCommand = [''t''], rqReviewPollMS = 0, rqMockAgentWriteFile = [], rqMockAgentWriteContent = [] \<rparr>"

text \<open>Plugins that all succeed; the test's outcome and the deadline are arguments.\<close>

definition sample_caps :: "string \<Rightarrow> (call list \<Rightarrow> string option) \<Rightarrow> caps" where
  "sample_caps tested deadline =
     \<lparr> cpWorkGet = (\<lambda>_ t. Inr (\<lparr> wtID = t, wtVersion = 1, wtWorkContextID = ''wc1'' \<rparr>, ''wc1'', 1)),
       cpWorkTransition = (\<lambda>_ _ _ v. Inr (v + 1)),
       cpWorkspaceAlloc = (\<lambda>_ _ _. Inr (''ws1'', ''/w'')),
       cpWorkspaceRelease = (\<lambda>_ _ _. Inr ()),
       cpAgentRun = (\<lambda>_ _ _ _ _ _ _. (''ar1'', Inr ''COMPLETED'')),
       cpCollectDiff = (\<lambda>_ _ _. Inr (''d1'', 1)),
       cpToolRun = (\<lambda>_ _ _ label _. Inr (label, if label = ''test'' then tested else ''PASS'')),
       cpAttachEvidence = (\<lambda>_ _ _ _ _ _. Inl ''conflict''),
       cpReviewRequest = (\<lambda>_ _ _ _ _. Inr ''rv1''),
       cpReviewGet = (\<lambda>_ _. Inr \<lparr> rsStatus = ''APPROVED'', rsDiffArtifactID = ''d1'', rsAcceptanceResults = [True] \<rparr>),
       cpSessionSeal = (\<lambda>_ _ _ _. Inr ''se1''),
       cpAppendEvent = (\<lambda>_ t _. Inr t),
       cpExpired = deadline \<rparr>"

lemmas stage_defs =
  runPipeline_def agent_stage_def evidence_stage_def tool_stage_def review_stage_def decision_stage_def
  finish_run_def cleanup_def seal_session_def doneGate_def Let_def

lemma sample_caps_simps [simp]:
  "cpWorkGet (sample_caps o1 d) h t = Inr (\<lparr> wtID = t, wtVersion = 1, wtWorkContextID = ''wc1'' \<rparr>, ''wc1'', 1)"
  "cpWorkTransition (sample_caps o1 d) h w to v = Inr (v + 1)"
  "cpWorkspaceAlloc (sample_caps o1 d) h w b = Inr (''ws1'', ''/w'')"
  "cpWorkspaceRelease (sample_caps o1 d) h w b = Inr ()"
  "cpAgentRun (sample_caps o1 d) h a1 a2 a3 a4 a5 a6 = (''ar1'', Inr ''COMPLETED'')"
  "cpCollectDiff (sample_caps o1 d) h w b = Inr (''d1'', 1)"
  "cpToolRun (sample_caps o1 d) h w b label argv = Inr (label, if label = ''test'' then o1 else ''PASS'')"
  "cpReviewRequest (sample_caps o1 d) h w b a1 l = Inr ''rv1''"
  "cpReviewGet (sample_caps o1 d) h r = Inr \<lparr> rsStatus = ''APPROVED'', rsDiffArtifactID = ''d1'', rsAcceptanceResults = [True] \<rparr>"
  "cpSessionSeal (sample_caps o1 d) h w b a1 = Inr ''se1''"
  "cpExpired (sample_caps o1 d) = d"
  by (simp_all add: sample_caps_def)

lemma main_calls_start [simp]: "main_calls \<lparr> piCalls = [], piRes = r, piCleaned = b \<rparr> = []"
  by (simp add: main_calls_def)

lemma sample_run_done:
  "\<exists>s. runPipeline (sample_caps ''PASS'' (\<lambda>_. None)) 1 sample_job = Some s \<and> rrOutcome (piRes s) = ''DONE''
     \<and> length (main_calls s) = 15"
  by (simp add: stage_defs sample_job_def)

theorem pipeline_in_order_witness:
  "\<exists>s. runPipeline (sample_caps ''PASS'' (\<lambda>_. None)) 1 sample_job = Some s \<and> length (main_calls s) = 15
     \<and> sorted_wrt follows (main_calls s)"
  using sample_run_done pipeline_in_order by blast

theorem done_only_through_gates_witness:
  "\<exists>s ws path. runPipeline (sample_caps ''PASS'' (\<lambda>_. None)) 1 sample_job = Some s \<and> rrOutcome (piRes s) = ''DONE''
     \<and> gates_passed \<lparr> jbReq = sample_job, jbWC = ''wc1'', jbWorkspace = ws, jbPath = path \<rparr> (main_calls s)"
proof -
  obtain s where s: "runPipeline (sample_caps ''PASS'' (\<lambda>_. None)) 1 sample_job = Some s" "rrOutcome (piRes s) = ''DONE''"
    "take 2 (main_calls s) = [CWorkGet ''t1'' (Inr (\<lparr> wtID = ''t1'', wtVersion = 1, wtWorkContextID = ''wc1'' \<rparr>, ''wc1'', 1)),
        CWorkspaceAlloc ''wc1'' ''main'' (Inr (''ws1'', ''/w''))]"
    by (simp add: stage_defs sample_job_def)
  then obtain l where l: "main_calls s = CWorkGet ''t1'' (Inr (\<lparr> wtID = ''t1'', wtVersion = 1, wtWorkContextID = ''wc1'' \<rparr>, ''wc1'', 1))
      # CWorkspaceAlloc ''wc1'' ''main'' (Inr (''ws1'', ''/w'')) # l"
    by (cases "main_calls s"; cases "tl (main_calls s)") auto
  from done_only_through_gates [OF s(1)] l s(2)
  have "gates_passed \<lparr> jbReq = sample_job, jbWC = ''wc1'', jbWorkspace = ''ws1'', jbPath = ''/w'' \<rparr> (main_calls s)" by auto
  with s show ?thesis by blast
qed

theorem workspace_released_once_witness:
  "\<exists>s work l. runPipeline (sample_caps ''FAIL'' (\<lambda>_. None)) 1 sample_job = Some s
     \<and> tl (tl (main_calls s)) = work @ l \<and> list_all (\<lambda>x. phase x < 13) work
     \<and> closing \<lparr> jbReq = sample_job, jbWC = ''wc1'', jbWorkspace = ''ws1'', jbPath = ''/w'' \<rparr> ''ar1'' l"
proof -
  obtain s where s: "runPipeline (sample_caps ''FAIL'' (\<lambda>_. None)) 1 sample_job = Some s" "rrAgentRunID (piRes s) = ''ar1''"
    "take 2 (main_calls s) = [CWorkGet ''t1'' (Inr (\<lparr> wtID = ''t1'', wtVersion = 1, wtWorkContextID = ''wc1'' \<rparr>, ''wc1'', 1)),
        CWorkspaceAlloc ''wc1'' ''main'' (Inr (''ws1'', ''/w''))]"
    by (simp add: stage_defs sample_job_def)
  then obtain l where l: "main_calls s = CWorkGet ''t1'' (Inr (\<lparr> wtID = ''t1'', wtVersion = 1, wtWorkContextID = ''wc1'' \<rparr>, ''wc1'', 1))
      # CWorkspaceAlloc ''wc1'' ''main'' (Inr (''ws1'', ''/w'')) # l"
    by (cases "main_calls s"; cases "tl (main_calls s)") auto
  from workspace_released_once [OF s(1)] l s show ?thesis by auto
qed

theorem pipeline_ends_witness:
  "\<exists>s. runPipeline (sample_caps ''PASS'' (\<lambda>h. if 20 \<le> length h then Some ''deadline'' else None)) 21 sample_job = Some s"
  by (rule pipeline_ends [of 20]) simp_all

section \<open>Progress\<close>

text \<open>The records the journal has of a run: its accepted events.\<close>

definition run_events :: "pipe \<Rightarrow> wf_JournalRecord list" where
  "run_events s = concat (map (\<lambda>x. case x of
       CAppendEvent t p (Inr i) \<Rightarrow> [\<lparr> wjID = i, wjType = t, wjPayload = p \<rparr>] | _ \<Rightarrow> []) (piCalls s))"

lemma run_events_simps [simp]:
  "run_events (update_res f s) = run_events s" "run_events (fail_run o1 why s) = run_events s"
  "run_events (s\<lparr> piCleaned := b \<rparr>) = run_events s"
  "run_events (called x s) = run_events s @ (case x of
       CAppendEvent t p (Inr i) \<Rightarrow> [\<lparr> wjID = i, wjType = t, wjPayload = p \<rparr>] | _ \<Rightarrow> [])"
  "run_events (add_event (sample_caps o1 d) j t p s) = run_events s
     @ [\<lparr> wjID = t, wjType = t,
          wjPayload = AList.update ''task_id'' (JStr (rqTaskID (jbReq j))) (AList.update ''work_context_id'' (JStr (jbWC j)) p) \<rparr>]"
  "run_events \<lparr> piCalls = [], piRes = r, piCleaned = b \<rparr> = []"
  by (simp_all add: run_events_def update_res_def fail_run_def called_def add_event_def sample_caps_def Let_def)

lemma project_snoc:
  "fst (project (rs @ [r]) key) = (if concerns key r then next_stage (fst (project rs key)) r else fst (project rs key))"
  by (simp add: project_def Let_def)

lemma sealed_stays:
  "wjType r = ''session.sealed'' \<Longrightarrow> concerns key r \<Longrightarrow> wjType r2 = ''workspace.released'' \<Longrightarrow>
     fst (project (rs @ [r, r2]) key) = ''SEALED''"
  using project_snoc [of "rs @ [r]" r2 key] project_snoc [of rs r key]
  by (simp add: next_stage_def Let_def)

text \<open>
  C40: the progress query misreports failed runs: after a run whose tests failed the task is not done
  and the run's outcome is GATE_FAILED, but its session has been sealed, and from the journal of this
  very run \<open>workflow.engineering.get\<close> answers stage SEALED with outcome DONE.
\<close>

theorem failed_run_reported_done:
  "case runPipeline (sample_caps ''FAIL'' (\<lambda>_. None)) 1 sample_job of
     None \<Rightarrow> False
   | Some s \<Rightarrow>
       rrOutcome (piRes s) = ''GATE_FAILED'' \<and> rrReason (piRes s) = ''test: outcome FAIL''
       \<and> (case wf_getHandler (Inr (run_events s)) (Some ([], ''t1'')) of
            Inl e \<Rightarrow> False
          | Inr p \<Rightarrow> wpStage p = ''SEALED'' \<and> wpOutcome p = ''DONE'')"
proof -
  obtain s rs r r2 where s: "runPipeline (sample_caps ''FAIL'' (\<lambda>_. None)) 1 sample_job = Some s"
    "rrOutcome (piRes s) = ''GATE_FAILED''" "rrReason (piRes s) = ''test: outcome FAIL''"
    and e: "run_events s = rs @ [r, r2]" "wjType r = ''session.sealed''" "concerns ''t1'' r" "wjType r2 = ''workspace.released''"
    by (simp add: stage_defs sample_job_def concerns_def str_field_def)
  obtain m where "project (run_events s) ''t1'' = (''SEALED'', m)"
    using sealed_stays [OF e(2-4), of rs] e(1) by (cases "project (run_events s) ''t1''") simp
  with s show ?thesis by (simp add: wf_getHandler_def)
qed

end
