(* ===== verification/Gateway.thy ===== *)
theory Gateway
  imports RouterProps
begin

text \<open>
  The client gateway (\<open>kernel/internal/clientgateway/gateway.go\<close>): external clients write one
  request per line on a Unix socket; the gateway authenticates each, makes the client the caller, and
  hands it to the router. \<open>hexsum\<close> is the hex of the SHA-256 of a token. A request that waits for a
  provider is begun by \<open>serve_request\<close> and answered by \<open>serve_reply\<close>; the frames of a stream follow.
\<close>

record Gateway =
  gwCredentialHashes :: "string \<Rightarrow> string option"

record WireRequest =
  wrIdentity :: string
  wrToken :: string
  wrEnvelope :: envelope

definition gateway_New :: "(string \<Rightarrow> string option) \<Rightarrow> Gateway" where
  "gateway_New hashes = \<lparr> gwCredentialHashes = hashes \<rparr>"

definition authenticate :: "(string \<Rightarrow> string) \<Rightarrow> Gateway \<Rightarrow> string \<Rightarrow> string \<Rightarrow> bool" where
  "authenticate hexsum g identity token =
     (case gwCredentialHashes g identity of
        None \<Rightarrow> False
      | Some expected \<Rightarrow> if expected = [] \<or> token = [] then False else hexsum token = expected)"

definition error_envelope :: "string \<Rightarrow> string \<Rightarrow> string \<Rightarrow> envelope" where
  "error_envelope newID code msg =
     nil_envelope\<lparr> eProtocol := 1, eMessageID := newID, eKind := KindError,
       eError := Some \<lparr> errCode = code, errMessage = msg, errRetryable = False, errDetails = [] \<rparr> \<rparr>"

definition invoke_error :: "(route_error \<Rightarrow> string) \<Rightarrow> string \<Rightarrow> envelope \<Rightarrow> route_error \<Rightarrow> envelope" where
  "invoke_error render newID req er =
     (error_envelope newID ''INVOKE_ERROR'' (render er))
       \<lparr> eReplyTo := eMessageID req, eTraceID := eTraceID req, eCorrelationID := eCorrelationID req \<rparr>"

definition reply_envelope :: "string \<Rightarrow> envelope \<Rightarrow> envelope \<Rightarrow> envelope" where
  "reply_envelope newID req resp = resp\<lparr> eMessageID := newID, eReplyTo := eMessageID req \<rparr>"

text \<open>
  For one request: an answer the gateway makes, one of the router without a call, or a call under way; the
  last two with the channel made if a stream was asked for.
\<close>

datatype serve_start = Answer envelope | Told envelope "nat option" | Waiting call envelope "nat option"

definition serve_cancel ::
  "(bool \<Rightarrow> string) \<Rightarrow> string \<Rightarrow> string \<Rightarrow> string \<Rightarrow> envelope \<Rightarrow> Router \<Rightarrow> serve_start \<times> Router" where
  "serve_cancel payload newID cancelID identity req r =
     (case (if eStreamID req \<noteq> [] then CancelExternalStream r identity (eStreamID req) cancelID
            else if eReplyTo req \<noteq> [] then CancelExternalRequest r identity (eReplyTo req) cancelID
            else (False, r)) of
        (cancelled, r') \<Rightarrow>
          (Answer (nil_envelope\<lparr> eProtocol := 1, eMessageID := newID, eKind := KindResult,
                     eReplyTo := eMessageID req, ePayload := payload cancelled \<rparr>), r'))"

text \<open>
  One line of a connection. \<open>wire\<close> is the line as decoded, or the decoder's error; \<open>ch\<close> the channel
  made for a stream.
\<close>

definition serve_request ::
  "(string \<Rightarrow> string) \<Rightarrow> (route_error \<Rightarrow> string) \<Rightarrow> (bool \<Rightarrow> string) \<Rightarrow> string \<Rightarrow> string \<Rightarrow> invoke_env \<Rightarrow> nat
   \<Rightarrow> Gateway \<Rightarrow> (string, WireRequest) result \<Rightarrow> Router \<Rightarrow> serve_start \<times> Router" where
  "serve_request hexsum render payload newID cancelID env ch g wire r =
     (case wire of
        Inl er \<Rightarrow> (Answer (error_envelope newID ''BAD_REQUEST'' er), r)
      | Inr w \<Rightarrow>
          if \<not> authenticate hexsum g (wrIdentity w) (wrToken w)
          then (Answer ((error_envelope newID ''UNAUTHENTICATED'' ''invalid client credentials'')
                  \<lparr> eReplyTo := eMessageID (wrEnvelope w) \<rparr>), r)
          else
            let req = (wrEnvelope w)\<lparr> eCaller := wrIdentity w \<rparr>
            in if eKind req = KindCancel then serve_cancel payload newID cancelID (wrIdentity w) req r
               else
                 let stream = (eStreamID req \<noteq> [])
                 in case (if stream then InvokeExternalStream env r (wrIdentity w) req [] ch
                          else InvokeExternal env r (wrIdentity w) req) of
                      (Refused er, r') \<Rightarrow> (Answer (invoke_error render newID req er), r')
                    | (Replied resp, r') \<Rightarrow> (Told (reply_envelope newID req resp) (if stream then Some ch else None), r')
                    | (Calling c, r') \<Rightarrow> (Waiting c req (if stream then Some ch else None), r'))"

text \<open>The end of the router's \<open>InvokeExternalStream\<close>: on an error it closes the channel itself.\<close>

definition InvokeExternalStream_end ::
  "Router \<Rightarrow> call \<Rightarrow> call_outcome \<Rightarrow> string \<Rightarrow> nat \<Rightarrow> (route_error, envelope) result \<times> Router" where
  "InvokeExternalStream_end r c outcome newID ch =
     (case invoke_end r c outcome newID of
        (Inl er, r') \<Rightarrow> (Err er, r'\<lparr> rtClosed := insert ch (rtClosed r') \<rparr>)
      | (Inr resp, r') \<Rightarrow> (Ok resp, r'))"

text \<open>The error to answer with, after which the connection goes on whether or not it could be written, or the reply.\<close>

definition serve_reply ::
  "(route_error \<Rightarrow> string) \<Rightarrow> string \<Rightarrow> string \<Rightarrow> call \<Rightarrow> envelope \<Rightarrow> nat option \<Rightarrow> call_outcome \<Rightarrow> Router
   \<Rightarrow> (envelope, envelope) result \<times> Router" where
  "serve_reply render newID cancelID c req ch outcome r =
     (case (case ch of
              None \<Rightarrow> invoke_end r c outcome cancelID
            | Some n \<Rightarrow> InvokeExternalStream_end r c outcome cancelID n) of
        (Inl er, r') \<Rightarrow> (Err (invoke_error render newID req er), r')
      | (Inr resp, r') \<Rightarrow> (Ok (reply_envelope newID req resp), r'))"

text \<open>
  The frames of a stream, written as they come; at the first that cannot be written the stream is
  cancelled and the connection given up. Answers the frames written and whether the connection lives.
\<close>

fun serve_frames ::
  "(nat \<Rightarrow> bool) \<Rightarrow> nat \<Rightarrow> string \<Rightarrow> string \<Rightarrow> string \<Rightarrow> envelope list \<Rightarrow> Router \<Rightarrow> envelope list \<times> bool \<times> Router" where
  "serve_frames written i cancelID identity sid [] r = ([], True, r)"
| "serve_frames written i cancelID identity sid (f # fs) r =
     (if written i
      then (case serve_frames written (Suc i) cancelID identity sid fs r of (out, alive, r') \<Rightarrow> (f # out, alive, r'))
      else ([], False, snd (CancelExternalStream r identity sid cancelID)))"

section \<open>The client's side\<close>

text \<open>The three identifiers are the ones \<open>prepare\<close> would make.\<close>

definition prepare :: "string \<Rightarrow> string \<Rightarrow> string \<Rightarrow> envelope \<Rightarrow> envelope" where
  "prepare clientID traceID corrID req =
     req\<lparr> eCaller := [], ePrincipal := [], eActorChain := [],
          eMessageID := (if eMessageID req = [] then clientID else eMessageID req),
          eProtocol := (if eProtocol req = 0 then 1 else eProtocol req),
          eTraceID := (if eTraceID req = [] then traceID else eTraceID req),
          eCorrelationID := (if eCorrelationID req = [] then corrID else eCorrelationID req) \<rparr>"

definition client_request :: "string \<Rightarrow> string \<Rightarrow> envelope \<Rightarrow> WireRequest" where
  "client_request identity token req = \<lparr> wrIdentity = identity, wrToken = token, wrEnvelope = req \<rparr>"

text \<open>What \<open>DialInvoke\<close> makes of the gateway's answer.\<close>

definition client_result :: "envelope \<Rightarrow> (Error, envelope) result" where
  "client_result resp =
     (if eKind resp = KindError then (case eError resp of Some er \<Rightarrow> Err er | None \<Rightarrow> Ok resp) else Ok resp)"

definition open_stream_request :: "string \<Rightarrow> string \<Rightarrow> string \<Rightarrow> string \<Rightarrow> envelope \<Rightarrow> envelope" where
  "open_stream_request clientID traceID corrID newStream req =
     (let q = prepare clientID traceID corrID req
      in if eStreamID q = [] then q\<lparr> eStreamID := newStream \<rparr> else q)"

definition cancel_request :: "string \<Rightarrow> string \<Rightarrow> string \<Rightarrow> envelope \<Rightarrow> envelope" where
  "cancel_request clientID traceID corrID req = (prepare clientID traceID corrID req)\<lparr> eKind := KindCancel \<rparr>"

text \<open>The client's reading of a stream: frames up to the first close; None when they end without one.\<close>

fun client_frames :: "envelope list \<Rightarrow> envelope list \<times> bool" where
  "client_frames [] = ([], False)"
| "client_frames (f # fs) =
     (if eKind f = KindStreamClose then ([f], True)
      else (case client_frames fs of (out, closed) \<Rightarrow> (f # out, closed)))"

section \<open>Properties\<close>

text \<open>
  C6: only authenticated clients reach the plugins, under their own name: a request whose token does not
  hash to the credential of the identity it claims changes nothing and is answered UNAUTHENTICATED; one
  that is passed on to a provider carries the authenticated identity as caller, principal and whole
  actor chain, whatever the client wrote there, and the policy lets this identity call that capability.
\<close>

theorem gateway_authenticates:
  "case serve_request hexsum render payload newID cancelID env ch g (Inr w) r of
     (start, r') \<Rightarrow>
       (if authenticate hexsum g (wrIdentity w) (wrToken w)
        then (case start of
                Answer _ \<Rightarrow> True
              | Told _ _ \<Rightarrow> True
              | Waiting c req _ \<Rightarrow>
                  gwCredentialHashes g (wrIdentity w) = Some (hexsum (wrToken w)) \<and> wrToken w \<noteq> []
                  \<and> eCaller (clRequest c) = wrIdentity w \<and> ePrincipal (clRequest c) = wrIdentity w
                  \<and> eActorChain (clRequest c) = [wrIdentity w]
                  \<and> CanExternal (rtAuth r) (wrIdentity w) (eCapability req) (eMajor req) = None)
        else r' = r \<and> (\<exists>e er. start = Answer e \<and> eKind e = KindError \<and> eError e = Some er
                          \<and> errCode er = ''UNAUTHENTICATED''))"
proof (cases "authenticate hexsum g (wrIdentity w) (wrToken w)")
  case False
  then show ?thesis by (simp add: serve_request_def error_envelope_def)
next
  case True
  then have cred: "gwCredentialHashes g (wrIdentity w) = Some (hexsum (wrToken w)) \<and> wrToken w \<noteq> []"
    by (auto simp: authenticate_def split: option.splits if_splits)
  have named: "eCaller (clRequest c) = identity \<and> ePrincipal (clRequest c) = identity
      \<and> eActorChain (clRequest c) = [identity] \<and> CanExternal (rtAuth r) identity (eCapability req) (eMajor req) = None"
    if b: "invoke_begin env r [] identity False req ext = (Calling c, r')" for c identity req ext r'
  proof (rule invoke_begin_Calling [OF b])
    fix pr chn scope p reg fs
    assume a: "authorize_call (rtAuth r) (rtReg r) (rtDelegations r) [] identity False req = Ok (pr, chn, scope)"
      and q: "clRequest c = stamp_request identity pr chn [] (ivDelegationID env) p req"
    from a have "pr = identity \<and> chn = [identity] \<and> CanExternal (rtAuth r) identity (eCapability req) (eMajor req) = None"
      by (auto simp: authorize_call_def split: option.splits)
    with q show ?thesis by simp
  qed
  show ?thesis
  proof (cases "serve_request hexsum render payload newID cancelID env ch g (Inr w) r")
    case (Pair start r')
    show ?thesis
    proof (cases start)
      case (Waiting c req och)
      let ?req = "(wrEnvelope w)\<lparr> eCaller := wrIdentity w \<rparr>"
      from Pair Waiting True obtain ext where q: "req = ?req"
        and b: "invoke_begin env r [] (wrIdentity w) False ?req ext = (Calling c, r')"
        by (auto simp: serve_request_def serve_cancel_def Let_def InvokeExternal_def InvokeExternalStream_def
            split: if_splits prod.splits invoke_start.splits)
      from named [OF b] q Pair Waiting True cred show ?thesis by simp
    qed (use Pair True in simp_all)
  qed
qed

text \<open>
  When the opening call of a client's stream fails or times out, the router closes the stream's
  channel but keeps its route. A frame the provider sends on that stream afterwards is put on the
  closed channel, which in Go is a panic and ends the kernel.
\<close>

theorem failed_stream_call_poisons_route:
  assumes "InvokeExternalStream env r identity req newStream ch = (Calling c, r1)" and "eStreamID req \<noteq> []"
    and "InvokeExternalStream_end r1 c outcome cancelID ch = (Inl er, r2)" and "eStreamID frame = eStreamID req"
  shows "ch \<in> rtClosed r2
    \<and> rtDelivered (forwardStream r2 (clRuntime c) frame newID True) = rtDelivered r2 @ [(ch, frame)]"
proof -
  have b: "invoke_begin env r [] identity False req (Some ch) = (Calling c, r1)"
    using assms(1,2) by (auto simp: InvokeExternalStream_def Let_def split: prod.splits invoke_start.splits)
  have s1: "map_of (rtStreams r1) (eStreamID req) =
      Some \<lparr> srStreamID = eStreamID req, srConsumerRuntime = [], srExternalIdentity = identity,
             srProviderRuntime = clRuntime c, srRequestID = eMessageID req, srExternal = Some ch \<rparr>"
    using b assms(2)
    by (auto simp: invoke_begin_def open_call_def Let_def update_conv' split: option.splits sum.splits prod.splits if_splits)
  have r2: "rtStreams r2 = rtStreams r1" "ch \<in> rtClosed r2"
    using assms(3) by (auto simp: InvokeExternalStream_end_def invoke_end_def finish_call_def
        split: call_outcome.splits)
  show ?thesis
    using s1 r2 assms(4)
    by (simp add: forwardStream_def Let_def deliverExternal_def closeExternalOnce_def delete_stream_def)
qed

definition stream_start :: "invoke_start \<times> Router" where
  "stream_start = InvokeExternalStream (route_env ''d1'') route_connected ''alice'' (wf_request\<lparr> eStreamID := ''s1'' \<rparr>) [] 7"

lemma stream_start_eval: "\<exists>c. fst stream_start = Calling c \<and> clRuntime c = ''rt-a''"
  by (simp add: stream_start_def InvokeExternalStream_def route_sample_defs route_eval resolve_defs sample_defs)

theorem failed_stream_call_poisons_route_witness:
  "\<exists>c r2. fst stream_start = Calling c
     \<and> snd (InvokeExternalStream_end (snd stream_start) c CallTimedOut ''x'' 7) = r2 \<and> 7 \<in> rtClosed r2
     \<and> rtDelivered (forwardStream r2 ''rt-a'' (nil_envelope\<lparr> eStreamID := ''s1'' \<rparr>) ''y'' True)
         = rtDelivered r2 @ [(7, nil_envelope\<lparr> eStreamID := ''s1'' \<rparr>)]"
proof -
  obtain c where c: "fst stream_start = Calling c" "clRuntime c = ''rt-a''" using stream_start_eval by blast
  then have s: "InvokeExternalStream (route_env ''d1'') route_connected ''alice'' (wf_request\<lparr> eStreamID := ''s1'' \<rparr>) [] 7
      = (Calling c, snd stream_start)"
    by (simp add: stream_start_def prod_eq_iff)
  obtain er r2 where e: "InvokeExternalStream_end (snd stream_start) c CallTimedOut ''x'' 7 = (Inl er, r2)"
    by (simp add: InvokeExternalStream_end_def invoke_end_def)
  from failed_stream_call_poisons_route [OF s _ e, of "nil_envelope\<lparr> eStreamID := ''s1'' \<rparr>"] c e
  show ?thesis by (intro exI [of _ c] exI [of _ r2]) simp
qed

end
