(* ===== verification/PluginHost.thy ===== *)
theory PluginHost
  imports Supervisor
begin

text \<open>
  The host library every plugin runs on (\<open>kernel/sdk/go/pluginhost/host.go\<close>): handlers registered
  by name and major version, the loop that reads the kernel's lines and answers or dispatches them,
  child requests with their deadlines, and streams with bounded buffers. Fresh identifiers, the clock
  (in nanoseconds) and the time format are arguments; channels have numbers.
\<close>

record channel =
  chBuffer :: "envelope list"
  chClosed :: bool

text \<open>Handlers by key; the map of kinds is iterated over, so it is a list of pairs.\<close>

record Host =
  hoPluginID :: string
  hoPluginVersion :: string
  hoManifestHash :: string
  hoHandlers :: "string \<Rightarrow> bool"
  hoHandlerKinds :: "(string \<times> kind) list"
  hoEvents :: "string \<Rightarrow> bool"
  hoPending :: "string \<Rightarrow> nat option"
  hoStreams :: "string \<Rightarrow> nat option"
  hoCancels :: "string \<Rightarrow> bool"
  hoChannels :: "nat \<Rightarrow> channel"

definition host_New :: "string \<Rightarrow> string \<Rightarrow> string \<Rightarrow> Host" where
  "host_New pid version hash =
     \<lparr> hoPluginID = pid, hoPluginVersion = version, hoManifestHash = hash, hoHandlers = (\<lambda>_. False),
       hoHandlerKinds = [], hoEvents = (\<lambda>_. False), hoPending = (\<lambda>_. None), hoStreams = (\<lambda>_. None),
       hoCancels = (\<lambda>_. False), hoChannels = (\<lambda>_. \<lparr> chBuffer = [], chClosed = False \<rparr>) \<rparr>"

definition key :: "string \<Rightarrow> int \<Rightarrow> string" where
  "key name major = canonical name major"

section \<open>Registration\<close>

definition Handle :: "string \<Rightarrow> int \<Rightarrow> Host \<Rightarrow> Host" where
  "Handle name major h = h\<lparr> hoHandlers := (hoHandlers h)(key name major := True) \<rparr>"

definition HandleContextCommand :: "string \<Rightarrow> int \<Rightarrow> Host \<Rightarrow> Host" where
  "HandleContextCommand name major h =
     h\<lparr> hoHandlers := (hoHandlers h)(key name major := True),
        hoHandlerKinds := AList.update (key name major) KindCommand (hoHandlerKinds h) \<rparr>"

definition HandleContextQuery :: "string \<Rightarrow> int \<Rightarrow> Host \<Rightarrow> Host" where
  "HandleContextQuery name major h =
     h\<lparr> hoHandlers := (hoHandlers h)(key name major := True),
        hoHandlerKinds := AList.update (key name major) KindQuery (hoHandlerKinds h) \<rparr>"

definition OnEvent :: "string \<Rightarrow> int \<Rightarrow> Host \<Rightarrow> Host" where
  "OnEvent name major h = h\<lparr> hoEvents := (hoEvents h)(key name major := True) \<rparr>"

section \<open>Child requests\<close>

text \<open>\<open>time.Time{}\<close>, which \<open>ParseDeadline\<close> gives, with has = true, for a deadline it cannot parse.\<close>

definition zero_time :: int where "zero_time = -62135596800 * 10 ^ 9"

definition deadline_time :: "(string \<Rightarrow> int option) \<Rightarrow> string \<Rightarrow> int option" where
  "deadline_time parse s =
     (case ParseDeadline parse s of NoDeadline \<Rightarrow> None | BadDeadline \<Rightarrow> Some zero_time | DeadlineAt t \<Rightarrow> Some t)"

record host_env =
  heNow :: int
  heParse :: "string \<Rightarrow> int option"
  heFormat :: "int \<Rightarrow> string"
  heMessageID :: string
  heTraceID :: string
  heCorrID :: string

definition childEnvelope ::
  "host_env \<Rightarrow> envelope \<Rightarrow> kind \<Rightarrow> string \<Rightarrow> int \<Rightarrow> string \<Rightarrow> int \<Rightarrow> envelope" where
  "childEnvelope env parent kd cap major payload timeout =
     (let deadline =
            (if timeout > 0
             then (let d = heNow env + timeout
                   in heFormat env (case deadline_time (heParse env) (eDeadline parent) of
                        None \<Rightarrow> d
                      | Some pd \<Rightarrow> if pd < d then pd else d))
             else eDeadline parent)
      in nil_envelope\<lparr> eProtocol := 1, eMessageID := heMessageID env, eKind := kd, eCapability := cap,
           eMajor := major, eCaller := eCaller parent,
           eTraceID := (if eTraceID parent = [] then heTraceID env else eTraceID parent),
           eCorrelationID := (if eCorrelationID parent = [] then heCorrID env else eCorrelationID parent),
           eCausationID := eMessageID parent, eDelegationID := eDelegationID parent, eDeadline := deadline,
           ePayload := payload \<rparr>)"

datatype timeout_error = TimeoutUnparsable | TimeoutExceeded

definition effectiveTimeout :: "host_env \<Rightarrow> envelope \<Rightarrow> int \<Rightarrow> (timeout_error, int) result" where
  "effectiveTimeout env e requested0 =
     (let requested = (if requested0 \<le> 0 then default_timeout else requested0)
      in case ParseDeadline (heParse env) (eDeadline e) of
           BadDeadline \<Rightarrow> Err TimeoutUnparsable
         | NoDeadline \<Rightarrow> Ok requested
         | DeadlineAt dl \<Rightarrow>
             let remaining = dl - heNow env
             in if remaining \<le> 0 then Err TimeoutExceeded
                else Ok (if remaining < requested then remaining else requested))"

text \<open>The request a handler's context makes, and the one a plugin makes on its own.\<close>

definition rc_request :: "host_env \<Rightarrow> Host \<Rightarrow> envelope \<Rightarrow> kind \<Rightarrow> string \<Rightarrow> int \<Rightarrow> string \<Rightarrow> int \<Rightarrow> envelope" where
  "rc_request env h parent kd cap major payload timeout =
     (childEnvelope env parent kd cap major payload timeout)\<lparr> eCaller := hoPluginID h \<rparr>"

definition host_request :: "host_env \<Rightarrow> Host \<Rightarrow> kind \<Rightarrow> string \<Rightarrow> int \<Rightarrow> string \<Rightarrow> int \<Rightarrow> envelope" where
  "host_request env h kd cap major payload timeout = rc_request env h nil_envelope kd cap major payload timeout"

text \<open>
  \<open>invokeEnvelope\<close>, in two steps: the request is registered as pending and written, and what its wait
  ends with. \<open>ch\<close> is the channel made for it.
\<close>

datatype host_error = BadTimeout timeout_error | WriteFailed | RemoteFailed Error | WaitTimedOut

definition invoke_send ::
  "host_env \<Rightarrow> bool \<Rightarrow> nat \<Rightarrow> envelope \<Rightarrow> int \<Rightarrow> Host \<Rightarrow> (host_error, int) result \<times> Host" where
  "invoke_send env written ch e timeout h =
     (case effectiveTimeout env e timeout of
        Inl er \<Rightarrow> (Err (BadTimeout er), h)
      | Inr effective \<Rightarrow>
          if \<not> written then (Err WriteFailed, h\<lparr> hoPending := (hoPending h)(eMessageID e := None) \<rparr>)
          else (Ok effective,
                h\<lparr> hoPending := (hoPending h)(eMessageID e \<mapsto> ch),
                   hoChannels := (hoChannels h)(ch := \<lparr> chBuffer = [], chClosed = False \<rparr>) \<rparr>))"

text \<open>The end of the wait: a reply, or the timer, which sends a cancel. The request is forgotten either way.\<close>

definition invoke_wait :: "string \<Rightarrow> envelope \<Rightarrow> Host \<Rightarrow> (host_error, envelope) result \<times> envelope list \<times> Host" where
  "invoke_wait cancelID e h =
     (let h' = h\<lparr> hoPending := (hoPending h)(eMessageID e := None) \<rparr>
      in case (case hoPending h (eMessageID e) of None \<Rightarrow> [] | Some ch \<Rightarrow> chBuffer (hoChannels h ch)) of
           resp # _ \<Rightarrow>
             (if eKind resp = KindError
              then (case eError resp of Some er \<Rightarrow> (Err (RemoteFailed er), [], h') | None \<Rightarrow> (Ok resp, [], h'))
              else (Ok resp, [], h'))
         | [] \<Rightarrow>
             (Err WaitTimedOut,
              [nil_envelope\<lparr> eProtocol := 1, eMessageID := cancelID, eKind := KindCancel, eReplyTo := eMessageID e \<rparr>],
              h'))"

text \<open>
  A request whose answer is a stream: a channel of 64 frames is registered under a fresh stream
  identifier before the request is written, and given up, closed, if the request fails.
\<close>

definition open_stream :: "string \<Rightarrow> nat \<Rightarrow> Host \<Rightarrow> Host" where
  "open_stream sid ch h =
     h\<lparr> hoStreams := (hoStreams h)(sid \<mapsto> ch),
        hoChannels := (hoChannels h)(ch := \<lparr> chBuffer = [], chClosed = False \<rparr>) \<rparr>"

definition abandon_stream :: "string \<Rightarrow> nat \<Rightarrow> Host \<Rightarrow> Host" where
  "abandon_stream sid ch h =
     h\<lparr> hoStreams := (hoStreams h)(sid := None),
        hoChannels := (hoChannels h)(ch := (hoChannels h ch)\<lparr> chClosed := True \<rparr>) \<rparr>"

definition CommandStream_request ::
  "host_env \<Rightarrow> Host \<Rightarrow> envelope \<Rightarrow> string \<Rightarrow> string \<Rightarrow> int \<Rightarrow> string \<Rightarrow> int \<Rightarrow> envelope" where
  "CommandStream_request env h parent sid cap major payload timeout =
     (rc_request env h parent KindCommand cap major payload timeout)\<lparr> eStreamID := sid \<rparr>"

text \<open>\<open>Stream.Cancel\<close>, and the events a plugin publishes on its own and from a handler.\<close>

definition stream_cancel :: "string \<Rightarrow> string \<Rightarrow> envelope \<Rightarrow> envelope" where
  "stream_cancel newID sid req =
     nil_envelope\<lparr> eProtocol := 1, eMessageID := newID, eKind := KindCancel, eStreamID := sid,
       eTraceID := eTraceID req, eCorrelationID := eCorrelationID req, eCausationID := eMessageID req \<rparr>"

definition host_Publish :: "host_env \<Rightarrow> Host \<Rightarrow> string \<Rightarrow> int \<Rightarrow> string \<Rightarrow> envelope" where
  "host_Publish env h event major payload =
     nil_envelope\<lparr> eProtocol := 1, eMessageID := heMessageID env, eKind := KindEvent, eCapability := event,
       eMajor := major, eCaller := hoPluginID h, eTraceID := heTraceID env, eCorrelationID := heCorrID env,
       ePayload := payload \<rparr>"

definition rc_Publish :: "host_env \<Rightarrow> Host \<Rightarrow> envelope \<Rightarrow> string \<Rightarrow> int \<Rightarrow> string \<Rightarrow> envelope" where
  "rc_Publish env h req event major payload =
     nil_envelope\<lparr> eProtocol := 1, eMessageID := heMessageID env, eKind := KindEvent, eCapability := event,
       eMajor := major, eCaller := hoPluginID h,
       eTraceID := (if eTraceID req = [] then heTraceID env else eTraceID req),
       eCorrelationID := (if eCorrelationID req = [] then heCorrID env else eCorrelationID req),
       eCausationID := eMessageID req, eDelegationID := eDelegationID req, ePayload := payload \<rparr>"

section \<open>The kernel's lines\<close>

text \<open>What a line makes the host do besides changing its own state.\<close>

datatype host_effect =
    SendOut envelope
  | StartHandler string string envelope "int option"
  | StartEvent string envelope
  | CloseLater nat envelope
  | CancelContext string
  | BlockOn nat envelope

definition host_error_reply :: "string \<Rightarrow> envelope \<Rightarrow> string \<Rightarrow> string \<Rightarrow> envelope" where
  "host_error_reply newID e code msg =
     nil_envelope\<lparr> eProtocol := 1, eMessageID := newID, eKind := KindError, eReplyTo := eMessageID e,
       eError := Some \<lparr> errCode = code, errMessage = msg, errRetryable = False, errDetails = [] \<rparr> \<rparr>"

text \<open>The handlers announced: those with a kind, their key split again at its last @.\<close>

definition descriptors :: "(string \<times> kind) list \<Rightarrow> HandlerDescriptor list" where
  "descriptors ks =
     concat (map (\<lambda>(hk, kd). case split_last (CHR ''@'') hk of
         Some (name, maj) \<Rightarrow>
           (if name \<noteq> [] then [\<lparr> hdKind = kd, hdCapability = name, hdMajor = atoi maj \<rparr>] else [])
       | None \<Rightarrow> []) ks)"

definition host_ready :: "Host \<Rightarrow> Ready" where
  "host_ready h =
     \<lparr> rdRuntimeProtocol = RuntimeProtocol, rdPluginID = hoPluginID h, rdPluginVersion = hoPluginVersion h,
       rdManifestHash = hoManifestHash h, rdHandlers = descriptors (hoHandlerKinds h) \<rparr>"

definition is_reply :: "envelope \<Rightarrow> bool" where
  "is_reply e \<longleftrightarrow> eReplyTo e \<noteq> [] \<and> eKind e \<in> {KindResult, KindError, KindReady, KindPong}"

text \<open>A reply goes to the channel of its request, which holds one; the reader blocks when it is full.\<close>

definition deliver_reply :: "envelope \<Rightarrow> Host \<Rightarrow> host_effect list \<times> Host" where
  "deliver_reply e h =
     (case hoPending h (eReplyTo e) of
        None \<Rightarrow> ([], h)
      | Some ch \<Rightarrow>
          let c = hoChannels h ch
          in if length (chBuffer c) \<ge> 1 then ([BlockOn ch e], h)
             else ([], h\<lparr> hoChannels := (hoChannels h)(ch := c\<lparr> chBuffer := chBuffer c @ [e] \<rparr>) \<rparr>))"

definition stream_capacity :: nat where "stream_capacity = 64"

definition backpressure_close :: "string \<Rightarrow> envelope \<Rightarrow> envelope" where
  "backpressure_close newID e =
     nil_envelope\<lparr> eProtocol := 1, eMessageID := newID, eKind := KindStreamClose, eStreamID := eStreamID e,
       eTraceID := eTraceID e, eCorrelationID := eCorrelationID e, eCausationID := eCausationID e,
       eError := Some \<lparr> errCode = ''BACKPRESSURE_LIMIT'', errMessage = ''stream consumer queue exhausted'',
                        errRetryable = True, errDetails = [] \<rparr> \<rparr>"

definition deliver_stream :: "string \<Rightarrow> string \<Rightarrow> envelope \<Rightarrow> Host \<Rightarrow> host_effect list \<times> Host" where
  "deliver_stream cancelID closeID e h =
     (let closing = (eKind e = KindStreamClose);
          h1 = (if closing then h\<lparr> hoStreams := (hoStreams h)(eStreamID e := None) \<rparr> else h)
      in case hoStreams h (eStreamID e) of
           None \<Rightarrow> ([], h1)
         | Some ch \<Rightarrow>
             let c = hoChannels h ch
             in if length (chBuffer c) < stream_capacity
                then ([], h1\<lparr> hoChannels := (hoChannels h1)(ch := \<lparr> chBuffer = chBuffer c @ [e],
                                                                chClosed = (closing \<or> chClosed c) \<rparr>) \<rparr>)
                else ([SendOut (nil_envelope\<lparr> eProtocol := 1, eMessageID := cancelID, eKind := KindCancel,
                                              eStreamID := eStreamID e \<rparr>),
                       CloseLater ch (backpressure_close closeID e)],
                      h1\<lparr> hoStreams := (hoStreams h1)(eStreamID e := None) \<rparr>))"

definition cancel_key :: "envelope \<Rightarrow> string" where
  "cancel_key e = (if eStreamID e \<noteq> [] then eStreamID e else eMessageID e)"

definition dispatch_request :: "host_env \<Rightarrow> string \<Rightarrow> envelope \<Rightarrow> Host \<Rightarrow> host_effect list \<times> Host" where
  "dispatch_request env newID e h =
     (let hk = key (eCapability e) (eMajor e)
      in case map_of (hoHandlerKinds h) hk of
           Some expected \<Rightarrow>
             (if expected \<noteq> eKind e
              then ([SendOut (host_error_reply newID e ''KIND_MISMATCH''
                      (''handler requires '' @ kind_name expected @ '', got '' @ kind_name (eKind e)))], h)
              else if \<not> hoHandlers h hk
              then ([SendOut (host_error_reply newID e ''UNSUPPORTED'' ''capability not handled'')], h)
              else ([StartHandler hk (cancel_key e) e (deadline_time (heParse env) (eDeadline e))],
                    h\<lparr> hoCancels := (hoCancels h)(cancel_key e := True) \<rparr>))
         | None \<Rightarrow>
             (if \<not> hoHandlers h hk
              then ([SendOut (host_error_reply newID e ''UNSUPPORTED'' ''capability not handled'')], h)
              else ([StartHandler hk (cancel_key e) e (deadline_time (heParse env) (eDeadline e))],
                    h\<lparr> hoCancels := (hoCancels h)(cancel_key e := True) \<rparr>)))"

text \<open>
  One line of \<open>Serve\<close>, None if it does not decode. \<open>hello\<close> is the payload of a hello as decoded, its
  runtime protocol; \<open>ready\<close> renders the ready message.
\<close>

definition host_line ::
  "host_env \<Rightarrow> (string \<Rightarrow> string option) \<Rightarrow> (Ready \<Rightarrow> string) \<Rightarrow> string \<Rightarrow> string \<Rightarrow> envelope option \<Rightarrow> Host
   \<Rightarrow> host_effect list \<times> Host" where
  "host_line env hello ready newID newID2 line h =
     (case line of
        None \<Rightarrow> ([], h)
      | Some e \<Rightarrow>
          if is_reply e then deliver_reply e h
          else (case eKind e of
              KindPing \<Rightarrow>
                ([SendOut (nil_envelope\<lparr> eProtocol := 1, eMessageID := newID, eKind := KindPong, eReplyTo := eMessageID e \<rparr>)], h)
            | KindHello \<Rightarrow>
                (if hello (ePayload e) \<noteq> Some RuntimeProtocol
                 then ([SendOut (host_error_reply newID e ''INCOMPATIBLE_PROTOCOL'' ''runtime protocol mismatch'')], h)
                 else ([SendOut (nil_envelope\<lparr> eProtocol := 1, eMessageID := newID, eKind := KindReady,
                           eReplyTo := eMessageID e, ePayload := ready (host_ready h) \<rparr>)], h))
            | KindCommand \<Rightarrow> dispatch_request env newID e h
            | KindQuery \<Rightarrow> dispatch_request env newID e h
            | KindEvent \<Rightarrow>
                (if hoEvents h (key (eCapability e) (eMajor e)) then ([StartEvent (key (eCapability e) (eMajor e)) e], h) else ([], h))
            | KindStreamOpen \<Rightarrow> deliver_stream newID newID2 e h
            | KindStreamData \<Rightarrow> deliver_stream newID newID2 e h
            | KindStreamClose \<Rightarrow> deliver_stream newID newID2 e h
            | KindCancel \<Rightarrow>
                (let k = (if eStreamID e = [] then eReplyTo e else eStreamID e)
                 in if hoCancels h k then ([CancelContext k], h) else ([], h))
            | _ \<Rightarrow> ([], h)))"

text \<open>The end of a handler: its reply, and the end of its context unless it streams.\<close>

definition handler_reply :: "string \<Rightarrow> envelope \<Rightarrow> (Error, string) result \<Rightarrow> envelope" where
  "handler_reply newID req res =
     (let base = nil_envelope\<lparr> eProtocol := 1, eMessageID := newID, eReplyTo := eMessageID req,
                    eTraceID := eTraceID req, eCorrelationID := eCorrelationID req, eCausationID := eMessageID req \<rparr>
      in case res of
           Inl er \<Rightarrow> base\<lparr> eKind := KindError, eError := Some er \<rparr>
         | Inr payload \<Rightarrow> base\<lparr> eKind := KindResult, ePayload := payload \<rparr>)"

definition finishCancel :: "string \<Rightarrow> Host \<Rightarrow> host_effect list \<times> Host" where
  "finishCancel k h =
     ((if hoCancels h k then [CancelContext k] else []), h\<lparr> hoCancels := (hoCancels h)(k := False) \<rparr>)"

text \<open>
  The frames a streaming handler sends: an open, the data in order with a running number, and a close,
  which carries an error when the context is cancelled before the data end (after \<open>n\<close> items).
\<close>

definition stream_frame :: "(nat \<Rightarrow> string) \<Rightarrow> envelope \<Rightarrow> string \<Rightarrow> nat \<Rightarrow> kind \<Rightarrow> envelope" where
  "stream_frame newID req sid i kd =
     nil_envelope\<lparr> eProtocol := 1, eMessageID := newID i, eKind := kd, eStreamID := sid,
       eTargetRuntime := eReplyRuntime req, eTraceID := eTraceID req, eCorrelationID := eCorrelationID req,
       eCausationID := eMessageID req \<rparr>"

definition stream_frames ::
  "(nat \<Rightarrow> string) \<Rightarrow> (nat \<Rightarrow> string \<Rightarrow> string) \<Rightarrow> envelope \<Rightarrow> string \<Rightarrow> string list \<Rightarrow> nat option \<Rightarrow> envelope list" where
  "stream_frames newID frame req sid0 items cancelled =
     (let sid = (if eStreamID req = [] then sid0 else eStreamID req);
          sent = (case cancelled of None \<Rightarrow> items | Some n \<Rightarrow> take n items);
          close = stream_frame newID req sid (Suc (length sent)) KindStreamClose
      in stream_frame newID req sid 0 KindStreamOpen
         # map (\<lambda>i. (stream_frame newID req sid (Suc i) KindStreamData)
                 \<lparr> eDelegationID := eDelegationID req, ePayload := frame (Suc i) (sent ! i) \<rparr>) [0..<length sent]
         @ [case cancelled of
              None \<Rightarrow> close
            | Some _ \<Rightarrow> close\<lparr> eError := Some \<lparr> errCode = ''CANCELLED'', errMessage = ''stream cancelled'',
                                              errRetryable = False, errDetails = [] \<rparr> \<rparr>])"

section \<open>Properties\<close>

text \<open>
  A descriptor goes through a string that is taken apart again: the one found for a name and version is
  the one registered under exactly that name and version.
\<close>

definition proper_keys :: "(string \<times> kind) list \<Rightarrow> bool" where
  "proper_keys ks \<longleftrightarrow>
     (\<forall>(hk, kd) \<in> set ks. \<exists>name major. hk = key name major \<and> name \<noteq> [] \<and> min_int \<le> major \<and> major \<le> max_int)"

lemma find_descriptor:
  assumes "proper_keys ks"
  shows "find (\<lambda>d. hdCapability d = name \<and> hdMajor d = major) (descriptors ks)
        = map_option (\<lambda>kd. \<lparr> hdKind = kd, hdCapability = name, hdMajor = major \<rparr>) (map_of ks (key name major))"
  using assms
proof (induction ks)
  case (Cons x ks)
  then obtain n mj kd where x: "x = (key n mj, kd)" "n \<noteq> []" "min_int \<le> mj" "mj \<le> max_int"
    by (cases x) (auto simp: proper_keys_def)
  have d: "descriptors ((key n mj, kd) # ks) = \<lparr> hdKind = kd, hdCapability = n, hdMajor = mj \<rparr> # descriptors ks"
    using x by (simp add: descriptors_def key_def split_last_canonical atoi_show_int)
  have "key n mj = key name major \<longleftrightarrow> n = name \<and> mj = major" by (simp add: key_def)
  with Cons show ?case unfolding x(1) by (auto simp: d proper_keys_def)
qed (simp add: descriptors_def)

lemma proper_keys_register:
  "proper_keys (hoHandlerKinds h) \<Longrightarrow> name \<noteq> [] \<Longrightarrow> min_int \<le> major \<Longrightarrow> major \<le> max_int \<Longrightarrow>
     proper_keys (hoHandlerKinds (HandleContextCommand name major h))
     \<and> proper_keys (hoHandlerKinds (HandleContextQuery name major h))"
proof -
  assume a: "proper_keys (hoHandlerKinds h)" "name \<noteq> []" "min_int \<le> major" "major \<le> max_int"
  have sub: "set (AList.update k v xs) \<subseteq> insert (k, v) (set xs)" for k :: string and v :: kind and xs
    by (induction xs) auto
  have "proper_keys (AList.update (key name major) v (hoHandlerKinds h))" for v
    unfolding proper_keys_def
  proof
    fix x assume "x \<in> set (AList.update (key name major) v (hoHandlerKinds h))"
    then have "x = (key name major, v) \<or> x \<in> set (hoHandlerKinds h)" using subsetD [OF sub] by blast
    then show "case x of (hk, kd) \<Rightarrow> \<exists>name major. hk = key name major \<and> name \<noteq> [] \<and> min_int \<le> major \<and> major \<le> max_int"
      using a by (auto simp: proper_keys_def)
  qed
  then show ?thesis by (simp add: HandleContextCommand_def HandleContextQuery_def)
qed

lemma ready_passes:
  assumes "proper_keys (hoHandlerKinds h)" and "hoPluginID h = mPluginID m" and "hoManifestHash h \<in> {[], hash}"
    and "laReply la = Some (KindReady, Some (host_ready h))"
    and "laExecutable la" and "laPipes la" and "laSpawn la" and "laPriority la"
  shows "handshake reg m hash la = None \<longleftrightarrow>
     list_all (\<lambda>ex. case ContractMetadata reg (cContract ex) of
         None \<Rightarrow> False
       | Some md \<Rightarrow> map_of (hoHandlerKinds h) (key (cName ex) (cMajor ex)) = Some (mdKind md)) (mExports m)"
proof -
  have "check_handler reg (descriptors (hoHandlerKinds h)) ex = None \<longleftrightarrow>
      (case ContractMetadata reg (cContract ex) of
         None \<Rightarrow> False
       | Some md \<Rightarrow> map_of (hoHandlerKinds h) (key (cName ex) (cMajor ex)) = Some (mdKind md))" for ex
    by (auto simp: check_handler_def find_descriptor [OF assms(1)] split: option.split)
  moreover have "handshake reg m hash la = first_err (check_handler reg (descriptors (hoHandlerKinds h))) (mExports m)"
    using assms(2-8) by (auto simp: handshake_def host_ready_def)
  ultimately show ?thesis by (simp add: first_err_None list_all_iff)
qed

text \<open>
  C23: the two sides of the handshake agree. A plugin built on the host library that says ready passes
  the supervisor's handshake exactly when it has registered, for every export of its manifest, a
  handler of the kind the export's contract has; what the library announces and the supervisor looks up
  goes through strings and back without a slip.
\<close>

theorem handshake_iff_registered:
  assumes "proper_keys (hoHandlerKinds h)" and "hoPluginID h = mPluginID m" and "hoManifestHash h \<in> {[], hash}"
    and "laReply la = Some (KindReady, Some (host_ready h))"
    and "laExecutable la" and "laPipes la" and "laSpawn la" and "laPriority la"
  shows "handshake reg m hash la = None \<longleftrightarrow>
     list_all (\<lambda>ex. case ContractMetadata reg (cContract ex) of
         None \<Rightarrow> False
       | Some md \<Rightarrow> map_of (hoHandlerKinds h) (key (cName ex) (cMajor ex)) = Some (mdKind md)) (mExports m)"
  using assms by (rule ready_passes)

definition sample_host :: Host where
  "sample_host = HandleContextQuery ''x'' 1 (host_New ''p'' [] [])"

definition sample_host_manifest :: Manifest where
  "sample_host_manifest =
     \<lparr> mManifestVersion = 1, mPluginID = ''p'', mPluginVersion = [],
       mRuntime = \<lparr> rtProtocol = [], rtExecutable = [], rtArgs = [], rtIsolation = [], rtDataNamespace = [] \<rparr>,
       mExports = [\<lparr> cName = ''x'', cMajor = 1, cContract = ''x@1'', cMode = [], cService = [], cAuthority = [], cPriority = 0 \<rparr>],
       mRequired = [], mOptional = [], mPublishes = [], mSubscribes = [], mPermissions = [],
       mRestart = \<lparr> rpMode = [], rpMaxAttempts = 0, rpCooldownMS = 0 \<rparr>, mResources = \<lparr> resMemoryMB = 0, resCPUWeight = 0 \<rparr> \<rparr>"

definition sample_host_registry :: Registry where
  "sample_host_registry =
     SetContractCatalog registry_New
       \<lparr> ByCapability = Map.empty,
         ByContract = [''x@1'' \<mapsto> \<lparr> mdContract = ''x@1'', mdVersion = [], mdKind = KindQuery \<rparr>] \<rparr>"

theorem handshake_iff_registered_witness:
  "handshake sample_host_registry sample_host_manifest []
     \<lparr> laRuntimeID = ''r'', laExecutable = True, laPipes = True, laSpawn = True, laPriority = True,
       laReply = Some (KindReady, Some (host_ready sample_host)) \<rparr> = None"
proof -
  have k: "proper_keys (hoHandlerKinds sample_host)"
    using proper_keys_register [of "host_New ''p'' [] []" "''x''" 1]
    by (simp add: sample_host_def host_New_def proper_keys_def min_int_def max_int_def)
  have "list_all (\<lambda>ex. case ContractMetadata sample_host_registry (cContract ex) of
         None \<Rightarrow> False
       | Some md \<Rightarrow> map_of (hoHandlerKinds sample_host) (key (cName ex) (cMajor ex)) = Some (mdKind md)) (mExports sample_host_manifest)"
    by (simp add: sample_host_manifest_def ContractMetadata_def sample_host_registry_def SetContractCatalog_def
        catalog_Metadata_def sample_host_def HandleContextQuery_def host_New_def)
  then show ?thesis
    by (subst handshake_iff_registered [OF k])
       (simp_all add: sample_host_def sample_host_manifest_def host_New_def HandleContextQuery_def)
qed


text \<open>A time format that renders an instant in decimal, for the nanoseconds the deadlines here have.\<close>

definition sample_host_env :: host_env where
  "sample_host_env = \<lparr> heNow = 100, heParse = (\<lambda>s. if s = [] then None else if hd s = CHR ''-'' then map_option (\<lambda>n. - int n) (digits_val 0 (tl s)) else map_option int (digits_val 0 s)),
     heFormat = show_int, heMessageID = ''c'', heTraceID = ''t'', heCorrID = ''k'' \<rparr>"

lemma sample_host_env_format:
  "heFormat sample_host_env t \<noteq> [] \<and> heParse sample_host_env (heFormat sample_host_env t) = Some t"
  by (auto simp: sample_host_env_def show_int_def digits_val_digits hd_digits)

lemma sample_host_env_heFormat: "show_int = heFormat sample_host_env" by (simp add: sample_host_env_def)


end
