(* ===== verification/ProcessClient.thy ===== *)
theory ProcessClient
  imports PluginHost SupervisorLife
begin

text \<open>
  The kernel's end of a plugin's pipes (\<open>kernel/internal/router/client.go\<close>): calls waiting for their
  replies, and the reader, which hands replies to the calls, stream frames to one bounded queue and
  everything else to another, waiting after each of the latter until the router has handled it. Every
  point where the reader, the router's loops or a caller can be overtaken is a step of its own.
\<close>

datatype reader =
    Scanning
  | PutReply nat envelope
  | PutControl envelope
  | AwaitAck envelope
  | ReaderDone

text \<open>
  Channels of calls have numbers and hold one reply. \<open>pcServing\<close> is the control message the router's
  \<open>serveInbound\<close> has taken and not yet acknowledged.
\<close>

record Client =
  pcPending :: "string \<Rightarrow> nat option"
  pcReplies :: "nat \<Rightarrow> envelope list"
  pcEvents :: "envelope list"
  pcStreamEvents :: "envelope list"
  pcServing :: "envelope option"
  pcReader :: reader
  pcClosed :: bool

definition NewProcessClient :: Client where
  "NewProcessClient =
     \<lparr> pcPending = (\<lambda>_. None), pcReplies = (\<lambda>_. []), pcEvents = [], pcStreamEvents = [], pcServing = None,
       pcReader = Scanning, pcClosed = False \<rparr>"

definition ingress_capacity :: nat where "ingress_capacity = 256"

definition markClosed :: "Client \<Rightarrow> Client" where
  "markClosed c = c\<lparr> pcClosed := True \<rparr>"

section \<open>The reader\<close>

definition overflow_close :: "string \<Rightarrow> envelope \<Rightarrow> envelope" where
  "overflow_close newID e =
     nil_envelope\<lparr> eProtocol := 1, eMessageID := newID, eKind := KindStreamClose, eStreamID := eStreamID e,
       eTraceID := eTraceID e, eCorrelationID := eCorrelationID e, eCausationID := eCausationID e,
       eError := Some \<lparr> errCode = ''BACKPRESSURE_LIMIT'', errMessage = ''stream consumer ingress queue exhausted'',
                        errRetryable = True, errDetails = [] \<rparr> \<rparr>"

definition is_stream :: "envelope \<Rightarrow> bool" where
  "is_stream e \<longleftrightarrow> eKind e = KindStreamOpen \<or> eKind e = KindStreamData \<or> eKind e = KindStreamClose"

text \<open>One line, None if it does not decode; only a scanning reader takes one.\<close>

definition read_line :: "string \<Rightarrow> envelope option \<Rightarrow> Client \<Rightarrow> Client" where
  "read_line newID line c =
     (case line of
        None \<Rightarrow> c
      | Some e \<Rightarrow>
          (case (if is_reply e then pcPending c (eReplyTo e) else None) of
             Some ch \<Rightarrow> c\<lparr> pcReader := PutReply ch e \<rparr>
           | None \<Rightarrow>
               if is_stream e
               then (if length (pcStreamEvents c) < ingress_capacity
                     then c\<lparr> pcStreamEvents := pcStreamEvents c @ [e] \<rparr>
                     else c\<lparr> pcReader := PutControl (overflow_close newID e) \<rparr>)
               else c\<lparr> pcReader := PutControl e \<rparr>))"

text \<open>What the reader can go on with, None where it has to wait.\<close>

definition put_reply :: "Client \<Rightarrow> (envelope \<times> Client) option" where
  "put_reply c =
     (case pcReader c of
        PutReply ch e \<Rightarrow>
          if pcReplies c ch = [] then Some (e, c\<lparr> pcReplies := (pcReplies c)(ch := [e]), pcReader := Scanning \<rparr>)
          else None
      | _ \<Rightarrow> None)"

definition put_control :: "Client \<Rightarrow> Client option" where
  "put_control c =
     (case pcReader c of
        PutControl e \<Rightarrow>
          if length (pcEvents c) < ingress_capacity
          then Some (c\<lparr> pcEvents := pcEvents c @ [e], pcReader := AwaitAck e \<rparr>) else None
      | _ \<Rightarrow> None)"

text \<open>A closed client frees a reader that waits: a reply is dropped, anything else ends the loop.\<close>

definition give_up :: "Client \<Rightarrow> Client option" where
  "give_up c =
     (if \<not> pcClosed c then None
      else case pcReader c of
             PutReply ch e \<Rightarrow> Some (c\<lparr> pcReader := Scanning \<rparr>)
           | PutControl e \<Rightarrow> Some (c\<lparr> pcReader := ReaderDone \<rparr>)
           | AwaitAck e \<Rightarrow> Some (c\<lparr> pcReader := ReaderDone \<rparr>)
           | _ \<Rightarrow> None)"

text \<open>The end of the output: both queues are closed for writing, and the client with them.\<close>

definition end_of_output :: "Client \<Rightarrow> Client" where
  "end_of_output c = markClosed (c\<lparr> pcReader := ReaderDone \<rparr>)"

section \<open>The router's loops\<close>

definition take_control :: "Client \<Rightarrow> Client option" where
  "take_control c =
     (case (pcServing c, pcEvents c) of
        (None, e # es) \<Rightarrow> Some (c\<lparr> pcServing := Some e, pcEvents := es \<rparr>)
      | _ \<Rightarrow> None)"

definition ack_control :: "Client \<Rightarrow> Client" where
  "ack_control c =
     c\<lparr> pcServing := None,
        pcReader := (case pcReader c of AwaitAck e \<Rightarrow> (if pcServing c = Some e then Scanning else AwaitAck e) | r \<Rightarrow> r) \<rparr>"

definition take_stream :: "Client \<Rightarrow> (envelope \<times> Client) option" where
  "take_stream c =
     (case pcStreamEvents c of [] \<Rightarrow> None | e # es \<Rightarrow> Some (e, c\<lparr> pcStreamEvents := es \<rparr>))"

section \<open>Calls\<close>

text \<open>What writing a message comes to; a write that takes too long closes the client.\<close>

datatype write_result = WroteLine | EncodeFailed | WriteTimedOut | ClosedMeanwhile

datatype send_error = Disconnected | EncodeError | WriteTimeout

definition client_Send :: "write_result \<Rightarrow> Client \<Rightarrow> (send_error, unit) result \<times> Client" where
  "client_Send w c =
     (if pcClosed c then (Err Disconnected, c)
      else case w of
             WroteLine \<Rightarrow> (Ok (), c)
           | EncodeFailed \<Rightarrow> (Err EncodeError, c)
           | ClosedMeanwhile \<Rightarrow> (Err Disconnected, markClosed c)
           | WriteTimedOut \<Rightarrow> (Err WriteTimeout, markClosed c))"

definition forget_call :: "string \<Rightarrow> Client \<Rightarrow> Client" where
  "forget_call i c = c\<lparr> pcPending := (pcPending c)(i := None) \<rparr>"

text \<open>A call up to its wait, \<open>ch\<close> being the channel made for it.\<close>

definition begin_call :: "write_result \<Rightarrow> nat \<Rightarrow> string \<Rightarrow> Client \<Rightarrow> (send_error, unit) result \<times> Client" where
  "begin_call w ch i c =
     (let c1 = c\<lparr> pcPending := (pcPending c)(i \<mapsto> ch), pcReplies := (pcReplies c)(ch := []) \<rparr>
      in case client_Send w c1 of
           (Inl er, c2) \<Rightarrow> (Err er, forget_call i c2)
         | (Inr _, c2) \<Rightarrow> (Ok (), c2))"

datatype call_error = DeadlineExceeded | ProviderDisconnected

text \<open>
  The end of the wait. A reply that is there wins over the disconnect, but not always over the timer,
  when both are ready (\<open>timer\<close>); without one it is the disconnect or the timer.
\<close>

definition end_call :: "bool \<Rightarrow> string \<Rightarrow> Client \<Rightarrow> (call_error, envelope) result \<times> Client" where
  "end_call timer i c =
     ((if timer then Err DeadlineExceeded
       else case (case pcPending c i of None \<Rightarrow> [] | Some ch \<Rightarrow> pcReplies c ch) of
              r # _ \<Rightarrow> Ok r
            | [] \<Rightarrow> if pcClosed c then Err ProviderDisconnected else Err DeadlineExceeded),
      forget_call i c)"

definition ping_answered :: "bool \<Rightarrow> string \<Rightarrow> Client \<Rightarrow> bool" where
  "ping_answered timer i c = (case fst (end_call timer i c) of Inl _ \<Rightarrow> False | Inr r \<Rightarrow> eKind r = KindPong)"

section \<open>Runs\<close>

text \<open>
  What the output asks of the kernel and what the kernel has done: a reply handed to its call, a
  control message handled to its end. A run collects both; \<open>outstanding\<close> is what the reader has
  taken and is not done.
\<close>

datatype act = Answered envelope | Handled envelope

definition outstanding :: "Client \<Rightarrow> act list" where
  "outstanding c =
     (case pcReader c of
        PutReply ch e \<Rightarrow> [Answered e] | PutControl e \<Rightarrow> [Handled e] | AwaitAck e \<Rightarrow> [Handled e] | _ \<Rightarrow> [])"

inductive client_step :: "Client \<Rightarrow> act list \<Rightarrow> act list \<Rightarrow> Client \<Rightarrow> bool" where
  reads: "pcReader c = Scanning \<Longrightarrow> client_step c (outstanding (read_line newID line c)) [] (read_line newID line c)"
| replies: "put_reply c = Some (e, c') \<Longrightarrow> client_step c [] [Answered e] c'"
| queues: "put_control c = Some c' \<Longrightarrow> client_step c [] [] c'"
| takes: "take_control c = Some c' \<Longrightarrow> client_step c [] [] c'"
| acks: "pcServing c = Some e \<Longrightarrow> client_step c [] [Handled e] (ack_control c)"
| streams: "take_stream c = Some (e, c') \<Longrightarrow> client_step c [] [] c'"
| begins: "ch \<notin> ran (pcPending c) \<Longrightarrow> pcPending c i = None \<Longrightarrow>
    client_step c [] [] (snd (begin_call w ch i c))"
| ends: "client_step c [] [] (snd (end_call timer i c))"
| sends: "client_step c [] [] (snd (client_Send w c))"
| gives_up: "give_up c = Some c' \<Longrightarrow> client_step c [] [] c'"
| finishes: "pcReader c = Scanning \<Longrightarrow> client_step c [] [] (end_of_output c)"

inductive client_run :: "Client \<Rightarrow> act list \<Rightarrow> act list \<Rightarrow> Client \<Rightarrow> bool" where
  start: "client_run c [] [] c"
| step: "client_run c ws os c' \<Longrightarrow> client_step c' w ops c'' \<Longrightarrow> client_run c (ws @ w) (os @ ops) c''"

text \<open>At most one control message is on its way, and then the reader waits for it.\<close>

definition client_inv :: "Client \<Rightarrow> bool" where
  "client_inv c \<longleftrightarrow>
     length (pcStreamEvents c) \<le> ingress_capacity \<and> (\<forall>ch. length (pcReplies c ch) \<le> 1)
     \<and> (case pcReader c of
          AwaitAck e \<Rightarrow> pcEvents c = [e] \<and> pcServing c = None \<or> pcEvents c = [] \<and> pcServing c = Some e
        | ReaderDone \<Rightarrow> pcClosed c \<and> (pcEvents c = [] \<or> length (pcEvents c) = 1 \<and> pcServing c = None)
        | _ \<Rightarrow> pcEvents c = [] \<and> pcServing c = None)"

lemma client_inv_New [simp]: "client_inv NewProcessClient"
  by (simp add: client_inv_def NewProcessClient_def)

lemma send_frame [simp]:
  "pcPending (snd (client_Send w c)) = pcPending c" "pcReplies (snd (client_Send w c)) = pcReplies c"
  "pcEvents (snd (client_Send w c)) = pcEvents c" "pcStreamEvents (snd (client_Send w c)) = pcStreamEvents c"
  "pcServing (snd (client_Send w c)) = pcServing c" "pcReader (snd (client_Send w c)) = pcReader c"
  "pcClosed c \<Longrightarrow> pcClosed (snd (client_Send w c))"
  by (simp_all add: client_Send_def markClosed_def split: write_result.split)

lemma begin_call_snd:
  "snd (begin_call w ch i c) =
     (let c2 = snd (client_Send w (c\<lparr> pcPending := (pcPending c)(i \<mapsto> ch), pcReplies := (pcReplies c)(ch := []) \<rparr>))
      in if is_ok (fst (client_Send w (c\<lparr> pcPending := (pcPending c)(i \<mapsto> ch), pcReplies := (pcReplies c)(ch := []) \<rparr>)))
         then c2 else forget_call i c2)"
  by (simp add: begin_call_def Let_def is_ok_def split: prod.split sum.split)

lemma begin_frame [simp]:
  "pcReplies (snd (begin_call w ch i c)) = (pcReplies c)(ch := [])"
  "pcEvents (snd (begin_call w ch i c)) = pcEvents c" "pcStreamEvents (snd (begin_call w ch i c)) = pcStreamEvents c"
  "pcServing (snd (begin_call w ch i c)) = pcServing c" "pcReader (snd (begin_call w ch i c)) = pcReader c"
  "pcClosed c \<Longrightarrow> pcClosed (snd (begin_call w ch i c))"
  by (simp_all add: begin_call_snd Let_def forget_call_def)

lemma begin_pending:
  "pcPending (snd (begin_call w ch i c)) j = (if j = i then pcPending (snd (begin_call w ch i c)) i else pcPending c j)"
  "pcPending (snd (begin_call w ch i c)) i = Some k \<Longrightarrow> k = ch"
  by (auto simp: begin_call_snd Let_def forget_call_def split: if_splits)

lemma end_frame [simp]:
  "snd (end_call timer i c) = forget_call i c"
  "pcReplies (forget_call i c) = pcReplies c" "pcEvents (forget_call i c) = pcEvents c"
  "pcStreamEvents (forget_call i c) = pcStreamEvents c" "pcServing (forget_call i c) = pcServing c"
  "pcReader (forget_call i c) = pcReader c" "pcClosed (forget_call i c) = pcClosed c"
  "pcPending (forget_call i c) = (pcPending c)(i := None)"
  by (simp_all add: end_call_def forget_call_def)

lemmas reader_defs =
  read_line_def put_reply_def put_control_def take_control_def ack_control_def take_stream_def give_up_def
  end_of_output_def markClosed_def

lemma client_inv_step: "client_step c w ops c' \<Longrightarrow> client_inv c \<Longrightarrow> client_inv c'"
proof (induction rule: client_step.induct)
  case (reads c newID line)
  then show ?case
    by (auto simp: client_inv_def reader_defs Let_def split: option.split)
qed (auto simp: client_inv_def reader_defs ingress_capacity_def split: reader.splits option.splits list.splits if_splits)

lemma client_run_inv: "client_run c ws os c' \<Longrightarrow> client_inv c \<Longrightarrow> client_inv c'"
  by (induction rule: client_run.induct) (auto intro: client_inv_step)

lemma closed_step: "client_step c w ops c' \<Longrightarrow> pcClosed c \<Longrightarrow> pcClosed c'"
  by (induction rule: client_step.induct)
    (auto simp: reader_defs split: reader.splits option.splits list.splits if_splits)

text \<open>Each step moves an act from what is asked, over what is outstanding, to what is done.\<close>

lemma step_accounts:
  "client_step c w ops c' \<Longrightarrow> client_inv c \<Longrightarrow> \<not> pcClosed c' \<Longrightarrow> outstanding c @ w = ops @ outstanding c'"
proof (induction rule: client_step.induct)
  case (acks c e)
  then show ?case
    by (cases "pcReader c") (auto simp: client_inv_def outstanding_def ack_control_def)
qed (auto simp: outstanding_def put_reply_def put_control_def take_control_def take_stream_def give_up_def
       end_of_output_def markClosed_def split: reader.splits option.splits list.splits if_splits
       dest: closed_step)


section \<open>A request in the way\<close>

text \<open>While the router is at a message, nothing behind it is read and no call gets a reply.\<close>

definition stuck :: "Client \<Rightarrow> envelope \<Rightarrow> bool" where
  "stuck c e \<longleftrightarrow> pcServing c = Some e \<and> (pcReader c = AwaitAck e \<or> pcReader c = ReaderDone)"

lemma stuck_serving: "client_inv c \<Longrightarrow> pcServing c = Some e \<Longrightarrow> stuck c e"
  by (auto simp: client_inv_def stuck_def split: reader.splits)

lemma stuck_step:
  assumes "client_step c w ops c'" and "stuck c e" and "Handled e \<notin> set ops"
  shows "stuck c' e \<and> w = [] \<and> ops = []"
    and "pcPending c' i = Some ch \<Longrightarrow> pcPending c i = Some ch \<or> pcReplies c' ch = []"
    and "pcReplies c' ch = pcReplies c ch \<or> pcReplies c' ch = []"
  using assms
proof (induction rule: client_step.induct)
  case (begins ch' c j w)
  { case 1 with begins show ?case by (simp add: stuck_def) next
    case 2 with begins show ?case by (cases "i = j") (auto dest: begin_pending(2) simp: begin_pending(1) [of w ch' j c i]) next
    case 3 with begins show ?case by simp }
qed (auto simp: stuck_def reader_defs split: reader.splits option.splits list.splits if_splits)

lemma stuck_run:
  assumes "client_run c ws os c'" and "stuck c e" and "Handled e \<notin> set os"
  shows "stuck c' e" and "\<And>i ch. pcPending c i = None \<Longrightarrow> pcPending c' i = Some ch \<Longrightarrow> pcReplies c' ch = []"
  using assms
proof (induction rule: client_run.induct)
  case (step c ws os c' w ops c'')
  { case 1
    with step have "stuck c' e" by simp
    with step 1 stuck_step(1) [of c' w ops c'' e] show ?case by auto
  next
    case (2 i ch)
    have s: "stuck c' e" using step 2 by simp
    consider "pcPending c' i = Some ch" | "pcReplies c'' ch = []"
      using stuck_step(2) [OF step.hyps(2) s, of i ch] 2 by auto
    then show ?case
    proof cases
      case 1
      with step.IH(2) [of i ch] 2 have "pcReplies c' ch = []" by simp
      with stuck_step(3) [OF step.hyps(2) s, of ch] 2 show ?thesis by auto
    qed
  }
qed simp_all

lemma stuck_ping:
  assumes "client_run c ws os c'" and "stuck c e" and "Handled e \<notin> set os" and "pcPending c i = None"
  shows "\<not> ping_answered timer i c'"
  using stuck_run(2) [OF assms]
  by (cases "pcPending c' i") (auto simp: ping_answered_def end_call_def)

text \<open>Every provider of the runtime has missed at least so many heartbeats, and knows it.\<close>

definition beats_missed :: "int \<Rightarrow> string \<Rightarrow> Registry \<Rightarrow> bool" where
  "beats_missed n rid r \<longleftrightarrow>
     list_all (\<lambda>p. n \<le> pHeartbeatFailures p \<and> (3 \<le> n \<longrightarrow> \<not> pHealthy p)) (runtime_providers r rid)"

lemma beats_missed_failure:
  assumes "beats_missed n rid r"
  shows "beats_missed (n + 1) rid (RecordHeartbeatFailure r rid)"
proof -
  have "runtime_providers (RecordHeartbeatFailure r rid) rid = map heartbeat_failed (runtime_providers r rid)"
    by (simp add: RecordHeartbeatFailure_def update_and_clear_def Let_def runtime_providers_on_runtime [OF provider_updates_identity(5)])
  with assms show ?thesis
    by (auto simp: beats_missed_def list_all_iff heartbeat_failed_def recomputeHealth_def)
qed

lemma beats_missed_reconcile:
  "beats_missed n rid (svReg sv) \<Longrightarrow> beats_missed n rid (svReg (reconcileDependencies ords sv))"
proof (rule reconcile_preserves [where P = "\<lambda>s. beats_missed n rid (svReg s)"])
  fix run b and sv :: Supervisor
  assume m: "beats_missed n rid (svReg sv)"
  have "beats_missed n rid (snd (MarkDependencyHealth (svReg sv) rid' d))" for rid' d
    using m unfolding beats_missed_def runtime_providers_marks runtime_providers_on_runtime [OF provider_updates_identity(2)]
    by (auto simp: list_all_iff mark_dependencies_def recomputeHealth_def)
  with m show "beats_missed n rid (svReg (snd (reconcile_run run (b, sv))))"
    by (simp add: reconcile_run_reg)
qed

lemma missed_tick:
  assumes "beats_missed n (suID run) (svReg sv)" and "map_of (svRuns sv) (suID run) \<noteq> None"
    and "\<not> memory_exceeded rss (suManifest run)" and "n \<ge> 0"
  shows "beats_missed (n + 1) (suID run) (svReg (snd (heartbeat_tick ords rss False run sv)))"
    and "svRuns (snd (heartbeat_tick ords rss False run sv)) = svRuns sv"
  using assms by (auto simp: heartbeat_tick_def intro!: beats_missed_reconcile beats_missed_failure)

text \<open>
  C40: a plugin that calls another one is taken for dead when the call lasts. The reader waits until the
  router has answered the call, so no pong is read meanwhile: three pings sent in that time, however
  promptly the plugin answers them, leave every provider of its runtime unhealthy.
\<close>

theorem child_call_starves_heartbeat:
  assumes "client_run NewProcessClient ws0 os0 c0" and "pcServing c0 = Some req"
    and "client_run c0 ws1 os1 c1" and "client_run c1 ws2 os2 c2" and "client_run c2 ws3 os3 c3"
    and "Handled req \<notin> set (os1 @ os2 @ os3)"
    and "pcPending c0 i1 = None" and "pcPending c1 i2 = None" and "pcPending c2 i3 = None"
    and "map_of (svRuns sv) (suID run) \<noteq> None" and "\<forall>p \<in> set (runtime_providers (svReg sv) (suID run)). 0 \<le> pHeartbeatFailures p"
    and "\<not> memory_exceeded rss (suManifest run)"
    and "sv1 = snd (heartbeat_tick ords rss (ping_answered t1 i1 c1) run sv)"
    and "sv2 = snd (heartbeat_tick ords rss (ping_answered t2 i2 c2) run sv1)"
    and "sv3 = snd (heartbeat_tick ords rss (ping_answered t3 i3 c3) run sv2)"
  shows "\<forall>p \<in> set (runtime_providers (svReg sv3) (suID run)). \<not> pHealthy p"
proof -
  have s0: "stuck c0 req" using client_run_inv [OF assms(1)] assms(2) by (simp add: stuck_serving)
  have s1: "stuck c1 req" using stuck_run(1) [OF assms(3) s0] assms(6) by simp
  have s2: "stuck c2 req" using stuck_run(1) [OF assms(4) s1] assms(6) by simp
  have pings: "\<not> ping_answered t1 i1 c1" "\<not> ping_answered t2 i2 c2" "\<not> ping_answered t3 i3 c3"
    using stuck_ping [OF assms(3) s0] stuck_ping [OF assms(4) s1] stuck_ping [OF assms(5) s2] assms(6-9) by auto
  have "beats_missed 0 (suID run) (svReg sv)" using assms(11) by (simp add: beats_missed_def list_all_iff)
  then have "beats_missed 1 (suID run) (svReg sv1)" "svRuns sv1 = svRuns sv"
    using missed_tick [of 0 run sv rss ords] assms(10,12,13) pings by simp_all
  then have "beats_missed 2 (suID run) (svReg sv2)" "svRuns sv2 = svRuns sv"
    using missed_tick [of 1 run sv1 rss ords] assms(10,12,14) pings by simp_all
  then have "beats_missed 3 (suID run) (svReg sv3)"
    using missed_tick [of 2 run sv2 rss ords] assms(10,12,15) pings by simp
  then show ?thesis by (simp add: beats_missed_def list_all_iff)
qed

text \<open>The plugin's request is being served while three pings go out.\<close>

definition sample_child_call :: envelope where
  "sample_child_call = nil_envelope\<lparr> eProtocol := 1, eMessageID := ''q'', eKind := KindCommand, eCapability := ''tool.run'', eMajor := 1 \<rparr>"

definition sample_serving :: Client where
  "sample_serving = NewProcessClient\<lparr> pcServing := Some sample_child_call, pcReader := AwaitAck sample_child_call \<rparr>"

lemma sample_serving_run: "client_run NewProcessClient [Handled sample_child_call] [] sample_serving"
proof -
  have "client_step NewProcessClient [Handled sample_child_call] [] (NewProcessClient\<lparr> pcReader := PutControl sample_child_call \<rparr>)"
    using reads [of NewProcessClient "[]" "Some sample_child_call"]
    by (simp add: NewProcessClient_def read_line_def is_reply_def is_stream_def sample_child_call_def outstanding_def zero_envelope_def)
  from step [OF start this]
  have "client_run NewProcessClient [Handled sample_child_call] [] (NewProcessClient\<lparr> pcReader := PutControl sample_child_call \<rparr>)"
    by simp
  from step [OF step [OF this queues] takes] show ?thesis
    by (simp add: NewProcessClient_def put_control_def take_control_def ingress_capacity_def sample_serving_def)
qed

lemma sample_ping:
  "pcPending c i = None \<Longrightarrow> pcReplies c = (\<lambda>_. []) \<Longrightarrow> ch \<notin> ran (pcPending c) \<Longrightarrow>
     client_run c [] [] (snd (begin_call WroteLine ch i c))"
  using step [OF start begins] by simp

definition sample_beat :: "Client \<Rightarrow> string \<Rightarrow> Supervisor \<Rightarrow> Supervisor" where
  "sample_beat c i sv = snd (heartbeat_tick (\<lambda>_ xs. xs) None (ping_answered False i c) sample_run sv)"

theorem child_call_starves_heartbeat_witness:
  "runtime_providers (svReg sample_supervisor) ''rt-1'' \<noteq> []
   \<and> list_all (\<lambda>p. \<not> pHealthy p) (runtime_providers (svReg
      (let c1 = snd (begin_call WroteLine 1 ''p1'' sample_serving);
           c2 = snd (begin_call WroteLine 2 ''p2'' c1);
           c3 = snd (begin_call WroteLine 3 ''p3'' c2)
       in sample_beat c3 ''p3'' (sample_beat c2 ''p2'' (sample_beat c1 ''p1'' sample_supervisor)))) ''rt-1'')"
proof -
  have c: "sample_serving = \<lparr> pcPending = (\<lambda>_. None), pcReplies = (\<lambda>_. []), pcEvents = [], pcStreamEvents = [],
      pcServing = Some sample_child_call, pcReader = AwaitAck sample_child_call, pcClosed = False \<rparr>"
    by (simp add: sample_serving_def NewProcessClient_def)
  have b: "snd (begin_call WroteLine ch i c) = c\<lparr> pcPending := (pcPending c)(i \<mapsto> ch), pcReplies := (pcReplies c)(ch := []) \<rparr>"
    if "\<not> pcClosed c" for ch i c using that by (simp add: begin_call_def client_Send_def Let_def)
  let ?c1 = "snd (begin_call WroteLine 1 ''p1'' sample_serving)"
  let ?c2 = "snd (begin_call WroteLine 2 ''p2'' ?c1)"
  let ?c3 = "snd (begin_call WroteLine 3 ''p3'' ?c2)"
  have r: "client_run sample_serving [] [] ?c1" "client_run ?c1 [] [] ?c2" "client_run ?c2 [] [] ?c3"
    by (rule sample_ping; simp add: b c fun_eq_iff ran_def)+
  have h: "pcServing sample_serving = Some sample_child_call" "pcPending sample_serving ''p1'' = None"
    "pcPending ?c1 ''p2'' = None" "pcPending ?c2 ''p3'' = None"
    by (simp_all add: b c)
  have sv: "map_of (svRuns sample_supervisor) (suID sample_run) \<noteq> None" "\<not> memory_exceeded None (suManifest sample_run)"
    "\<forall>p \<in> set (runtime_providers (svReg sample_supervisor) (suID sample_run)). 0 \<le> pHeartbeatFailures p"
    by (simp_all add: sample_supervisor_def sample_run_def svReg_def router_New_def runtime_providers_def
        all_providers_def sample_defs memory_exceeded_def)
  have "runtime_providers (svReg sample_supervisor) ''rt-1'' \<noteq> []"
    by (simp add: sample_supervisor_def svReg_def router_New_def runtime_providers_def all_providers_def sample_defs)
  moreover have "suID sample_run = ''rt-1''" by (simp add: sample_run_def)
  ultimately show ?thesis
    using child_call_starves_heartbeat [OF sample_serving_run h(1) r _ h(2-4) sv(1,3,2) refl refl refl,
      of "\<lambda>_ xs. xs" False False False]
    by (simp add: sample_beat_def Let_def list_all_iff)
qed


end
