(* ===== verification/KernelWork.thy ===== *)
theory KernelWork
  imports StoreSamples
begin

text \<open>
  The kernel's own work registry (\<open>kernel/plugins/work-registry/main.go\<close>), which keeps everything in
  one JSON file: each request reads the file again, and a change writes a temporary file and renames it.
  A file is what decoding its bytes fills in, with whether decoding succeeded.
\<close>

record Work =
  kwID :: string
  kwTitle :: string
  kwStatus :: string
  kwVersion :: int

record CreateResponse =
  crWork :: Work
  crIdempotentReplay :: bool

text \<open>The two members of the file, None where the object lacks them.\<close>

record kw_disk =
  kdWorks :: "(string \<rightharpoonup> Work) option"
  kdDedupe :: "(string \<rightharpoonup> CreateResponse) option"

datatype kw_file = KwUnreadable | KwDecoded kw_disk | KwBroken kw_disk

record kw_store =
  kwFile :: kw_file
  kwWorks :: "string \<rightharpoonup> Work"
  kwDedupe :: "string \<rightharpoonup> CreateResponse"

definition or_else :: "'a option \<Rightarrow> 'a \<Rightarrow> 'a" where
  "or_else m d = (case m of None \<Rightarrow> d | Some x \<Rightarrow> x)"

text \<open>A file that does not decode leaves at start what was decoded of it before the error.\<close>

definition kw_load :: "kw_file \<Rightarrow> kw_store" where
  "kw_load f =
     (case f of
        KwUnreadable \<Rightarrow> \<lparr> kwFile = f, kwWorks = Map.empty, kwDedupe = Map.empty \<rparr>
      | KwDecoded d \<Rightarrow> \<lparr> kwFile = f, kwWorks = or_else (kdWorks d) Map.empty, kwDedupe = or_else (kdDedupe d) Map.empty \<rparr>
      | KwBroken d \<Rightarrow> \<lparr> kwFile = f, kwWorks = or_else (kdWorks d) Map.empty, kwDedupe = or_else (kdDedupe d) Map.empty \<rparr>)"

definition kw_refresh :: "kw_store \<Rightarrow> kw_store" where
  "kw_refresh s =
     (case kwFile s of
        KwDecoded d \<Rightarrow> s\<lparr> kwWorks := or_else (kdWorks d) (kwWorks s), kwDedupe := or_else (kdDedupe d) (kwDedupe s) \<rparr>
      | _ \<Rightarrow> s)"

text \<open>
  What the disk does with a save: it is done; it fails before the rename; or the rename is done and
  the directory cannot be opened or synced, which the caller is told as an error.
\<close>

datatype save_outcome = Saved | SaveFailed | DirNotSynced

definition kw_save :: "save_outcome \<Rightarrow> kw_store \<Rightarrow> kw_store" where
  "kw_save w s =
     (if w = SaveFailed then s
      else s\<lparr> kwFile := KwDecoded \<lparr> kdWorks = Some (kwWorks s), kdDedupe = Some (kwDedupe s) \<rparr> \<rparr>)"

section \<open>Handlers\<close>

datatype kw_error = KwNotFound | KwConflict | KwSaveError

record CreateRequest =
  cqID :: string
  cqTitle :: string

definition create_work :: "save_outcome \<Rightarrow> string \<Rightarrow> CreateRequest \<Rightarrow> kw_store \<Rightarrow> (kw_error, CreateResponse) result \<times> kw_store" where
  "create_work w k q s0 =
     (let s = kw_refresh s0
      in case (if k \<noteq> [] then kwDedupe s k else None) of
           Some old \<Rightarrow> (Ok (old\<lparr> crIdempotentReplay := True \<rparr>), s)
         | None \<Rightarrow>
             (case kwWorks s (cqID q) of
                Some x \<Rightarrow> (Ok \<lparr> crWork = x, crIdempotentReplay = True \<rparr>, s)
              | None \<Rightarrow>
                  let out = \<lparr> crWork = \<lparr> kwID = cqID q, kwTitle = cqTitle q, kwStatus = ''PLANNED'', kwVersion = 1 \<rparr>,
                              crIdempotentReplay = False \<rparr>;
                      s1 = s\<lparr> kwWorks := (kwWorks s)(cqID q \<mapsto> crWork out),
                              kwDedupe := (if k \<noteq> [] then (kwDedupe s)(k \<mapsto> out) else kwDedupe s) \<rparr>;
                      s2 = kw_save w s1
                  in if w = Saved then (Ok out, s2)
                     else (Err KwSaveError,
                           s2\<lparr> kwWorks := (kwWorks s2)(cqID q := None),
                               kwDedupe := (if k \<noteq> [] then (kwDedupe s2)(k := None) else kwDedupe s2) \<rparr>)))"

definition kw_error_text :: "(kw_error write_error \<Rightarrow> string) \<Rightarrow> kw_error write_error \<Rightarrow> string" where
  "kw_error_text render e =
     (case e of
        FnErr KwNotFound \<Rightarrow> ''NOT_FOUND: work not found''
      | FnErr KwConflict \<Rightarrow> ''CONFLICT: version mismatch''
      | _ \<Rightarrow> render e)"

definition kw_createHandler ::
  "(kw_error write_error \<Rightarrow> string) \<Rightarrow> store_env \<Rightarrow> save_outcome \<Rightarrow> CreateRequest option Envelope \<Rightarrow> kw_store
   \<Rightarrow> CreateResponse reply \<times> kw_store" where
  "kw_createHandler render env w e s =
     (case ePayload e of
        None \<Rightarrow> (Err (proto_error ''INVALID'' ''id required''), s)
      | Some q \<Rightarrow>
          if cqID q = [] then (Err (proto_error ''INVALID'' ''id required''), s)
          else (case fenced env e (create_work w (eIdempotencyKey e) q) s of
                  (Inl er, s') \<Rightarrow> (Err \<lparr> errCode = ''FENCING_OR_IO'', errMessage = kw_error_text render er,
                                         errRetryable = True, errDetails = [] \<rparr>, s')
                | (Inr out, s') \<Rightarrow> (Ok out, s')))"

definition kw_getHandler :: "string \<Rightarrow> kw_store \<Rightarrow> Work reply \<times> kw_store" where
  "kw_getHandler i s0 =
     (let s = kw_refresh s0
      in case kwWorks s i of
           None \<Rightarrow> (Err (proto_error ''NOT_FOUND'' ''work not found''), s)
         | Some x \<Rightarrow> (Ok x, s))"

record TransitionRequest =
  tqID :: string
  tqTo :: string
  tqExpectedVersion :: int

definition transition_work :: "save_outcome \<Rightarrow> TransitionRequest \<Rightarrow> kw_store \<Rightarrow> (kw_error, Work) result \<times> kw_store" where
  "transition_work w q s0 =
     (let s = kw_refresh s0
      in case kwWorks s (tqID q) of
           None \<Rightarrow> (Err KwNotFound, s)
         | Some x \<Rightarrow>
             if tqExpectedVersion q > 0 \<and> kwVersion x \<noteq> tqExpectedVersion q then (Err KwConflict, s)
             else
               let y = x\<lparr> kwStatus := tqTo q, kwVersion := kwVersion x + 1 \<rparr>;
                   s1 = kw_save w (s\<lparr> kwWorks := (kwWorks s)(tqID q \<mapsto> y) \<rparr>)
               in if w = Saved then (Ok y, s1)
                  else (Err KwSaveError, s1\<lparr> kwWorks := (kwWorks s1)(tqID q \<mapsto> x) \<rparr>))"

definition kw_transition_error :: "string \<Rightarrow> Error" where
  "kw_transition_error msg =
     (let code = (if hasPrefix msg ''CONFLICT:'' then ''CONFLICT''
                  else if hasPrefix msg ''NOT_FOUND:'' then ''NOT_FOUND'' else ''FENCING_OR_IO'')
      in \<lparr> errCode = code, errMessage = msg, errRetryable = (code = ''FENCING_OR_IO''), errDetails = [] \<rparr>)"

definition kw_transitionHandler ::
  "(kw_error write_error \<Rightarrow> string) \<Rightarrow> store_env \<Rightarrow> save_outcome \<Rightarrow> TransitionRequest Envelope \<Rightarrow> kw_store
   \<Rightarrow> Work reply \<times> kw_store" where
  "kw_transitionHandler render env w e s =
     (case fenced env e (transition_work w (ePayload e)) s of
        (Inl er, s') \<Rightarrow> (Err (kw_transition_error (kw_error_text render er)), s')
      | (Inr y, s') \<Rightarrow> (Ok y, s'))"

section \<open>The file is the state\<close>

text \<open>
  What a request works on: the file's contents, memory filling in for a file that cannot be used. A
  complete file leaves nothing to memory, so instances that share one act alike.
\<close>

definition kw_contents :: "kw_store \<Rightarrow> (string \<rightharpoonup> Work) \<times> (string \<rightharpoonup> CreateResponse)" where
  "kw_contents s = (kwWorks (kw_refresh s), kwDedupe (kw_refresh s))"

definition complete :: "(string \<rightharpoonup> Work) \<Rightarrow> (string \<rightharpoonup> CreateResponse) \<Rightarrow> kw_file" where
  "complete ws dd = KwDecoded \<lparr> kdWorks = Some ws, kdDedupe = Some dd \<rparr>"

lemma or_else_simps [simp]: "or_else None d = d" "or_else (Some x) d = x"
  by (simp_all add: or_else_def)

lemma refresh_file [simp]: "kwFile (kw_refresh s) = kwFile s"
  by (simp add: kw_refresh_def split: kw_file.split)

lemma refresh_complete:
  "kwFile s = complete ws dd \<Longrightarrow> kw_refresh s = \<lparr> kwFile = complete ws dd, kwWorks = ws, kwDedupe = dd \<rparr>"
  by (simp add: kw_refresh_def complete_def)

lemma save_file [simp]:
  "kwFile (kw_save w s) = (if w = SaveFailed then kwFile s else complete (kwWorks s) (kwDedupe s))"
  "kwWorks (kw_save w s) = kwWorks s" "kwDedupe (kw_save w s) = kwDedupe s"
  by (simp_all add: kw_save_def complete_def)

text \<open>A failed change leaves what the next request works on as it was, unless it reached the disk.\<close>

lemma create_work_contents:
  "kw_contents (snd (create_work w k q s)) =
     (case kw_contents s of (ws, dd) \<Rightarrow>
        if k \<noteq> [] \<and> dd k \<noteq> None \<or> ws (cqID q) \<noteq> None \<or> w = SaveFailed then (ws, dd)
        else let out = \<lparr> crWork = \<lparr> kwID = cqID q, kwTitle = cqTitle q, kwStatus = ''PLANNED'', kwVersion = 1 \<rparr>,
                         crIdempotentReplay = False \<rparr>
             in (ws(cqID q \<mapsto> crWork out), if k \<noteq> [] then dd(k \<mapsto> out) else dd))"
proof -
  have f: "m x = None \<Longrightarrow> m(x := None) = m" for m :: "string \<Rightarrow> 'a option" and x by (rule ext) simp
  show ?thesis
    by (cases "kwFile s"; cases w)
       (auto simp: kw_contents_def create_work_def kw_refresh_def kw_save_def or_else_def Let_def f
             split: option.splits)
qed

definition new_work :: "CreateRequest \<Rightarrow> Work" where
  "new_work q = \<lparr> kwID = cqID q, kwTitle = cqTitle q, kwStatus = ''PLANNED'', kwVersion = 1 \<rparr>"

lemma create_fresh:
  assumes "kwFile s = complete ws dd" and "ws (cqID q) = None" and "k \<noteq> []" and "dd k = None"
  shows "fst (create_work w k q s) = (if w = Saved then Ok \<lparr> crWork = new_work q, crIdempotentReplay = False \<rparr> else Err KwSaveError)"
    and "kwFile (snd (create_work w k q s)) = (if w = SaveFailed then complete ws dd
       else complete (ws(cqID q \<mapsto> new_work q)) (dd(k \<mapsto> \<lparr> crWork = new_work q, crIdempotentReplay = False \<rparr>)))"
  using assms by (simp_all add: create_work_def refresh_complete new_work_def Let_def)

lemma create_known:
  assumes "kwFile s = complete ws dd" and "k \<noteq> []" and "dd k = Some old"
  shows "fst (create_work w k q s) = Ok (old\<lparr> crIdempotentReplay := True \<rparr>)"
    and "kwFile (snd (create_work w k q s)) = complete ws dd"
  using assms by (simp_all add: create_work_def refresh_complete)

lemma createHandler_fenced:
  assumes "ePayload e = Some q" and "cqID q \<noteq> []" and "good_fence env e"
  shows "is_ok (fst (kw_createHandler render env w e s)) = is_ok (fst (create_work w (eIdempotencyKey e) q s))"
    and "fst (create_work w (eIdempotencyKey e) q s) = Inr out \<Longrightarrow> fst (kw_createHandler render env w e s) = Inr out"
    and "snd (kw_createHandler render env w e s) = snd (create_work w (eIdempotencyKey e) q s)"
  using assms
  by (auto simp: kw_createHandler_def fenced_def WithWriteFence_def good_fence_def is_ok_def split: sum.splits prod.splits)

text \<open>
  A create that is retried happens once, whatever became of the first attempt: if the disk failed
  before the rename, after it, or not at all, the same request sent again, to any instance that shares
  the file, answers with the one new work, says whether the first attempt had created it, and leaves
  the file with exactly that work and its key added.
\<close>

theorem kernel_create_exactly_once:
  assumes "kwFile s = complete ws dd" and "ePayload e = Some q" and "cqID q \<noteq> []" and "eIdempotencyKey e \<noteq> []"
    and "ws (cqID q) = None" and "dd (eIdempotencyKey e) = None"
    and "good_fence env e" and "good_fence env2 e"
    and "kw_createHandler render env w e s = (r1, s1)" and "kwFile t = kwFile s1"
    and "kw_createHandler render env2 Saved e t = (r2, t1)"
  shows "is_ok r1 = (w = Saved) \<and> r2 = Ok \<lparr> crWork = new_work q, crIdempotentReplay = (w \<noteq> SaveFailed) \<rparr>
    \<and> kwFile t1 = complete (ws(cqID q \<mapsto> new_work q))
         (dd(eIdempotencyKey e \<mapsto> \<lparr> crWork = new_work q, crIdempotentReplay = False \<rparr>))"
proof -
  note first = createHandler_fenced [OF assms(2,3,7), where w = w and s = s and render = render, unfolded assms(9)]
    create_fresh [OF assms(1,5,4,6), where w = w]
  note second = createHandler_fenced [OF assms(2,3,8), where w = Saved and s = t and render = render, unfolded assms(11)]
  show ?thesis
  proof (cases "w = SaveFailed")
    case True
    with first assms(10) have "kwFile t = complete ws dd" by simp
    with create_fresh [of t ws dd q "eIdempotencyKey e" Saved] assms(4-6) second True first show ?thesis by simp
  next
    case False
    with first assms(10) have "kwFile t = complete (ws(cqID q \<mapsto> new_work q))
        (dd(eIdempotencyKey e \<mapsto> \<lparr> crWork = new_work q, crIdempotentReplay = False \<rparr>))" by simp
    from create_known [OF this, where k = "eIdempotencyKey e" and w = Saved] assms(4) second False first
    show ?thesis by simp
  qed
qed

definition sample_create :: "CreateRequest option Envelope" where
  "sample_create = (sample_request (Some \<lparr> cqID = ''w1'', cqTitle = ''t'' \<rparr>))\<lparr> eIdempotencyKey := ''k'' \<rparr>"

lemma sample_create_simps [simp]:
  "ePayload sample_create = Some \<lparr> cqID = ''w1'', cqTitle = ''t'' \<rparr>" "eIdempotencyKey sample_create = ''k''"
  "good_fence (sample_store_env w) sample_create"
  using sample_good_fence [of w "Some \<lparr> cqID = ''w1'', cqTitle = ''t'' \<rparr>"]
  by (simp_all add: sample_create_def good_fence_def check_fence_None)

text \<open>The rename is done and its directory not synced; the retry, at a fresh instance, finds the work.\<close>

theorem kernel_create_exactly_once_witness:
  "fst (kw_createHandler (\<lambda>_. []) (sample_store_env Written) Saved sample_create
     (kw_load (kwFile (snd (kw_createHandler (\<lambda>_. []) (sample_store_env Written) DirNotSynced sample_create
        (kw_load (complete Map.empty Map.empty))))))) =
   Ok \<lparr> crWork = \<lparr> kwID = ''w1'', kwTitle = ''t'', kwStatus = ''PLANNED'', kwVersion = 1 \<rparr>, crIdempotentReplay = True \<rparr>"
proof -
  have f: "kwFile (kw_load f) = f" for f by (simp add: kw_load_def split: kw_file.split)
  show ?thesis
    using kernel_create_exactly_once [OF _ _ _ _ _ _ _ _ surjective_pairing f surjective_pairing,
        of _ Map.empty Map.empty sample_create "\<lparr> cqID = ''w1'', cqTitle = ''t'' \<rparr>"
           "sample_store_env Written" "sample_store_env Written" "\<lambda>_. []" DirNotSynced]
    by (simp add: f new_work_def)
qed

section \<open>Transitions\<close>

text \<open>
  A transition that names a version is compare-and-swap on the file, whichever instance serves it: once
  one has been renamed into place, another decided on the same version is refused and changes nothing.
  That holds also where the first was reported as failed because the directory was not synced, so
  that its retry is refused as a conflict with itself.
\<close>

theorem kernel_transition_once:
  assumes "kwFile s = complete ws dd" and "ws (tqID q) = Some x" and "tqExpectedVersion q = kwVersion x" and "kwVersion x > 0"
    and "tqID q2 = tqID q" and "tqExpectedVersion q2 = tqExpectedVersion q"
    and "transition_work w q s = (r1, s1)" and "w \<noteq> SaveFailed" and "kwFile t = kwFile s1"
  shows "is_ok r1 = (w = Saved) \<and> kwFile s1 = complete (ws(tqID q \<mapsto> x\<lparr> kwStatus := tqTo q, kwVersion := kwVersion x + 1 \<rparr>)) dd
    \<and> fst (transition_work w2 q2 t) = Err KwConflict \<and> kwFile (snd (transition_work w2 q2 t)) = kwFile t"
proof -
  have 1: "is_ok r1 = (w = Saved)"
    "kwFile s1 = complete (ws(tqID q \<mapsto> x\<lparr> kwStatus := tqTo q, kwVersion := kwVersion x + 1 \<rparr>)) dd"
    using assms(1-4,7,8) by (auto simp: transition_work_def refresh_complete Let_def split: if_splits)
  then have "kw_refresh t = \<lparr> kwFile = complete (ws(tqID q \<mapsto> x\<lparr> kwStatus := tqTo q, kwVersion := kwVersion x + 1 \<rparr>)) dd,
      kwWorks = ws(tqID q \<mapsto> x\<lparr> kwStatus := tqTo q, kwVersion := kwVersion x + 1 \<rparr>), kwDedupe = dd \<rparr>"
    using assms(9) refresh_complete by metis
  with 1 assms(3-6,9) show ?thesis by (simp add: transition_work_def)
qed

end
