(* ===== verification/Json.thy ===== *)
theory Json
  imports Prelude
begin

text \<open>
  JSON values and the part of \<open>json.Unmarshal\<close> the plugins' typed structs use: a member that is absent or
  null leaves the zero value, one of another type is an error (None), members that are not asked for are ignored. The values
  are those other Go programs marshalled, so keys are spelt as the struct tags spell them and occur once;
  a number that is not an integer is \<open>JFraction\<close>.
\<close>

datatype json =
    JNull
  | JBool bool
  | JInt int
  | JFraction
  | JText string
  | JArray "json list"
  | JObject "(string \<times> json) list"

text \<open>The members of a value decoded into a struct.\<close>

definition as_struct :: "json \<Rightarrow> (string \<times> json) list option" where
  "as_struct j = (case j of JNull \<Rightarrow> Some [] | JObject kvs \<Rightarrow> Some kvs | _ \<Rightarrow> None)"

definition member :: "string \<Rightarrow> (string \<times> json) list \<Rightarrow> json" where
  "member k kvs = (case map_of kvs k of None \<Rightarrow> JNull | Some v \<Rightarrow> v)"

definition as_text :: "json \<Rightarrow> string option" where
  "as_text j = (case j of JNull \<Rightarrow> Some [] | JText s \<Rightarrow> Some s | _ \<Rightarrow> None)"

definition as_int :: "json \<Rightarrow> int option" where
  "as_int j = (case j of JNull \<Rightarrow> Some 0 | JInt n \<Rightarrow> (if min_int \<le> n \<and> n \<le> max_int then Some n else None) | _ \<Rightarrow> None)"

definition as_bool :: "json \<Rightarrow> bool option" where
  "as_bool j = (case j of JNull \<Rightarrow> Some False | JBool b \<Rightarrow> Some b | _ \<Rightarrow> None)"

definition as_list :: "json \<Rightarrow> json list option" where
  "as_list j = (case j of JNull \<Rightarrow> Some [] | JArray js \<Rightarrow> Some js | _ \<Rightarrow> None)"

text \<open>A pointer to an int: None stands for nil.\<close>

definition as_int_ptr :: "json \<Rightarrow> int option option" where
  "as_int_ptr j =
     (case j of
        JNull \<Rightarrow> Some None
      | JInt n \<Rightarrow> (if min_int \<le> n \<and> n \<le> max_int then Some (Some n) else None)
      | _ \<Rightarrow> None)"

text \<open>Decoding goes on after a member of the wrong type, but the error is what the callers look at.\<close>

definition both :: "'a option \<Rightarrow> 'b option \<Rightarrow> ('a \<times> 'b) option" where
  "both x y = (case (x, y) of (Some a, Some b) \<Rightarrow> Some (a, b) | _ \<Rightarrow> None)"

fun all_of :: "('a \<Rightarrow> 'b option) \<Rightarrow> 'a list \<Rightarrow> 'b list option" where
  "all_of f [] = Some []"
| "all_of f (x # xs) = (case (f x, all_of f xs) of (Some y, Some ys) \<Rightarrow> Some (y # ys) | _ \<Rightarrow> None)"

lemma json_simps [simp]:
  "as_struct (JObject kvs) = Some kvs" "as_text (JText s) = Some s" "as_bool (JBool b) = Some b"
  "as_list (JArray js) = Some js" "both (Some x) (Some y) = Some (x, y)"
  "min_int \<le> n \<Longrightarrow> n \<le> max_int \<Longrightarrow> as_int (JInt n) = Some n"
  "min_int \<le> n \<Longrightarrow> n \<le> max_int \<Longrightarrow> as_int_ptr (JInt n) = Some (Some n)"
  by (simp_all add: as_struct_def as_text_def as_bool_def as_list_def both_def as_int_def as_int_ptr_def)

lemma member_simps [simp]:
  "member k ((k', v) # kvs) = (if k' = k then v else member k kvs)" "member k [] = JNull"
  by (simp_all add: member_def)

lemma all_of_map: "(\<And>x. x \<in> set xs \<Longrightarrow> f (g x) = Some (h x)) \<Longrightarrow> all_of f (map g xs) = Some (map h xs)"
  by (induction xs) simp_all

end
