(* ===== verification/WorkflowCaps.thy ===== *)
theory WorkflowCaps
  imports WorkflowProps Json Journal
begin

text \<open>
  The capabilities of a workflow run as calls over the host
  (\<open>realCaps\<close> and \<open>replayVia\<close> of \<open>plugins/engineering-workflow/handlers.go\<close>): the request each makes,
  with its payload and timeout in nanoseconds, what it takes from the answer, and the repository and
  context version remembered between calls. The rest of the system is a \<open>wf_host\<close>, which answers each
  request from those made so far; an answer is an error's text or a payload, None if that is not JSON.
\<close>

record wf_request =
  wqKind :: kind
  wqCapability :: string
  wqPayload :: json
  wqTimeout :: int

record wf_host =
  whAnswer :: "wf_request list \<Rightarrow> wf_request \<Rightarrow> (string, json option) result"
  whDecodeError :: "json option \<Rightarrow> string"

record rc_state =
  rcAsked :: "wf_request list"
  rcRepo :: string
  rcVersion :: int

definition rc_start :: rc_state where
  "rc_start = \<lparr> rcAsked = [], rcRepo = [], rcVersion = 0 \<rparr>"

definition seconds :: "int \<Rightarrow> int" where "seconds n = n * 10 ^ 9"
definition minutes :: "int \<Rightarrow> int" where "minutes n = seconds (60 * n)"

definition ask ::
  "wf_host \<Rightarrow> kind \<Rightarrow> string \<Rightarrow> (string \<times> json) list \<Rightarrow> int \<Rightarrow> rc_state \<Rightarrow> (string, json option) result \<times> rc_state" where
  "ask H kd cap payload timeout st =
     (let r = \<lparr> wqKind = kd, wqCapability = cap, wqPayload = JObject payload, wqTimeout = timeout \<rparr>
      in (whAnswer H (rcAsked st) r, st\<lparr> rcAsked := rcAsked st @ [r] \<rparr>))"

definition wf_decode :: "wf_host \<Rightarrow> (json \<Rightarrow> 'a option) \<Rightarrow> (string, json option) result \<Rightarrow> (string, 'a) result" where
  "wf_decode H f a =
     (case a of
        Inl e \<Rightarrow> Err e
      | Inr p \<Rightarrow> (case Option.bind p f of None \<Rightarrow> Err (whDecodeError H p) | Some x \<Rightarrow> Ok x))"

section \<open>Answers\<close>

definition get_task :: "json \<Rightarrow> (string \<times> int \<times> string) option" where
  "get_task j =
     (case as_struct j of
        None \<Rightarrow> None
      | Some t \<Rightarrow> both (as_text (member ''id'' t)) (both (as_int (member ''version'' t)) (as_text (member ''work_context_id'' t))))"

definition get_context :: "json \<Rightarrow> (string \<times> string \<times> int) option" where
  "get_context j =
     (case as_struct j of
        None \<Rightarrow> None
      | Some c \<Rightarrow> both (as_text (member ''id'' c)) (both (as_text (member ''repo'' c)) (as_int (member ''version'' c))))"

definition work_answer :: "json \<Rightarrow> ((string \<times> int \<times> string) \<times> (string \<times> string \<times> int)) option" where
  "work_answer j =
     (case as_struct j of
        None \<Rightarrow> None
      | Some m \<Rightarrow> both (get_task (member ''task'' m)) (get_context (member ''work_context'' m)))"

text \<open>One member of one member of the answer, as most capabilities look at.\<close>

definition inner :: "string \<Rightarrow> (json \<Rightarrow> 'a option) \<Rightarrow> string \<Rightarrow> json \<Rightarrow> 'a option" where
  "inner outer f k j =
     (case as_struct j of
        None \<Rightarrow> None
      | Some m \<Rightarrow> (case as_struct (member outer m) of None \<Rightarrow> None | Some x \<Rightarrow> f (member k x)))"

definition inner2 :: "string \<Rightarrow> string \<Rightarrow> string \<Rightarrow> json \<Rightarrow> (string \<times> string) option" where
  "inner2 outer k1 k2 j = both (inner outer as_text k1 j) (inner outer as_text k2 j)"

definition diff_files :: "json \<Rightarrow> int option" where
  "diff_files j =
     (case as_struct j of
        None \<Rightarrow> None
      | Some s \<Rightarrow> map_option (\<lambda>fs. int (length fs)) (as_list (member ''files'' s)))"

definition diff_answer :: "json \<Rightarrow> (string \<times> int) option" where
  "diff_answer j = both (inner ''artifact'' as_text ''id'' j) (inner ''artifact'' diff_files ''summary'' j)"

definition acceptance_of :: "json \<Rightarrow> bool option" where
  "acceptance_of j = (case as_struct j of None \<Rightarrow> None | Some a \<Rightarrow> as_bool (member ''satisfied'' a))"

definition review_answer :: "json \<Rightarrow> ReviewState option" where
  "review_answer j =
     (case both (inner2 ''review'' ''status'' ''diff_artifact_id'' j)
             (inner ''review'' (\<lambda>v. Option.bind (as_list v) (all_of acceptance_of)) ''acceptance_results'' j) of
        None \<Rightarrow> None
      | Some ((status, diff), results) \<Rightarrow>
          Some \<lparr> rsStatus = status, rsDiffArtifactID = diff, rsAcceptanceResults = results \<rparr>)"

section \<open>The calls\<close>

definition rc_WorkGet :: "wf_host \<Rightarrow> string \<Rightarrow> rc_state \<Rightarrow> (string, wf_Task \<times> string \<times> int) result \<times> rc_state" where
  "rc_WorkGet H taskID st =
     (case ask H KindQuery ''work.get'' [(''task_id'', JText taskID)] (seconds 30) st of
        (a, st1) \<Rightarrow>
          (case wf_decode H work_answer a of
             Inl e \<Rightarrow> (Err e, st1)
           | Inr ((tid, tver, twc), (cid, repo, cver)) \<Rightarrow>
               (Ok (\<lparr> wtID = tid, wtVersion = tver, wtWorkContextID = twc \<rparr>, cid, tver),
                st1\<lparr> rcRepo := repo, rcVersion := cver \<rparr>)))"

definition rc_WorkTransition :: "wf_host \<Rightarrow> string \<Rightarrow> string \<Rightarrow> int \<Rightarrow> rc_state \<Rightarrow> (string, int) result \<times> rc_state" where
  "rc_WorkTransition H wc to ver st =
     (case ask H KindCommand ''work.transition''
             [(''work_context_id'', JText wc), (''to'', JText to), (''expected_version'', JInt ver)] (seconds 30) st of
        (a, st1) \<Rightarrow> (wf_decode H (inner ''task'' as_int ''version'') a, st1))"

definition rc_WorkspaceAlloc :: "wf_host \<Rightarrow> string \<Rightarrow> string \<Rightarrow> rc_state \<Rightarrow> (string, string \<times> string) result \<times> rc_state" where
  "rc_WorkspaceAlloc H wc base st =
     (case ask H KindCommand ''workspace.allocate''
             [(''work_context_id'', JText wc), (''repo'', JText (rcRepo st)), (''base_ref'', JText base)] (minutes 2) st of
        (a, st1) \<Rightarrow> (wf_decode H (inner2 ''workspace'' ''id'' ''path'') a, st1))"

definition rc_WorkspaceRelease :: "wf_host \<Rightarrow> string \<Rightarrow> string \<Rightarrow> rc_state \<Rightarrow> (string, unit) result \<times> rc_state" where
  "rc_WorkspaceRelease H i policy st =
     (case ask H KindCommand ''workspace.release'' [(''workspace_id'', JText i), (''policy'', JText policy)] (minutes 2) st of
        (Inl e, st1) \<Rightarrow> (Err e, st1)
      | (Inr _, st1) \<Rightarrow> (Ok (), st1))"

text \<open>
  \<open>agent.run\<close> is accepted, its frames are read until the stream is closed, and the run is looked at up to two
  hundred times; \<open>polls\<close> is how many looks are left. A run that is still going then counts as what it was last.
\<close>

definition agentRunPayload :: "string \<Rightarrow> string \<Rightarrow> string \<Rightarrow> string \<Rightarrow> string \<Rightarrow> string \<Rightarrow> (string \<times> json) list" where
  "agentRunPayload provider wc path prompt writeFile writeContent =
     [(''work_context_id'', JText wc), (''workspace_path'', JText path), (''prompt'', JText prompt),
      (''provider'', JText provider), (''mock_write_file'', JText writeFile), (''mock_write_content'', JText writeContent)]"

fun poll_run :: "wf_host \<Rightarrow> string \<Rightarrow> nat \<Rightarrow> string \<Rightarrow> rc_state \<Rightarrow> (string, string) result \<times> rc_state" where
  "poll_run H i 0 status st = (Ok status, st)"
| "poll_run H i (Suc polls) status st =
     (case ask H KindQuery ''agent.run.get'' [(''agent_run_id'', JText i)] (seconds 30) st of
        (a, st1) \<Rightarrow>
          (case wf_decode H (inner ''agent_run'' as_text ''status'') a of
             Inl e \<Rightarrow> (Err e, st1)
           | Inr s \<Rightarrow> if s \<noteq> [] \<and> s \<noteq> ''RUNNING'' then (Ok s, st1) else poll_run H i polls s st1))"

definition rc_AgentRun ::
  "wf_host \<Rightarrow> string \<Rightarrow> string \<Rightarrow> string \<Rightarrow> string \<Rightarrow> string \<Rightarrow> string \<Rightarrow> rc_state
   \<Rightarrow> (string \<times> (string, string) result) \<times> rc_state" where
  "rc_AgentRun H provider wc path prompt writeFile writeContent st =
     (case ask H KindCommand ''agent.run'' (agentRunPayload provider wc path prompt writeFile writeContent) (minutes 30) st of
        (a, st1) \<Rightarrow>
          (case wf_decode H (inner ''agent_run'' as_text ''id'') a of
             Inl e \<Rightarrow> (([], Err e), st1)
           | Inr i \<Rightarrow> (case poll_run H i 200 [] st1 of (r, st2) \<Rightarrow> ((i, r), st2))))"

definition rc_CollectDiff :: "wf_host \<Rightarrow> string \<Rightarrow> string \<Rightarrow> rc_state \<Rightarrow> (string, string \<times> int) result \<times> rc_state" where
  "rc_CollectDiff H wc path st =
     (case ask H KindCommand ''artifact.collect_diff''
             [(''work_context_id'', JText wc), (''workspace_path'', JText path)] (minutes 2) st of
        (a, st1) \<Rightarrow> (wf_decode H diff_answer a, st1))"

definition rc_ToolRun ::
  "wf_host \<Rightarrow> string \<Rightarrow> string \<Rightarrow> string \<Rightarrow> string list \<Rightarrow> rc_state \<Rightarrow> (string, string \<times> string) result \<times> rc_state" where
  "rc_ToolRun H wc path label argv st =
     (case ask H KindCommand ''tool.run''
             [(''work_context_id'', JText wc), (''workspace_path'', JText path), (''label'', JText label),
              (''command'', JArray (map JText argv))] (minutes 10) st of
        (a, st1) \<Rightarrow> (wf_decode H (inner2 ''tool_run'' ''id'' ''outcome'') a, st1))"

definition rc_AttachEvidence ::
  "wf_host \<Rightarrow> string \<Rightarrow> string \<Rightarrow> string \<Rightarrow> string \<Rightarrow> string \<Rightarrow> rc_state \<Rightarrow> (string, unit) result \<times> rc_state" where
  "rc_AttachEvidence H wc kind srcCap srcID outcome st =
     (case ask H KindCommand ''work.attach_evidence''
             [(''work_context_id'', JText wc), (''kind'', JText kind), (''source_capability'', JText srcCap),
              (''source_id'', JText srcID), (''outcome'', JText outcome), (''expected_version'', JInt (rcVersion st))]
             (seconds 30) st of
        (a, st1) \<Rightarrow>
          (case wf_decode H (inner ''work_context'' as_int ''version'') a of
             Inl e \<Rightarrow> (Err e, st1)
           | Inr v \<Rightarrow> (Ok (), st1\<lparr> rcVersion := v \<rparr>)))"

definition snapshot_item :: "EvItem \<Rightarrow> json" where
  "snapshot_item x =
     JObject [(''kind'', JText (eiKind x)), (''outcome'', JText (eiOutcome x)), (''evidence_ref_id'', JText (eiEvidenceRefID x))]"

definition rc_ReviewRequest ::
  "wf_host \<Rightarrow> string \<Rightarrow> string \<Rightarrow> string \<Rightarrow> EvItem list \<Rightarrow> rc_state \<Rightarrow> (string, string) result \<times> rc_state" where
  "rc_ReviewRequest H wc ar diff snapshot st =
     (case ask H KindCommand ''review.request''
             [(''work_context_id'', JText wc), (''agent_run_id'', JText ar), (''diff_artifact_id'', JText diff),
              (''evidence_snapshot'', JArray (map snapshot_item snapshot))] (seconds 30) st of
        (a, st1) \<Rightarrow> (wf_decode H (inner ''review'' as_text ''id'') a, st1))"

definition rc_ReviewGet :: "wf_host \<Rightarrow> string \<Rightarrow> rc_state \<Rightarrow> (string, ReviewState) result \<times> rc_state" where
  "rc_ReviewGet H i st =
     (case ask H KindQuery ''review.get'' [(''review_id'', JText i)] (seconds 30) st of
        (a, st1) \<Rightarrow> (wf_decode H review_answer a, st1))"

definition rc_SessionSeal :: "wf_host \<Rightarrow> string \<Rightarrow> string \<Rightarrow> string \<Rightarrow> rc_state \<Rightarrow> (string, string) result \<times> rc_state" where
  "rc_SessionSeal H wc ar path st =
     (case ask H KindCommand ''session.seal''
             [(''work_context_id'', JText wc), (''agent_run_id'', JText ar), (''workspace_path'', JText path)] (minutes 2) st of
        (a, st1) \<Rightarrow> (wf_decode H (inner ''session_record'' as_text ''id'') a, st1))"

fun json_of_jval :: "jval \<Rightarrow> json" where
  "json_of_jval (JStr s) = JText s"
| "json_of_jval (JNum n) = JInt n"

definition rc_AppendEvent :: "wf_host \<Rightarrow> string \<Rightarrow> jobject \<Rightarrow> rc_state \<Rightarrow> (string, string) result \<times> rc_state" where
  "rc_AppendEvent H typ payload st =
     (case ask H KindCommand ''event.journal.append''
             [(''type'', JText typ), (''source'', JText ''org.vibe.workflow.engineering''),
              (''payload'', JObject (map (\<lambda>(k, v). (k, json_of_jval v)) payload))] (seconds 30) st of
        (a, st1) \<Rightarrow> (wf_decode H (inner ''record'' as_text ''id'') a, st1))"

section \<open>A run over the host\<close>

text \<open>What the adapter remembers after the calls a run has recorded, and the capabilities it makes.\<close>

fun replay_call :: "wf_host \<Rightarrow> call \<Rightarrow> rc_state \<Rightarrow> rc_state" where
  "replay_call H (CWorkGet t _) st = snd (rc_WorkGet H t st)"
| "replay_call H (CWorkTransition wc to v _) st = snd (rc_WorkTransition H wc to v st)"
| "replay_call H (CWorkspaceAlloc wc b _) st = snd (rc_WorkspaceAlloc H wc b st)"
| "replay_call H (CWorkspaceRelease i p _) st = snd (rc_WorkspaceRelease H i p st)"
| "replay_call H (CAgentRun p wc path prompt f c _) st = snd (rc_AgentRun H p wc path prompt f c st)"
| "replay_call H (CCollectDiff wc path _) st = snd (rc_CollectDiff H wc path st)"
| "replay_call H (CToolRun wc path l argv _) st = snd (rc_ToolRun H wc path l argv st)"
| "replay_call H (CAttachEvidence wc k c i out _) st = snd (rc_AttachEvidence H wc k c i out st)"
| "replay_call H (CReviewRequest wc ar d snap _) st = snd (rc_ReviewRequest H wc ar d snap st)"
| "replay_call H (CReviewGet i _) st = snd (rc_ReviewGet H i st)"
| "replay_call H (CSessionSeal wc ar path _) st = snd (rc_SessionSeal H wc ar path st)"
| "replay_call H (CAppendEvent t p _) st = snd (rc_AppendEvent H t p st)"
| "replay_call H (CSleep _) st = st"

definition rc_after :: "wf_host \<Rightarrow> call list \<Rightarrow> rc_state" where
  "rc_after H cs = foldl (\<lambda>st c. replay_call H c st) rc_start cs"

definition realCaps :: "wf_host \<Rightarrow> (call list \<Rightarrow> string option) \<Rightarrow> caps" where
  "realCaps H expired =
     \<lparr> cpWorkGet = (\<lambda>cs t. fst (rc_WorkGet H t (rc_after H cs))),
       cpWorkTransition = (\<lambda>cs wc to v. fst (rc_WorkTransition H wc to v (rc_after H cs))),
       cpWorkspaceAlloc = (\<lambda>cs wc b. fst (rc_WorkspaceAlloc H wc b (rc_after H cs))),
       cpWorkspaceRelease = (\<lambda>cs i p. fst (rc_WorkspaceRelease H i p (rc_after H cs))),
       cpAgentRun = (\<lambda>cs p wc path prompt f c. fst (rc_AgentRun H p wc path prompt f c (rc_after H cs))),
       cpCollectDiff = (\<lambda>cs wc path. fst (rc_CollectDiff H wc path (rc_after H cs))),
       cpToolRun = (\<lambda>cs wc path l argv. fst (rc_ToolRun H wc path l argv (rc_after H cs))),
       cpAttachEvidence = (\<lambda>cs wc k c i out. fst (rc_AttachEvidence H wc k c i out (rc_after H cs))),
       cpReviewRequest = (\<lambda>cs wc ar d snap. fst (rc_ReviewRequest H wc ar d snap (rc_after H cs))),
       cpReviewGet = (\<lambda>cs i. fst (rc_ReviewGet H i (rc_after H cs))),
       cpSessionSeal = (\<lambda>cs wc ar path. fst (rc_SessionSeal H wc ar path (rc_after H cs))),
       cpAppendEvent = (\<lambda>cs t p. fst (rc_AppendEvent H t p (rc_after H cs))),
       cpExpired = expired \<rparr>"

section \<open>Reading the journal\<close>

text \<open>
  A record as the progress query decodes it. Of the payload, an object of any values, the texts and the
  integers are kept: the projection compares with texts only.
\<close>

definition jval_of :: "json \<Rightarrow> jval option" where
  "jval_of j = (case j of JText s \<Rightarrow> Some (JStr s) | JInt n \<Rightarrow> Some (JNum n) | _ \<Rightarrow> None)"

definition payload_of :: "json \<Rightarrow> jobject" where
  "payload_of j =
     (case j of
        JObject kvs \<Rightarrow> concat (map (\<lambda>(k, v). case jval_of v of None \<Rightarrow> [] | Some x \<Rightarrow> [(k, x)]) kvs)
      | _ \<Rightarrow> [])"

definition record_answer :: "json \<Rightarrow> wf_JournalRecord option" where
  "record_answer j =
     (case as_struct j of
        None \<Rightarrow> None
      | Some r \<Rightarrow>
          (case both (as_text (member ''id'' r)) (both (as_text (member ''type'' r)) (as_text (member ''correlation_id'' r))) of
             None \<Rightarrow> None
           | Some (i, t, _) \<Rightarrow> Some \<lparr> wjID = i, wjType = t, wjPayload = payload_of (member ''payload'' r) \<rparr>))"

definition page_answer :: "json \<Rightarrow> (wf_JournalRecord list \<times> int) option" where
  "page_answer j =
     (case as_struct j of
        None \<Rightarrow> None
      | Some p \<Rightarrow> both (Option.bind (as_list (member ''records'' p)) (all_of record_answer)) (as_int (member ''next'' p)))"

text \<open>The pages are asked for until one makes no progress; \<open>fuel\<close> bounds them, None is running out of it.\<close>

fun replayVia :: "wf_host \<Rightarrow> nat \<Rightarrow> int \<Rightarrow> wf_JournalRecord list \<Rightarrow> rc_state \<Rightarrow> (string, wf_JournalRecord list) result option" where
  "replayVia H 0 after acc st = None"
| "replayVia H (Suc fuel) after acc st =
     (case ask H KindQuery ''event.journal.replay'' [(''after'', JInt after), (''limit'', JInt 100)] (seconds 30) st of
        (a, st1) \<Rightarrow>
          (case wf_decode H page_answer a of
             Inl e \<Rightarrow> Some (Err e)
           | Inr (rs, next) \<Rightarrow>
               if next \<le> after then Some (Ok (acc @ rs)) else replayVia H fuel next (acc @ rs) st1))"

text \<open>The journal plugin's side of the pipe; \<open>parse\<close> reads the raw text of a payload.\<close>

definition replay_request :: "json \<Rightarrow> ReplayRequest option" where
  "replay_request j =
     (case as_struct j of
        None \<Rightarrow> None
      | Some q \<Rightarrow> map_option (\<lambda>(a, l). \<lparr> ryAfter = a, ryLimit = l \<rparr>) (both (as_int (member ''after'' q)) (as_int (member ''limit'' q))))"

definition record_json :: "(string \<Rightarrow> json) \<Rightarrow> EventRecord \<Rightarrow> json" where
  "record_json parse r =
     JObject [(''id'', JText (erID r)), (''type'', JText (erType r)), (''timestamp'', JText (erTimestamp r)),
       (''trace_id'', JText (erTraceID r)), (''correlation_id'', JText (erCorrelationID r)),
       (''causation_id'', JText (erCausationID r)), (''caller'', JText (erCaller r)), (''principal'', JText (erPrincipal r)),
       (''actor_chain'', JArray (map JText (erActorChain r))), (''source'', JText (erSource r)),
       (''payload'', parse (erPayload r)), (''previous_sha256'', JText (erPreviousSHA256 r)), (''sha256'', JText (erSHA256 r))]"

definition replay_json :: "(string \<Rightarrow> json) \<Rightarrow> ReplayResponse \<Rightarrow> json" where
  "replay_json parse p =
     JObject [(''records'', JArray (map (record_json parse) (rsRecords p))), (''next'', JInt (rsNext p))]"

definition serves_journal :: "wf_host \<Rightarrow> (string \<Rightarrow> json) \<Rightarrow> (Error \<Rightarrow> string) \<Rightarrow> (ReplayRequest \<Rightarrow> ReplayResponse reply) \<Rightarrow> bool" where
  "serves_journal H parse render query \<longleftrightarrow>
     (\<forall>asked r q. wqCapability r = ''event.journal.replay'' \<longrightarrow> replay_request (wqPayload r) = Some q \<longrightarrow>
        whAnswer H asked r = (case query q of Inl e \<Rightarrow> Inl (render e) | Inr p \<Rightarrow> Inr (Some (replay_json parse p))))"

definition journal_view :: "(string \<Rightarrow> json) \<Rightarrow> EventRecord \<Rightarrow> wf_JournalRecord" where
  "journal_view parse r = \<lparr> wjID = erID r, wjType = erType r, wjPayload = payload_of (parse (erPayload r)) \<rparr>"

lemma record_roundtrip: "record_answer (record_json parse r) = Some (journal_view parse r)"
  by (simp add: record_answer_def record_json_def journal_view_def)

lemma page_roundtrip:
  "min_int \<le> rsNext p \<Longrightarrow> rsNext p \<le> max_int \<Longrightarrow>
     page_answer (replay_json parse p) = Some (map (journal_view parse) (rsRecords p), rsNext p)"
  using all_of_map [of "rsRecords p" record_answer "record_json parse" "journal_view parse"]
  by (simp add: page_answer_def replay_json_def record_roundtrip)

lemma replayVia_replay_all:
  assumes "serves_journal H parse render query"
    and step: "\<And>q p. query q = Inr p \<Longrightarrow> 0 \<le> ryAfter q \<Longrightarrow> ryAfter q \<le> n \<Longrightarrow> 0 \<le> rsNext p \<and> rsNext p \<le> n"
    and "n \<le> max_int" and "0 \<le> after" and "after \<le> n"
  shows "replayVia H fuel after (map (journal_view parse) acc) st =
    map_option (\<lambda>r. case r of Inl e \<Rightarrow> Inl (render e) | Inr rs \<Rightarrow> Inr (map (journal_view parse) rs))
      (replay_all query fuel after acc)"
  using assms(4,5)
proof (induction fuel arbitrary: after acc st)
  case (Suc fuel)
  have a: "fst (ask H KindQuery ''event.journal.replay'' [(''after'', JInt after), (''limit'', JInt 100)] t st) =
      (case query \<lparr> ryAfter = after, ryLimit = 100 \<rparr> of Inl e \<Rightarrow> Inl (render e) | Inr p \<Rightarrow> Inr (Some (replay_json parse p)))" for t
  proof -
    let ?r = "\<lparr> wqKind = KindQuery, wqCapability = ''event.journal.replay'',
      wqPayload = JObject [(''after'', JInt after), (''limit'', JInt 100)], wqTimeout = t \<rparr>"
    have "replay_request (wqPayload ?r) = Some \<lparr> ryAfter = after, ryLimit = 100 \<rparr>"
      using Suc.prems assms(3) by (simp add: replay_request_def as_int_def min_int_def max_int_def)
    with assms(1) show ?thesis by (simp add: ask_def Let_def serves_journal_def)
  qed
  obtain x st1 where x: "ask H KindQuery ''event.journal.replay'' [(''after'', JInt after), (''limit'', JInt 100)] (seconds 30) st = (x, st1)"
    by force
  have a: "x = (case query \<lparr> ryAfter = after, ryLimit = 100 \<rparr> of Inl e \<Rightarrow> Inl (render e) | Inr p \<Rightarrow> Inr (Some (replay_json parse p)))"
    using a [of "seconds 30"] by (simp add: x)
  show ?case
  proof (cases "query \<lparr> ryAfter = after, ryLimit = 100 \<rparr>")
    case (Inl e)
    with a show ?thesis by (simp add: wf_decode_def x)
  next
    case (Inr p)
    have "wf_decode H page_answer (Inr (Some (replay_json parse p))) = Inr (map (journal_view parse) (rsRecords p), rsNext p)"
      using page_roundtrip [of p parse] step [OF Inr] Suc.prems assms(3) by (simp add: wf_decode_def min_int_def)
    with a Inr Suc.IH [of "rsNext p" "acc @ rsRecords p"] step [OF Inr] Suc.prems show ?thesis
      by (simp add: x)
  qed
qed simp


text \<open>A host that serves an empty journal and nothing else.\<close>

definition sample_journal_host :: wf_host where
  "sample_journal_host =
     \<lparr> whAnswer = (\<lambda>asked r.
         if wqCapability r = ''event.journal.replay''
         then (case replay_request (wqPayload r) of
                 None \<Rightarrow> Inl []
               | Some q \<Rightarrow> (case replayHandler (\<lambda>_. []) sample_hash (\<lambda>_. 0) 16 q empty_journal of
                     Inl e \<Rightarrow> Inl [] | Inr p \<Rightarrow> Inr (Some (replay_json (\<lambda>_. JNull) p))))
         else Inl []),
       whDecodeError = (\<lambda>_. []) \<rparr>"


end
