(* ===== verification/WorkflowOrder.thy ===== *)
theory WorkflowOrder
  imports WorkflowCaps WorkStore
begin

text \<open>
  The calls of a workflow run, one by one: each recorded answer is what the capability gives after the
  calls before it, and a transition names the version last heard of and a status that is legal after the
  transitions granted so far.
\<close>

fun next_version :: "int option \<Rightarrow> call \<Rightarrow> int option" where
  "next_version v (CWorkGet _ (Inr (_, _, ver))) = Some ver"
| "next_version v (CWorkTransition _ _ _ (Inr ver)) = Some ver"
| "next_version v _ = v"

fun next_status :: "string \<Rightarrow> call \<Rightarrow> string" where
  "next_status st (CWorkTransition _ to _ (Inr _)) = to"
| "next_status st _ = st"

fun next_context :: "string option \<Rightarrow> call \<Rightarrow> string option" where
  "next_context c (CWorkGet _ (Inr (_, wc, _))) = Some wc"
| "next_context c _ = c"

definition version_after :: "call list \<Rightarrow> int option" where "version_after = foldl next_version None"
definition status_after :: "call list \<Rightarrow> string" where "status_after = foldl next_status ''PLANNED''"
definition context_after :: "call list \<Rightarrow> string option" where "context_after = foldl next_context None"

fun step_ok :: "caps \<Rightarrow> string \<Rightarrow> call list \<Rightarrow> call \<Rightarrow> bool" where
  "step_ok c t pre (CWorkGet t' a) \<longleftrightarrow> t' = t \<and> pre = [] \<and> a = cpWorkGet c pre t'"
| "step_ok c t pre (CWorkTransition wc to v a) \<longleftrightarrow>
     context_after pre = Some wc \<and> version_after pre = Some v \<and> to \<noteq> ''FAILED'' \<and> legalTransition (status_after pre) to
     \<and> a = cpWorkTransition c pre wc to v"
| "step_ok c t pre (CWorkspaceAlloc wc b a) \<longleftrightarrow> a = cpWorkspaceAlloc c pre wc b"
| "step_ok c t pre (CWorkspaceRelease i p a) \<longleftrightarrow> a = cpWorkspaceRelease c pre i p"
| "step_ok c t pre (CAgentRun p wc path prompt f x a) \<longleftrightarrow> a = cpAgentRun c pre p wc path prompt f x"
| "step_ok c t pre (CCollectDiff wc path a) \<longleftrightarrow> a = cpCollectDiff c pre wc path"
| "step_ok c t pre (CToolRun wc path l argv a) \<longleftrightarrow> a = cpToolRun c pre wc path l argv"
| "step_ok c t pre (CAttachEvidence wc k sc i out a) \<longleftrightarrow>
     context_after pre = Some wc \<and> k \<in> {''build'', ''test''} \<and> sc \<noteq> [] \<and> a = cpAttachEvidence c pre wc k sc i out"
| "step_ok c t pre (CReviewRequest wc ar d snap a) \<longleftrightarrow> a = cpReviewRequest c pre wc ar d snap"
| "step_ok c t pre (CReviewGet i a) \<longleftrightarrow> a = cpReviewGet c pre i"
| "step_ok c t pre (CSessionSeal wc ar path a) \<longleftrightarrow> a = cpSessionSeal c pre wc ar path"
| "step_ok c t pre (CAppendEvent ty p a) \<longleftrightarrow> a = cpAppendEvent c pre ty p"
| "step_ok c t pre (CSleep n) \<longleftrightarrow> True"

definition orderly :: "caps \<Rightarrow> string \<Rightarrow> call list \<Rightarrow> bool" where
  "orderly c t cs \<longleftrightarrow> (\<forall>pre x post. cs = pre @ x # post \<longrightarrow> step_ok c t pre x)"

lemma orderly_Nil [simp]: "orderly c t []"
  by (simp add: orderly_def)

lemma orderly_snoc [simp]: "orderly c t (cs @ [x]) \<longleftrightarrow> orderly c t cs \<and> step_ok c t cs x"
proof
  assume o: "orderly c t (cs @ [x])"
  have "orderly c t cs" unfolding orderly_def
  proof (intro allI impI)
    fix pre y post assume "cs = pre @ y # post"
    then have "cs @ [x] = pre @ y # (post @ [x])" by simp
    with o show "step_ok c t pre y" unfolding orderly_def by blast
  qed
  moreover have "step_ok c t cs x" using o unfolding orderly_def by blast
  ultimately show "orderly c t cs \<and> step_ok c t cs x" ..
next
  assume o: "orderly c t cs \<and> step_ok c t cs x"
  show "orderly c t (cs @ [x])" unfolding orderly_def
  proof (intro allI impI)
    fix pre y post assume e: "cs @ [x] = pre @ y # post"
    show "step_ok c t pre y"
    proof (cases post rule: rev_cases)
      case Nil
      with e o show ?thesis by simp
    next
      case (snoc ps z)
      with e have "cs = pre @ y # ps" by simp
      with o show ?thesis unfolding orderly_def by blast
    qed
  qed
qed

lemma after_simps [simp]:
  "version_after (cs @ [x]) = next_version (version_after cs) x"
  "status_after (cs @ [x]) = next_status (status_after cs) x"
  "context_after (cs @ [x]) = next_context (context_after cs) x"
  "version_after [] = None" "status_after [] = ''PLANNED''" "context_after [] = None"
  by (simp_all add: version_after_def status_after_def context_after_def)

text \<open>A run so far, its work context, version and status.\<close>

definition at_stage :: "caps \<Rightarrow> string \<Rightarrow> string \<Rightarrow> int \<Rightarrow> string \<Rightarrow> pipe \<Rightarrow> bool" where
  "at_stage c t wc ver st s \<longleftrightarrow>
     orderly c t (piCalls s) \<and> context_after (piCalls s) = Some wc \<and> version_after (piCalls s) = Some ver
     \<and> status_after (piCalls s) = st"

text \<open>A run that has ended: it is done exactly when the transition to done was granted.\<close>

definition run_settled :: "caps \<Rightarrow> string \<Rightarrow> string \<Rightarrow> pipe \<Rightarrow> bool" where
  "run_settled c t wc s \<longleftrightarrow>
     orderly c t (piCalls s) \<and> context_after (piCalls s) = Some wc
     \<and> (status_after (piCalls s) = ''DONE'' \<longleftrightarrow> rrOutcome (piRes s) = ''DONE'')"

lemma calls_simps [simp]:
  "piCalls (called x s) = piCalls s @ [x]" "piCalls (update_res f s) = piCalls s"
  "piCalls (fail_run o1 why s) = piCalls s" "piCalls (s\<lparr> piCleaned := b \<rparr>) = piCalls s"
  "piCalls (add_event c j ty p s) =
     (let q = AList.update ''task_id'' (JStr (rqTaskID (jbReq j))) (AList.update ''work_context_id'' (JStr (jbWC j)) p)
      in piCalls s @ [CAppendEvent ty q (cpAppendEvent c (piCalls s) ty q)])"
  by (simp_all add: called_def update_res_def fail_run_def add_event_def Let_def)

lemma at_stage_simps [simp]:
  "at_stage c t wc ver st (update_res f s) = at_stage c t wc ver st s"
  "at_stage c t wc ver st (fail_run o1 why s) = at_stage c t wc ver st s"
  "at_stage c t wc ver st (s\<lparr> piCleaned := b \<rparr>) = at_stage c t wc ver st s"
  "at_stage c t wc ver st s \<Longrightarrow> at_stage c t wc ver st (add_event c j ty p s)"
  by (simp_all add: at_stage_def Let_def)

lemma at_stage_called:
  "at_stage c t wc ver st s \<Longrightarrow> step_ok c t (piCalls s) x \<Longrightarrow> next_version (Some ver) x = Some ver' \<Longrightarrow>
     next_status st x = st' \<Longrightarrow> next_context (Some wc) x = Some wc \<Longrightarrow> at_stage c t wc ver' st' (called x s)"
  by (simp add: at_stage_def)

lemma at_stage_ctx: "at_stage c t wc ver st s \<Longrightarrow> context_after (piCalls s) = Some wc \<and> version_after (piCalls s) = Some ver \<and> status_after (piCalls s) = st"
  by (simp add: at_stage_def)

lemma at_stage_plain [simp]:
  assumes "at_stage c t wc ver st s"
  shows "a = cpSessionSeal c (piCalls s) w ar path \<Longrightarrow> at_stage c t wc ver st (called (CSessionSeal w ar path a) s)"
    and "b = cpWorkspaceRelease c (piCalls s) i p \<Longrightarrow> at_stage c t wc ver st (called (CWorkspaceRelease i p b) s)"
    and "d = cpCollectDiff c (piCalls s) w path \<Longrightarrow> at_stage c t wc ver st (called (CCollectDiff w path d) s)"
    and "e = cpToolRun c (piCalls s) w path l argv \<Longrightarrow> at_stage c t wc ver st (called (CToolRun w path l argv e) s)"
    and "f = cpReviewRequest c (piCalls s) w ar diff snap \<Longrightarrow> at_stage c t wc ver st (called (CReviewRequest w ar diff snap f) s)"
    and "g = cpReviewGet c (piCalls s) i \<Longrightarrow> at_stage c t wc ver st (called (CReviewGet i g) s)"
    and "h = cpAgentRun c (piCalls s) p w path prompt fl wx \<Longrightarrow> at_stage c t wc ver st (called (CAgentRun p w path prompt fl wx h) s)"
    and "k = cpAttachEvidence c (piCalls s) wc l sc i out \<Longrightarrow> l \<in> {''build'', ''test''} \<Longrightarrow> sc \<noteq> [] \<Longrightarrow>
      at_stage c t wc ver st (called (CAttachEvidence wc l sc i out k) s)"
    and "at_stage c t wc ver st (called (CSleep n) s)"
  using at_stage_ctx [OF assms] by (auto intro!: at_stage_called [OF assms])

lemma at_stage_seal [simp]: "at_stage c t wc ver st s \<Longrightarrow> at_stage c t wc ver st (seal_session c j s)"
  by (cases "cpSessionSeal c (piCalls s) (jbWC j) (rrAgentRunID (piRes s)) (jbPath j)") (simp_all add: seal_session_def Let_def)

lemma at_stage_cleanup [simp]: "at_stage c t wc ver st s \<Longrightarrow> at_stage c t wc ver st (cleanup c j s)"
  by (cases "cpWorkspaceRelease c (piCalls (seal_session c j (s\<lparr> piCleaned := True \<rparr>))) (jbWorkspace j) ''preserve''")
    (simp_all add: cleanup_def Let_def del: calls_simps(5))

lemma settled_failed:
  "at_stage c t wc ver st s \<Longrightarrow> st \<noteq> ''DONE'' \<Longrightarrow> o1 \<noteq> ''DONE'' \<Longrightarrow> run_settled c t wc (fail_run o1 why (cleanup c j s))"
  using at_stage_cleanup [of c t wc ver st s j] by (simp add: run_settled_def at_stage_def)

text \<open>A transition, granted or not.\<close>

lemma at_stage_transition:
  assumes "at_stage c t wc ver st s" and "legalTransition st to" and "to \<noteq> ''FAILED''"
    and "a = cpWorkTransition c (piCalls s) wc to ver"
  shows "at_stage c t wc (case a of Inl _ \<Rightarrow> ver | Inr v \<Rightarrow> v) (case a of Inl _ \<Rightarrow> st | Inr _ \<Rightarrow> to)
    (called (CWorkTransition wc to ver a) s)"
  using at_stage_ctx [OF assms(1)] assms(2-4)
  by (intro at_stage_called [OF assms(1)]) (simp_all split: sum.split)

lemma settled_finish:
  assumes "at_stage c t (jbWC j) ver ''IN_REVIEW'' s"
  shows "run_settled c t (jbWC j) (finish_run c j bOut tOut diff rid ver rs s)"
proof -
  let ?s = "add_event c j ''review.decided'' [(''review_id'', JStr rid), (''status'', JStr (rsStatus rs))] s"
  let ?a = "cpWorkTransition c (piCalls ?s) (jbWC j) ''DONE'' ver"
  have s: "at_stage c t (jbWC j) ver ''IN_REVIEW'' ?s" using assms by simp
  note tr = at_stage_transition [OF s, of "''DONE''", OF _ _ refl]
  show ?thesis
  proof (cases "doneGate bOut tOut rs diff")
    case (Some why)
    then show ?thesis using settled_failed [OF s] by (simp add: finish_run_def Let_def)
  next
    case None
    show ?thesis
    proof (cases ?a)
      case (Inl e)
      with tr have "at_stage c t (jbWC j) ver ''IN_REVIEW'' (called (CWorkTransition (jbWC j) ''DONE'' ver ?a) ?s)"
        by (simp add: legalTransition_def)
      from settled_failed [OF this] Inl None show ?thesis by (simp add: finish_run_def Let_def)
    next
      case (Inr v)
      with tr have "at_stage c t (jbWC j) v ''DONE'' (called (CWorkTransition (jbWC j) ''DONE'' ver ?a) ?s)"
        by (simp add: legalTransition_def)
      then have "at_stage c t (jbWC j) v ''DONE'' (cleanup c j (add_event c j ty p (called (CWorkTransition (jbWC j) ''DONE'' ver ?a) ?s)))" for ty p
        by simp
      with Inr None show ?thesis by (simp add: finish_run_def Let_def run_settled_def at_stage_def)
    qed
  qed
qed

section \<open>The stages\<close>

definition may_settle :: "caps \<Rightarrow> string \<Rightarrow> string \<Rightarrow> pipe option \<Rightarrow> bool" where
  "may_settle c t wc r \<longleftrightarrow> (case r of None \<Rightarrow> True | Some s \<Rightarrow> run_settled c t wc s)"

lemma may_settle_simps [simp]: "may_settle c t wc None" "may_settle c t wc (Some s) = run_settled c t wc s"
  by (simp_all add: may_settle_def)

lemma settled_await:
  "at_stage c t wc ver st s \<Longrightarrow> st \<noteq> ''DONE'' \<Longrightarrow> await_review c j poll rid fuel s = Some r \<Longrightarrow>
     (case r of Inl s' \<Rightarrow> run_settled c t wc s' | Inr (rs, s') \<Rightarrow> at_stage c t wc ver st s')"
proof (induction fuel arbitrary: s)
  case (Suc fuel)
  let ?s1 = "called (CReviewGet rid (cpReviewGet c (piCalls s) rid)) s"
  have s1: "at_stage c t wc ver st ?s1" using Suc.prems(1) by simp
  show ?case
    using Suc.prems settled_failed [OF Suc.prems(1)] settled_failed [OF s1] s1 Suc.IH [of "called (CSleep poll) ?s1"]
    by (auto simp: Let_def split: option.splits sum.splits if_splits)
qed simp

lemma settled_decision:
  assumes "at_stage c t (jbWC j) ver ''IN_REVIEW'' s"
  shows "may_settle c t (jbWC j) (decision_stage c j poll fuel bOut tOut diff rid ver s)"
  using settled_await [OF assms, of j poll rid fuel] settled_finish [of c t j ver]
  by (auto simp: decision_stage_def may_settle_def split: option.splits sum.splits)

lemma settled_review:
  assumes "at_stage c t (jbWC j) ver0 ''IN_PROGRESS'' s0"
  shows "may_settle c t (jbWC j) (review_stage c j fuel ar diff build test ver0 s0)"
proof -
  let ?a = "cpWorkTransition c (piCalls s0) (jbWC j) ''IN_REVIEW'' ver0"
  let ?s1 = "called (CWorkTransition (jbWC j) ''IN_REVIEW'' ver0 ?a) s0"
  have s1: "at_stage c t (jbWC j) (case ?a of Inl _ \<Rightarrow> ver0 | Inr v \<Rightarrow> v)
      (case ?a of Inl _ \<Rightarrow> ''IN_PROGRESS'' | Inr _ \<Rightarrow> ''IN_REVIEW'') ?s1"
    by (rule at_stage_transition [OF assms _ _ refl]) (simp_all add: legalTransition_def)
  show ?thesis
  proof (cases ?a)
    case (Inl e)
    with s1 have "at_stage c t (jbWC j) ver0 ''IN_PROGRESS'' ?s1" by simp
    from settled_failed [OF this] Inl show ?thesis by (simp add: review_stage_def Let_def split: prod.split)
  next
    case (Inr ver)
    define s2 where "s2 = add_event c j ''work.transitioned'' [(''from'', JStr ''IN_PROGRESS''), (''to'', JStr ''IN_REVIEW'')] ?s1"
    have s2: "at_stage c t (jbWC j) ver ''IN_REVIEW'' s2" using s1 Inr by (simp add: s2_def)
    obtain bID bOut tID tOut where bt: "build = (bID, bOut)" "test = (tID, tOut)" by (cases build, cases test)
    define items where "items = [\<lparr> eiKind = ''build'', eiOutcome = bOut, eiEvidenceRefID = bID \<rparr>,
        \<lparr> eiKind = ''test'', eiOutcome = tOut, eiEvidenceRefID = tID \<rparr>]"
    define b where "b = cpReviewRequest c (piCalls s2) (jbWC j) ar diff items"
    define s3 where "s3 = called (CReviewRequest (jbWC j) ar diff items b) s2"
    have s3: "at_stage c t (jbWC j) ver ''IN_REVIEW'' s3" using s2 by (simp add: s3_def b_def)
    have e: "review_stage c j fuel ar diff build test ver0 s0 =
        (case b of Inl e \<Rightarrow> Some (fail_run ''GATE_FAILED'' e (cleanup c j s3))
         | Inr rid \<Rightarrow> decision_stage c j (if rqReviewPollMS (jbReq j) \<le> 0 then 500 else rqReviewPollMS (jbReq j)) fuel bOut tOut diff rid ver
             (add_event c j ''workflow.waiting_review'' [(''review_id'', JStr rid)]
               (add_event c j ''review.requested'' [(''review_id'', JStr rid), (''diff_artifact_id'', JStr diff)]
                 (update_res (\<lambda>r. r\<lparr> rrReviewID := rid \<rparr>) s3))))"
      using Inr bt unfolding b_def s3_def s2_def items_def review_stage_def Let_def by (simp only: sum.case prod.case)
    show ?thesis
      unfolding e using settled_failed [OF s3] s3 settled_decision by (simp del: calls_simps(5) split: sum.split)
  qed
qed

lemma at_stage_tool:
  assumes "at_stage c t (jbWC j) ver st s" and "label \<in> {''build'', ''test''}"
  shows "at_stage c t (jbWC j) ver st (snd (tool_stage c j label argv keep s))"
proof -
  define a where "a = cpToolRun c (piCalls s) (jbWC j) (jbPath j) label argv"
  define s1 where "s1 = called (CToolRun (jbWC j) (jbPath j) label argv a) s"
  have s1: "at_stage c t (jbWC j) ver st s1" using assms(1) by (simp add: s1_def a_def)
  show ?thesis
  proof (cases a)
    case (Inl e)
    with s1 show ?thesis by (simp add: tool_stage_def Let_def a_def s1_def)
  next
    case (Inr x)
    obtain tid out where x: "x = (tid, out)" by force
    define s3 where "s3 = add_event c j ''tool.run.completed'' [(''tool_run_id'', JStr tid), (''label'', JStr label), (''outcome'', JStr out)]
      (update_res (keep tid) s1)"
    have "at_stage c t (jbWC j) ver st s3" using s1 by (simp add: s3_def)
    then have "at_stage c t (jbWC j) ver st (add_event c j ''evidence.attached''
        [(''kind'', JStr label), (''source_id'', JStr tid), (''outcome'', JStr out)]
        (called (CAttachEvidence (jbWC j) label ''tool.run@1'' tid out
          (cpAttachEvidence c (piCalls s3) (jbWC j) label ''tool.run@1'' tid out)) s3))"
      using assms(2) by simp
    moreover have "snd (tool_stage c j label argv keep s) = add_event c j ''evidence.attached''
        [(''kind'', JStr label), (''source_id'', JStr tid), (''outcome'', JStr out)]
        (called (CAttachEvidence (jbWC j) label ''tool.run@1'' tid out
          (cpAttachEvidence c (piCalls s3) (jbWC j) label ''tool.run@1'' tid out)) s3)"
      using Inr x unfolding tool_stage_def Let_def a_def s1_def s3_def by (simp only: sum.case prod.case snd_conv)
    ultimately show ?thesis by (simp only:)
  qed
qed

lemma settled_evidence:
  assumes "at_stage c t (jbWC j) ver ''IN_PROGRESS'' s0"
  shows "may_settle c t (jbWC j) (evidence_stage c j fuel ar ver s0)"
proof -
  define a where "a = cpCollectDiff c (piCalls s0) (jbWC j) (jbPath j)"
  define s1 where "s1 = called (CCollectDiff (jbWC j) (jbPath j) a) s0"
  have s1: "at_stage c t (jbWC j) ver ''IN_PROGRESS'' s1" using assms by (simp add: s1_def a_def)
  show ?thesis
  proof (cases a)
    case (Inl e)
    with settled_failed [OF s1] show ?thesis by (simp add: evidence_stage_def Let_def a_def s1_def)
  next
    case (Inr x)
    obtain diff n where x: "x = (diff, n)" by force
    define s2 where "s2 = add_event c j ''diff.collected'' [(''artifact_id'', JStr diff), (''files_changed'', JNum n)]
      (update_res (\<lambda>r. r\<lparr> rrDiffArtifactID := diff \<rparr>) s1)"
    have s2: "at_stage c t (jbWC j) ver ''IN_PROGRESS'' s2" using s1 by (simp add: s2_def)
    obtain rb s3 where b: "tool_stage c j ''build'' (rqBuildCommand (jbReq j)) (\<lambda>i r. r\<lparr> rrBuildToolRunID := i \<rparr>) s2 = (rb, s3)"
      by force
    have s3: "at_stage c t (jbWC j) ver ''IN_PROGRESS'' s3"
      using at_stage_tool [OF s2, of "''build''" "rqBuildCommand (jbReq j)" "\<lambda>i r. r\<lparr> rrBuildToolRunID := i \<rparr>"] b by simp
    obtain rt s4 where tt: "tool_stage c j ''test'' (rqTestCommand (jbReq j)) (\<lambda>i r. r\<lparr> rrTestToolRunID := i \<rparr>) s3 = (rt, s4)"
      by force
    have s4: "at_stage c t (jbWC j) ver ''IN_PROGRESS'' s4"
      using at_stage_tool [OF s3, of "''test''" "rqTestCommand (jbReq j)" "\<lambda>i r. r\<lparr> rrTestToolRunID := i \<rparr>"] tt by simp
    have e: "evidence_stage c j fuel ar ver s0 =
       (case rb of Inl e \<Rightarrow> Some (fail_run ''BUILD_FAILED'' e (cleanup c j s3))
        | Inr build \<Rightarrow> (case rt of Inl e \<Rightarrow> Some (fail_run ''TEST_FAILED'' e (cleanup c j s4))
           | Inr test \<Rightarrow> review_stage c j fuel ar diff build test ver s4))"
      using Inr x b tt unfolding s2_def s1_def a_def by (simp add: evidence_stage_def Let_def split: sum.split)
    show ?thesis unfolding e using settled_failed [OF s3] settled_failed [OF s4] settled_review [OF s4] by (simp split: sum.split)
  qed
qed

lemma settled_agent:
  assumes "at_stage c t (jbWC j) ver0 ''PLANNED'' s0"
  shows "may_settle c t (jbWC j) (agent_stage c j fuel ver0 s0)"
proof -
  let ?q = "jbReq j"
  define a where "a = cpWorkTransition c (piCalls s0) (jbWC j) ''IN_PROGRESS'' ver0"
  define s1 where "s1 = called (CWorkTransition (jbWC j) ''IN_PROGRESS'' ver0 a) s0"
  define s2 where "s2 = add_event c j ''work.transitioned'' [(''from'', JStr ''PLANNED''), (''to'', JStr ''IN_PROGRESS'')] s1"
  define s3 where "s3 = add_event c j ''agent.run.started'' [] s2"
  define prov where "prov = (if rqProvider ?q = [] then ''mock'' else rqProvider ?q)"
  obtain ar out where run: "cpAgentRun c (piCalls s3) prov (jbWC j) (jbPath j) (rqPrompt ?q) (rqMockAgentWriteFile ?q)
      (rqMockAgentWriteContent ?q) = (ar, out)" by force
  let ?x = "CAgentRun prov (jbWC j) (jbPath j) (rqPrompt ?q) (rqMockAgentWriteFile ?q) (rqMockAgentWriteContent ?q) (ar, out)"
  define s5 where "s5 = update_res (\<lambda>r. r\<lparr> rrAgentRunID := ar \<rparr>) (called ?x s3)"
  have s1: "at_stage c t (jbWC j) (case a of Inl _ \<Rightarrow> ver0 | Inr v \<Rightarrow> v) (case a of Inl _ \<Rightarrow> ''PLANNED'' | Inr _ \<Rightarrow> ''IN_PROGRESS'') s1"
    unfolding s1_def by (rule at_stage_transition [OF assms]) (simp_all add: legalTransition_def a_def)
  have e: "agent_stage c j fuel ver0 s0 =
     (case a of
        Inl e \<Rightarrow> Some (fail_run ''GATE_FAILED'' (''transition IN_PROGRESS: '' @ e) (cleanup c j s1))
      | Inr ver \<Rightarrow> (case cpExpired c (piCalls s2) of
           Some e \<Rightarrow> Some (fail_run ''TIMEOUT'' e (cleanup c j s2))
         | None \<Rightarrow> (case out of
              Inl e \<Rightarrow> Some (fail_run ''AGENT_FAILED'' e (cleanup c j s5))
            | Inr st \<Rightarrow>
                let s6 = add_event c j ''agent.run.completed'' [(''agent_run_id'', JStr ar), (''status'', JStr st)] s5
                in if st \<noteq> ''COMPLETED'' then Some (fail_run ''AGENT_FAILED'' (''agent status '' @ st) (cleanup c j s6))
                   else evidence_stage c j fuel ar ver s6)))"
    unfolding agent_stage_def Let_def s5_def prov_def s3_def s2_def s1_def a_def
    by (simp only: run [unfolded prov_def s3_def s2_def s1_def a_def] prod.case)
  show ?thesis
  proof (cases a)
    case (Inl e1)
    with s1 have "at_stage c t (jbWC j) ver0 ''PLANNED'' s1" by simp
    from settled_failed [OF this] Inl show ?thesis by (simp add: e)
  next
    case (Inr ver)
    have s2: "at_stage c t (jbWC j) ver ''IN_PROGRESS'' s2" using s1 Inr by (simp add: s2_def)
    have s5: "at_stage c t (jbWC j) ver ''IN_PROGRESS'' s5" using s2 run by (simp add: s5_def s3_def del: calls_simps(5))
    have s6: "at_stage c t (jbWC j) ver ''IN_PROGRESS''
        (add_event c j ''agent.run.completed'' [(''agent_run_id'', JStr ar), (''status'', JStr st)] s5)" for st
      using s5 by simp
    show ?thesis
      using Inr settled_failed [OF s2] settled_failed [OF s5] settled_failed [OF s6] settled_evidence [OF s6]
      by (simp add: e Let_def split: sum.split option.split)
  qed
qed

text \<open>
  What a run has recorded when it ends: orderly calls, and, once the task has been read, the outcome done exactly
  when the transition to done was granted.
\<close>

lemma runPipeline_orderly:
  assumes "runPipeline c fuel req = Some s"
  shows "orderly c (rqTaskID req) (piCalls s) \<and> (status_after (piCalls s) = ''DONE'' \<longleftrightarrow> rrOutcome (piRes s) = ''DONE'')"
proof -
  let ?t = "rqTaskID req"
  define s0 where "s0 = \<lparr> piCalls = [], piRes = empty_result\<lparr> rrTaskID := ?t \<rparr>, piCleaned = False \<rparr>"
  define a where "a = cpWorkGet c [] ?t"
  define s1 where "s1 = called (CWorkGet ?t a) s0"
  have c1: "piCalls s1 = [CWorkGet ?t a]" by (simp add: s1_def s0_def)
  have o1: "orderly c ?t [CWorkGet ?t a]" using orderly_snoc [of c ?t "[]"] by (simp add: a_def)
  show ?thesis
  proof (cases a)
    case (Inl e)
    then have "s = fail_run ''GATE_FAILED'' ''task not found'' s1"
      using assms by (simp add: runPipeline_def Let_def a_def s1_def s0_def)
    with c1 o1 show ?thesis using after_simps(2) [of "[]" "CWorkGet ?t a"] by simp
  next
    case (Inr x)
    obtain tk wc ver where x: "a = Inr (tk, wc, ver)" using Inr by (cases x) auto
    have st: "at_stage c ?t wc ver ''PLANNED'' s1"
      using o1 after_simps(1-3) [of "[]" "CWorkGet ?t a"] by (simp add: at_stage_def c1 x)
    define s2 where "s2 = update_res (\<lambda>r. r\<lparr> rrWorkContextID := wc \<rparr>) s1"
    define b where "b = cpWorkspaceAlloc c (piCalls s2) wc (rqBaseRef req)"
    define s3 where "s3 = called (CWorkspaceAlloc wc (rqBaseRef req) b) s2"
    have s3: "at_stage c ?t wc ver ''PLANNED'' s3"
      unfolding s3_def by (rule at_stage_called [where ver = ver and st = "''PLANNED''"]) (use st in \<open>simp_all add: s2_def b_def\<close>)
    show ?thesis
    proof (cases b)
      case (Inl e)
      then have "s = fail_run ''GATE_FAILED'' (''workspace allocate: '' @ e) s3"
        using assms x unfolding s3_def b_def s2_def s1_def a_def s0_def by (simp add: runPipeline_def Let_def)
      with s3 show ?thesis by (simp add: at_stage_def)
    next
      case (Inr y)
      obtain ws path where y: "b = Inr (ws, path)" using Inr by (cases y) simp
      let ?j = "\<lparr> jbReq = req, jbWC = wc, jbWorkspace = ws, jbPath = path \<rparr>"
      have "agent_stage c ?j fuel ver
          (add_event c ?j ''workspace.allocated'' [(''workspace_id'', JStr ws), (''path'', JStr path)] s3) = Some s"
        using assms x y unfolding s3_def b_def s2_def s1_def a_def s0_def by (simp add: runPipeline_def Let_def)
      with settled_agent [of c ?t ?j ver "add_event c ?j ''workspace.allocated'' [(''workspace_id'', JStr ws), (''path'', JStr path)] s3" fuel]
        s3 show ?thesis by (simp add: run_settled_def del: calls_simps(5))
    qed
  qed
qed

end
