(* ===== verification/WorkflowWork.thy ===== *)
theory WorkflowWork
  imports WorkflowOrder StoreSamples
begin

text \<open>
  The workflow over the work registry it writes to: requests and answers of the registry's handlers
  (\<open>plugins/work-registry/handlers.go\<close>) as JSON, the registry as the part of the host that serves the
  \<open>work.*\<close> capabilities, and what a whole run leaves in it. The other capabilities answer as they like.
\<close>

section \<open>The registry on the wire\<close>

definition decode_getRequest :: "json \<Rightarrow> getRequest option" where
  "decode_getRequest j =
     (case as_struct j of
        None \<Rightarrow> None
      | Some q \<Rightarrow>
          map_option (\<lambda>(t, c). \<lparr> grTaskID = t, grWorkContextID = c \<rparr>)
            (both (as_text (member ''task_id'' q)) (as_text (member ''work_context_id'' q))))"

definition decode_transitionRequest :: "json \<Rightarrow> transitionRequest option" where
  "decode_transitionRequest j =
     (case as_struct j of
        None \<Rightarrow> None
      | Some q \<Rightarrow>
          map_option (\<lambda>(c, to, v). \<lparr> trWorkContextID = c, trTo = to, trExpectedVersion = v \<rparr>)
            (both (as_text (member ''work_context_id'' q))
              (both (as_text (member ''to'' q)) (as_int_ptr (member ''expected_version'' q)))))"

definition decode_attachEvidenceRequest :: "json \<Rightarrow> attachEvidenceRequest option" where
  "decode_attachEvidenceRequest j =
     (case as_struct j of
        None \<Rightarrow> None
      | Some q \<Rightarrow>
          map_option (\<lambda>(c, k, sc, i, out, h, v).
              \<lparr> arWorkContextID = c, arKind = k, arSourceCapability = sc, arSourceID = i, arOutcome = out,
                arContentHash = h, arExpectedVersion = v \<rparr>)
            (both (as_text (member ''work_context_id'' q)) (both (as_text (member ''kind'' q))
              (both (as_text (member ''source_capability'' q)) (both (as_text (member ''source_id'' q))
                (both (as_text (member ''outcome'' q)) (both (as_text (member ''content_hash'' q))
                  (as_int_ptr (member ''expected_version'' q)))))))))"

definition text_or_null :: "string option \<Rightarrow> json" where
  "text_or_null x = (case x of None \<Rightarrow> JNull | Some s \<Rightarrow> JText s)"

definition criterion_json :: "AcceptanceCriterion \<Rightarrow> json" where
  "criterion_json a = JObject [(''id'', JText (acID a)), (''text'', JText (acText a))]"

definition task_json :: "Task \<Rightarrow> json" where
  "task_json t =
     JObject [(''id'', JText (tkID t)), (''title'', JText (tkTitle t)), (''goal'', JText (tkGoal t)), (''scope'', JText (tkScope t)),
       (''acceptance_criteria'', JArray (map criterion_json (tkAcceptance t))), (''status'', JText (tkStatus t)),
       (''version'', JInt (tkVersion t)), (''work_context_id'', JText (tkWorkContextID t))]"

definition evidence_json :: "EvidenceRef \<Rightarrow> json" where
  "evidence_json e =
     JObject [(''id'', JText (evID e)), (''kind'', JText (evKind e)), (''source_capability'', JText (evSourceCapability e)),
       (''source_id'', JText (evSourceID e)), (''outcome'', JText (evOutcome e)), (''observed_at'', JText (evObservedAt e)),
       (''content_hash'', JText (evContentHash e)), (''invalidated_at'', text_or_null (evInvalidatedAt e))]"

definition context_json :: "WorkContext \<Rightarrow> json" where
  "context_json c =
     JObject [(''id'', JText (wcID c)), (''task_id'', JText (wcTaskID c)), (''repo'', JText (wcRepo c)),
       (''active_workspace_ref'', text_or_null (wcActiveWorkspaceRef c)),
       (''evidence_refs'', JArray (map evidence_json (wcEvidenceRefs c))), (''version'', JInt (wcVersion c))]"

definition or_null :: "('a \<Rightarrow> json) \<Rightarrow> 'a option \<Rightarrow> json" where
  "or_null f x = (case x of None \<Rightarrow> JNull | Some y \<Rightarrow> f y)"

definition work_json :: "Task option \<times> WorkContext option \<Rightarrow> json" where
  "work_json = (\<lambda>(t, c). JObject [(''task'', or_null task_json t), (''work_context'', or_null context_json c)])"

definition attached_json :: "EvidenceRef \<times> WorkContext option \<Rightarrow> json" where
  "attached_json = (\<lambda>(e, c). JObject [(''evidence_ref'', evidence_json e), (''work_context'', or_null context_json c)])"

text \<open>
  One request of the workflow as the registry gets it: the router has stamped it with the authority's
  service, name and epoch; the environment is the registry's for this request.
\<close>

record work_call =
  wkEnv :: store_env
  wkID :: string
  wkService :: string
  wkAuthority :: string
  wkEpoch :: int

definition stamped_call :: "work_call \<Rightarrow> 'p \<Rightarrow> 'p Envelope" where
  "stamped_call w p = (zero_envelope p)\<lparr> eService := wkService w, eAuthority := wkAuthority w, eFencingEpoch := wkEpoch w \<rparr>"

definition wire_reply :: "(Error \<Rightarrow> string) \<Rightarrow> ('a \<Rightarrow> json) \<Rightarrow> 'a reply \<Rightarrow> (string, json option) result" where
  "wire_reply remote f r = (case r of Inl e \<Rightarrow> Inl (remote e) | Inr x \<Rightarrow> Inr (Some (f x)))"

definition work_serve ::
  "(Error \<Rightarrow> string) \<Rightarrow> work_render \<Rightarrow> work_call \<Rightarrow> wf_request \<Rightarrow> work_store \<Rightarrow> (string, json option) result \<times> work_store" where
  "work_serve remote render w r s =
     (if wqCapability r = ''work.get''
      then (wire_reply remote work_json (work_getHandler (stamped_call w (decode_getRequest (wqPayload r))) (lsState s)), s)
      else if wqCapability r = ''work.transition''
      then (case transitionHandler render (wkEnv w) (stamped_call w (decode_transitionRequest (wqPayload r))) s of
              (a, s') \<Rightarrow> (wire_reply remote work_json a, s'))
      else (case attachEvidenceHandler render (wkEnv w) (wkID w) (stamped_call w (decode_attachEvidenceRequest (wqPayload r))) s of
              (a, s') \<Rightarrow> (wire_reply remote attached_json a, s')))"

definition is_work :: "wf_request \<Rightarrow> bool" where
  "is_work r \<longleftrightarrow> wqCapability r \<in> {''work.get'', ''work.transition'', ''work.attach_evidence''}"

text \<open>The registry after the requests made so far, the n-th of them in environment \<open>env n\<close>.\<close>

definition work_after ::
  "(Error \<Rightarrow> string) \<Rightarrow> work_render \<Rightarrow> (nat \<Rightarrow> work_call) \<Rightarrow> work_store \<Rightarrow> wf_request list \<Rightarrow> work_store" where
  "work_after remote render env s0 rs =
     snd (foldl (\<lambda>(n, s) r. (Suc n, if is_work r then snd (work_serve remote render (env n) r s) else s)) (0, s0) rs)"

definition serves_work ::
  "wf_host \<Rightarrow> (Error \<Rightarrow> string) \<Rightarrow> work_render \<Rightarrow> (nat \<Rightarrow> work_call) \<Rightarrow> work_store \<Rightarrow> bool" where
  "serves_work H remote render env s0 \<longleftrightarrow>
     (\<forall>asked r. is_work r \<longrightarrow>
        whAnswer H asked r = fst (work_serve remote render (env (length asked)) r (work_after remote render env s0 asked)))"

text \<open>The registry accepts the request: the lease is its own and the disk works.\<close>

definition call_accepted :: "work_call \<Rightarrow> bool" where
  "call_accepted w \<longleftrightarrow> good_fence (wkEnv w) (stamped_call w ()) \<and> seWrite (wkEnv w) = Written"

lemma work_after_snoc [simp]:
  "work_after remote render env s0 (rs @ [r]) =
     (if is_work r then snd (work_serve remote render (env (length rs)) r (work_after remote render env s0 rs))
      else work_after remote render env s0 rs)"
  "work_after remote render env s0 [] = s0"
proof -
  have "fst (foldl (\<lambda>(n, s) r. (Suc n, if is_work r then snd (work_serve remote render (env n) r s) else s)) (k, s) rs) = k + length rs"
    for k and s by (induction rs arbitrary: k s) simp_all
  from this [of 0 s0] show "work_after remote render env s0 (rs @ [r]) =
     (if is_work r then snd (work_serve remote render (env (length rs)) r (work_after remote render env s0 rs))
      else work_after remote render env s0 rs)"
    by (simp add: work_after_def split_beta)
qed (simp add: work_after_def)

lemma fence_any_payload: "good_fence w (stamped_call c p) \<longleftrightarrow> good_fence w (stamped_call c ())"
  by (simp add: good_fence_def check_fence_None stamped_call_def zero_envelope_def)

section \<open>Calls that do not concern the registry\<close>

definition quiet :: "rc_state \<Rightarrow> rc_state \<Rightarrow> bool" where
  "quiet st st' \<longleftrightarrow> (\<exists>rs. rcAsked st' = rcAsked st @ rs \<and> list_all (\<lambda>r. \<not> is_work r) rs) \<and> rcVersion st' = rcVersion st"

lemma quiet_refl [simp]: "quiet st st"
  by (simp add: quiet_def)

lemma quiet_trans: "quiet a b \<Longrightarrow> quiet b c \<Longrightarrow> quiet a c"
  by (auto simp: quiet_def)

lemma quiet_ask:
  "cap \<notin> {''work.get'', ''work.transition'', ''work.attach_evidence''} \<Longrightarrow> quiet st (snd (ask H kd cap payload t st))"
  by (simp add: quiet_def ask_def Let_def is_work_def)

lemma work_after_quiet:
  assumes "quiet st st'"
  shows "work_after remote render env s0 (rcAsked st') = work_after remote render env s0 (rcAsked st)"
proof -
  have "list_all (\<lambda>r. \<not> is_work r) rs \<Longrightarrow> work_after remote render env s0 (as @ rs) = work_after remote render env s0 as" for as rs
  proof (induction rs rule: rev_induct)
    case (snoc r rs)
    then show ?case using work_after_snoc(1) [of remote render env s0 "as @ rs" r] by simp
  qed simp
  with assms show ?thesis by (auto simp: quiet_def)
qed

lemma quiet_poll: "quiet st (snd (poll_run H i n status st))"
proof (induction n arbitrary: status st)
  case (Suc n)
  obtain a st1 where q: "ask H KindQuery ''agent.run.get'' [(''agent_run_id'', JText i)] (seconds 30) st = (a, st1)"
    by force
  have "quiet st st1"
    using quiet_ask [of "''agent.run.get''" st H KindQuery "[(''agent_run_id'', JText i)]" "seconds 30"] by (simp add: q)
  then show ?case
    using quiet_trans [OF _ Suc.IH] by (simp add: q split: sum.split)
qed simp

lemma snd_ask_case [simp]: "snd (case ask H kd cap p t st of (a, st1) \<Rightarrow> (f a, st1)) = snd (ask H kd cap p t st)"
  by (simp add: split_beta)

fun concerns_work :: "call \<Rightarrow> bool" where
  "concerns_work (CWorkGet _ _) = True"
| "concerns_work (CWorkTransition _ _ _ _) = True"
| "concerns_work (CAttachEvidence _ _ _ _ _ _) = True"
| "concerns_work _ = False"

lemma quiet_call: "\<not> concerns_work x \<Longrightarrow> quiet st (replay_call H x st)"
proof (cases x)
  case (CAgentRun p wc path prompt f c a)
  obtain b st1 where q: "ask H KindCommand ''agent.run'' (agentRunPayload p wc path prompt f c) (minutes 30) st = (b, st1)"
    by force
  have "quiet st st1"
    using quiet_ask [of "''agent.run''" st H KindCommand "agentRunPayload p wc path prompt f c" "minutes 30"] by (simp add: q)
  then show ?thesis
    using quiet_trans [OF _ quiet_poll] unfolding CAgentRun
    by (simp add: rc_AgentRun_def q split_beta split: sum.split)
next
  case (CWorkspaceRelease i p a)
  then show ?thesis
    using quiet_ask [of "''workspace.release''" st H KindCommand "[(''workspace_id'', JText i), (''policy'', JText p)]" "minutes 2"]
    by (simp add: rc_WorkspaceRelease_def split: prod.split sum.split)
qed (simp_all add: rc_WorkspaceAlloc_def rc_CollectDiff_def rc_ToolRun_def rc_ReviewRequest_def rc_ReviewGet_def
       rc_SessionSeal_def rc_AppendEvent_def quiet_ask)

lemma next_unconcerned:
  "\<not> concerns_work x \<Longrightarrow> next_version v x = v \<and> next_status st x = st \<and> next_context c x = c"
  by (cases x) simp_all

section \<open>Calls that do\<close>

definition registry_at :: "string \<Rightarrow> string \<Rightarrow> Task \<Rightarrow> WorkContext \<Rightarrow> work_store \<Rightarrow> bool" where
  "registry_at T C tk ctx s \<longleftrightarrow>
     wsTasks (lsState s) T = Some tk \<and> wsContexts (lsState s) C = Some ctx \<and> wsTaskByWC (lsState s) C = Some T
     \<and> tkWorkContextID tk = C \<and> wcID ctx = C"

definition in_range :: "int \<Rightarrow> bool" where
  "in_range n \<longleftrightarrow> min_int \<le> n \<and> n \<le> max_int"

lemma stamped_payload [simp]: "ePayload (stamped_call w p) = p"
  by (simp add: stamped_call_def zero_envelope_def)

lemma serve_get:
  assumes "registry_at T C tk ctx s" and "T \<noteq> []"
  shows "work_serve remote render w \<lparr> wqKind = kd, wqCapability = ''work.get'', wqPayload = JObject [(''task_id'', JText T)], wqTimeout = t \<rparr> s
    = (Inr (Some (work_json (Some tk, Some ctx))), s)"
  using assms
  by (simp add: work_serve_def decode_getRequest_def work_getHandler_def GetByTask_def registry_at_def wire_reply_def as_text_def)

lemma answer_get:
  "in_range (tkVersion tk) \<Longrightarrow> in_range (wcVersion ctx) \<Longrightarrow>
     work_answer (work_json (Some tk, Some ctx)) = Some ((tkID tk, tkVersion tk, tkWorkContextID tk), (wcID ctx, wcRepo ctx, wcVersion ctx))"
  by (simp add: work_answer_def work_json_def or_null_def get_task_def get_context_def task_json_def context_json_def in_range_def)

lemma fenced_accepted:
  "call_accepted w \<Longrightarrow> fenced (wkEnv w) (stamped_call w p) fn s =
     (case fn s of (Inl er, s') \<Rightarrow> (Inl (FnErr er), s') | (Inr a, s') \<Rightarrow> (Inr a, s'))"
  using fence_any_payload [of "wkEnv w" w p]
  by (simp add: call_accepted_def good_fence_def fenced_def WithWriteFence_def)

lemma serve_transition:
  assumes "registry_at T C tk ctx s" and "C \<noteq> []" and "call_accepted w"
    and "legalTransition (tkStatus tk) to" and "to \<noteq> ''FAILED''" and "in_range (tkVersion tk)" and "in_range (tkVersion tk + 1)"
    and "work_serve remote render w \<lparr> wqKind = kd, wqCapability = ''work.transition'',
        wqPayload = JObject [(''work_context_id'', JText C), (''to'', JText to), (''expected_version'', JInt (tkVersion tk))],
        wqTimeout = t \<rparr> s = (a, s')"
  shows "registry_at T C (tk\<lparr> tkStatus := to, tkVersion := tkVersion tk + 1 \<rparr>) ctx s'
    \<and> wf_decode H (inner ''task'' as_int ''version'') a = Ok (tkVersion tk + 1)"
proof -
  have to: "to = ''IN_PROGRESS'' \<or> to = ''IN_REVIEW'' \<or> to = ''DONE''"
    using assms(4,5) by (auto simp: legalTransition_def split: if_splits)
  have d: "decode_transitionRequest (JObject [(''work_context_id'', JText C), (''to'', JText to), (''expected_version'', JInt (tkVersion tk))])
      = Some \<lparr> trWorkContextID = C, trTo = to, trExpectedVersion = Some (tkVersion tk) \<rparr>"
    using assms(6) by (simp add: decode_transitionRequest_def in_range_def)
  let ?tk = "tk\<lparr> tkStatus := to, tkVersion := tkVersion tk + 1 \<rparr>"
  have w: "seWrite (wkEnv w) = Written" using assms(3) by (simp add: call_accepted_def)
  obtain s1 where s1: "work_Transition Written (seNow (wkEnv w)) C to (tkVersion tk) s = (Inr (Some ?tk, Some ctx), s1)"
    "registry_at T C ?tk ctx s1"
    using assms(1,4) by (simp add: work_Transition_def registry_at_def work_append_def append_log_def Let_def)
  have "transitionHandler render (wkEnv w) (stamped_call w
      (Some \<lparr> trWorkContextID = C, trTo = to, trExpectedVersion = Some (tkVersion tk) \<rparr>)) s = (Inr (Some ?tk, Some ctx), s1)"
    using assms(2) to s1(1) w by (auto simp: transitionHandler_def Let_def fenced_accepted [OF assms(3)])
  with assms(8) d have a: "a = Inr (Some (work_json (Some ?tk, Some ctx)))" "s' = s1"
    by (simp_all add: work_serve_def wire_reply_def)
  show ?thesis
    using s1(2) assms(7) by (simp add: a wf_decode_def inner_def work_json_def or_null_def task_json_def in_range_def)
qed

definition evidence_of :: "string \<Rightarrow> string \<Rightarrow> string \<Rightarrow> (string \<times> string \<times> string) list" where
  "evidence_of k i out = (if i \<noteq> [] \<and> out \<in> {''PASS'', ''FAIL''} then [(k, i, out)] else [])"

definition evidence_items :: "WorkContext \<Rightarrow> (string \<times> string \<times> string) list" where
  "evidence_items ctx = map (\<lambda>e. (evKind e, evSourceID e, evOutcome e)) (wcEvidenceRefs ctx)"

lemma serve_attach:
  assumes "registry_at T C tk ctx s" and "C \<noteq> []" and "call_accepted w" and "k \<in> {''build'', ''test''}" and "sc \<noteq> []"
    and "in_range (wcVersion ctx)" and "in_range (wcVersion ctx + 1)"
    and "work_serve remote render w \<lparr> wqKind = kd, wqCapability = ''work.attach_evidence'',
        wqPayload = JObject [(''work_context_id'', JText C), (''kind'', JText k), (''source_capability'', JText sc),
          (''source_id'', JText i), (''outcome'', JText out), (''expected_version'', JInt (wcVersion ctx))],
        wqTimeout = t \<rparr> s = (a, s')"
  shows "\<exists>ctx'. registry_at T C tk ctx' s' \<and> evidence_items ctx' = evidence_items ctx @ evidence_of k i out
    \<and> wcVersion ctx' = wcVersion ctx + (if evidence_of k i out = [] then 0 else 1)
    \<and> (if evidence_of k i out = [] then \<exists>e. a = Inl e
       else wf_decode H (inner ''work_context'' as_int ''version'') a = Ok (wcVersion ctx'))"
proof -
  let ?q = "\<lparr> arWorkContextID = C, arKind = k, arSourceCapability = sc, arSourceID = i, arOutcome = out,
      arContentHash = [], arExpectedVersion = Some (wcVersion ctx) \<rparr>"
  have d: "decode_attachEvidenceRequest (JObject [(''work_context_id'', JText C), (''kind'', JText k), (''source_capability'', JText sc),
          (''source_id'', JText i), (''outcome'', JText out), (''expected_version'', JInt (wcVersion ctx))]) = Some ?q"
    using assms(6) by (simp add: decode_attachEvidenceRequest_def in_range_def as_text_def)
  have w: "seWrite (wkEnv w) = Written" using assms(3) by (simp add: call_accepted_def)
  have h: "attachEvidenceHandler render (wkEnv w) (wkID w) (stamped_call w (Some ?q)) s = (h, s') \<Longrightarrow>
      a = wire_reply remote attached_json h" for h
    using assms(8) d by (simp add: work_serve_def)
  obtain hr where hr: "attachEvidenceHandler render (wkEnv w) (wkID w) (stamped_call w (Some ?q)) s = (hr, s')"
    using assms(8) d by (cases "attachEvidenceHandler render (wkEnv w) (wkID w) (stamped_call w (Some ?q)) s") (simp add: work_serve_def)
  show ?thesis
  proof (cases "i \<noteq> [] \<and> out \<in> {''PASS'', ''FAIL''}")
    case False
    then have "(if i = [] then True else out \<noteq> ''PASS'' \<and> out \<noteq> ''FAIL'')" by auto
    with hr have "s' = s \<and> (\<exists>er. hr = Inl er)"
      using assms(2,4,5) by (auto simp: attachEvidenceHandler_def Let_def split: if_splits)
    with h [OF hr] False assms(1) show ?thesis by (intro exI [of _ ctx]) (auto simp: evidence_of_def wire_reply_def)
  next
    case True
    let ?ev = "\<lparr> evID = wkID w, evKind = k, evSourceCapability = sc, evSourceID = i, evOutcome = out,
        evObservedAt = seNow (wkEnv w), evContentHash = [], evInvalidatedAt = None \<rparr>"
    let ?ctx = "ctx\<lparr> wcEvidenceRefs := wcEvidenceRefs ctx @ [?ev], wcVersion := wcVersion ctx + 1 \<rparr>"
    obtain s1 where s1: "AttachEvidence Written (seNow (wkEnv w)) (wkID w) C
        \<lparr> evID = [], evKind = k, evSourceCapability = sc, evSourceID = i, evOutcome = out, evObservedAt = [],
          evContentHash = [], evInvalidatedAt = None \<rparr> (wcVersion ctx) s = (Inr (?ev, Some ?ctx), s1)" "registry_at T C tk ?ctx s1"
      using assms(1) by (simp add: AttachEvidence_def registry_at_def work_append_def append_log_def Let_def)
    have "attachEvidenceHandler render (wkEnv w) (wkID w) (stamped_call w (Some ?q)) s = (Inr (?ev, Some ?ctx), s1)"
      using assms(2,4,5) True s1(1) w by (auto simp: attachEvidenceHandler_def Let_def fenced_accepted [OF assms(3)])
    with hr have hs: "hr = Inr (?ev, Some ?ctx)" "s' = s1" by simp_all
    with h [OF hr] have a: "a = Inr (Some (attached_json (?ev, Some ?ctx)))" by (simp only: wire_reply_def sum.case)
    note a = a hs(2)
    have "wf_decode H (inner ''work_context'' as_int ''version'') a = Ok (wcVersion ?ctx)"
      using assms(7) by (simp add: a wf_decode_def inner_def attached_json_def or_null_def context_json_def in_range_def)
    with True s1(2) a(2) show ?thesis
      by (intro exI [of _ ?ctx]) (simp add: evidence_of_def evidence_items_def)
  qed
qed

section \<open>A run and its registry\<close>

fun attached :: "call \<Rightarrow> (string \<times> string \<times> string) list" where
  "attached (CAttachEvidence wc k sc i out a) = evidence_of k i out"
| "attached _ = []"

text \<open>Granted: the task is found, every transition is, and so is evidence with an outcome and a source.\<close>

fun call_granted :: "call \<Rightarrow> bool" where
  "call_granted (CWorkGet _ a) = is_ok a"
| "call_granted (CWorkTransition _ _ _ a) = is_ok a"
| "call_granted (CAttachEvidence _ k _ i out a) = (is_ok a = (evidence_of k i out \<noteq> []))"
| "call_granted _ = True"

definition in_step_with ::
  "wf_host \<Rightarrow> (wf_request list \<Rightarrow> work_store) \<Rightarrow> string \<Rightarrow> string \<Rightarrow> Task \<Rightarrow> WorkContext \<Rightarrow> call list \<Rightarrow> Task \<Rightarrow> WorkContext \<Rightarrow> bool" where
  "in_step_with H reg T C tk0 ctx0 cs tk ctx \<longleftrightarrow>
     registry_at T C tk ctx (reg (rcAsked (rc_after H cs)))
     \<and> tkStatus tk = status_after cs
     \<and> (version_after cs = None \<or> version_after cs = Some (tkVersion tk))
     \<and> (context_after cs = None \<or> context_after cs = Some C \<and> rcVersion (rc_after H cs) = wcVersion ctx)
     \<and> tkVersion tk0 \<le> tkVersion tk \<and> tkVersion tk \<le> tkVersion tk0 + int (length cs)
     \<and> wcVersion ctx0 \<le> wcVersion ctx \<and> wcVersion ctx \<le> wcVersion ctx0 + int (length cs)
     \<and> evidence_items ctx = evidence_items ctx0 @ concat (map attached cs)
     \<and> list_all call_granted cs"

lemma rc_after_snoc [simp]: "rc_after H (cs @ [x]) = replay_call H x (rc_after H cs)" "rc_after H [] = rc_start"
  by (simp_all add: rc_after_def)

lemma unconcerned_granted: "\<not> concerns_work x \<Longrightarrow> attached x = [] \<and> call_granted x"
  by (cases x) simp_all

text \<open>A request of the registry: its answer and the registry after it.\<close>

lemma ask_registry:
  assumes "serves_work H remote render env s0" and "cap \<in> {''work.get'', ''work.transition'', ''work.attach_evidence''}"
    and "work_serve remote render (env (length (rcAsked st)))
        \<lparr> wqKind = kd, wqCapability = cap, wqPayload = JObject payload, wqTimeout = t \<rparr>
        (work_after remote render env s0 (rcAsked st)) = (a, s')"
  shows "\<exists>st1. ask H kd cap payload t st = (a, st1) \<and> rcVersion st1 = rcVersion st
    \<and> work_after remote render env s0 (rcAsked st1) = s'"
proof -
  let ?r = "\<lparr> wqKind = kd, wqCapability = cap, wqPayload = JObject payload, wqTimeout = t \<rparr>"
  have w: "is_work ?r" using assms(2) by (simp add: is_work_def)
  with assms(1) have "whAnswer H (rcAsked st) ?r = fst (work_serve remote render (env (length (rcAsked st))) ?r
      (work_after remote render env s0 (rcAsked st)))" unfolding serves_work_def by blast
  with assms(3) w show ?thesis by (simp add: ask_def Let_def)
qed

lemma registry_in_step:
  assumes "serves_work H remote render env s0" and acc: "\<And>n. call_accepted (env n)" and "registry_at T C tk0 ctx0 s0"
    and "tkStatus tk0 = ''PLANNED''" and "T \<noteq> []" and "C \<noteq> []" and "min_int \<le> tkVersion tk0" and "min_int \<le> wcVersion ctx0"
    and "tkVersion tk0 + N \<le> max_int" and "wcVersion ctx0 + N \<le> max_int"
    and "orderly (realCaps H expired) T cs" and "int (length cs) \<le> N"
  shows "\<exists>tk ctx. in_step_with H (work_after remote render env s0) T C tk0 ctx0 cs tk ctx"
  using assms(11,12)
proof (induction cs rule: rev_induct)
  case Nil
  show ?case
    using assms(3,4) by (intro exI [of _ tk0] exI [of _ ctx0]) (simp add: in_step_with_def rc_start_def)
next
  case (snoc x cs)
  let ?reg = "work_after remote render env s0"
  define st where "st = rc_after H cs"
  obtain tk ctx where ist: "in_step_with H ?reg T C tk0 ctx0 cs tk ctx" using snoc by auto
  have reg: "registry_at T C tk ctx (?reg (rcAsked st))" using ist by (simp add: in_step_with_def st_def)
  have rng: "in_range (tkVersion tk)" "in_range (tkVersion tk + 1)" "in_range (wcVersion ctx)" "in_range (wcVersion ctx + 1)"
    using ist assms(7-10) snoc.prems(2) by (auto simp: in_step_with_def in_range_def)
  have ok: "step_ok (realCaps H expired) T cs x" using snoc.prems(1) by simp
  show ?case
  proof (cases "concerns_work x")
    case False
    have q: "quiet st (replay_call H x st)" by (rule quiet_call [OF False])
    show ?thesis
      using ist next_unconcerned [OF False] unconcerned_granted [OF False] work_after_quiet [OF q] q
      by (intro exI [of _ tk] exI [of _ ctx]) (auto simp: in_step_with_def st_def quiet_def)
  next
    case True
    then consider (get) t a where "x = CWorkGet t a" | (tr) wc to v a where "x = CWorkTransition wc to v a"
      | (att) wc k sc i out a where "x = CAttachEvidence wc k sc i out a"
      by (cases x) auto
    then show ?thesis
    proof cases
      case get
      have t: "t = T" "cs = []" "a = fst (rc_WorkGet H T st)" using ok by (simp_all add: get realCaps_def st_def)
      obtain st1 where q: "ask H KindQuery ''work.get'' [(''task_id'', JText T)] (seconds 30) st = (Inr (Some (work_json (Some tk, Some ctx))), st1)"
        "rcVersion st1 = rcVersion st" "?reg (rcAsked st1) = ?reg (rcAsked st)"
        using ask_registry [OF assms(1) _ serve_get [OF reg assms(5)]] by auto
      have r: "rc_WorkGet H T st = (Ok (\<lparr> wtID = tkID tk, wtVersion = tkVersion tk, wtWorkContextID = tkWorkContextID tk \<rparr>, wcID ctx, tkVersion tk),
          st1\<lparr> rcRepo := wcRepo ctx, rcVersion := wcVersion ctx \<rparr>)"
        by (simp add: rc_WorkGet_def q(1) wf_decode_def answer_get [OF rng(1,3)])
      have "wcID ctx = C" using reg by (simp add: registry_at_def)
      with ist r q reg t get show ?thesis
        by (intro exI [of _ tk] exI [of _ ctx])
          (simp add: in_step_with_def st_def is_ok_def rc_after_def status_after_def version_after_def context_after_def)
    next
      case tr
      have o: "wc = C" "v = tkVersion tk" "to \<noteq> ''FAILED''" "legalTransition (tkStatus tk) to" "a = fst (rc_WorkTransition H C to (tkVersion tk) st)"
        using ok ist by (auto simp: tr realCaps_def st_def in_step_with_def)
      let ?tk = "tk\<lparr> tkStatus := to, tkVersion := tkVersion tk + 1 \<rparr>"
      obtain b s1 where sv: "work_serve remote render (env (length (rcAsked st))) \<lparr> wqKind = KindCommand, wqCapability = ''work.transition'',
          wqPayload = JObject [(''work_context_id'', JText C), (''to'', JText to), (''expected_version'', JInt (tkVersion tk))],
          wqTimeout = seconds 30 \<rparr> (?reg (rcAsked st)) = (b, s1)" by force
      note tr2 = serve_transition [OF reg assms(6) acc o(4,3) rng(1,2) sv, of H]
      obtain st1 where q: "ask H KindCommand ''work.transition''
          [(''work_context_id'', JText C), (''to'', JText to), (''expected_version'', JInt (tkVersion tk))] (seconds 30) st = (b, st1)"
        "rcVersion st1 = rcVersion st" "?reg (rcAsked st1) = s1"
        using ask_registry [OF assms(1) _ sv] by auto
      have r: "rc_WorkTransition H C to (tkVersion tk) st = (Ok (tkVersion tk + 1), st1)"
        using tr2 by (simp add: rc_WorkTransition_def q(1))
      then have x: "x = CWorkTransition C to (tkVersion tk) (Ok (tkVersion tk + 1))" using o by (simp add: tr)
      have st1: "rc_after H (cs @ [x]) = st1" using r by (simp add: x st_def)
      from ist q(2,3) tr2 show ?thesis unfolding in_step_with_def st1
        by (intro exI [of _ ?tk] exI [of _ ctx]) (auto simp: x st_def is_ok_def)
    next
      case att
      have o: "wc = C" "k \<in> {''build'', ''test''}" "sc \<noteq> []" "rcVersion st = wcVersion ctx"
        "a = fst (rc_AttachEvidence H C k sc i out st)"
        using ok ist by (auto simp: att realCaps_def st_def in_step_with_def)
      obtain b s1 where sv: "work_serve remote render (env (length (rcAsked st))) \<lparr> wqKind = KindCommand, wqCapability = ''work.attach_evidence'',
          wqPayload = JObject [(''work_context_id'', JText C), (''kind'', JText k), (''source_capability'', JText sc),
            (''source_id'', JText i), (''outcome'', JText out), (''expected_version'', JInt (wcVersion ctx))],
          wqTimeout = seconds 30 \<rparr> (?reg (rcAsked st)) = (b, s1)" by force
      obtain ctx' where c': "registry_at T C tk ctx' s1" "evidence_items ctx' = evidence_items ctx @ evidence_of k i out"
        "wcVersion ctx' = wcVersion ctx + (if evidence_of k i out = [] then 0 else 1)"
        "if evidence_of k i out = [] then \<exists>e. b = Inl e else wf_decode H (inner ''work_context'' as_int ''version'') b = Ok (wcVersion ctx')"
        using serve_attach [OF reg assms(6) acc o(2,3) rng(3,4) sv, of H] by blast
      obtain st1 where q: "ask H KindCommand ''work.attach_evidence''
          [(''work_context_id'', JText C), (''kind'', JText k), (''source_capability'', JText sc),
            (''source_id'', JText i), (''outcome'', JText out), (''expected_version'', JInt (wcVersion ctx))] (seconds 30) st = (b, st1)"
        "rcVersion st1 = rcVersion st" "?reg (rcAsked st1) = s1"
        using ask_registry [OF assms(1) _ sv] by auto
      have "is_ok (fst (rc_AttachEvidence H C k sc i out st)) = (evidence_of k i out \<noteq> [])
          \<and> rcVersion (snd (rc_AttachEvidence H C k sc i out st)) = wcVersion ctx'
          \<and> ?reg (rcAsked (snd (rc_AttachEvidence H C k sc i out st))) = s1"
        using c'(3,4) q o(4) by (auto simp: rc_AttachEvidence_def is_ok_def wf_decode_def split: if_splits)
      with ist c' o att snoc.prems show ?thesis
        by (intro exI [of _ tk] exI [of _ ctx']) (auto simp: in_step_with_def st_def)
    qed
  qed
qed

section \<open>A whole run\<close>


text \<open>A registry with one planned task, and a host that has a workspace to give and no agent to run.\<close>

definition sample_task :: Task where
  "sample_task = \<lparr> tkID = ''t1'', tkTitle = ''t'', tkGoal = ''g'', tkScope = ''s'', tkAcceptance = [], tkStatus = ''PLANNED'',
     tkVersion = 1, tkWorkContextID = ''wc1'' \<rparr>"

definition sample_context :: WorkContext where
  "sample_context = \<lparr> wcID = ''wc1'', wcTaskID = ''t1'', wcRepo = ''r'', wcActiveWorkspaceRef = None, wcEvidenceRefs = [], wcVersion = 1 \<rparr>"

definition sample_call :: "nat \<Rightarrow> work_call" where
  "sample_call n = \<lparr> wkEnv = sample_store_env Written, wkID = ''e'', wkService = ''work'', wkAuthority = ''main'', wkEpoch = 1 \<rparr>"

definition sample_registry :: work_store where
  "sample_registry = \<lparr> lsFile = \<lparr> lfLines = [], lfTail = None \<rparr>,
     lsState = \<lparr> wsTasks = [''t1'' \<mapsto> sample_task], wsContexts = [''wc1'' \<mapsto> sample_context], wsTaskByWC = [''wc1'' \<mapsto> ''t1''],
       wsIdem = Map.empty \<rparr>, lsSeq = 0 \<rparr>"

definition sample_wf_host :: wf_host where
  "sample_wf_host =
     \<lparr> whAnswer = (\<lambda>asked r.
         if is_work r then fst (work_serve (\<lambda>_. []) (\<lambda>_. []) (sample_call (length asked)) r
           (work_after (\<lambda>_. []) (\<lambda>_. []) sample_call sample_registry asked))
         else if wqCapability r = ''workspace.allocate''
         then Inr (Some (JObject [(''workspace'', JObject [(''id'', JText ''ws1''), (''path'', JText ''/w'')])]))
         else Inl []),
       whDecodeError = (\<lambda>_. []) \<rparr>"

lemma sample_wf_run:
  "map_option (\<lambda>s. (rrOutcome (piRes s), length (piCalls s), status_after (piCalls s)))
     (runPipeline (realCaps sample_wf_host (\<lambda>_. None)) 1 sample_job) = Some (''AGENT_FAILED'', 8, ''IN_PROGRESS'')"
  by code_simp


end
