(* ===== verification/AgentReal.thy ===== *)
theory AgentReal
  imports AgentProvider
begin

text \<open>
  The provider that runs an external agent program (\<open>plugins/agent-harness/real_provider.go\<close>): the command it
  starts, the readers that turn the bytes of the program's two pipes into frames, the numbering of
  the frames, the waits around the program's end, and the result. What the program writes, when it ends, and
  how the goroutines interleave are arguments. A Go string is a list of bytes here.
\<close>

section \<open>Reading a pipe\<close>

text \<open>
  \<open>bufio.Reader.ReadLine\<close> on the bytes that are still to come, with a buffer of \<open>sz\<close> bytes: the
  chunk, whether more of the line follows, and the bytes after it; None is the end of the stream. A
  carriage return that would end a full buffer is put back.
\<close>

definition ReadLine :: "nat \<Rightarrow> string \<Rightarrow> (string \<times> bool \<times> string) option" where
  "ReadLine sz s =
     (let l = takeWhile (\<lambda>c. c \<noteq> CHR 0x0A) s
      in if length l < sz
         then (if length l < length s
               then Some (if l \<noteq> [] \<and> last l = CHR 0x0D then butlast l else l, False, drop (Suc (length l)) s)
               else if s = [] then None
               else Some (s, False, []))
         else if last (take sz s) = CHR 0x0D then Some (take (sz - 1) s, True, drop (sz - 1) s)
         else Some (take sz s, True, drop sz s))"

definition bufio_size :: nat where "bufio_size = 4096"

definition maxFrameText :: nat where "maxFrameText = 2 ^ 20"

definition truncMark :: string where
  "truncMark = [CHR 0xE2, CHR 0x80, CHR 0xA6] @ ''[truncated]''"

text \<open>How the stream ends: the writers closed it, a read failed, or the reader was stopped.\<close>

datatype pipe_end = PipeEOF | PipeStopped | PipeError string

definition trim_cr :: "string \<Rightarrow> string" where
  "trim_cr s = (if s \<noteq> [] \<and> last s = CHR 0x0D then butlast s else s)"

lemma ReadLine_shorter:
  assumes "\<not> sz \<le> Suc 0" and "ReadLine sz s = Some (chunk, cont, rest)"
  shows "length rest < length s"
proof (cases "length (takeWhile (\<lambda>c. c \<noteq> CHR 0x0A) s) < sz")
  case True
  then show ?thesis using assms by (auto simp: ReadLine_def Let_def split: if_splits)
next
  case False
  with assms(1) have "sz \<le> length s" "s \<noteq> []" 
    using length_takeWhile_le [of "\<lambda>c. c \<noteq> CHR 0x0A" s] by auto
  with False show ?thesis using assms by (auto simp: ReadLine_def Let_def split: if_splits)
qed

text \<open>The rest of a line that is too long is read and dropped.\<close>

function discard_line :: "nat \<Rightarrow> bool \<Rightarrow> string \<Rightarrow> string option" where
  "discard_line sz cont s =
     (if \<not> cont \<or> sz \<le> 1 then Some s
      else (case ReadLine sz s of
              None \<Rightarrow> None
            | Some (chunk, cont', rest) \<Rightarrow> discard_line sz cont' rest))"
  by pat_completeness auto
termination
  by (relation "measure (\<lambda>(sz, cont, s). length s)") (auto intro: ReadLine_shorter)

declare discard_line.simps [simp del]

lemma discard_line_length: "discard_line sz cont s = Some r \<Longrightarrow> length r \<le> length s"
proof (induction sz cont s rule: discard_line.induct)
  case (1 sz cont s)
  show ?case
  proof (cases "\<not> cont \<or> sz \<le> 1")
    case True
    with 1 show ?thesis by (simp add: discard_line.simps)
  next
    case False
    with 1(2) obtain chunk c' rest where r: "ReadLine sz s = Some (chunk, c', rest)" "discard_line sz c' rest = Some r"
      by (subst (asm) discard_line.simps) (auto split: option.splits)
    from 1(1) [OF False r(1) refl refl r(2)] ReadLine_shorter [OF _ r(1)] False show ?thesis by simp
  qed
qed

text \<open>
  The attempts to emit a frame that one reader makes, each with whether it was taken; \<open>taken k\<close> says so for
  the k-th. Lines are gathered from chunks, cut at \<open>mx\<close> bytes, and a reader whose frame is not taken gives up.
\<close>

definition flush_frame :: "(nat \<Rightarrow> bool) \<Rightarrow> nat \<Rightarrow> string \<Rightarrow> (string \<times> bool) list" where
  "flush_frame taken k acc = (if acc = [] then [] else [(trim_cr acc, taken k)])"

definition read_end :: "(nat \<Rightarrow> bool) \<Rightarrow> pipe_end \<Rightarrow> nat \<Rightarrow> string \<Rightarrow> (string \<times> bool) list" where
  "read_end taken e k acc =
     (case e of
        PipeError why \<Rightarrow> (''[read error: '' @ why @ '']'', taken k) # flush_frame taken (Suc k) acc
      | _ \<Rightarrow> flush_frame taken k acc)"

definition cut_text :: "nat \<Rightarrow> string \<Rightarrow> string" where
  "cut_text mx t = take (mx - length truncMark) t @ truncMark"

function readPipe :: "nat \<Rightarrow> nat \<Rightarrow> (nat \<Rightarrow> bool) \<Rightarrow> pipe_end \<Rightarrow> nat \<Rightarrow> string \<Rightarrow> string \<Rightarrow> (string \<times> bool) list" where
  "readPipe sz mx taken e k acc s =
     (if sz \<le> 1 then []
      else (case ReadLine sz s of
              None \<Rightarrow> read_end taken e k acc
            | Some (chunk, cont, rest) \<Rightarrow>
                if mx - length acc < length chunk
                then (let t = cut_text mx (acc @ take (mx - length acc) chunk)
                      in (t, taken k) #
                         (if \<not> taken k then []
                          else (case discard_line sz cont rest of
                                  None \<Rightarrow> read_end taken e (Suc k) []
                                | Some rest' \<Rightarrow> readPipe sz mx taken e (Suc k) [] rest')))
                else if cont then readPipe sz mx taken e k (acc @ chunk) rest
                else if acc @ chunk = [] then readPipe sz mx taken e k [] rest
                else (trim_cr (acc @ chunk), taken k) #
                     (if \<not> taken k then [] else readPipe sz mx taken e (Suc k) [] rest)))"
  by pat_completeness auto
termination
  by (relation "measure (\<lambda>(sz, mx, taken, e, k, acc, s). length s)")
    (auto dest: ReadLine_shorter [rotated] dest!: discard_line_length)

declare readPipe.simps [simp del]

section \<open>The lines of a stream\<close>

text \<open>
  What a reader is meant to do, without chunks: of each line, without its line ending, the text of its
  frame. Empty lines have none, and a last line without a newline counts.
\<close>

abbreviation "newline \<equiv> CHR 0x0A"

definition first_line :: "string \<Rightarrow> string" where "first_line s = takeWhile (\<lambda>c. c \<noteq> newline) s"

definition line_body :: "string \<Rightarrow> string" where
  "line_body s = (if newline \<in> set s then trim_cr (first_line s) else s)"

definition after_line :: "string \<Rightarrow> string" where "after_line s = drop (Suc (length (first_line s))) s"

definition line_text :: "nat \<Rightarrow> string \<Rightarrow> string list" where
  "line_text mx b = (if mx < length b then [cut_text mx b] else if b = [] then [] else [trim_cr b])"

function pipe_texts :: "nat \<Rightarrow> string \<Rightarrow> string list" where
  "pipe_texts mx s = (if s = [] then [] else line_text mx (line_body s) @ pipe_texts mx (after_line s))"
  by pat_completeness auto
termination
  by (relation "measure (\<lambda>(mx, s). length s)") (auto simp: after_line_def)

declare pipe_texts.simps [simp del]

lemma pipe_texts_Nil [simp]: "pipe_texts mx [] = []"
  by (subst pipe_texts.simps) simp

lemma no_newline: "newline \<notin> set s \<Longrightarrow> first_line s = s \<and> after_line s = []"
proof -
  assume "newline \<notin> set s"
  then have "first_line s = s" by (auto simp: first_line_def takeWhile_eq_all_conv)
  then show ?thesis by (simp add: after_line_def)
qed

lemma line_split: "newline \<in> set s \<Longrightarrow> s = first_line s @ newline # after_line s"
proof -
  assume "newline \<in> set s"
  then obtain a b where s: "s = a @ newline # b" "newline \<notin> set a" by (metis split_list_first)
  then have "first_line s = a" by (simp add: first_line_def takeWhile_append)
  with s show ?thesis by (simp add: after_line_def)
qed

lemma short_line: "length (first_line s) < length s \<longleftrightarrow> newline \<in> set s"
proof
  assume "length (first_line s) < length s"
  then show "newline \<in> set s" using no_newline by fastforce
next
  assume "newline \<in> set s"
  from line_split [OF this] show "length (first_line s) < length s" by (metis length_append less_add_same_cancel1 length_greater_0_conv list.distinct(1))
qed

text \<open>What \<open>ReadLine\<close> gives, in these terms. A chunk never ends between the two characters of a line ending.\<close>

definition joins :: "string \<Rightarrow> string \<Rightarrow> bool" where
  "joins a s \<longleftrightarrow> newline \<notin> set a \<and> (a = [] \<or> last a \<noteq> CHR 0x0D \<or> s = [] \<or> hd s \<noteq> newline)"

lemma ReadLine_None: "\<not> sz \<le> Suc 0 \<Longrightarrow> ReadLine sz s = None \<longleftrightarrow> s = []"
  by (auto simp: ReadLine_def Let_def)

lemma ReadLine_Nil [simp]: "\<not> sz \<le> Suc 0 \<Longrightarrow> ReadLine sz [] = None"
  by (simp add: ReadLine_None)

lemma joins_Nil [simp]: "joins [] s"
  by (simp add: joins_def)

lemma ReadLine_end:
  assumes "ReadLine sz s = Some (chunk, False, rest)"
  shows "s \<noteq> [] \<and> chunk = line_body s \<and> rest = after_line s"
  using assms short_line [of s] no_newline [of s]
  by (auto simp: ReadLine_def Let_def first_line_def [symmetric] line_body_def after_line_def trim_cr_def split: if_splits)

lemma ReadLine_part:
  assumes "\<not> sz \<le> Suc 0" and "ReadLine sz s = Some (chunk, True, rest)"
  shows "s = chunk @ rest \<and> chunk \<noteq> [] \<and> joins chunk rest"
proof -
  have long: "sz \<le> length (first_line s)" using assms by (auto simp: ReadLine_def Let_def first_line_def split: if_splits)
  have "length (first_line s) \<le> length s" by (simp add: first_line_def length_takeWhile_le)
  with long have l: "sz \<le> length s" by simp
  have n: "newline \<notin> set (take sz s)"
  proof -
    have "first_line s = take (length (first_line s)) s" unfolding first_line_def by (rule takeWhile_eq_take)
    with long have "take sz s = take sz (first_line s)" by (metis min.absorb1 take_take)
    then show ?thesis by (auto simp: first_line_def dest: in_set_takeD set_takeWhileD)
  qed
  show ?thesis
  proof (cases "last (take sz s) = CHR 0x0D")
    case True
    with assms long have c: "chunk = take (sz - 1) s" "rest = drop (sz - 1) s"
      by (auto simp: ReadLine_def Let_def first_line_def split: if_splits)
    have "take sz s = take (sz - 1) s @ [s ! (sz - 1)]"
      using take_Suc_conv_app_nth [of "sz - 1" s] l assms(1) by simp
    with True n have "hd rest = CHR 0x0D" "newline \<notin> set chunk"
      using l assms(1) by (auto simp: c hd_drop_conv_nth)
    with c l assms(1) show ?thesis by (auto simp: joins_def)
  next
    case False
    with assms long have c: "chunk = take sz s" "rest = drop sz s"
      by (auto simp: ReadLine_def Let_def first_line_def split: if_splits)
    with False n l assms(1) show ?thesis by (auto simp: joins_def)
  qed
qed

lemma joined_body:
  assumes "joins a s"
  shows "line_body (a @ s) = a @ line_body s" and "after_line (a @ s) = after_line s"
proof -
  have f: "first_line (a @ s) = a @ first_line s"
    unfolding first_line_def using assms by (intro takeWhile_append2) (auto simp: joins_def)
  then show "after_line (a @ s) = after_line s" by (simp add: after_line_def)
  show "line_body (a @ s) = a @ line_body s"
  proof (cases "newline \<in> set s")
    case True
    then have "first_line s = [] \<Longrightarrow> hd s = newline" by (cases s) (auto simp: first_line_def split: if_splits)
    with True assms show ?thesis by (auto simp: line_body_def f trim_cr_def joins_def butlast_append)
  next
    case False
    with assms show ?thesis by (simp add: line_body_def joins_def)
  qed
qed

lemma discard_rest:
  "\<not> sz \<le> Suc 0 \<Longrightarrow> (case discard_line sz cont s of None \<Rightarrow> [] | Some r \<Rightarrow> r) = (if cont then after_line s else s)"
proof (induction sz cont s rule: discard_line.induct)
  case (1 sz cont s)
  show ?case
  proof (cases cont)
    case True
    show ?thesis
    proof (cases "ReadLine sz s")
      case None
      with 1 True show ?thesis by (subst discard_line.simps) (simp add: ReadLine_None after_line_def)
    next
      case (Some r)
      then obtain chunk c' rest where r: "ReadLine sz s = Some (chunk, c', rest)" by (metis prod_cases3)
      have l: "after_line s = (if c' then after_line rest else rest)"
        using ReadLine_part [of sz s chunk rest] ReadLine_end [of sz s chunk rest] joined_body(2) [of chunk rest] r 1(2)
        by (cases c') auto
      have "discard_line sz cont s = discard_line sz c' rest"
        using r True 1(2) by (subst discard_line.simps) simp
      moreover have "(case discard_line sz c' rest of None \<Rightarrow> [] | Some r \<Rightarrow> r) = (if c' then after_line rest else rest)"
        using 1(1) [OF _ r refl refl] True 1(2) by simp
      ultimately show ?thesis using True l by simp
    qed
  next
    case False
    then show ?thesis by (subst discard_line.simps) simp
  qed
qed

text \<open>
  A reader's attempts are the texts of the stream's lines, as far as it gets: it stops early only at an attempt
  that is not taken.
\<close>

definition reads :: "(string \<times> bool) list \<Rightarrow> string list \<Rightarrow> bool" where
  "reads as ts \<longleftrightarrow> prefix (map fst as) ts \<and> (list_all snd as \<longrightarrow> map fst as = ts)"

lemma reads_simps [simp]:
  "reads [] ts \<longleftrightarrow> ts = []" "reads [(t, b)] (t # ts) \<longleftrightarrow> \<not> b \<or> ts = []"
  by (auto simp: reads_def)

lemma reads_step: "reads ((t, b) # (if \<not> b then [] else as)) (t # ts) \<longleftrightarrow> (b \<longrightarrow> reads as ts)"
  by (auto simp: reads_def)

lemma pipe_texts_residual: "newline \<notin> set b \<Longrightarrow> length b \<le> mx \<Longrightarrow> pipe_texts mx b = (if b = [] then [] else [trim_cr b])"
  using no_newline [of b] by (subst pipe_texts.simps) (simp add: line_text_def line_body_def)

lemma pipe_texts_line: "joins a s \<Longrightarrow> s \<noteq> [] \<Longrightarrow> pipe_texts mx (a @ s) = line_text mx (a @ line_body s) @ pipe_texts mx (after_line s)"
  by (subst pipe_texts.simps) (simp add: joined_body)

lemma joins_snoc: "newline \<notin> set a \<Longrightarrow> b \<noteq> [] \<Longrightarrow> joins b s \<Longrightarrow> joins (a @ b) s"
  by (auto simp: joins_def)

lemma readPipe_reads:
  assumes "length truncMark \<le> mx"
  shows "\<not> sz \<le> Suc 0 \<Longrightarrow> length acc \<le> mx \<Longrightarrow> joins acc s \<Longrightarrow> (\<forall>why. e \<noteq> PipeError why) \<Longrightarrow>
     reads (readPipe sz mx taken e k acc s) (pipe_texts mx (acc @ s))"
proof (induction sz mx taken e k acc s rule: readPipe.induct)
  case (1 sz mx taken e k acc s)
  have at_end: "read_end taken e k acc = flush_frame taken k acc" for k acc
    using 1 by (simp add: read_end_def split: pipe_end.split)
  show ?case
  proof (cases "ReadLine sz s")
    case None
    then have "s = []" using 1 by (simp add: ReadLine_None)
    then show ?thesis
      using 1(5-8) pipe_texts_residual [of acc mx]
      by (subst readPipe.simps) (simp add: at_end joins_def flush_frame_def)
  next
    case (Some r)
    obtain chunk cont rest where r: "ReadLine sz s = Some (chunk, cont, rest)" using Some by (metis prod_cases3)
    have s: "s \<noteq> []" using r 1(5) by auto
    let ?long = "mx - length acc < length chunk"
    have ih: "?long \<Longrightarrow> taken k \<Longrightarrow> discard_line sz cont rest = Some r' \<Longrightarrow> reads (readPipe sz mx taken e (Suc k) [] r') (pipe_texts mx r')"
      "\<not> ?long \<Longrightarrow> cont \<Longrightarrow> joins (acc @ chunk) rest \<Longrightarrow> reads (readPipe sz mx taken e k (acc @ chunk) rest) (pipe_texts mx ((acc @ chunk) @ rest))"
      "\<not> ?long \<Longrightarrow> \<not> cont \<Longrightarrow> acc @ chunk = [] \<Longrightarrow> reads (readPipe sz mx taken e k [] rest) (pipe_texts mx rest)"
      "\<not> ?long \<Longrightarrow> \<not> cont \<Longrightarrow> acc @ chunk \<noteq> [] \<Longrightarrow> taken k \<Longrightarrow> reads (readPipe sz mx taken e (Suc k) [] rest) (pipe_texts mx rest)" for r'
      using 1(1) [OF _ r refl refl _ refl, of r'] 1(2-4) [OF _ r refl refl] 1(5,6,8) by auto
    have whole: "pipe_texts mx (acc @ s) = line_text mx (acc @ line_body s) @ pipe_texts mx (after_line s)"
      by (rule pipe_texts_line [OF 1(7) s])
    show ?thesis
    proof (cases ?long)
      case True
      obtain more where b: "acc @ line_body s = acc @ chunk @ more" "after_line s = (if cont then after_line rest else rest)"
      proof (cases cont)
        case True
        with ReadLine_part [OF 1(5), of s chunk rest] r joined_body [of chunk rest] that show ?thesis by auto
      next
        case False
        with ReadLine_end [of sz s chunk rest] r that [of "[]"] show ?thesis by auto
      qed
      have t: "line_text mx (acc @ line_body s) = [cut_text mx (acc @ take (mx - length acc) chunk)]"
        using True 1(6) assms by (simp add: b(1) line_text_def cut_text_def)
      have d: "(case discard_line sz cont rest of None \<Rightarrow> [] | Some r \<Rightarrow> r) = after_line s"
        using discard_rest [OF 1(5), of cont rest] b(2) by simp
      show ?thesis
        using True r 1(5) ih(1) d
        by (subst readPipe.simps) (auto simp: whole t reads_step at_end flush_frame_def Let_def split: option.split)
    next
      case False
      show ?thesis
      proof (cases cont)
        case True
        with ReadLine_part [OF 1(5), of s chunk rest] r 1(7) have "s = chunk @ rest" "joins (acc @ chunk) rest"
          by (auto intro: joins_snoc simp: joins_def)
        with ih(2) False True r 1(5) show ?thesis by (subst readPipe.simps) simp
      next
        case False
        with ReadLine_end [of sz s chunk rest] r have c: "chunk = line_body s" "rest = after_line s" by auto
        show ?thesis
          using ih(3,4) \<open>\<not> ?long\<close> False r 1(5,6)
          by (subst readPipe.simps) (auto simp: whole c [symmetric] line_text_def reads_step)
      qed
    qed
  qed
qed

section \<open>The command\<close>

definition codexArgv :: "RunSpec \<Rightarrow> string list" where
  "codexArgv sp =
     [''exec'', ''--cd'', rsWorkspacePath sp, ''--approve-for-me'', ''--skip-git-repo-check'', ''--json'', ''--color'', ''never'',
      ''--'', rsPrompt sp]"

text \<open>The argument function, its result and the environment may be nil: None.\<close>

record RealProvider =
  rpName :: string
  rpBin :: string
  rpArgv :: "(RunSpec \<Rightarrow> string list option) option"
  rpEnv :: "string list option"
  rpTimeout :: int

record Command =
  cdPath :: string
  cdArgs :: "string list"
  cdDir :: string
  cdEnv :: "string list"

definition run_command :: "RealProvider \<Rightarrow> RunSpec \<Rightarrow> Command option" where
  "run_command p sp =
     (if rpName p = [] \<or> rpBin p = [] then None
      else (case (rpArgv p, rpEnv p) of
              (Some argv, Some env) \<Rightarrow>
                (case argv sp of
                   None \<Rightarrow> None
                 | Some args \<Rightarrow> Some \<lparr> cdPath = rpBin p, cdArgs = args, cdDir = rsWorkspacePath sp, cdEnv = env \<rparr>)
            | _ \<Rightarrow> None))"

section \<open>Results\<close>

datatype ctx_err = CtxLive | CtxDeadlineExceeded | CtxCanceled

datatype process_exit = ExitZero | ExitedWith int | WaitFailed

text \<open>\<open>quote\<close> is the JSON of a string; the keys of a Go map are marshalled in order.\<close>

definition redactedMeta :: "(string \<Rightarrow> string) \<Rightarrow> string \<Rightarrow> int option \<Rightarrow> string" where
  "redactedMeta quote name code =
     (let q = CHR 0x22
      in ''{'' @ [q] @ ''exit_code'' @ [q] @ '':'' @ (case code of None \<Rightarrow> ''null'' | Some c \<Rightarrow> show_int c) @ '',''
         @ [q] @ ''provider'' @ [q] @ '':'' @ quote name @ ''}'')"

definition real_result :: "(string \<Rightarrow> string) \<Rightarrow> string \<Rightarrow> string \<Rightarrow> int option \<Rightarrow> RunResult" where
  "real_result quote status name code =
     \<lparr> rrStatus = status, rrNativeID = [], rrProviderMeta = redactedMeta quote name code \<rparr>"

definition failClosed :: "(string \<Rightarrow> string) \<Rightarrow> string \<Rightarrow> RunResult" where
  "failClosed quote name = real_result quote StatusFailed name None"

definition statusFromCtx :: "(string \<Rightarrow> string) \<Rightarrow> ctx_err \<Rightarrow> string \<Rightarrow> RunResult" where
  "statusFromCtx quote c name =
     real_result quote (if c = CtxDeadlineExceeded then StatusTimeout else StatusCancelled) name None"

definition mapStatus :: "(string \<Rightarrow> string) \<Rightarrow> ctx_err \<Rightarrow> string \<Rightarrow> process_exit \<Rightarrow> RunResult" where
  "mapStatus quote c name e =
     (if c = CtxDeadlineExceeded then real_result quote StatusTimeout name None
      else if c = CtxCanceled then real_result quote StatusCancelled name None
      else (case e of
              ExitZero \<Rightarrow> real_result quote StatusCompleted name (Some 0)
            | ExitedWith n \<Rightarrow> real_result quote StatusFailed name (Some n)
            | WaitFailed \<Rightarrow> real_result quote StatusFailed name None))"

section \<open>A run\<close>

text \<open>
  The end of a run: the process ends first, and its readers drain, are stopped because the context is
  done, or because the grace period is over; or the context is done first, and the killed process ends within
  the grace period or not. What happens then, in order:
\<close>

datatype drain = Drained | DrainCancelled | DrainTimedOut
datatype run_wait = ExitFirst drain | DoneFirst bool
datatype wait_step = ProcessEnded | ReadersEnded | ReadersStopped | GroupKilled | ProcessKilled

fun wait_steps :: "run_wait \<Rightarrow> wait_step list" where
  "wait_steps (ExitFirst Drained) = [ProcessEnded, ReadersEnded, ReadersStopped]"
| "wait_steps (ExitFirst _) = [ProcessEnded, ReadersStopped, ReadersEnded, ReadersStopped]"
| "wait_steps (DoneFirst True) = [GroupKilled, ProcessEnded, ReadersStopped, ReadersEnded, ReadersStopped]"
| "wait_steps (DoneFirst False) =
     [GroupKilled, ReadersStopped, ProcessKilled, ProcessEnded, ReadersStopped, ReadersEnded, ReadersStopped]"

text \<open>
  The attempts of both readers in the order they get the lock, and the frames numbered under it; an attempt that
  is not taken uses up its number.
\<close>

fun interleave :: "bool list \<Rightarrow> 'a list \<Rightarrow> 'a list \<Rightarrow> 'a list" where
  "interleave bs [] ys = ys"
| "interleave bs xs [] = xs"
| "interleave [] xs ys = xs @ ys"
| "interleave (b # bs) (x # xs) (y # ys) = (if b then x # interleave bs xs (y # ys) else y # interleave bs (x # xs) ys)"

fun emit :: "int \<Rightarrow> (string \<times> string \<times> bool) list \<Rightarrow> Frame list" where
  "emit nextIdx [] = []"
| "emit nextIdx ((kind, t, ok) # as) =
     (if ok then [\<lparr> frKind = kind, frText = t, frIndex = nextIdx + 1 \<rparr>] else []) @ emit (nextIdx + 1) as"

record pipe_run =
  prBytes :: string
  prEnd :: pipe_end
  prTaken :: "nat \<Rightarrow> bool"

record real_world =
  rwCtxStart :: ctx_err
  rwPipes :: bool
  rwStarts :: bool
  rwStdout :: pipe_run
  rwStderr :: pipe_run
  rwOrder :: "bool list"
  rwWait :: run_wait
  rwExit :: process_exit
  rwCtxEnd :: ctx_err

definition pipe_attempts :: "string \<Rightarrow> pipe_run \<Rightarrow> (string \<times> string \<times> bool) list" where
  "pipe_attempts kind r = map (\<lambda>a. (kind, a)) (readPipe bufio_size maxFrameText (prTaken r) (prEnd r) 0 [] (prBytes r))"

definition RealProvider_Run ::
  "(string \<Rightarrow> string) \<Rightarrow> real_world \<Rightarrow> RealProvider \<Rightarrow> RunSpec \<Rightarrow> Frame list \<times> RunResult" where
  "RealProvider_Run quote w p sp =
     (case run_command p sp of
        None \<Rightarrow> ([], failClosed quote (rpName p))
      | Some cmd \<Rightarrow>
          if rwCtxStart w \<noteq> CtxLive then ([], statusFromCtx quote (rwCtxStart w) (rpName p))
          else if \<not> rwPipes w \<or> \<not> rwStarts w then ([], failClosed quote (rpName p))
          else (emit 0 (interleave (rwOrder w) (pipe_attempts ''stdout'' (rwStdout w)) (pipe_attempts ''stderr'' (rwStderr w))),
                mapStatus quote (rwCtxEnd w) (rpName p) (rwExit w)))"

text \<open>A frame is refused, or a pipe closed under its reader, only once the context is done or the readers are stopped early.\<close>

definition readers_undisturbed :: "real_world \<Rightarrow> bool" where
  "readers_undisturbed w \<longleftrightarrow> rwCtxEnd w = CtxLive \<and> rwWait w = ExitFirst Drained"

definition world_sound :: "real_world \<Rightarrow> bool" where
  "world_sound w \<longleftrightarrow>
     (rwWait w \<in> {DoneFirst True, DoneFirst False, ExitFirst DrainCancelled} \<longrightarrow> rwCtxEnd w \<noteq> CtxLive)
     \<and> (readers_undisturbed w \<longrightarrow>
        (\<forall>r \<in> {rwStdout w, rwStderr w}. (\<forall>k. prTaken r k) \<and> prEnd r \<noteq> PipeStopped))"

section \<open>Lemmas\<close>

lemma truncMark_fits: "length truncMark \<le> maxFrameText"
  by (simp add: truncMark_def maxFrameText_def)

lemma emit_indices: "list_all (\<lambda>a. snd (snd a)) as \<Longrightarrow> map frIndex (emit n as) = [n + 1..n + int (length as)]"
proof (induction as arbitrary: n)
  case (Cons a as)
  then show ?case by (cases a) (simp add: upto_rec1 [of "n + 1"] add.assoc)
qed simp

lemma emit_texts:
  "list_all (\<lambda>a. snd (snd a)) as \<Longrightarrow>
     map frText (filter (\<lambda>f. frKind f = k) (emit n as)) = map (\<lambda>a. fst (snd a)) (filter (\<lambda>a. fst a = k) as)"
  by (induction n as rule: emit.induct) auto

lemma emit_length: "list_all (\<lambda>a. snd (snd a)) as \<Longrightarrow> length (emit n as) = length as"
  by (induction n as rule: emit.induct) auto

lemma emit_increasing: "sorted_wrt (<) (map frIndex (emit n as)) \<and> (\<forall>f \<in> set (emit n as). n < frIndex f)"
  by (induction n as rule: emit.induct) (auto simp: less_trans [of _ "_ + 1"])

lemma set_interleave [simp]: "set (interleave bs xs ys) = set xs \<union> set ys"
  by (induction bs xs ys rule: interleave.induct) auto

lemma filter_interleave:
  "(\<forall>x \<in> set xs. P x) \<Longrightarrow> (\<forall>y \<in> set ys. \<not> P y) \<Longrightarrow> filter P (interleave bs xs ys) = xs"
  by (induction bs xs ys rule: interleave.induct) auto

lemma filter_interleave_right:
  "(\<forall>x \<in> set xs. \<not> P x) \<Longrightarrow> (\<forall>y \<in> set ys. P y) \<Longrightarrow> filter P (interleave bs xs ys) = ys"
  by (induction bs xs ys rule: interleave.induct) auto

lemma readPipe_taken: "list_all snd (readPipe sz mx (\<lambda>_. True) e k acc s)"
proof (induction sz mx "\<lambda>_ :: nat. True" e k acc s rule: readPipe.induct)
  case (1 sz mx e k acc s)
  let ?taken = "\<lambda>_ :: nat. True"
  have e: "list_all snd (read_end ?taken e k acc)" for k acc
    by (simp add: read_end_def flush_frame_def split: pipe_end.split)
  show ?case
  proof (cases "ReadLine sz s")
    case None
    with e show ?thesis by (subst readPipe.simps) simp
  next
    case (Some r)
    then obtain chunk cont rest where r: "ReadLine sz s = Some (chunk, cont, rest)" by (metis prod_cases3)
    show ?thesis
    proof (cases "sz \<le> 1")
      case False
      let ?long = "mx - length acc < length chunk"
      have ih: "?long \<Longrightarrow> discard_line sz cont rest = Some r' \<Longrightarrow> list_all snd (readPipe sz mx ?taken e (Suc k) [] r')"
        "\<not> ?long \<Longrightarrow> cont \<Longrightarrow> list_all snd (readPipe sz mx ?taken e k (acc @ chunk) rest)"
        "\<not> ?long \<Longrightarrow> \<not> cont \<Longrightarrow> acc @ chunk = [] \<Longrightarrow> list_all snd (readPipe sz mx ?taken e k [] rest)"
        "\<not> ?long \<Longrightarrow> \<not> cont \<Longrightarrow> acc @ chunk \<noteq> [] \<Longrightarrow> list_all snd (readPipe sz mx ?taken e (Suc k) [] rest)" for r'
        using 1(1) [OF False r refl refl _ refl, of r'] 1(2-4) [OF False r refl refl] by auto
      show ?thesis
        using ih e r False by (subst readPipe.simps) (simp add: Let_def split: option.split)
    qed (subst readPipe.simps, simp)
  qed
qed

lemma mapStatus_completed: "rrStatus (mapStatus quote c name e) = StatusCompleted \<longleftrightarrow> c = CtxLive \<and> e = ExitZero"
  by (cases c; cases e) (simp_all add: mapStatus_def real_result_def status_defs)

lemma other_not_completed:
  "rrStatus (failClosed quote name) \<noteq> StatusCompleted" "rrStatus (statusFromCtx quote c name) \<noteq> StatusCompleted"
  by (simp_all add: failClosed_def statusFromCtx_def real_result_def status_defs)

lemma reader_lines:
  "map fst (readPipe bufio_size maxFrameText (\<lambda>_. True) PipeEOF 0 [] s) = pipe_texts maxFrameText s"
proof -
  have "reads (readPipe bufio_size maxFrameText (\<lambda>_. True) PipeEOF 0 [] s) (pipe_texts maxFrameText ([] @ s))"
    by (rule readPipe_reads [OF truncMark_fits]) (simp_all add: bufio_size_def)
  with readPipe_taken [of bufio_size maxFrameText PipeEOF 0 "[]" s] show ?thesis
    by (simp add: reads_def)
qed

text \<open>C31: what a reader makes of a pipe does not depend on how the bytes fall into its buffer: it is one frame for each
  line that is not empty, without its line ending, cut at 1 MiB.\<close>

theorem reader_frames_lines:
  "map fst (readPipe bufio_size maxFrameText (\<lambda>_. True) PipeEOF 0 [] s) = pipe_texts maxFrameText s"
  by (rule reader_lines)


definition sample_spec :: RunSpec where
  "sample_spec = \<lparr> rsWorkspacePath = ''/w'', rsPrompt = ''go'', rsMockSteps = 0, rsMockDelayMS = 0, rsMockFailAt = 0,
     rsMockWriteFile = [], rsMockWriteContent = [] \<rparr>"

definition sample_codex :: RealProvider where
  "sample_codex = \<lparr> rpName = ''codex'', rpBin = ''/bin/codex'', rpArgv = Some (\<lambda>sp. Some (codexArgv sp)), rpEnv = Some [],
     rpTimeout = 0 \<rparr>"

definition sample_world :: "drain \<Rightarrow> string \<Rightarrow> real_world" where
  "sample_world d out =
     \<lparr> rwCtxStart = CtxLive, rwPipes = True, rwStarts = True,
       rwStdout = \<lparr> prBytes = out, prEnd = (if d = Drained then PipeEOF else PipeStopped), prTaken = \<lambda>_. d = Drained \<rparr>,
       rwStderr = \<lparr> prBytes = [], prEnd = PipeEOF, prTaken = \<lambda>_. True \<rparr>,
       rwOrder = [], rwWait = ExitFirst d, rwExit = ExitZero, rwCtxEnd = CtxLive \<rparr>"

lemma sample_world_status:
  "rrStatus (snd (RealProvider_Run quote (sample_world d out) sample_codex sample_spec)) = StatusCompleted"
  by (simp add: RealProvider_Run_def sample_world_def sample_codex_def run_command_def mapStatus_completed)


text \<open>
  The grace period: a child of the program that keeps a pipe open makes the readers stop after three seconds. The
  run is reported COMPLETED all the same, and what had not been read by then is missing without a mark.
\<close>

theorem completed_run_may_lose_output:
  "case RealProvider_Run quote (sample_world DrainTimedOut (''hi'' @ [newline])) sample_codex sample_spec of
     (frames, res) \<Rightarrow> rrStatus res = StatusCompleted \<and> frames = []"
proof -
  have "readPipe bufio_size maxFrameText (\<lambda>_. False) PipeStopped 0 [] (''hi'' @ [newline]) = [(''hi'', False)]"
    by (subst readPipe.simps) (simp add: bufio_size_def ReadLine_def trim_cr_def maxFrameText_def)
  moreover have "readPipe bufio_size maxFrameText (\<lambda>_. True) PipeEOF 0 [] [] = []"
    by (subst readPipe.simps) (simp add: bufio_size_def read_end_def flush_frame_def)
  ultimately have "fst (RealProvider_Run quote (sample_world DrainTimedOut (''hi'' @ [newline])) sample_codex sample_spec) = []"
    by (simp add: RealProvider_Run_def sample_world_def sample_codex_def run_command_def pipe_attempts_def)
  with sample_world_status [of quote DrainTimedOut "''hi'' @ [newline]"] show ?thesis by (simp add: split_beta)
qed

text \<open>
  Whatever happens, the frames of a run have increasing numbers from 1, its readers are done before its
  channel of frames is closed, and its status is terminal.
\<close>

theorem real_run_ends:
  "case RealProvider_Run quote w p sp of (frames, res) \<Rightarrow>
     rrStatus res \<in> terminal_statuses \<and> sorted_wrt (<) (map frIndex frames) \<and> (\<forall>f \<in> set frames. 0 < frIndex f)"
  "ProcessEnded \<in> set (wait_steps x) \<and> last (wait_steps x) = ReadersStopped \<and> ReadersEnded \<in> set (wait_steps x)"
proof -
  have "rrStatus (mapStatus quote c n e) \<in> terminal_statuses" "rrStatus (statusFromCtx quote c n) \<in> terminal_statuses"
    "rrStatus (failClosed quote n) \<in> terminal_statuses" for c n e
    by (auto simp: mapStatus_def statusFromCtx_def failClosed_def real_result_def terminal_statuses_def split: process_exit.split)
  then show "case RealProvider_Run quote w p sp of (frames, res) \<Rightarrow>
     rrStatus res \<in> terminal_statuses \<and> sorted_wrt (<) (map frIndex frames) \<and> (\<forall>f \<in> set frames. 0 < frIndex f)"
    using emit_increasing by (auto simp: RealProvider_Run_def split: option.split)
  show "ProcessEnded \<in> set (wait_steps x) \<and> last (wait_steps x) = ReadersStopped \<and> ReadersEnded \<in> set (wait_steps x)"
    by (cases x rule: wait_steps.cases) simp_all
qed

end
