(* ===== verification/AgentDiscovery.thy ===== *)
theory AgentDiscovery
  imports AgentReal AgentRuns
begin

text \<open>
  Which agent programs the harness finds when it starts (\<open>plugins/agent-harness/discovery.go\<close>), and the
  environment it hands them: candidates and allow-list from its own environment, the names it never
  passes on, the look-up and the \<open>--version\<close> probe of each candidate. The environment, the file
  system and the probed program are arguments.
\<close>

section \<open>Lists in the environment\<close>

fun split_loop :: "string set \<Rightarrow> string list \<Rightarrow> string list" where
  "split_loop seen [] = []"
| "split_loop seen (p # ps) =
     (let t = TrimSpace p
      in if t = [] \<or> t \<in> seen then split_loop seen ps else t # split_loop (insert t seen) ps)"

definition splitList :: "string \<Rightarrow> string list" where
  "splitList v = split_loop {} (split_on (CHR '','') v)"

type_synonym environment = "string \<rightharpoonup> string"

definition Getenv :: "environment \<Rightarrow> string \<Rightarrow> string" where
  "Getenv env n = (case env n of None \<Rightarrow> [] | Some v \<Rightarrow> v)"

definition candidatesFromEnv :: "environment \<Rightarrow> string list" where
  "candidatesFromEnv env =
     (let c = splitList (Getenv env ''VIBE_AGENT_PROVIDERS'') in if c \<noteq> [] then c else [''codex''])"

definition defaultEnvAllowlist :: "string list" where
  "defaultEnvAllowlist =
     [''PATH'', ''HOME'', ''USER'', ''LOGNAME'', ''SHELL'', ''LANG'', ''LC_ALL'', ''LC_CTYPE'',
      ''TERM'', ''TMPDIR'', ''TZ'', ''SSL_CERT_FILE'', ''SSL_CERT_DIR'',
      ''CODEX_HOME'', ''OPENAI_API_KEY'', ''CODEX_API_KEY'']"

definition allowlistFromEnv :: "environment \<Rightarrow> string list" where
  "allowlistFromEnv env =
     (let c = splitList (Getenv env ''VIBE_AGENT_ENV_ALLOWLIST'') in if c \<noteq> [] then c else defaultEnvAllowlist)"

definition denied :: "string \<Rightarrow> bool" where
  "denied name \<longleftrightarrow> hasPrefix name ''FAKE_AGENT_'' \<or> hasPrefix name ''VIBE_''"

fun allowlistedEnv :: "environment \<Rightarrow> string list \<Rightarrow> string list" where
  "allowlistedEnv env [] = []"
| "allowlistedEnv env (n # ns) =
     (if denied n then allowlistedEnv env ns
      else (case env n of
              Some v \<Rightarrow> (n @ ''='' @ v) # allowlistedEnv env ns
            | None \<Rightarrow> allowlistedEnv env ns))"

section \<open>The probe\<close>

text \<open>
  How a probe goes: the null device cannot be opened, the program does not start, it exits in two seconds (with
  success or not), or it has to be killed, and then goes or does not go within the grace period.
\<close>

datatype probe_run = NoDevNull | StartFails | ProbeExits bool | ProbeHangs bool

datatype probe_error = DevNullError | StartError | ExitError | VersionTimedOut

definition probeVersion :: "probe_run \<Rightarrow> probe_error option" where
  "probeVersion r =
     (case r of
        NoDevNull \<Rightarrow> Some DevNullError
      | StartFails \<Rightarrow> Some StartError
      | ProbeExits ok \<Rightarrow> (if ok then None else Some ExitError)
      | ProbeHangs _ \<Rightarrow> Some VersionTimedOut)"

text \<open>Whether the process group is killed, and then the process itself.\<close>

definition probe_kills :: "probe_run \<Rightarrow> wait_step list" where
  "probe_kills r =
     (case r of
        ProbeHangs goes \<Rightarrow> GroupKilled # (if goes then [ProcessEnded] else [ProcessKilled, ProcessEnded])
      | ProbeExits _ \<Rightarrow> [ProcessEnded]
      | _ \<Rightarrow> [])"

section \<open>Discovery\<close>

datatype provider = MockProvider | Real RealProvider

definition argvTemplates :: "string \<rightharpoonup> (RunSpec \<Rightarrow> string list option)" where
  "argvTemplates = [''codex'' \<mapsto> (\<lambda>sp. Some (codexArgv sp))]"

datatype discovery_note =
    NoProcessGroups
  | ReservedSkipped string
  | NoTemplate string
  | NotOnPath string
  | PathFailed string
  | ProbeFailed string probe_error
  | Registered string string

record discovery_world =
  dwSupported :: bool
  dwLookPath :: "string \<Rightarrow> string option"
  dwAbs :: "string \<Rightarrow> string option"
  dwProbe :: "string \<Rightarrow> string list \<Rightarrow> probe_run"

type_synonym providers = "string \<rightharpoonup> provider"

definition try_candidate :: "discovery_world \<Rightarrow> string list \<Rightarrow> string \<Rightarrow> providers \<Rightarrow> providers \<times> discovery_note" where
  "try_candidate w env name m =
     (if name = ''mock'' then (m, ReservedSkipped name)
      else (case argvTemplates name of
              None \<Rightarrow> (m, NoTemplate name)
            | Some argv \<Rightarrow>
                (case dwLookPath w name of
                   None \<Rightarrow> (m, NotOnPath name)
                 | Some bin \<Rightarrow>
                     (case dwAbs w bin of
                        None \<Rightarrow> (m, PathFailed name)
                      | Some full \<Rightarrow>
                          (case probeVersion (dwProbe w full env) of
                             Some e \<Rightarrow> (m, ProbeFailed name e)
                           | None \<Rightarrow>
                               (m(name \<mapsto> Real \<lparr> rpName = name, rpBin = full, rpArgv = Some argv, rpEnv = Some env, rpTimeout = 0 \<rparr>),
                                Registered name full))))))"

fun try_candidates ::
  "discovery_world \<Rightarrow> string list \<Rightarrow> string list \<Rightarrow> providers \<Rightarrow> providers \<times> discovery_note list" where
  "try_candidates w env [] m = (m, [])"
| "try_candidates w env (name # names) m =
     (case try_candidate w env name m of
        (m1, note) \<Rightarrow> (case try_candidates w env names m1 of (m2, notes) \<Rightarrow> (m2, note # notes)))"

definition discoverProviders ::
  "discovery_world \<Rightarrow> environment \<Rightarrow> string list \<Rightarrow> string list \<Rightarrow> providers \<times> discovery_note list" where
  "discoverProviders w environ candidates envAllowlist =
     (let m = [''mock'' \<mapsto> MockProvider]
      in if \<not> dwSupported w then (m, [NoProcessGroups])
         else try_candidates w (allowlistedEnv environ envAllowlist) candidates m)"

text \<open>What \<open>main\<close> gives the handler of \<open>agent.run\<close>.\<close>

definition harness_providers :: "discovery_world \<Rightarrow> environment \<Rightarrow> providers" where
  "harness_providers w environ = fst (discoverProviders w environ (candidatesFromEnv environ) (allowlistFromEnv environ))"

section \<open>Lemmas\<close>

lemma allowlistedEnv_scoped:
  "x \<in> set (allowlistedEnv environ names) \<Longrightarrow>
     \<exists>n v. x = n @ ''='' @ v \<and> n \<in> set names \<and> environ n = Some v \<and> \<not> denied n"
  by (induction names) (auto split: if_splits option.splits)

text \<open>What is known of every provider found.\<close>

definition found_ok :: "discovery_world \<Rightarrow> string list \<Rightarrow> string set \<Rightarrow> string \<Rightarrow> provider \<Rightarrow> bool" where
  "found_ok w env names name pr \<longleftrightarrow>
     (if name = ''mock'' then pr = MockProvider
      else (\<exists>bin full argv. name \<in> names \<and> argvTemplates name = Some argv \<and> dwLookPath w name = Some bin \<and> dwAbs w bin = Some full
        \<and> probeVersion (dwProbe w full env) = None
        \<and> pr = Real \<lparr> rpName = name, rpBin = full, rpArgv = Some argv, rpEnv = Some env, rpTimeout = 0 \<rparr>))"

definition all_found :: "discovery_world \<Rightarrow> string list \<Rightarrow> string set \<Rightarrow> providers \<Rightarrow> bool" where
  "all_found w env names m \<longleftrightarrow> m ''mock'' = Some MockProvider \<and> (\<forall>name pr. m name = Some pr \<longrightarrow> found_ok w env names name pr)"

lemma try_candidate_cases:
  assumes "name \<in> names"
  shows "fst (try_candidate w env name m) = m
    \<or> name \<noteq> ''mock'' \<and> (\<exists>pr. fst (try_candidate w env name m) = m(name \<mapsto> pr) \<and> found_ok w env names name pr)"
  using assms by (simp add: try_candidate_def found_ok_def split: option.split)

lemma try_candidate_found: "all_found w env names m \<Longrightarrow> name \<in> names \<Longrightarrow> all_found w env names (fst (try_candidate w env name m))"
  using try_candidate_cases [of name names w env m] by (auto simp: all_found_def split: if_splits)

lemma run_command_env: "run_command p sp = Some cmd \<Longrightarrow> rpEnv p = Some (cdEnv cmd)"
  by (auto simp: run_command_def split: if_splits option.splits)

lemma try_candidates_found:
  "all_found w env names m \<Longrightarrow> set cs \<subseteq> names \<Longrightarrow> all_found w env names (fst (try_candidates w env cs m))"
proof (induction cs arbitrary: m)
  case (Cons c cs)
  obtain m1 note1 where 1: "try_candidate w env c m = (m1, note1)" by force
  with try_candidate_found [of w env names m c] Cons.prems have "all_found w env names m1" by simp
  with Cons.IH [of m1] Cons.prems 1 show ?case by (simp add: split_beta)
qed simp

lemma discovered_found:
  "all_found w (allowlistedEnv environ allow) (set cs) (fst (discoverProviders w environ cs allow))"
proof -
  have "all_found w (allowlistedEnv environ allow) (set cs) [''mock'' \<mapsto> MockProvider]"
    by (simp add: all_found_def found_ok_def)
  then show ?thesis using try_candidates_found by (simp add: discoverProviders_def Let_def)
qed

text \<open>
  C32: nothing of the harness's own configuration reaches an agent program. Whatever the allow-list says, every
  variable in the environment of the command a discovered provider runs is one of the allow-list, has the harness's own value, and
  does not start with VIBE_ or FAKE_AGENT_; the command itself is the probed program with the
  arguments of its template, and is never refused for a missing name, program or environment.
\<close>

theorem agent_environment_scoped:
  assumes "fst (discoverProviders w environ cs allow) name = Some (Real p)"
    and "\<And>bin full. dwAbs w bin = Some full \<Longrightarrow> full \<noteq> []"
  shows "\<exists>cmd. run_command p sp = Some cmd
    \<and> (\<forall>x \<in> set (cdEnv cmd). \<exists>n v. x = n @ ''='' @ v \<and> n \<in> set allow \<and> environ n = Some v
          \<and> \<not> hasPrefix n ''VIBE_'' \<and> \<not> hasPrefix n ''FAKE_AGENT_'')
    \<and> cdDir cmd = rsWorkspacePath sp \<and> cdArgs cmd = codexArgv sp \<and> name = ''codex'' \<and> name \<in> set cs
    \<and> probeVersion (dwProbe w (cdPath cmd) (cdEnv cmd)) = None"
proof -
  have "found_ok w (allowlistedEnv environ allow) (set cs) name (Real p)"
    using discovered_found [of w environ allow cs] assms(1) by (simp add: all_found_def)
  then obtain bin full where p: "name = ''codex''" "name \<in> set cs" "dwAbs w bin = Some full"
    "probeVersion (dwProbe w full (allowlistedEnv environ allow)) = None"
    "p = \<lparr> rpName = name, rpBin = full, rpArgv = Some (\<lambda>sp. Some (codexArgv sp)), rpEnv = Some (allowlistedEnv environ allow), rpTimeout = 0 \<rparr>"
    by (auto simp: found_ok_def argvTemplates_def split: if_splits)
  with assms(2) allowlistedEnv_scoped [of _ environ allow] show ?thesis
    by (fastforce simp: run_command_def denied_def)
qed

definition sample_discovery :: discovery_world where
  "sample_discovery = \<lparr> dwSupported = True, dwLookPath = (\<lambda>n. Some n), dwAbs = (\<lambda>n. Some (''/bin/'' @ n)),
     dwProbe = (\<lambda>_ _. ProbeExits True) \<rparr>"

theorem agent_environment_scoped_witness:
  "\<exists>p cmd. fst (discoverProviders sample_discovery [''PATH'' \<mapsto> ''/bin'', ''VIBE_TOKEN'' \<mapsto> ''s''] [''codex''] [''PATH'', ''VIBE_TOKEN'']) ''codex''
       = Some (Real p)
     \<and> run_command p sample_spec = Some cmd \<and> cdArgs cmd = codexArgv sample_spec \<and> cdEnv cmd = [''PATH=/bin'']"
proof -
  let ?env = "[''PATH'' \<mapsto> ''/bin'', ''VIBE_TOKEN'' \<mapsto> ''s'']"
  obtain p where p: "fst (discoverProviders sample_discovery ?env [''codex''] [''PATH'', ''VIBE_TOKEN'']) ''codex'' = Some (Real p)"
    "rpEnv p = Some [''PATH=/bin'']"
    by (simp add: discoverProviders_def sample_discovery_def try_candidate_def argvTemplates_def probeVersion_def denied_def hasPrefix_def)
  have full: "full \<noteq> []" if "dwAbs sample_discovery bin = Some full" for bin full
    using that by (auto simp: sample_discovery_def)
  from agent_environment_scoped [OF p(1) full, of "\<lambda>b _. b" sample_spec] obtain cmd where
    "run_command p sample_spec = Some cmd" "cdArgs cmd = codexArgv sample_spec" by blast
  with p run_command_env [of p sample_spec cmd] show ?thesis by auto
qed

text \<open>
  An accepted run names a provider that was found, the mock provider if it names none.
\<close>

theorem accepted_run_has_provider:
  assumes "startAgentRun render env (dom (harness_providers w environ)) ''mock'' newID e q s = (Inr ar, s')"
  shows "\<exists>pr. harness_providers w environ (agProvider ar) = Some pr
    \<and> (if aqProvider q = [] then pr = MockProvider
       else agProvider ar = aqProvider q \<and> (pr = MockProvider \<longleftrightarrow> aqProvider q = ''mock''))"
proof -
  have "record_reply agent_apply RunStarted
     (\<lambda>ar. ar = new_run newID (seNow env) (provider_name ''mock'' q) q
       \<and> provider_name ''mock'' q \<in> dom (harness_providers w environ) \<and> good_fence env e)
     (seWrite env) (seNow env) s (Inr ar :: AgentRun reply, s')"
    using startAgentRun_reply assms by metis
  then have p: "agProvider ar = provider_name ''mock'' q" "provider_name ''mock'' q \<in> dom (harness_providers w environ)"
    by (rule record_replyE; auto simp: new_run_def)+
  have f: "all_found w (allowlistedEnv environ (allowlistFromEnv environ)) (set (candidatesFromEnv environ)) (harness_providers w environ)"
    unfolding harness_providers_def by (rule discovered_found)
  obtain pr where pr: "harness_providers w environ (agProvider ar) = Some pr" using p by auto
  with f have "found_ok w (allowlistedEnv environ (allowlistFromEnv environ)) (set (candidatesFromEnv environ)) (agProvider ar) pr"
    by (simp add: all_found_def)
  with pr p(1) show ?thesis by (auto simp: found_ok_def provider_name_def split: if_splits)
qed

end
