(* ===== verification/GoFlags.thy ===== *)
theory GoFlags
  imports Prelude "HOL-Library.Sublist"
begin

text \<open>
  Command lines as the client reads them: Go's \<open>flag.FlagSet\<close> with \<open>ContinueOnError\<close>, of the standard library, for the kinds of
  flag \<open>cli/vibe/main.go\<close> declares. A flag set is the list of its flags with their values, first the
  defaults. How a number and a duration are read from text are arguments.
\<close>

record flag_world =
  fwInt :: "string \<Rightarrow> int option"
  fwDuration :: "string \<Rightarrow> int option"

datatype flag_value = VText string | VInt int | VBool bool | VDuration int | VList "string list"

datatype flag_error =
    BadSyntax string
  | HelpWanted
  | NotDefined string
  | BadBoolean string string
  | NeedsArgument string
  | BadValue string string

type_synonym flags = "(string \<times> flag_value) list"

text \<open>\<open>strconv.ParseBool\<close>.\<close>

definition ParseBool :: "string \<Rightarrow> bool option" where
  "ParseBool s =
     (if s \<in> {''1'', ''t'', ''T'', ''TRUE'', ''true'', ''True''} then Some True
      else if s \<in> {''0'', ''f'', ''F'', ''FALSE'', ''false'', ''False''} then Some False
      else None)"

text \<open>The \<open>Set\<close> of a flag's value.\<close>

fun set_value :: "flag_world \<Rightarrow> flag_value \<Rightarrow> string \<Rightarrow> flag_value option" where
  "set_value fw (VText _) v = Some (VText v)"
| "set_value fw (VInt _) v = map_option VInt (fwInt fw v)"
| "set_value fw (VBool _) v = map_option VBool (ParseBool v)"
| "set_value fw (VDuration _) v = map_option VDuration (fwDuration fw v)"
| "set_value fw (VList vs) v = Some (VList (vs @ [v]))"

definition is_bool :: "flag_value \<Rightarrow> bool" where
  "is_bool x = (case x of VBool _ \<Rightarrow> True | _ \<Rightarrow> False)"

fun put_flag :: "string \<Rightarrow> flag_value \<Rightarrow> flags \<Rightarrow> flags" where
  "put_flag n x [] = []"
| "put_flag n x ((m, y) # fs) = (if m = n then (m, x) # fs else (m, y) # put_flag n x fs)"

text \<open>
  What an argument is: no flag, the end of the flags, bad syntax, or a flag with a value after the first
  equals sign or without one.
\<close>

datatype flag_word = NoFlag | EndFlags | BadWord | FlagWord string "string option"

definition flag_word :: "string \<Rightarrow> flag_word" where
  "flag_word s =
     (if length s < 2 \<or> hd s \<noteq> CHR ''-'' then NoFlag
      else if s = ''--'' then EndFlags
      else (let name = (if s ! 1 = CHR ''-'' then drop 2 s else drop 1 s)
            in if name = [] \<or> hd name = CHR ''-'' \<or> hd name = CHR ''='' then BadWord
               else (let n = takeWhile (\<lambda>c. c \<noteq> CHR ''='') name
                     in FlagWord n (if length n < length name then Some (drop (Suc (length n)) name) else None))))"

text \<open>The flags after one has its value, or the error of setting it.\<close>

definition give_flag :: "flag_world \<Rightarrow> flags \<Rightarrow> string \<Rightarrow> flag_value \<Rightarrow> string \<Rightarrow> (flag_error, flags) result" where
  "give_flag fw fs n x v =
     (case set_value fw x v of
        None \<Rightarrow> Err (if is_bool x then BadBoolean v n else BadValue v n)
      | Some y \<Rightarrow> Ok (put_flag n y fs))"

fun parse_flags :: "flag_world \<Rightarrow> flags \<Rightarrow> string list \<Rightarrow> (flag_error, flags \<times> string list) result" where
  "parse_flags fw fs [] = Ok (fs, [])"
| "parse_flags fw fs (s # args) =
     (case flag_word s of
        NoFlag \<Rightarrow> Ok (fs, s # args)
      | EndFlags \<Rightarrow> Ok (fs, args)
      | BadWord \<Rightarrow> Err (BadSyntax s)
      | FlagWord n val \<Rightarrow>
          (case map_of fs n of
             None \<Rightarrow> Err (if n = ''help'' \<or> n = ''h'' then HelpWanted else NotDefined n)
           | Some x \<Rightarrow>
               (case (val, is_bool x, args) of
                  (Some v, _, _) \<Rightarrow>
                    (case give_flag fw fs n x v of Inl e \<Rightarrow> Err e | Inr fs' \<Rightarrow> parse_flags fw fs' args)
                | (None, True, _) \<Rightarrow>
                    (case give_flag fw fs n x ''true'' of Inl e \<Rightarrow> Err e | Inr fs' \<Rightarrow> parse_flags fw fs' args)
                | (None, False, []) \<Rightarrow> Err (NeedsArgument n)
                | (None, False, v # args') \<Rightarrow>
                    (case give_flag fw fs n x v of Inl e \<Rightarrow> Err e | Inr fs' \<Rightarrow> parse_flags fw fs' args'))))"

text \<open>Reading a flag of the set.\<close>

definition text_flag :: "flags \<Rightarrow> string \<Rightarrow> string" where
  "text_flag fs n = (case map_of fs n of Some (VText v) \<Rightarrow> v | _ \<Rightarrow> [])"

definition int_flag :: "flags \<Rightarrow> string \<Rightarrow> int" where
  "int_flag fs n = (case map_of fs n of Some (VInt v) \<Rightarrow> v | Some (VDuration v) \<Rightarrow> v | _ \<Rightarrow> 0)"

definition bool_flag :: "flags \<Rightarrow> string \<Rightarrow> bool" where
  "bool_flag fs n = (case map_of fs n of Some (VBool v) \<Rightarrow> v | _ \<Rightarrow> False)"

definition list_flag :: "flags \<Rightarrow> string \<Rightarrow> string list" where
  "list_flag fs n = (case map_of fs n of Some (VList v) \<Rightarrow> v | _ \<Rightarrow> [])"

section \<open>Lemmas\<close>

lemma map_of_put_flag: "map_of (put_flag n x fs) m = (if m = n \<and> map_of fs n \<noteq> None then Some x else map_of fs m)"
  by (induction fs) auto

text \<open>Flags keep their names and kinds.\<close>

fun same_kind :: "flag_value \<Rightarrow> flag_value \<Rightarrow> bool" where
  "same_kind (VText _) (VText _) = True"
| "same_kind (VInt _) (VInt _) = True"
| "same_kind (VBool _) (VBool _) = True"
| "same_kind (VDuration _) (VDuration _) = True"
| "same_kind (VList _) (VList _) = True"
| "same_kind _ _ = False"

definition same_flags :: "flags \<Rightarrow> flags \<Rightarrow> bool" where
  "same_flags fs gs \<longleftrightarrow> (\<forall>n. rel_option same_kind (map_of fs n) (map_of gs n))"

lemma same_kind_refl [simp]: "same_kind x x"
  by (cases x) simp_all

lemma same_kind_trans: "same_kind x y \<Longrightarrow> same_kind y z \<Longrightarrow> same_kind x z"
  by (cases x; cases y; cases z) simp_all

lemma same_flags_refl [simp]: "same_flags fs fs"
  by (simp add: same_flags_def option.rel_refl)

lemma same_flags_trans: "same_flags fs gs \<Longrightarrow> same_flags gs hs \<Longrightarrow> same_flags fs hs"
  unfolding same_flags_def
proof
  fix n
  assume "\<forall>n. rel_option same_kind (map_of fs n) (map_of gs n)" "\<forall>n. rel_option same_kind (map_of gs n) (map_of hs n)"
  then have "rel_option same_kind (map_of fs n) (map_of gs n)" "rel_option same_kind (map_of gs n) (map_of hs n)" by blast+
  then show "rel_option same_kind (map_of fs n) (map_of hs n)"
    by (cases "map_of fs n"; cases "map_of gs n"; cases "map_of hs n") (auto dest: same_kind_trans)
qed

lemma set_value_kind: "set_value fw x v = Some y \<Longrightarrow> same_kind x y"
  by (cases x) auto

lemma give_flag_same: "give_flag fw fs n x v = Inr fs' \<Longrightarrow> map_of fs n = Some x \<Longrightarrow> same_flags fs fs'"
  by (auto simp: give_flag_def same_flags_def map_of_put_flag option.rel_refl dest: set_value_kind split: option.splits)

text \<open>Parsing gives one flag after the other its value.\<close>

definition gives :: "flag_world \<Rightarrow> flags \<Rightarrow> flags \<Rightarrow> bool" where
  "gives fw fs gs \<longleftrightarrow> (\<exists>n x v. map_of fs n = Some x \<and> give_flag fw fs n x v = Inr gs)"

lemma parse_flags_gives: "parse_flags fw fs args = Inr (gs, rest) \<Longrightarrow> (gives fw)\<^sup>*\<^sup>* fs gs"
proof (induction fw fs args rule: parse_flags.induct)
  case (2 fw fs s args)
  have g: "give_flag fw fs n x v = Inr fs' \<Longrightarrow> map_of fs n = Some x \<Longrightarrow> gives fw fs fs'" for n x v fs'
    by (auto simp: gives_def)
  from 2 show ?case
    by (auto split: flag_word.splits option.splits bool.splits list.splits sum.splits
        intro: converse_rtranclp_into_rtranclp dest: g)
qed simp

lemma parse_flags_rest: "parse_flags fw fs args = Inr (gs, rest) \<Longrightarrow> suffix rest args"
proof (induction fw fs args rule: parse_flags.induct)
  case (2 fw fs s args)
  then show ?case
    by (auto split: flag_word.splits option.splits bool.splits list.splits sum.splits simp: suffix_Cons)
qed simp

lemma parse_flags_keeps:
  assumes "parse_flags fw fs args = Inr (gs, rest)" and "I fs"
    and step: "\<And>fs n x v gs. map_of fs n = Some x \<Longrightarrow> give_flag fw fs n x v = Inr gs \<Longrightarrow> I fs \<Longrightarrow> I gs"
  shows "I gs"
  using parse_flags_gives [OF assms(1)] assms(2)
  by (induction rule: rtranclp_induct) (auto simp: gives_def intro: step)

lemma parse_flags_same: "parse_flags fw fs args = Inr (gs, rest) \<Longrightarrow> same_flags fs gs"
  by (rule parse_flags_keeps [where I = "same_flags fs"]) (auto intro: same_flags_trans dest: give_flag_same)

lemma parse_flags_wellkinded:
  assumes "parse_flags fw fs args = Inr (gs, rest)" and "map_of fs n = Some x"
  shows "\<exists>y. map_of gs n = Some y \<and> same_kind x y"
  using parse_flags_same [OF assms(1)] assms(2) unfolding same_flags_def
  by (metis option.rel_cases option.sel option.distinct(1))

end
