(* ===== verification/CliCommands.thy ===== *)
theory CliCommands
  imports GoFlags Json Protocol
begin

text \<open>
  The command line client (\<open>cli/vibe/main.go\<close>): the request each subcommand makes of its arguments, or why it makes none.
  A payload's members are in the order the code writes them; Go sorts the keys of a map, which no decoder
  depends on.
\<close>

datatype cli_error =
    Usage string
  | UnknownArgument string
  | UnknownCommand string
  | UnknownSubcommand string string
  | FlagFailed flag_error
  | Panicked
  | CallFailed string
  | BadAnswer
  | NotTerminal string
  | NotDone string string

record cli_request =
  cqKind :: kind
  cqCapability :: string
  cqPayload :: json
  cqTimeout :: "int option"

definition ns_per_s :: int where "ns_per_s = 10 ^ 9"

definition cli_command :: "string \<Rightarrow> (string \<times> json) list \<Rightarrow> cli_request" where
  "cli_command cap payload =
     \<lparr> cqKind = KindCommand, cqCapability = cap, cqPayload = JObject payload, cqTimeout = Some (30 * ns_per_s) \<rparr>"

definition commandWithDeadline :: "string \<Rightarrow> (string \<times> json) list \<Rightarrow> int \<Rightarrow> cli_request" where
  "commandWithDeadline cap payload timeout = (cli_command cap payload)\<lparr> cqTimeout := Some timeout \<rparr>"

definition cli_query :: "string \<Rightarrow> (string \<times> json) list \<Rightarrow> cli_request" where
  "cli_query cap payload = \<lparr> cqKind = KindQuery, cqCapability = cap, cqPayload = JObject payload, cqTimeout = None \<rparr>"

type_synonym 'a cli = "(cli_error, 'a) result"

text \<open>The first argument, and the flags after it.\<close>

definition first_arg :: "string \<Rightarrow> string list \<Rightarrow> (string \<Rightarrow> string list \<Rightarrow> 'a cli) \<Rightarrow> 'a cli" where
  "first_arg usage args k = (case args of [] \<Rightarrow> Err (Usage usage) | a # as \<Rightarrow> k a as)"

definition with_flags :: "flag_world \<Rightarrow> flags \<Rightarrow> string list \<Rightarrow> (flags \<Rightarrow> 'a cli) \<Rightarrow> 'a cli" where
  "with_flags fw formal args k =
     (case parse_flags fw formal args of Inl e \<Rightarrow> Err (FlagFailed e) | Inr (fs, _) \<Rightarrow> k fs)"

definition opt_text :: "string \<Rightarrow> string \<Rightarrow> (string \<times> json) list" where
  "opt_text k v = (if v = [] then [] else [(k, JText v)])"

definition opt_int :: "string \<Rightarrow> int \<Rightarrow> (string \<times> json) list" where
  "opt_int k v = (if v > 0 then [(k, JInt v)] else [])"

text \<open>\<open>strings.Cut\<close> at one character.\<close>

definition cut :: "char \<Rightarrow> string \<Rightarrow> string \<times> string \<times> bool" where
  "cut c s =
     (let a = takeWhile (\<lambda>x. x \<noteq> c) s
      in if length a < length s then (a, drop (Suc (length a)) s, True) else (s, [], False))"

section \<open>Tasks\<close>

fun parse_criteria :: "string list \<Rightarrow> json list option" where
  "parse_criteria [] = Some []"
| "parse_criteria (raw # raws) =
     (case cut (CHR ''='') raw of
        (i, text, ok) \<Rightarrow>
          if \<not> ok \<or> i = [] \<or> text = [] then None
          else map_option (\<lambda>cs. JObject [(''id'', JText i), (''text'', JText text)] # cs) (parse_criteria raws))"

definition taskCreate :: "flag_world \<Rightarrow> string list \<Rightarrow> cli_request cli" where
  "taskCreate fw args =
     with_flags fw [(''title'', VText []), (''goal'', VText []), (''scope'', VText []), (''repo'', VText []), (''ac'', VList [])] args
       (\<lambda>fs. let title = text_flag fs ''title''; goal = text_flag fs ''goal''; repo = text_flag fs ''repo''
             in if title = [] \<or> goal = [] \<or> repo = [] then Err (Usage ''-title, -goal and -repo are required'')
                else (case parse_criteria (list_flag fs ''ac'') of
                        None \<Rightarrow> Err (Usage ''-ac must be ID=TEXT'')
                      | Some cs \<Rightarrow>
                          Ok (cli_command ''work.create''
                            [(''title'', JText title), (''goal'', JText goal), (''scope'', JText (text_flag fs ''scope'')),
                             (''repo'', JText repo), (''acceptance_criteria'', JArray cs)])))"

text \<open>The request, and whether the answer is printed as JSON.\<close>

fun only_json :: "string list \<Rightarrow> bool \<Rightarrow> bool cli" where
  "only_json [] b = Ok b"
| "only_json (a # as) b = (if a = ''-json'' then only_json as True else Err (UnknownArgument a))"

definition taskShow :: "string list \<Rightarrow> (cli_request \<times> bool) cli" where
  "taskShow args =
     first_arg ''task show requires <task-id>'' args
       (\<lambda>i as. case only_json as False of
                 Inl e \<Rightarrow> Err e
               | Inr b \<Rightarrow> Ok (cli_query ''work.get'' [(''task_id'', JText i)], b))"

definition taskTransition :: "flag_world \<Rightarrow> string list \<Rightarrow> cli_request cli" where
  "taskTransition fw args =
     first_arg ''task transition requires <work-context-id>'' args
       (\<lambda>wc as. with_flags fw [(''to'', VText []), (''expected-version'', VInt (-1))] as
         (\<lambda>fs. if text_flag fs ''to'' = [] \<or> int_flag fs ''expected-version'' < 0
               then Err (Usage ''-to and -expected-version are required'')
               else Ok (cli_command ''work.transition''
                 [(''work_context_id'', JText wc), (''to'', JText (text_flag fs ''to'')),
                  (''expected_version'', JInt (int_flag fs ''expected-version''))])))"

section \<open>Workspaces\<close>

definition workspaceAllocate :: "flag_world \<Rightarrow> string list \<Rightarrow> cli_request cli" where
  "workspaceAllocate fw args =
     first_arg ''workspace allocate requires <work-context-id>'' args
       (\<lambda>wc as. with_flags fw [(''repo'', VText []), (''base-ref'', VText [])] as
         (\<lambda>fs. if text_flag fs ''repo'' = [] then Err (Usage ''-repo is required'')
               else Ok (cli_command ''workspace.allocate''
                 ([(''work_context_id'', JText wc), (''repo'', JText (text_flag fs ''repo''))]
                   @ opt_text ''base_ref'' (text_flag fs ''base-ref'')))))"

definition workspaceShow :: "flag_world \<Rightarrow> string list \<Rightarrow> (cli_request \<times> bool) cli" where
  "workspaceShow fw args =
     (let (i, as) = (case args of
                       [] \<Rightarrow> ([], args)
                     | a # rest \<Rightarrow> if hasPrefix a ''-'' then ([], args) else (a, rest))
      in with_flags fw [(''work-context'', VText []), (''json'', VBool False)] as
           (\<lambda>fs. let wc = text_flag fs ''work-context''
                 in if (i = []) = (wc = []) then Err (Usage ''exactly one of <workspace-id> or -work-context is required'')
                    else Ok (cli_query ''workspace.get''
                      [if i \<noteq> [] then (''workspace_id'', JText i) else (''work_context_id'', JText wc)], bool_flag fs ''json'')))"

definition workspaceRelease :: "flag_world \<Rightarrow> string list \<Rightarrow> cli_request cli" where
  "workspaceRelease fw args =
     first_arg ''workspace release requires <workspace-id>'' args
       (\<lambda>i as. with_flags fw [(''policy'', VText [])] as
         (\<lambda>fs. let policy = text_flag fs ''policy''
               in if policy \<noteq> ''preserve'' \<and> policy \<noteq> ''delete'' then Err (Usage ''-policy must be preserve or delete'')
                  else Ok (cli_command ''workspace.release'' [(''workspace_id'', JText i), (''policy'', JText policy)])))"

section \<open>Agents, artifacts and tools\<close>

definition agent_flags :: flags where
  "agent_flags =
     [(''workspace'', VText []), (''prompt'', VText []), (''provider'', VText ''mock''), (''timeout'', VDuration (30 * ns_per_s)),
      (''steps'', VInt 3), (''fail-at'', VInt 0), (''write-file'', VText []), (''write-content'', VText [])]"

text \<open>The deadline of the request is also how long the run is looked at afterwards.\<close>

definition agentRun_request :: "flag_world \<Rightarrow> string list \<Rightarrow> cli_request cli" where
  "agentRun_request fw args =
     first_arg ''agent run requires <work-context-id>'' args
       (\<lambda>wc as. with_flags fw agent_flags as
         (\<lambda>fs. if text_flag fs ''workspace'' = [] \<or> text_flag fs ''prompt'' = []
               then Err (Usage ''-workspace and -prompt are required'')
               else Ok (commandWithDeadline ''agent.run''
                 ([(''work_context_id'', JText wc), (''workspace_path'', JText (text_flag fs ''workspace'')),
                   (''prompt'', JText (text_flag fs ''prompt'')), (''provider'', JText (text_flag fs ''provider'')),
                   (''mock_steps'', JInt (int_flag fs ''steps'')), (''mock_fail_at'', JInt (int_flag fs ''fail-at''))]
                  @ opt_text ''mock_write_file'' (text_flag fs ''write-file'')
                  @ opt_text ''mock_write_content'' (text_flag fs ''write-content''))
                 (int_flag fs ''timeout''))))"

text \<open>The commands that show one thing by its id.\<close>

definition show_one :: "string \<Rightarrow> string \<Rightarrow> string \<Rightarrow> flag_world \<Rightarrow> string list \<Rightarrow> (cli_request \<times> bool) cli" where
  "show_one usage cap key fw args =
     first_arg usage args
       (\<lambda>i as. with_flags fw [(''json'', VBool False)] as
         (\<lambda>fs. Ok (cli_query cap [(key, JText i)], bool_flag fs ''json'')))"

definition agentShow :: "flag_world \<Rightarrow> string list \<Rightarrow> (cli_request \<times> bool) cli" where
  "agentShow = show_one ''agent show requires <agent-run-id>'' ''agent.run.get'' ''agent_run_id''"

definition agentCancel :: "string list \<Rightarrow> cli_request cli" where
  "agentCancel args =
     first_arg ''agent cancel requires <agent-run-id>'' args
       (\<lambda>i _. Ok (commandWithDeadline ''agent.run.cancel'' [(''agent_run_id'', JText i)] (40 * ns_per_s)))"

definition artifactCollectDiff :: "flag_world \<Rightarrow> string list \<Rightarrow> cli_request cli" where
  "artifactCollectDiff fw args =
     first_arg ''artifact collect-diff requires <work-context-id>'' args
       (\<lambda>wc as. with_flags fw [(''workspace'', VText []), (''base-ref'', VText [])] as
         (\<lambda>fs. if text_flag fs ''workspace'' = [] then Err (Usage ''-workspace is required'')
               else Ok (cli_command ''artifact.collect_diff''
                 ([(''work_context_id'', JText wc), (''workspace_path'', JText (text_flag fs ''workspace''))]
                   @ opt_text ''base_ref'' (text_flag fs ''base-ref'')))))"

definition artifactShow :: "flag_world \<Rightarrow> string list \<Rightarrow> (cli_request \<times> bool) cli" where
  "artifactShow = show_one ''artifact show requires <artifact-id>'' ''artifact.get'' ''artifact_id''"

text \<open>
  The arguments of \<open>tool run\<close> are split at the first double dash. Where that is the very first argument, the
  slice of the flags before it ends before it starts, and Go panics.
\<close>

definition toolRun :: "flag_world \<Rightarrow> string list \<Rightarrow> cli_request cli" where
  "toolRun fw args =
     first_arg ''tool run requires <work-context-id>'' args
       (\<lambda>wc _. let before = takeWhile (\<lambda>a. a \<noteq> ''--'') args; argv = drop (Suc (length before)) args
              in if argv = [] then Err (Usage ''tool run requires `-- <command> [args...]`'')
                 else if before = [] then Err Panicked
                 else with_flags fw [(''workspace'', VText []), (''label'', VText []), (''timeout-ms'', VInt 0)] (tl before)
                   (\<lambda>fs. if text_flag fs ''workspace'' = [] \<or> text_flag fs ''label'' = []
                         then Err (Usage ''-workspace and -label are required'')
                         else Ok (cli_command ''tool.run''
                           ([(''work_context_id'', JText wc), (''workspace_path'', JText (text_flag fs ''workspace'')),
                             (''label'', JText (text_flag fs ''label'')), (''command'', JArray (map JText argv))]
                            @ opt_int ''timeout_ms'' (int_flag fs ''timeout-ms'')))))"

definition toolShow :: "flag_world \<Rightarrow> string list \<Rightarrow> (cli_request \<times> bool) cli" where
  "toolShow = show_one ''tool show requires <tool-run-id>'' ''tool.run.get'' ''tool_run_id''"

section \<open>Reviews, sessions and workflows\<close>

fun parse_evidence :: "string list \<Rightarrow> json list option" where
  "parse_evidence [] = Some []"
| "parse_evidence (v # vs) =
     (case cut (CHR '':'') v of
        (k, out, ok) \<Rightarrow>
          if \<not> ok \<or> k = [] \<or> out = [] then None
          else map_option (\<lambda>es. JObject [(''kind'', JText k), (''outcome'', JText out)] # es) (parse_evidence vs))"

definition reviewRequest :: "flag_world \<Rightarrow> string list \<Rightarrow> cli_request cli" where
  "reviewRequest fw args =
     first_arg ''review request requires <work-context-id>'' args
       (\<lambda>wc as. with_flags fw [(''agent-run'', VText []), (''diff-artifact'', VText []), (''evidence'', VList [])] as
         (\<lambda>fs. if text_flag fs ''diff-artifact'' = [] then Err (Usage ''-diff-artifact is required'')
               else (case parse_evidence (list_flag fs ''evidence'') of
                       None \<Rightarrow> Err (Usage ''-evidence must be kind:outcome'')
                     | Some es \<Rightarrow>
                         Ok (cli_command ''review.request''
                           ([(''work_context_id'', JText wc), (''diff_artifact_id'', JText (text_flag fs ''diff-artifact'')),
                             (''evidence_snapshot'', JArray es)]
                            @ opt_text ''agent_run_id'' (text_flag fs ''agent-run''))))))"

fun parse_acceptance :: "string list \<Rightarrow> json list option" where
  "parse_acceptance [] = Some []"
| "parse_acceptance (v # vs) =
     (case cut (CHR ''='') v of
        (cid, val, ok) \<Rightarrow>
          if \<not> ok \<or> cid = [] \<or> (val \<noteq> ''pass'' \<and> val \<noteq> ''fail'') then None
          else map_option (\<lambda>rs. JObject [(''criterion_id'', JText cid), (''satisfied'', JBool (val = ''pass''))] # rs)
            (parse_acceptance vs))"

definition decide_flags :: flags where
  "decide_flags =
     [(''approved'', VBool False), (''changes-requested'', VBool False), (''reviewer'', VText []), (''notes'', VText []),
      (''acceptance'', VList [])]"

definition reviewDecide :: "flag_world \<Rightarrow> string list \<Rightarrow> cli_request cli" where
  "reviewDecide fw args =
     first_arg ''review decide requires <review-id>'' args
       (\<lambda>i as. with_flags fw decide_flags as
         (\<lambda>fs. if bool_flag fs ''approved'' = bool_flag fs ''changes-requested''
               then Err (Usage ''exactly one of -approved or -changes-requested is required'')
               else (case parse_acceptance (list_flag fs ''acceptance'') of
                       None \<Rightarrow> Err (Usage ''-acceptance must be ID=pass|fail'')
                     | Some rs \<Rightarrow>
                         Ok (cli_command ''review.decide''
                           [(''review_id'', JText i),
                            (''decision'', JText (if bool_flag fs ''approved'' then ''APPROVED'' else ''CHANGES_REQUESTED'')),
                            (''reviewer'', JText (text_flag fs ''reviewer'')), (''notes'', JText (text_flag fs ''notes'')),
                            (''acceptance_results'', JArray rs)]))))"

definition reviewShow :: "flag_world \<Rightarrow> string list \<Rightarrow> (cli_request \<times> bool) cli" where
  "reviewShow = show_one ''review show requires <review-id>'' ''review.get'' ''review_id''"

definition seal_flags :: flags where
  "seal_flags =
     [(''agent-run'', VText []), (''workspace'', VText []), (''correlation'', VText []), (''diff-artifact'', VText []),
      (''task'', VText [])]"

definition sessionSeal :: "flag_world \<Rightarrow> string list \<Rightarrow> cli_request cli" where
  "sessionSeal fw args =
     first_arg ''session seal requires <work-context-id>'' args
       (\<lambda>wc as. with_flags fw seal_flags as
         (\<lambda>fs. if text_flag fs ''agent-run'' = [] \<or> text_flag fs ''workspace'' = []
               then Err (Usage ''session seal requires -agent-run and -workspace'')
               else (let corr = (if text_flag fs ''correlation'' = [] then wc else text_flag fs ''correlation'')
                     in Ok (cli_command ''session.seal''
                       ([(''work_context_id'', JText wc), (''agent_run_id'', JText (text_flag fs ''agent-run'')),
                         (''workspace_path'', JText (text_flag fs ''workspace'')), (''correlation_id'', JText corr)]
                        @ opt_text ''diff_artifact_id'' (text_flag fs ''diff-artifact'')
                        @ opt_text ''task_id'' (text_flag fs ''task''))))))"

definition sessionShow :: "flag_world \<Rightarrow> string list \<Rightarrow> (cli_request \<times> bool) cli" where
  "sessionShow = show_one ''session show requires <session-id>'' ''session.get'' ''session_id''"

text \<open>\<open>strings.Fields\<close>, on ASCII.\<close>

fun fields_from :: "string \<Rightarrow> string \<Rightarrow> string list" where
  "fields_from acc [] = (if acc = [] then [] else [acc])"
| "fields_from acc (c # cs) =
     (if is_space c then (if acc = [] then fields_from [] cs else acc # fields_from [] cs)
      else fields_from (acc @ [c]) cs)"

definition splitArgv :: "string \<Rightarrow> string list" where
  "splitArgv s = (let f = fields_from [] s in if f = [] then [''sh'', ''-c'', ''true''] else f)"

definition workflow_flags :: flags where
  "workflow_flags =
     [(''prompt'', VText []), (''build'', VText ''sh -c true''), (''test'', VText ''sh -c true''), (''base-ref'', VText []),
      (''review-poll-ms'', VInt 0), (''mock-write-file'', VText []), (''mock-write-content'', VText []),
      (''provider'', VText ''mock''), (''timeout'', VDuration (30 * 60 * ns_per_s))]"

definition workflowRun :: "flag_world \<Rightarrow> string list \<Rightarrow> cli_request cli" where
  "workflowRun fw args =
     first_arg ''workflow run requires <task-id>'' args
       (\<lambda>t as. with_flags fw workflow_flags as
         (\<lambda>fs. if text_flag fs ''prompt'' = [] then Err (Usage ''-prompt is required'')
               else Ok (commandWithDeadline ''workflow.engineering.run''
                 ([(''task_id'', JText t), (''prompt'', JText (text_flag fs ''prompt'')),
                   (''build_command'', JArray (map JText (splitArgv (text_flag fs ''build'')))),
                   (''test_command'', JArray (map JText (splitArgv (text_flag fs ''test''))))]
                  @ opt_text ''base_ref'' (text_flag fs ''base-ref'')
                  @ opt_int ''review_poll_ms'' (int_flag fs ''review-poll-ms'')
                  @ opt_text ''mock_agent_write_file'' (text_flag fs ''mock-write-file'')
                  @ opt_text ''mock_agent_write_content'' (text_flag fs ''mock-write-content'')
                  @ opt_text ''provider'' (text_flag fs ''provider''))
                 (int_flag fs ''timeout''))))"

definition workflowShow :: "flag_world \<Rightarrow> string list \<Rightarrow> (cli_request \<times> bool) cli" where
  "workflowShow fw args =
     first_arg ''workflow show requires <task-id or work-context-id>'' args
       (\<lambda>i as. with_flags fw [(''json'', VBool False)] as
         (\<lambda>fs. Ok (cli_query ''workflow.engineering.get''
            [(if hasPrefix i ''wc-'' then ''work_context_id'' else ''task_id'', JText i)], bool_flag fs ''json'')))"

section \<open>The command line\<close>

text \<open>Which subcommand is meant, and what it does: one request, and its answer's form.\<close>

datatype subcommand =
    TaskCreate | TaskShow | TaskTransition | WorkspaceAllocate | WorkspaceShow | WorkspaceRelease
  | AgentRun | AgentShow | AgentCancel | ArtifactCollectDiff | ArtifactShow | ReviewRequest | ReviewDecide | ReviewShow
  | SessionSeal | SessionShow | ToolRun | ToolShow | WorkflowRun | WorkflowShow

definition commands :: "(string \<times> (string \<times> subcommand) list) list" where
  "commands =
     [(''task'', [(''create'', TaskCreate), (''show'', TaskShow), (''transition'', TaskTransition)]),
      (''workspace'', [(''allocate'', WorkspaceAllocate), (''show'', WorkspaceShow), (''release'', WorkspaceRelease)]),
      (''agent'', [(''run'', AgentRun), (''show'', AgentShow), (''cancel'', AgentCancel)]),
      (''artifact'', [(''collect-diff'', ArtifactCollectDiff), (''show'', ArtifactShow)]),
      (''review'', [(''request'', ReviewRequest), (''decide'', ReviewDecide), (''show'', ReviewShow)]),
      (''session'', [(''seal'', SessionSeal), (''show'', SessionShow)]),
      (''tool'', [(''run'', ToolRun), (''show'', ToolShow)]),
      (''workflow'', [(''run'', WorkflowRun), (''show'', WorkflowShow)])]"

definition find_command :: "string \<Rightarrow> string \<Rightarrow> subcommand cli" where
  "find_command c sub =
     (case map_of commands c of
        None \<Rightarrow> Err (UnknownCommand c)
      | Some subs \<Rightarrow>
          (case map_of subs sub of
             None \<Rightarrow> Err (UnknownSubcommand c sub)
           | Some x \<Rightarrow> Ok x))"

definition plain :: "cli_request cli \<Rightarrow> (cli_request \<times> bool) cli" where
  "plain r = (case r of Inl e \<Rightarrow> Err e | Inr q \<Rightarrow> Ok (q, False))"

fun cli_plan :: "flag_world \<Rightarrow> subcommand \<Rightarrow> string list \<Rightarrow> (cli_request \<times> bool) cli" where
  "cli_plan fw TaskCreate args = plain (taskCreate fw args)"
| "cli_plan fw TaskShow args = taskShow args"
| "cli_plan fw TaskTransition args = plain (taskTransition fw args)"
| "cli_plan fw WorkspaceAllocate args = plain (workspaceAllocate fw args)"
| "cli_plan fw WorkspaceShow args = workspaceShow fw args"
| "cli_plan fw WorkspaceRelease args = plain (workspaceRelease fw args)"
| "cli_plan fw AgentRun args = plain (agentRun_request fw args)"
| "cli_plan fw AgentShow args = agentShow fw args"
| "cli_plan fw AgentCancel args = plain (agentCancel args)"
| "cli_plan fw ArtifactCollectDiff args = plain (artifactCollectDiff fw args)"
| "cli_plan fw ArtifactShow args = artifactShow fw args"
| "cli_plan fw ReviewRequest args = plain (reviewRequest fw args)"
| "cli_plan fw ReviewDecide args = plain (reviewDecide fw args)"
| "cli_plan fw ReviewShow args = reviewShow fw args"
| "cli_plan fw SessionSeal args = plain (sessionSeal fw args)"
| "cli_plan fw SessionShow args = sessionShow fw args"
| "cli_plan fw ToolRun args = plain (toolRun fw args)"
| "cli_plan fw ToolShow args = toolShow fw args"
| "cli_plan fw WorkflowRun args = plain (workflowRun fw args)"
| "cli_plan fw WorkflowShow args = workflowShow fw args"

record cli_call =
  ccSocket :: string
  ccIdentity :: string
  ccToken :: string
  ccCommand :: subcommand
  ccRequest :: cli_request
  ccJson :: bool

text \<open>\<open>run\<close> up to the call; \<open>token\<close> is the environment's VIBE_CLIENT_TOKEN.\<close>

definition cli_run :: "flag_world \<Rightarrow> string \<Rightarrow> string list \<Rightarrow> cli_call cli" where
  "cli_run fw token args =
     (case parse_flags fw [(''socket'', VText ''/tmp/agent-native-os-m1.sock''), (''identity'', VText ''local-cli''), (''token'', VText token)] args of
        Inl e \<Rightarrow> Err (FlagFailed e)
      | Inr (fs, as) \<Rightarrow>
          if text_flag fs ''token'' = [] then Err (Usage ''-token or VIBE_CLIENT_TOKEN required'')
          else (case as of
                  c # sub # rest \<Rightarrow>
                    (case find_command c sub of
                       Inl e \<Rightarrow> Err e
                     | Inr x \<Rightarrow>
                         (case cli_plan fw x rest of
                            Inl e \<Rightarrow> Err e
                          | Inr (q, j) \<Rightarrow>
                              Ok \<lparr> ccSocket = text_flag fs ''socket'', ccIdentity = text_flag fs ''identity'',
                                   ccToken = text_flag fs ''token'', ccCommand = x, ccRequest = q, ccJson = j \<rparr>))
                | _ \<Rightarrow> Err (Usage ''usage: vibe [global flags] <task|workspace|agent> <subcommand> ...'')))"

end
