(* ===== verification/CliOutput.thy ===== *)
theory CliOutput
  imports CliCommands "HOL-Library.Monad_Syntax"
begin

text \<open>
  What the client prints of an answer, and how it ends (\<open>cli/vibe/main.go\<close>, \<open>wire.go\<close>): the views it decodes
  answers into, the lines of each subcommand, the frames and the polls of an agent run, and the request on the
  wire. The text of an answer's payload and its JSON value are both given, for \<open>-json\<close> prints the text.
\<close>

section \<open>Views\<close>

definition at :: "(string \<times> json) list \<Rightarrow> (json \<Rightarrow> 'a option) \<Rightarrow> string \<Rightarrow> 'a option" where
  "at kvs f k = f (member k kvs)"

definition as_any_list :: "json \<Rightarrow> json list option" where
  "as_any_list = as_list"

definition texts_of :: "json \<Rightarrow> string list option" where
  "texts_of j = Option.bind (as_list j) (all_of as_text)"

record taskView =
  tvID :: string
  tvTitle :: string
  tvStatus :: string
  tvVersion :: int
  tvWorkContextID :: string
  tvAcceptanceCriteria :: "(string \<times> string) list"

definition criterion_view :: "json \<Rightarrow> (string \<times> string) option" where
  "criterion_view j = do { c \<leftarrow> as_struct j; both (at c as_text ''id'') (at c as_text ''text'') }"

definition as_taskView :: "json \<Rightarrow> taskView option" where
  "as_taskView j = do {
     t \<leftarrow> as_struct j;
     i \<leftarrow> at t as_text ''id''; title \<leftarrow> at t as_text ''title''; st \<leftarrow> at t as_text ''status''; v \<leftarrow> at t as_int ''version'';
     wc \<leftarrow> at t as_text ''work_context_id''; cs \<leftarrow> at t as_list ''acceptance_criteria''; acs \<leftarrow> all_of criterion_view cs;
     Some \<lparr> tvID = i, tvTitle = title, tvStatus = st, tvVersion = v, tvWorkContextID = wc, tvAcceptanceCriteria = acs \<rparr> }"

record workContextView =
  cvID :: string
  cvRepo :: string
  cvVersion :: int
  cvEvidenceRefs :: "json list"

definition as_workContextView :: "json \<Rightarrow> workContextView option" where
  "as_workContextView j = do {
     c \<leftarrow> as_struct j;
     i \<leftarrow> at c as_text ''id''; r \<leftarrow> at c as_text ''repo''; v \<leftarrow> at c as_int ''version''; es \<leftarrow> at c as_any_list ''evidence_refs'';
     Some \<lparr> cvID = i, cvRepo = r, cvVersion = v, cvEvidenceRefs = es \<rparr> }"

definition as_workResponse :: "json \<Rightarrow> (taskView \<times> workContextView) option" where
  "as_workResponse j = do { m \<leftarrow> as_struct j; both (at m as_taskView ''task'') (at m as_workContextView ''work_context'') }"

record workspaceView =
  wvID :: string
  wvWorkContextID :: string
  wvRepo :: string
  wvPath :: string
  wvBranch :: string
  wvBaseCommit :: string
  wvStatus :: string
  wvReleasePolicy :: string

definition as_workspaceView :: "json \<Rightarrow> workspaceView option" where
  "as_workspaceView j = do {
     w \<leftarrow> as_struct j;
     i \<leftarrow> at w as_text ''id''; c \<leftarrow> at w as_text ''work_context_id''; r \<leftarrow> at w as_text ''repo''; p \<leftarrow> at w as_text ''path'';
     b \<leftarrow> at w as_text ''branch''; bc \<leftarrow> at w as_text ''base_commit''; st \<leftarrow> at w as_text ''status''; rp \<leftarrow> at w as_text ''release_policy'';
     Some \<lparr> wvID = i, wvWorkContextID = c, wvRepo = r, wvPath = p, wvBranch = b, wvBaseCommit = bc, wvStatus = st,
            wvReleasePolicy = rp \<rparr> }"

record agentRunView =
  avID :: string
  avStatus :: string
  avProvider :: string
  avFrameCount :: int
  avRawSessionRef :: string

definition as_agentRunView :: "json \<Rightarrow> agentRunView option" where
  "as_agentRunView j = do {
     a \<leftarrow> as_struct j;
     i \<leftarrow> at a as_text ''id''; st \<leftarrow> at a as_text ''status''; p \<leftarrow> at a as_text ''provider''; n \<leftarrow> at a as_int ''frame_count'';
     r \<leftarrow> at a as_text ''raw_session_ref'';
     Some \<lparr> avID = i, avStatus = st, avProvider = p, avFrameCount = n, avRawSessionRef = r \<rparr> }"

definition as_agentRunResponse :: "json \<Rightarrow> (agentRunView \<times> string) option" where
  "as_agentRunResponse j = do { m \<leftarrow> as_struct j; both (at m as_agentRunView ''agent_run'') (at m as_text ''stream_id'') }"

record artifactView =
  fvID :: string
  fvWorkContextID :: string
  fvKind :: string
  fvBlobURI :: string
  fvFilesChanged :: int
  fvInsertions :: int
  fvDeletions :: int
  fvFiles :: "string list"

definition as_artifactView :: "json \<Rightarrow> artifactView option" where
  "as_artifactView j = do {
     a \<leftarrow> as_struct j;
     i \<leftarrow> at a as_text ''id''; c \<leftarrow> at a as_text ''work_context_id''; k \<leftarrow> at a as_text ''kind''; u \<leftarrow> at a as_text ''blob_uri'';
     s \<leftarrow> as_struct (member ''summary'' a);
     n \<leftarrow> at s as_int ''files_changed''; ins \<leftarrow> at s as_int ''insertions''; del \<leftarrow> at s as_int ''deletions''; fs \<leftarrow> at s texts_of ''files'';
     Some \<lparr> fvID = i, fvWorkContextID = c, fvKind = k, fvBlobURI = u, fvFilesChanged = n, fvInsertions = ins, fvDeletions = del,
            fvFiles = fs \<rparr> }"

record toolRunView =
  uvID :: string
  uvWorkContextID :: string
  uvLabel :: string
  uvCommand :: "string list"
  uvExitCode :: int
  uvOutcome :: string
  uvStdoutURI :: string
  uvStderrURI :: string
  uvFingerprint :: string

definition as_toolRunView :: "json \<Rightarrow> toolRunView option" where
  "as_toolRunView j = do {
     t \<leftarrow> as_struct j;
     i \<leftarrow> at t as_text ''id''; c \<leftarrow> at t as_text ''work_context_id''; l \<leftarrow> at t as_text ''label''; cmd \<leftarrow> at t texts_of ''command'';
     x \<leftarrow> at t as_int ''exit_code''; out \<leftarrow> at t as_text ''outcome''; so \<leftarrow> at t as_text ''stdout_uri''; se \<leftarrow> at t as_text ''stderr_uri'';
     fp \<leftarrow> at t as_text ''fingerprint'';
     Some \<lparr> uvID = i, uvWorkContextID = c, uvLabel = l, uvCommand = cmd, uvExitCode = x, uvOutcome = out, uvStdoutURI = so,
            uvStderrURI = se, uvFingerprint = fp \<rparr> }"

text \<open>One member of the answer decoded by a view.\<close>

definition as_member :: "string \<Rightarrow> (json \<Rightarrow> 'a option) \<Rightarrow> json \<Rightarrow> 'a option" where
  "as_member k f j = do { m \<leftarrow> as_struct j; at m f k }"

record reviewView =
  xvID :: string
  xvWorkContextID :: string
  xvAgentRunID :: string
  xvDiffArtifactID :: string
  xvStatus :: string
  xvReviewer :: string
  xvNotes :: string

definition result_view :: "json \<Rightarrow> (string \<times> bool \<times> string list \<times> string) option" where
  "result_view j = do {
     r \<leftarrow> as_struct j;
     both (at r as_text ''criterion_id'') (both (at r as_bool ''satisfied'') (both (at r texts_of ''evidence_refs'') (at r as_text ''notes''))) }"

definition snapshot_view :: "json \<Rightarrow> (string \<times> string \<times> string) option" where
  "snapshot_view j = do {
     e \<leftarrow> as_struct j;
     both (at e as_text ''kind'') (both (at e as_text ''outcome'') (at e as_text ''evidence_ref_id'')) }"

text \<open>The results, the snapshot and the times of a review are decoded and not printed.\<close>

definition as_reviewView :: "json \<Rightarrow> reviewView option" where
  "as_reviewView j = do {
     r \<leftarrow> as_struct j;
     i \<leftarrow> at r as_text ''id''; c \<leftarrow> at r as_text ''work_context_id''; a \<leftarrow> at r as_text ''agent_run_id'';
     d \<leftarrow> at r as_text ''diff_artifact_id''; st \<leftarrow> at r as_text ''status''; who \<leftarrow> at r as_text ''reviewer''; n \<leftarrow> at r as_text ''notes'';
     rs \<leftarrow> at r as_list ''acceptance_results''; _ \<leftarrow> all_of result_view rs;
     es \<leftarrow> at r as_list ''evidence_snapshot''; _ \<leftarrow> all_of snapshot_view es;
     _ \<leftarrow> at r as_text ''requested_at''; _ \<leftarrow> at r as_text ''decided_at'';
     Some \<lparr> xvID = i, xvWorkContextID = c, xvAgentRunID = a, xvDiffArtifactID = d, xvStatus = st, xvReviewer = who, xvNotes = n \<rparr> }"

record sessionRecordView =
  yvID :: string
  yvWorkContextID :: string
  yvAgentRunID :: string
  yvArchiveRef :: string
  yvArchiveHash :: string
  yvSealedAt :: string
  yvCorrelationID :: string
  yvEventCount :: int
  yvHeadCommit :: string
  yvDirty :: bool

definition as_sessionRecordView :: "json \<Rightarrow> sessionRecordView option" where
  "as_sessionRecordView j = do {
     r \<leftarrow> as_struct j;
     i \<leftarrow> at r as_text ''id''; c \<leftarrow> at r as_text ''work_context_id''; a \<leftarrow> at r as_text ''agent_run_id'';
     ref \<leftarrow> at r as_text ''archive_ref''; h \<leftarrow> at r as_text ''archive_hash''; t \<leftarrow> at r as_text ''sealed_at'';
     s \<leftarrow> as_struct (member ''event_selection'' r); corr \<leftarrow> at s as_text ''correlation_id''; n \<leftarrow> at s as_int ''event_count'';
     k \<leftarrow> as_struct (member ''recovery_checkpoint'' r); head \<leftarrow> at k as_text ''head_commit''; _ \<leftarrow> at k as_text ''base_commit'';
     _ \<leftarrow> at k as_text ''branch''; d \<leftarrow> at k as_bool ''dirty'';
     Some \<lparr> yvID = i, yvWorkContextID = c, yvAgentRunID = a, yvArchiveRef = ref, yvArchiveHash = h, yvSealedAt = t,
            yvCorrelationID = corr, yvEventCount = n, yvHeadCommit = head, yvDirty = d \<rparr> }"

record workflowRunResult =
  zvWorkContextID :: string
  zvTaskID :: string
  zvOutcome :: string
  zvReason :: string
  zvAgentRunID :: string
  zvDiffArtifactID :: string
  zvBuildToolRunID :: string
  zvTestToolRunID :: string
  zvReviewID :: string
  zvSessionID :: string
  zvEventIDs :: "string list"

definition as_workflowRunResult :: "json \<Rightarrow> workflowRunResult option" where
  "as_workflowRunResult j = do {
     r \<leftarrow> as_struct j;
     wc \<leftarrow> at r as_text ''work_context_id''; t \<leftarrow> at r as_text ''task_id''; out \<leftarrow> at r as_text ''outcome''; why \<leftarrow> at r as_text ''reason'';
     a \<leftarrow> at r as_text ''agent_run_id''; d \<leftarrow> at r as_text ''diff_artifact_id''; b \<leftarrow> at r as_text ''build_tool_run_id'';
     tt \<leftarrow> at r as_text ''test_tool_run_id''; rv \<leftarrow> at r as_text ''review_id''; s \<leftarrow> at r as_text ''session_id''; es \<leftarrow> at r texts_of ''event_ids'';
     Some \<lparr> zvWorkContextID = wc, zvTaskID = t, zvOutcome = out, zvReason = why, zvAgentRunID = a, zvDiffArtifactID = d,
            zvBuildToolRunID = b, zvTestToolRunID = tt, zvReviewID = rv, zvSessionID = s, zvEventIDs = es \<rparr> }"

definition as_workflowGetResponse :: "json \<Rightarrow> (string \<times> string \<times> (string \<times> json) list list) option" where
  "as_workflowGetResponse j = do {
     m \<leftarrow> as_struct j; es \<leftarrow> at m as_list ''events''; evs \<leftarrow> all_of as_struct es;
     both (at m as_text ''stage'') (both (at m as_text ''outcome'') (Some evs)) }"

section \<open>Lines\<close>

definition print_line :: "string list \<Rightarrow> string" where
  "print_line parts = concat parts @ [CHR 0x0A]"

definition show_nat_length :: "'a list \<Rightarrow> string" where
  "show_nat_length xs = show_int (int (length xs))"

definition first12 :: "string \<Rightarrow> string" where
  "first12 s = (if length s > 12 then take 12 s else s)"

definition show_bool :: "bool \<Rightarrow> string" where
  "show_bool b = (if b then ''true'' else ''false'')"

definition print_taskCreate :: "taskView \<times> workContextView \<Rightarrow> string" where
  "print_taskCreate = (\<lambda>(t, c). print_line [''task '', tvID t, ''  wc '', cvID c, ''  status '', tvStatus t, ''  version '', show_int (tvVersion t)])"

definition print_taskShow :: "taskView \<times> workContextView \<Rightarrow> string" where
  "print_taskShow = (\<lambda>(t, c). concat
     [print_line [''id '', tvID t], print_line [''title '', tvTitle t], print_line [''status '', tvStatus t],
      print_line [''version '', show_int (tvVersion t)], print_line [''repo '', cvRepo c],
      print_line [''acceptance: '', show_nat_length (tvAcceptanceCriteria t), '' criteria''],
      print_line [''evidence: '', show_nat_length (cvEvidenceRefs c), '' refs'']])"

definition print_taskTransition :: "taskView \<times> workContextView \<Rightarrow> string" where
  "print_taskTransition = (\<lambda>(t, c). print_line [''status '', tvStatus t, ''  version '', show_int (tvVersion t)])"

definition print_workspaceAllocate :: "workspaceView \<Rightarrow> string" where
  "print_workspaceAllocate w =
     print_line [''workspace '', wvID w, ''  branch '', wvBranch w, ''  path '', wvPath w, ''  base '', wvBaseCommit w]"

definition print_workspaceShow :: "workspaceView \<Rightarrow> string" where
  "print_workspaceShow w = concat
     [print_line [''id '', wvID w], print_line [''status '', wvStatus w], print_line [''branch '', wvBranch w],
      print_line [''path '', wvPath w], print_line [''base_commit '', wvBaseCommit w]]"

definition print_workspaceRelease :: "workspaceView \<Rightarrow> string" where
  "print_workspaceRelease w = print_line [''status '', wvStatus w, ''  policy '', wvReleasePolicy w]"

definition print_agentShow :: "agentRunView \<times> string \<Rightarrow> string" where
  "print_agentShow = (\<lambda>(a, _). concat
     [print_line [''id '', avID a], print_line [''status '', avStatus a], print_line [''provider '', avProvider a],
      print_line [''frame_count '', show_int (avFrameCount a)], print_line [''raw_session_ref '', avRawSessionRef a]])"

definition print_agentCancel :: "agentRunView \<times> string \<Rightarrow> string" where
  "print_agentCancel = (\<lambda>(a, _). print_line [''status '', avStatus a])"

definition print_collectDiff :: "artifactView \<Rightarrow> string" where
  "print_collectDiff a =
     print_line [''artifact '', fvID a, ''  files_changed '', show_int (fvFilesChanged a), ''  +'', show_int (fvInsertions a),
       '' -'', show_int (fvDeletions a), ''  blob '', fvBlobURI a]"

definition print_artifactShow :: "artifactView \<Rightarrow> string" where
  "print_artifactShow a = concat
     [print_line [''id '', fvID a], print_line [''kind '', fvKind a], print_line [''blob_uri '', fvBlobURI a],
      print_line [''files_changed '', show_int (fvFilesChanged a)]]"

definition print_toolRun :: "toolRunView \<Rightarrow> string" where
  "print_toolRun t =
     print_line [''tool_run '', uvID t, ''  outcome '', uvOutcome t, ''  exit '', show_int (uvExitCode t),
       ''  fp '', first12 (uvFingerprint t), ''  stdout '', uvStdoutURI t]"

definition print_toolShow :: "toolRunView \<Rightarrow> string" where
  "print_toolShow t = concat
     [print_line [''id '', uvID t], print_line [''label '', uvLabel t], print_line [''outcome '', uvOutcome t],
      print_line [''exit_code '', show_int (uvExitCode t)], print_line [''fingerprint '', uvFingerprint t],
      print_line [''stdout_uri '', uvStdoutURI t], print_line [''stderr_uri '', uvStderrURI t]]"

definition print_review :: "reviewView \<Rightarrow> string" where
  "print_review r = print_line [''review '', xvID r, ''  status '', xvStatus r]"

definition print_reviewShow :: "reviewView \<Rightarrow> string" where
  "print_reviewShow r = concat
     [print_line [''id '', xvID r], print_line [''status '', xvStatus r], print_line [''diff_artifact_id '', xvDiffArtifactID r],
      print_line [''reviewer '', xvReviewer r], print_line [''notes '', xvNotes r]]"

definition print_sessionSeal :: "sessionRecordView \<Rightarrow> string" where
  "print_sessionSeal r =
     print_line [''session '', yvID r, ''  events '', show_int (yvEventCount r), ''  archive '', yvArchiveRef r,
       ''  hash '', first12 (yvArchiveHash r), ''  head '', first12 (yvHeadCommit r)]"

definition print_sessionShow :: "sessionRecordView \<Rightarrow> string" where
  "print_sessionShow r = concat
     [print_line [''id '', yvID r], print_line [''work_context_id '', yvWorkContextID r],
      print_line [''agent_run_id '', yvAgentRunID r], print_line [''archive_ref '', yvArchiveRef r],
      print_line [''archive_hash '', yvArchiveHash r], print_line [''events '', show_int (yvEventCount r)],
      print_line [''sealed_at '', yvSealedAt r], print_line [''head_commit '', yvHeadCommit r],
      print_line [''dirty '', show_bool (yvDirty r)]]"

definition print_workflowRun :: "workflowRunResult \<Rightarrow> string" where
  "print_workflowRun r = concat
     [print_line [''outcome '', zvOutcome r, ''  task '', zvTaskID r, ''  reason '', zvReason r],
      print_line [''work_context '', zvWorkContextID r, ''  agent_run '', zvAgentRunID r, ''  diff '', zvDiffArtifactID r,
        ''  review '', zvReviewID r, ''  session '', zvSessionID r],
      print_line [''build_tool_run '', zvBuildToolRunID r, ''  test_tool_run '', zvTestToolRunID r,
        ''  events '', show_nat_length (zvEventIDs r)]]"

definition event_line :: "(string \<times> json) list \<Rightarrow> string" where
  "event_line e = (case map_of e ''type'' of Some (JText t) \<Rightarrow> print_line [''  '', t] | _ \<Rightarrow> [])"

definition print_workflowShow :: "string \<times> string \<times> (string \<times> json) list list \<Rightarrow> string" where
  "print_workflowShow = (\<lambda>(stage, outcome, evs).
     print_line [''stage '', stage, ''  outcome '', outcome, ''  events '', show_nat_length evs] @ concat (map event_line evs))"

section \<open>The wire\<close>

record answer =
  anText :: string
  anJson :: "json option"

text \<open>The request of a subcommand on the wire; \<open>deadline\<close> renders the time that is so much later than now.\<close>

definition cli_envelope :: "(int \<Rightarrow> string) \<Rightarrow> cli_request \<Rightarrow> json Envelope" where
  "cli_envelope deadline q =
     (zero_envelope (cqPayload q))\<lparr> eKind := cqKind q, eCapability := cqCapability q, eMajor := 1,
        eDeadline := (case cqTimeout q of None \<Rightarrow> [] | Some t \<Rightarrow> deadline t) \<rparr>"

definition cli_prepare :: "string \<Rightarrow> string \<Rightarrow> string \<Rightarrow> 'p Envelope \<Rightarrow> 'p Envelope" where
  "cli_prepare cliID traceID corrID e =
     e\<lparr> eCaller := [], ePrincipal := [], eActorChain := [], eDelegationID := [],
        eProtocol := (if eProtocol e = 0 then 1 else eProtocol e),
        eMessageID := (if eMessageID e = [] then cliID else eMessageID e),
        eTraceID := (if eTraceID e = [] then traceID else eTraceID e),
        eCorrelationID := (if eCorrelationID e = [] then corrID else eCorrelationID e) \<rparr>"

definition cli_prepare_stream :: "string \<Rightarrow> string \<Rightarrow> string \<Rightarrow> string \<Rightarrow> 'p Envelope \<Rightarrow> 'p Envelope" where
  "cli_prepare_stream cliID streamID traceID corrID e =
     (cli_prepare cliID traceID corrID e)\<lparr> eStreamID := (if eStreamID e = [] then streamID else eStreamID e) \<rparr>"

text \<open>How an exchange goes: errors with their text, or an answer.\<close>

datatype exchange = DialFails string | SendFails string | NoAnswer string | Answered "answer Envelope"

definition invoke_result :: "string \<Rightarrow> exchange \<Rightarrow> answer Envelope cli" where
  "invoke_result socket x =
     (case x of
        DialFails e \<Rightarrow> Err (CallFailed (''dial '' @ socket @ '': '' @ e))
      | SendFails e \<Rightarrow> Err (CallFailed e)
      | NoAnswer e \<Rightarrow> Err (CallFailed e)
      | Answered r \<Rightarrow>
          if eKind r = KindError
          then (case eError r of Some er \<Rightarrow> Err (CallFailed (errCode er @ '': '' @ errMessage er)) | None \<Rightarrow> Ok r)
          else Ok r)"

text \<open>The frames of a stream that are handled: up to the first close, or to the end of the connection.\<close>

fun handled_frames :: "'p Envelope list \<Rightarrow> 'p Envelope list" where
  "handled_frames [] = []"
| "handled_frames (f # fs) = f # (if eKind f = KindStreamClose then [] else handled_frames fs)"

definition frame_text :: "json \<Rightarrow> string option" where
  "frame_text j = do {
     s \<leftarrow> as_struct j; _ \<leftarrow> at s as_int ''seq''; d \<leftarrow> map_of s ''data''; a \<leftarrow> as_struct d;
     _ \<leftarrow> at a as_text ''kind''; t \<leftarrow> at a as_text ''text''; _ \<leftarrow> at a as_int ''index''; Some t }"

definition frame_mark :: string where "frame_mark = [CHR 0xC2, CHR 0xBB, CHR '' '']"

definition frame_line :: "answer Envelope \<Rightarrow> string" where
  "frame_line f =
     (if eKind f \<noteq> KindStreamData then []
      else (case Option.bind (anJson (ePayload f)) frame_text of None \<Rightarrow> [] | Some t \<Rightarrow> print_line [frame_mark, t]))"

section \<open>The end of a subcommand\<close>

type_synonym outcome = "string \<times> cli_error option"

definition printed :: "(json \<Rightarrow> 'a option) \<Rightarrow> ('a \<Rightarrow> string) \<Rightarrow> answer \<Rightarrow> outcome" where
  "printed f g a = (case Option.bind (anJson a) f of None \<Rightarrow> ([], Some BadAnswer) | Some x \<Rightarrow> (g x, None))"

text \<open>\<open>-json\<close>: indented for a task and a workspace, as it came for the others.\<close>

definition printed_json :: "(json \<Rightarrow> string) option \<Rightarrow> answer \<Rightarrow> outcome" where
  "printed_json indent a =
     (case indent of
        Some f \<Rightarrow> (case anJson a of None \<Rightarrow> ([], Some BadAnswer) | Some j \<Rightarrow> (print_line [f j], None))
      | None \<Rightarrow> (print_line [anText a], None))"

definition workflow_end :: "answer \<Rightarrow> outcome" where
  "workflow_end a =
     (case Option.bind (anJson a) (as_member ''result'' as_workflowRunResult) of
        None \<Rightarrow> ([], Some BadAnswer)
      | Some r \<Rightarrow> (print_workflowRun r, if zvOutcome r \<noteq> ''DONE'' then Some (NotDone (zvOutcome r) (zvReason r)) else None))"

definition cli_finish :: "(json \<Rightarrow> string) \<Rightarrow> subcommand \<Rightarrow> bool \<Rightarrow> answer \<Rightarrow> outcome" where
  "cli_finish indent x j a =
     (if j then printed_json (if x \<in> {TaskShow, WorkspaceShow} then Some indent else None) a
      else (case x of
              TaskCreate \<Rightarrow> printed as_workResponse print_taskCreate a
            | TaskShow \<Rightarrow> printed as_workResponse print_taskShow a
            | TaskTransition \<Rightarrow> printed as_workResponse print_taskTransition a
            | WorkspaceAllocate \<Rightarrow> printed (as_member ''workspace'' as_workspaceView) print_workspaceAllocate a
            | WorkspaceShow \<Rightarrow> printed (as_member ''workspace'' as_workspaceView) print_workspaceShow a
            | WorkspaceRelease \<Rightarrow> printed (as_member ''workspace'' as_workspaceView) print_workspaceRelease a
            | AgentRun \<Rightarrow> ([], None)
            | AgentShow \<Rightarrow> printed as_agentRunResponse print_agentShow a
            | AgentCancel \<Rightarrow> printed as_agentRunResponse print_agentCancel a
            | ArtifactCollectDiff \<Rightarrow> printed (as_member ''artifact'' as_artifactView) print_collectDiff a
            | ArtifactShow \<Rightarrow> printed (as_member ''artifact'' as_artifactView) print_artifactShow a
            | ReviewRequest \<Rightarrow> printed (as_member ''review'' as_reviewView) print_review a
            | ReviewDecide \<Rightarrow> printed (as_member ''review'' as_reviewView) print_review a
            | ReviewShow \<Rightarrow> printed (as_member ''review'' as_reviewView) print_reviewShow a
            | SessionSeal \<Rightarrow> printed (as_member ''session_record'' as_sessionRecordView) print_sessionSeal a
            | SessionShow \<Rightarrow> printed (as_member ''session_record'' as_sessionRecordView) print_sessionShow a
            | ToolRun \<Rightarrow> printed (as_member ''tool_run'' as_toolRunView) print_toolRun a
            | ToolShow \<Rightarrow> printed (as_member ''tool_run'' as_toolRunView) print_toolShow a
            | WorkflowRun \<Rightarrow> workflow_end a
            | WorkflowShow \<Rightarrow> printed as_workflowGetResponse print_workflowShow a))"

text \<open>
  An agent run is looked at until it is no longer running or its time is over: \<open>before n\<close> says whether the n-th
  look comes in time, \<open>look n\<close> how it goes; None is running out of fuel.
\<close>

fun poll_agent :: "(nat \<Rightarrow> bool) \<Rightarrow> (nat \<Rightarrow> answer Envelope cli) \<Rightarrow> string \<Rightarrow> nat \<Rightarrow> nat \<Rightarrow> outcome option" where
  "poll_agent before look i n 0 = None"
| "poll_agent before look i n (Suc fuel) =
     (if \<not> before n then Some ([], Some (NotTerminal i))
      else (case look n of
              Inl e \<Rightarrow> Some ([], Some e)
            | Inr r \<Rightarrow>
                (case Option.bind (anJson (ePayload r)) as_agentRunResponse of
                   None \<Rightarrow> Some ([], Some BadAnswer)
                 | Some (a, _) \<Rightarrow>
                     if avStatus a \<noteq> ''RUNNING''
                     then Some (print_line [''status '', avStatus a, ''  raw_session_ref '', avRawSessionRef a], None)
                     else poll_agent before look i (Suc n) fuel)))"

text \<open>Every look has the run's own deadline, counted from when the run was asked for.\<close>

definition fetchAgentRun :: "int option \<Rightarrow> string \<Rightarrow> cli_request" where
  "fetchAgentRun deadline i = (cli_query ''agent.run.get'' [(''agent_run_id'', JText i)])\<lparr> cqTimeout := deadline \<rparr>"

definition agent_end ::
  "(nat \<Rightarrow> bool) \<Rightarrow> (string \<Rightarrow> nat \<Rightarrow> answer Envelope cli) \<Rightarrow> nat \<Rightarrow> answer Envelope list \<Rightarrow> answer Envelope \<Rightarrow> outcome option" where
  "agent_end before look fuel frames accepted =
     (let shown = concat (map frame_line (handled_frames frames))
      in case Option.bind (anJson (ePayload accepted)) as_agentRunResponse of
           None \<Rightarrow> Some (shown, Some BadAnswer)
         | Some (a, stream) \<Rightarrow>
             (case poll_agent before (look (avID a)) (avID a) 0 fuel of
                None \<Rightarrow> None
              | Some (out, e) \<Rightarrow>
                  Some (shown @ print_line [''agent_run '', avID a, ''  stream '', stream] @ out, e)))"

text \<open>The whole client: what is printed, and the error it exits with; \<open>exit_code\<close> is what the shell sees.\<close>

record cli_world =
  cwFlags :: flag_world
  cwToken :: string
  cwExchange :: "cli_call \<Rightarrow> exchange"
  cwFrames :: "answer Envelope list"
  cwBefore :: "nat \<Rightarrow> bool"
  cwLook :: "cli_request \<Rightarrow> nat \<Rightarrow> exchange"
  cwIndent :: "json \<Rightarrow> string"

definition cli_main :: "cli_world \<Rightarrow> nat \<Rightarrow> string list \<Rightarrow> outcome option" where
  "cli_main w fuel args =
     (case cli_run (cwFlags w) (cwToken w) args of
        Inl e \<Rightarrow> Some ([], Some e)
      | Inr c \<Rightarrow>
          (case invoke_result (ccSocket c) (cwExchange w c) of
             Inl e \<Rightarrow> Some ([], Some e)
           | Inr r \<Rightarrow>
               if ccCommand c = AgentRun
               then agent_end (cwBefore w) (\<lambda>i n. invoke_result (ccSocket c) (cwLook w (fetchAgentRun (cqTimeout (ccRequest c)) i) n)) fuel (cwFrames w) r
               else Some (cli_finish (cwIndent w) (ccCommand c) (ccJson c) (ePayload r))))"

definition exit_code :: "outcome \<Rightarrow> nat" where
  "exit_code o1 = (case snd o1 of None \<Rightarrow> 0 | Some e \<Rightarrow> if e = Panicked then 2 else 1)"

end
