(* ===== verification/CliProps.thy ===== *)
theory CliProps
  imports CliOutput WorkflowWork
begin

text \<open>
  What holds of the command line client: flag values reach the program as they were typed, each subcommand asks for
  its own capability, what it sends the work registry is what that decodes, waiting for an agent run ends, and the
  exit code of a workflow run says whether it is done.
\<close>

section \<open>Flags\<close>

definition flag_name :: "string \<Rightarrow> bool" where
  "flag_name n \<longleftrightarrow> n \<noteq> [] \<and> hd n \<noteq> CHR ''-'' \<and> CHR ''='' \<notin> set n"

text \<open>The two ways to write a flag with its value.\<close>

fun written :: "bool \<times> string \<times> string \<Rightarrow> string list" where
  "written (joined, n, v) = (if joined then [CHR ''-'' # n @ CHR ''='' # v] else [CHR ''-'' # n, v])"

lemma flag_word_joined: "flag_name n \<Longrightarrow> flag_word (CHR ''-'' # n @ CHR ''='' # v) = FlagWord n (Some v)"
proof -
  assume n: "flag_name n"
  then obtain c cs where c: "n = c # cs" "c \<noteq> CHR ''-''" "c \<noteq> CHR ''=''" by (cases n) (auto simp: flag_name_def)
  have "takeWhile (\<lambda>c. c \<noteq> CHR ''='') (n @ CHR ''='' # v) = n"
    using n by (auto simp: flag_name_def takeWhile_append)
  with c show ?thesis by (simp add: flag_word_def Let_def)
qed

lemma flag_word_alone: "flag_name n \<Longrightarrow> flag_word (CHR ''-'' # n) = FlagWord n None"
proof -
  assume n: "flag_name n"
  then obtain c cs where c: "n = c # cs" "c \<noteq> CHR ''-''" "c \<noteq> CHR ''=''" by (cases n) (auto simp: flag_name_def)
  have "\<forall>x \<in> set cs. x \<noteq> CHR ''=''" using n c(1) by (auto simp: flag_name_def)
  then have "takeWhile (\<lambda>c. c \<noteq> CHR ''='') cs = cs" by (rule takeWhile_eq_all_conv [THEN iffD2])
  with c show ?thesis by (simp add: flag_word_def Let_def del: takeWhile_eq_all_conv)
qed

definition give_text :: "flags \<Rightarrow> bool \<times> string \<times> string \<Rightarrow> flags" where
  "give_text fs = (\<lambda>(_, n, v). put_flag n (VText v) fs)"

lemma parse_written:
  assumes "flag_name n" and "map_of fs n = Some (VText old)"
  shows "parse_flags fw fs (written (b, n, v) @ args) = parse_flags fw (give_text fs (b, n, v)) args"
  using assms by (cases b) (simp_all add: flag_word_joined flag_word_alone give_flag_def give_text_def is_bool_def)

text \<open>
  Text given to a flag reaches the program as it was typed, whatever it looks like (a dash, an equals sign,
  nothing at all) and whether it is joined to its flag by an equals sign or the next argument; what is given last
  counts.
\<close>

theorem flag_text_verbatim:
  assumes "\<forall>(b, n, v) \<in> set ws. flag_name n \<and> (\<exists>old. map_of fs n = Some (VText old))"
  shows "\<exists>gs. parse_flags fw fs (concat (map written ws)) = Inr (gs, [])
    \<and> (\<forall>n. text_flag gs n = (case map_of (rev (map snd ws)) n of Some v \<Rightarrow> v | None \<Rightarrow> text_flag fs n))"
  using assms
proof (induction ws arbitrary: fs)
  case (Cons w ws)
  obtain b n v where w: "w = (b, n, v)" by (metis prod_cases3)
  obtain old where n: "flag_name n" "map_of fs n = Some (VText old)" using Cons.prems w by auto
  have "\<forall>(b, n, v) \<in> set ws. flag_name n \<and> (\<exists>old. map_of (give_text fs w) n = Some (VText old))"
    using Cons.prems by (auto simp: w give_text_def map_of_put_flag)
  from Cons.IH [OF this] obtain gs where gs: "parse_flags fw (give_text fs w) (concat (map written ws)) = Inr (gs, [])"
    "\<And>n. text_flag gs n = (case map_of (rev (map snd ws)) n of Some v \<Rightarrow> v | None \<Rightarrow> text_flag (give_text fs w) n)" by blast
  have "text_flag (give_text fs w) m = (if m = n then v else text_flag fs m)" for m
    using n(2) by (simp add: w give_text_def text_flag_def map_of_put_flag)
  with gs parse_written [OF n] show ?case
    by (auto simp: w map_add_def split: option.split)
qed simp

section \<open>Requests\<close>

definition asks_for :: "subcommand \<Rightarrow> kind \<times> string" where
  "asks_for x =
     (case x of
        TaskCreate \<Rightarrow> (KindCommand, ''work.create'') | TaskShow \<Rightarrow> (KindQuery, ''work.get'')
      | TaskTransition \<Rightarrow> (KindCommand, ''work.transition'') | WorkspaceAllocate \<Rightarrow> (KindCommand, ''workspace.allocate'')
      | WorkspaceShow \<Rightarrow> (KindQuery, ''workspace.get'') | WorkspaceRelease \<Rightarrow> (KindCommand, ''workspace.release'')
      | AgentRun \<Rightarrow> (KindCommand, ''agent.run'') | AgentShow \<Rightarrow> (KindQuery, ''agent.run.get'')
      | AgentCancel \<Rightarrow> (KindCommand, ''agent.run.cancel'') | ArtifactCollectDiff \<Rightarrow> (KindCommand, ''artifact.collect_diff'')
      | ArtifactShow \<Rightarrow> (KindQuery, ''artifact.get'') | ReviewRequest \<Rightarrow> (KindCommand, ''review.request'')
      | ReviewDecide \<Rightarrow> (KindCommand, ''review.decide'') | ReviewShow \<Rightarrow> (KindQuery, ''review.get'')
      | SessionSeal \<Rightarrow> (KindCommand, ''session.seal'') | SessionShow \<Rightarrow> (KindQuery, ''session.get'')
      | ToolRun \<Rightarrow> (KindCommand, ''tool.run'') | ToolShow \<Rightarrow> (KindQuery, ''tool.run.get'')
      | WorkflowRun \<Rightarrow> (KindCommand, ''workflow.engineering.run'') | WorkflowShow \<Rightarrow> (KindQuery, ''workflow.engineering.get''))"

lemmas request_defs = cli_command_def commandWithDeadline_def cli_query_def

lemmas plan_defs =
  taskCreate_def taskShow_def taskTransition_def workspaceAllocate_def workspaceShow_def workspaceRelease_def
  agentRun_request_def agentShow_def agentCancel_def artifactCollectDiff_def artifactShow_def toolRun_def toolShow_def
  reviewRequest_def reviewDecide_def reviewShow_def sessionSeal_def sessionShow_def workflowRun_def workflowShow_def
  show_one_def

lemma plain_Ok: "plain r = Inr (q, j) \<longleftrightarrow> r = Inr q \<and> \<not> j"
  by (auto simp: plain_def split: sum.split)

lemma first_arg_Ok: "first_arg u args k = Inr x \<longleftrightarrow> (\<exists>a as. args = a # as \<and> k a as = Inr x)"
  by (cases args) (auto simp: first_arg_def)

lemma with_flags_Ok: "with_flags fw formal args k = Inr x \<longleftrightarrow> (\<exists>fs rest. parse_flags fw formal args = Inr (fs, rest) \<and> k fs = Inr x)"
  by (auto simp: with_flags_def split: sum.split)

lemma case_Ok: "(case r of Inl e \<Rightarrow> Inl e | Inr b \<Rightarrow> Inr (f b)) = Inr y \<longleftrightarrow> (\<exists>b. r = Inr b \<and> y = f b)"
  by (cases r) auto

lemma plan_asks_for: "cli_plan fw x args = Inr (q, j) \<Longrightarrow> (cqKind q, cqCapability q) = asks_for x"
  by (cases x)
    (auto simp: plan_defs plain_Ok first_arg_Ok with_flags_Ok case_Ok request_defs asks_for_def Let_def
      split: if_splits option.splits list.splits)

text \<open>The registry's decoder of a create request (\<open>plugins/work-registry/handlers.go\<close>).\<close>

definition decode_criterion :: "json \<Rightarrow> AcceptanceCriterion option" where
  "decode_criterion j =
     map_option (\<lambda>(i, t). \<lparr> acID = i, acText = t \<rparr>) (do { c \<leftarrow> as_struct j; both (at c as_text ''id'') (at c as_text ''text'') })"

definition decode_createRequest :: "json \<Rightarrow> createRequest option" where
  "decode_createRequest j = do {
     q \<leftarrow> as_struct j;
     title \<leftarrow> at q as_text ''title''; goal \<leftarrow> at q as_text ''goal''; scope \<leftarrow> at q as_text ''scope''; repo \<leftarrow> at q as_text ''repo'';
     cs \<leftarrow> at q as_list ''acceptance_criteria''; acs \<leftarrow> all_of decode_criterion cs;
     Some \<lparr> crTitle = title, crGoal = goal, crScope = scope, crRepo = repo, crAcceptance = acs \<rparr> }"

lemma parse_criteria_decode:
  "parse_criteria raws = Some cs \<Longrightarrow>
     \<exists>acs. all_of decode_criterion cs = Some acs \<and> (\<forall>a \<in> set acs. acID a \<noteq> [] \<and> acText a \<noteq> []) \<and> length acs = length raws"
  by (induction raws arbitrary: cs)
    (fastforce simp: decode_criterion_def at_def member_def split: prod.splits if_splits)+

text \<open>What holds of every number a flag can have holds of the numbers read.\<close>

definition ints_in :: "(int \<Rightarrow> bool) \<Rightarrow> flags \<Rightarrow> bool" where
  "ints_in R fs \<longleftrightarrow> (\<forall>n v. map_of fs n = Some (VInt v) \<longrightarrow> R v)"

lemma give_flag_ints:
  "give_flag fw fs n x v = Inr fs' \<Longrightarrow> ints_in R fs \<Longrightarrow> (\<And>s v. fwInt fw s = Some v \<Longrightarrow> R v) \<Longrightarrow> ints_in R fs'"
  by (cases x) (auto simp: give_flag_def ints_in_def map_of_put_flag split: option.splits if_splits)

lemma parse_flags_ints:
  "parse_flags fw fs args = Inr (gs, rest) \<Longrightarrow> ints_in R fs \<Longrightarrow> (\<And>s v. fwInt fw s = Some v \<Longrightarrow> R v) \<Longrightarrow> ints_in R gs"
  by (rule parse_flags_keeps [where I = "ints_in R"]) (auto intro: give_flag_ints)

lemma int_flag_in: "ints_in R fs \<Longrightarrow> map_of fs n = Some (VInt d) \<Longrightarrow> R (int_flag fs n)"
  by (simp add: ints_in_def int_flag_def)

lemma cli_run_Ok:
  assumes "cli_run fw token args = Inr c"
  shows "ccToken c \<noteq> [] \<and> (\<exists>as. set as \<subseteq> set args \<and> cli_plan fw (ccCommand c) as = Inr (ccRequest c, ccJson c))"
proof -
  obtain fs as c1 sub rest where p: "parse_flags fw [(''socket'', VText ''/tmp/agent-native-os-m1.sock''), (''identity'', VText ''local-cli''),
        (''token'', VText token)] args = Inr (fs, as)" "as = c1 # sub # rest"
    "text_flag fs ''token'' \<noteq> []" "ccToken c = text_flag fs ''token''"
    "cli_plan fw (ccCommand c) rest = Inr (ccRequest c, ccJson c)"
    using assms by (auto simp: cli_run_def split: sum.splits if_splits list.splits prod.splits)
  from set_mono_suffix [OF parse_flags_rest [OF p(1)]] p show ?thesis by auto
qed

text \<open>
  Every subcommand sends one request, for the one capability it stands for and as a command or a query as that demands; and what goes
  out on the wire claims no caller, principal, chain or delegation: who is asking is for the gateway to say.
\<close>

theorem subcommand_asks_for_capability:
  assumes "cli_run fw token args = Inr c"
    and "e = cli_prepare cliID traceID corrID (cli_envelope deadline (ccRequest c))"
  shows "(eKind e, eCapability e) = asks_for (ccCommand c) \<and> eMajor e = 1 \<and> eProtocol e = 1
    \<and> eCaller e = [] \<and> ePrincipal e = [] \<and> eActorChain e = [] \<and> eDelegationID e = []
    \<and> eMessageID e = cliID \<and> ccToken c \<noteq> []"
  using cli_run_Ok [OF assms(1)] plan_asks_for
  by (auto simp: assms(2) cli_prepare_def cli_envelope_def zero_envelope_def)

definition sample_flags :: flag_world where
  "sample_flags = \<lparr> fwInt = (\<lambda>s. if s = ''3'' then Some 3 else None), fwDuration = (\<lambda>_. None) \<rparr>"

definition sample_args :: "string list" where
  "sample_args = [''-token=s'', ''task'', ''transition'', ''wc-1'', ''-to'', ''DONE'', ''-expected-version=3'']"

lemma sample_args_run:
  "case cli_run sample_flags [] sample_args of
     Inl _ \<Rightarrow> False
   | Inr c \<Rightarrow> ccCommand c = TaskTransition
       \<and> cqPayload (ccRequest c) = JObject [(''work_context_id'', JText ''wc-1''), (''to'', JText ''DONE''), (''expected_version'', JInt 3)]"
  by code_simp

theorem subcommand_asks_for_capability_witness:
  "\<exists>c. cli_run sample_flags [] sample_args = Inr c
     \<and> eCapability (cli_prepare ''i'' ''t'' ''c'' (cli_envelope (\<lambda>_. []) (ccRequest c))) = ''work.transition''"
proof -
  obtain c where "cli_run sample_flags [] sample_args = Inr c" "ccCommand c = TaskTransition"
    using sample_args_run by (auto split: sum.splits)
  with subcommand_asks_for_capability [OF this(1) refl, of "''i''" "''t''" "''c''" "\<lambda>_. []"] show ?thesis
    by (auto simp: asks_for_def)
qed



section \<open>Endings\<close>

text \<open>
  C34: a shell can trust the exit code of a workflow run: it is 0 exactly when the gateway answered and the run's outcome in
  that answer is DONE.
\<close>

theorem workflow_exit_code:
  assumes "cli_run (cwFlags w) (cwToken w) args = Inr c" and "ccCommand c = WorkflowRun"
    and "cli_main w fuel args = Some o1"
  shows "exit_code o1 = 0 \<longleftrightarrow>
    (\<exists>r res. invoke_result (ccSocket c) (cwExchange w c) = Inr r
       \<and> Option.bind (anJson (ePayload r)) (as_member ''result'' as_workflowRunResult) = Some res \<and> zvOutcome res = ''DONE'')"
proof -
  have "\<not> ccJson c" using cli_run_Ok [OF assms(1)] assms(2) by (auto simp: plain_Ok)
  with assms show ?thesis
    by (auto simp: cli_main_def cli_finish_def workflow_end_def exit_code_def invoke_result_def
        split: sum.splits option.splits if_splits exchange.splits)
qed

definition answering :: "(string \<times> json) list \<Rightarrow> cli_world" where
  "answering payload =
     \<lparr> cwFlags = sample_flags, cwToken = ''s'',
       cwExchange = (\<lambda>_. Answered ((zero_envelope \<lparr> anText = [], anJson = Some (JObject payload) \<rparr>)\<lparr> eKind := KindResult \<rparr>)),
       cwFrames = [], cwBefore = (\<lambda>n. n < 2),
       cwLook = (\<lambda>_ _. Answered ((zero_envelope \<lparr> anText = [], anJson = Some (JObject payload) \<rparr>)\<lparr> eKind := KindResult \<rparr>)),
       cwIndent = (\<lambda>_. []) \<rparr>"

definition workflow_args :: "string list" where
  "workflow_args = [''workflow'', ''run'', ''t-1'', ''-prompt'', ''p'']"

lemma workflow_args_run:
  "case cli_run sample_flags ''s'' workflow_args of Inl _ \<Rightarrow> False | Inr c \<Rightarrow> ccCommand c = WorkflowRun"
  "case cli_main (answering [(''result'', JObject [(''outcome'', JText ''DONE'')])]) 0 workflow_args of
     None \<Rightarrow> False | Some o1 \<Rightarrow> exit_code o1 = 0"
  by code_simp+

theorem workflow_exit_code_witness:
  "\<exists>c. (\<exists>r res. invoke_result (ccSocket c) (cwExchange (answering [(''result'', JObject [(''outcome'', JText ''DONE'')])]) c) = Inr r
       \<and> Option.bind (anJson (ePayload r)) (as_member ''result'' as_workflowRunResult) = Some res \<and> zvOutcome res = ''DONE'')"
proof -
  let ?w = "answering [(''result'', JObject [(''outcome'', JText ''DONE'')])]"
  obtain o1 where o1: "cli_main ?w 0 workflow_args = Some o1" "exit_code o1 = 0"
    using workflow_args_run(2) by (auto split: option.splits)
  obtain c where c: "cli_run sample_flags ''s'' workflow_args = Inr c" "ccCommand c = WorkflowRun"
    using workflow_args_run(1) by (auto split: sum.splits)
  have "cli_run (cwFlags ?w) (cwToken ?w) workflow_args = Inr c" using c(1) by (simp add: answering_def)
  from workflow_exit_code [OF this c(2) o1(1)] o1(2) show ?thesis by blast
qed

lemma poll_agent_ends: "\<not> before m \<Longrightarrow> n \<le> m \<Longrightarrow> poll_agent before look i n (Suc (m - n)) \<noteq> None"
proof (induction "m - n" arbitrary: n)
  case 0
  then have "n = m" by simp
  with 0 show ?case by simp
next
  case (Suc k)
  then have "k = m - Suc n" "Suc n \<le> m" "m - n = Suc (m - Suc n)" by simp_all
  with Suc.hyps(1) [of "Suc n"] Suc.prems show ?case
    by (simp del: poll_agent.simps(1) split: sum.split option.split)
qed

text \<open>
  The client always ends: if the deadline of the run passes, it stops looking at an agent run, and every other subcommand
  asks once.
\<close>

theorem client_ends:
  assumes "\<not> cwBefore w m"
  shows "cli_main w (Suc m) args \<noteq> None"
proof -
  have "poll_agent (cwBefore w) look i 0 (Suc m) \<noteq> None" for look i
    using poll_agent_ends [of "cwBefore w" m 0 look i] assms by simp
  then have "(poll_agent (cwBefore w) look i 0 (Suc m) = None) = False" for look i by simp
  then show ?thesis
    by (auto simp: cli_main_def agent_end_def Let_def simp del: poll_agent.simps not_None_eq
        split: sum.split option.split)
qed

definition agent_args :: "string list" where
  "agent_args = [''agent'', ''run'', ''wc-1'', ''-workspace'', ''/w'', ''-prompt'', ''p'']"

theorem client_ends_witness:
  "cli_main (answering [(''agent_run'', JObject [(''status'', JText ''RUNNING'')])]) (Suc 2) agent_args \<noteq> None"
  by (rule client_ends) (simp add: answering_def)

text \<open>
  The argument that separates a command from the flags of \<open>tool run\<close> must not come first: the client then dies of
  a slice out of range instead of printing its usage.
\<close>

theorem tool_run_separator_first: "cli_run fw ''t'' (''tool'' # ''run'' # ''--'' # a # as) = Inl Panicked"
  by (simp add: cli_run_def flag_word_def find_command_def commands_def toolRun_def first_arg_def Let_def text_flag_def plain_def)

end
