(* ===== verification/GatewayServe.thy ===== *)
theory GatewayServe
  imports Gateway
begin

text \<open>
  A connection of the client gateway from its first line to its last (\<open>serve\<close> of
  \<open>kernel/internal/clientgateway/gateway.go\<close>). The lines of one connection are handled one after the other; what other connections and the
  plugins do to the router meanwhile is given with each line. Proved: every request is answered
  once and in order, and a stream that is answered without a provider's frames keeps its connection waiting for ever.
\<close>

section \<open>The loop\<close>

text \<open>
  What happens around one line: the state the router is in when it is read and when its call has ended (as changes
  by others), how the call ends, whether the reply and each frame could be written, the frames that come over the
  stream's channel, and whether the channel is ever closed.
\<close>

record line_world =
  lwWire :: "(string, WireRequest) result"
  lwEnv :: invoke_env
  lwNewID :: string
  lwCancelID :: string
  lwChannel :: nat
  lwBefore :: "Router \<Rightarrow> Router"
  lwDuring :: "Router \<Rightarrow> Router"
  lwOutcome :: call_outcome
  lwReplyWritten :: bool
  lwFrames :: "envelope list"
  lwFrameWritten :: "nat \<Rightarrow> bool"
  lwChannelClosed :: bool

datatype conn_end = EndOfInput | GivenUp | WaitsForFrames

text \<open>After a reply: the frames of its stream, if it has one. None means that the next line is read.\<close>

definition after_reply ::
  "line_world \<Rightarrow> string \<Rightarrow> string \<Rightarrow> nat option \<Rightarrow> Router \<Rightarrow> envelope list \<times> conn_end option \<times> Router" where
  "after_reply l identity sid och r =
     (if \<not> lwReplyWritten l then ([], Some GivenUp, r)
      else (case och of
              None \<Rightarrow> ([], None, r)
            | Some _ \<Rightarrow>
                (case serve_frames (lwFrameWritten l) 0 (lwCancelID l) identity sid (lwFrames l) r of
                   (out, alive, r') \<Rightarrow>
                     (out, if \<not> alive then Some GivenUp else if lwChannelClosed l then None else Some WaitsForFrames, r'))))"

definition wire_identity :: "(string, WireRequest) result \<Rightarrow> string" where
  "wire_identity wire = (case wire of Inl _ \<Rightarrow> [] | Inr w \<Rightarrow> wrIdentity w)"

definition wire_stream :: "(string, WireRequest) result \<Rightarrow> string" where
  "wire_stream wire = (case wire of Inl _ \<Rightarrow> [] | Inr w \<Rightarrow> eStreamID (wrEnvelope w))"

text \<open>One line: what is answered, the frames after it, and how the connection goes on.\<close>

definition serve_line ::
  "(string \<Rightarrow> string) \<Rightarrow> (route_error \<Rightarrow> string) \<Rightarrow> (bool \<Rightarrow> string) \<Rightarrow> Gateway \<Rightarrow> line_world \<Rightarrow> Router
   \<Rightarrow> envelope \<times> envelope list \<times> conn_end option \<times> Router" where
  "serve_line hexsum render payload g l r =
     (case serve_request hexsum render payload (lwNewID l) (lwCancelID l) (lwEnv l) (lwChannel l) g (lwWire l) (lwBefore l r) of
        (Answer e, r1) \<Rightarrow> (e, [], None, r1)
      | (Told e och, r1) \<Rightarrow> (e, after_reply l (wire_identity (lwWire l)) (wire_stream (lwWire l)) och r1)
      | (Waiting c req och, r1) \<Rightarrow>
          (case serve_reply render (lwNewID l) (lwCancelID l) c req och (lwOutcome l) (lwDuring l r1) of
             (Inl e, r2) \<Rightarrow> (e, [], None, r2)
           | (Inr e, r2) \<Rightarrow> (e, after_reply l (wire_identity (lwWire l)) (wire_stream (lwWire l)) och r2)))"

fun serve_lines ::
  "(string \<Rightarrow> string) \<Rightarrow> (route_error \<Rightarrow> string) \<Rightarrow> (bool \<Rightarrow> string) \<Rightarrow> Gateway \<Rightarrow> line_world list \<Rightarrow> Router
   \<Rightarrow> (envelope \<times> envelope list) list \<times> conn_end \<times> Router" where
  "serve_lines hexsum render payload g [] r = ([], EndOfInput, r)"
| "serve_lines hexsum render payload g (l # ls) r =
     (case serve_line hexsum render payload g l r of
        (e, fs, Some how, r') \<Rightarrow> ([(e, fs)], how, r')
      | (e, fs, None, r') \<Rightarrow>
          (case serve_lines hexsum render payload g ls r' of (out, how, r'') \<Rightarrow> ((e, fs) # out, how, r'')))"

section \<open>Every request is answered once, in order\<close>

definition answers :: "line_world \<Rightarrow> envelope \<times> envelope list \<Rightarrow> bool" where
  "answers l out \<longleftrightarrow>
     (case lwWire l of
        Inl er \<Rightarrow> eKind (fst out) = KindError \<and> map_option errCode (eError (fst out)) = Some ''BAD_REQUEST'' \<and> snd out = []
      | Inr w \<Rightarrow> eReplyTo (fst out) = eMessageID (wrEnvelope w)
          \<and> (snd out = [] \<or> eStreamID (wrEnvelope w) \<noteq> []))"

lemma serve_request_reply_to:
  assumes "serve_request hexsum render payload newID cancelID env ch g (Inr w) r = (x, r')"
  shows "case x of
      Answer e \<Rightarrow> eReplyTo e = eMessageID (wrEnvelope w)
    | Told e och \<Rightarrow> eReplyTo e = eMessageID (wrEnvelope w) \<and> (och \<noteq> None \<longrightarrow> eStreamID (wrEnvelope w) \<noteq> [])
    | Waiting c req och \<Rightarrow> eMessageID req = eMessageID (wrEnvelope w) \<and> (och \<noteq> None \<longrightarrow> eStreamID (wrEnvelope w) \<noteq> [])"
  using assms
  by (auto simp: serve_request_def serve_cancel_def Let_def reply_envelope_def invoke_error_def error_envelope_def
      split: if_splits prod.splits invoke_start.splits)

lemma serve_reply_reply_to:
  "serve_reply render newID cancelID c req och outcome r = (x, r') \<Longrightarrow>
     (case x of Inl e \<Rightarrow> eReplyTo e = eMessageID req | Inr e \<Rightarrow> eReplyTo e = eMessageID req)"
  by (auto simp: serve_reply_def invoke_error_def reply_envelope_def split: prod.splits sum.splits)

lemma after_reply_frames: "after_reply l i sid None r = (fs, x) \<Longrightarrow> fs = []"
  by (auto simp: after_reply_def split: if_splits)

lemma serve_line_answers:
  assumes "serve_line hexsum render payload g l r = (e, fs, how, r')"
  shows "answers l (e, fs)"
proof (cases "lwWire l")
  case (Inl er)
  with assms show ?thesis by (auto simp: serve_line_def serve_request_def answers_def error_envelope_def)
next
  case (Inr w)
  obtain x r1 where x: "serve_request hexsum render payload (lwNewID l) (lwCancelID l) (lwEnv l) (lwChannel l) g
      (Inr w) (lwBefore l r) = (x, r1)" by fastforce
  note to = serve_request_reply_to [OF x]
  show ?thesis
  proof (cases x)
    case (Waiting c req och)
    obtain y r2 where y: "serve_reply render (lwNewID l) (lwCancelID l) c req och (lwOutcome l) (lwDuring l r1) = (y, r2)"
      by fastforce
    from serve_reply_reply_to [OF y] to Waiting assms x y Inr show ?thesis
      by (cases y; cases och) (auto simp: serve_line_def answers_def dest: after_reply_frames)
  qed (use to assms x Inr in \<open>auto simp: serve_line_def answers_def dest: after_reply_frames split: option.splits\<close>)
qed


section \<open>A stream that nobody feeds\<close>

text \<open>No route leads to the channel, and it is not closed.\<close>

definition orphan :: "nat \<Rightarrow> Router \<Rightarrow> bool" where
  "orphan ch r \<longleftrightarrow> ch \<notin> rtClosed r \<and> (\<forall>(sid, sr) \<in> set (rtStreams r). srExternal sr \<noteq> Some ch)"

text \<open>What was sent into a channel.\<close>

definition fed :: "nat \<Rightarrow> Router \<Rightarrow> envelope list" where
  "fed ch r = map snd (filter (\<lambda>(c, _). c = ch) (rtDelivered r))"

text \<open>
  Steps of the router by anyone else: a channel is made for one call, so no other call puts it in a route, and
  the other steps make no routes.
\<close>

inductive elsewhere :: "nat \<Rightarrow> route_state \<Rightarrow> route_state \<Rightarrow> bool" for ch :: nat where
  call: "invoke_begin env r callerRuntime caller isPlugin req ext = (x, r') \<Longrightarrow> ext \<noteq> Some ch \<Longrightarrow>
     elsewhere ch (r, cs) (r', calls_of x @ cs)"
| other: "route_step s s' \<Longrightarrow> set (rtStreams (fst s')) \<subseteq> set (rtStreams (fst s)) \<Longrightarrow> elsewhere ch s s'"
| close: "ch' \<noteq> ch \<Longrightarrow> elsewhere ch (r, cs) (r\<lparr> rtClosed := insert ch' (rtClosed r) \<rparr>, cs)"

lemma quiet_simps:
  "srExternal sr \<noteq> Some ch \<Longrightarrow> ch \<in> rtClosed (closeExternalOnce sr r) \<longleftrightarrow> ch \<in> rtClosed r"
  "fed ch (closeExternalOnce sr r) = fed ch r"
  "rtClosed (deliverExternal ch' e b r) = rtClosed r"
  "ch' \<noteq> ch \<Longrightarrow> fed ch (deliverExternal ch' e b r) = fed ch r"
  "rtClosed (send_to rid e r) = rtClosed r" "fed ch (send_to rid e r) = fed ch r"
  "rtClosed (delete_stream sid r) = rtClosed r" "fed ch (delete_stream sid r) = fed ch r"
  by (auto simp: closeExternalOnce_def deliverExternal_def send_to_def delete_stream_def fed_def split: option.splits)

lemma quiet_forward:
  assumes "orphan ch r"
  shows "ch \<notin> rtClosed (forwardStream r rid e newID accepted) \<and> fed ch (forwardStream r rid e newID accepted) = fed ch r"
proof (cases "map_of (rtStreams r) (eStreamID e)")
  case (Some sr)
  have "srExternal sr \<noteq> Some ch" using assms map_of_SomeD [OF Some] by (auto simp: orphan_def)
  then have "srExternal sr = Some ch' \<Longrightarrow> ch' \<noteq> ch" for ch' by auto
  with Some assms \<open>srExternal sr \<noteq> Some ch\<close> show ?thesis
    by (auto simp: forwardStream_def Let_def quiet_simps orphan_def split: option.splits)
qed (use assms in \<open>simp add: forwardStream_def orphan_def\<close>)

lemma quiet_fold:
  "(\<And>x r. x \<in> set xs \<Longrightarrow> (ch \<in> rtClosed (f x r) \<longleftrightarrow> ch \<in> rtClosed r) \<and> fed ch (f x r) = fed ch r) \<Longrightarrow>
     (ch \<in> rtClosed (fold f xs r) \<longleftrightarrow> ch \<in> rtClosed r) \<and> fed ch (fold f xs r) = fed ch r"
  by (induction xs arbitrary: r) auto

lemma quiet_remove:
  assumes "orphan ch r"
  shows "ch \<notin> rtClosed (RemoveClient r rid ids accepts) \<and> fed ch (RemoveClient r rid ids accepts) = fed ch r"
proof -
  have other: "srExternal sr \<noteq> Some ch" if "sr \<in> snd ` set (rtStreams r)" for sr
    using assms that by (force simp: orphan_def)
  let ?r1 = "r\<lparr> rtClients := AList.delete rid (rtClients r),
      rtStreams := filter (\<lambda>(_, sr). srProviderRuntime sr \<noteq> rid \<and> srConsumerRuntime sr \<noteq> rid) (rtStreams r) \<rparr>"
  have "(ch \<in> rtClosed (close_affected ids accepts sr q) \<longleftrightarrow> ch \<in> rtClosed q) \<and> fed ch (close_affected ids accepts sr q) = fed ch q"
    if "sr \<in> snd ` set (rtStreams r)" for sr q
    using other [OF that] by (auto simp: close_affected_def Let_def quiet_simps split: option.split)
  then have "(ch \<in> rtClosed (fold (close_affected ids accepts) (filter P (map snd (rtStreams r))) q) \<longleftrightarrow> ch \<in> rtClosed q)
      \<and> fed ch (fold (close_affected ids accepts) (filter P (map snd (rtStreams r))) q) = fed ch q" for P q
    by (intro quiet_fold) auto
  moreover have "(ch \<in> rtClosed (fold (cancel_lost ids) xs q) \<longleftrightarrow> ch \<in> rtClosed q) \<and> fed ch (fold (cancel_lost ids) xs q) = fed ch q"
    for xs q by (intro quiet_fold) (simp add: cancel_lost_def quiet_simps)
  moreover have "fed ch ?r1 = fed ch r" by (simp add: fed_def)
  ultimately show ?thesis
    using assms by (simp add: RemoveClient_def Let_def orphan_def)
qed

lemma sending_frame:
  "rtClosed (forwardCancel r rid e) = rtClosed r" "rtDelivered (forwardCancel r rid e) = rtDelivered r"
  "rtClosed (snd (CancelExternalStream r i sid newID)) = rtClosed r"
  "rtDelivered (snd (CancelExternalStream r i sid newID)) = rtDelivered r"
  "rtClosed (snd (CancelExternalRequest r i mid newID)) = rtClosed r"
  "rtDelivered (snd (CancelExternalRequest r i mid newID)) = rtDelivered r"
  "rtClosed (snd (publishEnvelope r rt caller e)) = rtClosed r"
  "rtDelivered (snd (publishEnvelope r rt caller e)) = rtDelivered r"
  by (simp_all add: forwardCancel_def CancelExternalStream_def CancelExternalRequest_def publishEnvelope_def send_to_def Let_def
      split: option.splits sum.splits prod.splits)

lemma quiet_begin:
  "invoke_begin env r callerRuntime caller isPlugin req ext = (x, r') \<Longrightarrow>
     rtClosed r' = rtClosed r \<and> rtDelivered r' = rtDelivered r
     \<and> (\<forall>(sid, sr) \<in> set (rtStreams r'). (sid, sr) \<in> set (rtStreams r) \<or> srExternal sr = ext)"
  by (auto simp: invoke_begin_def open_call_def Let_def dest!: update_elems
      split: option.splits sum.splits prod.splits if_splits)

lemma quiet_step:
  assumes "elsewhere ch s s'" and "orphan ch (fst s)"
  shows "orphan ch (fst s') \<and> fed ch (fst s') = fed ch (fst s)"
  using assms
proof (induction rule: elsewhere.induct)
  case (call env r callerRuntime caller isPlugin req ext x r' cs)
  from quiet_begin [OF call(1)] call(2,3) show ?case by (fastforce simp: orphan_def fed_def)
next
  case (other s s')
  then have "orphan ch (fst s') \<longleftrightarrow> ch \<notin> rtClosed (fst s')" by (auto simp: orphan_def)
  moreover have "ch \<notin> rtClosed (fst s') \<and> fed ch (fst s') = fed ch (fst s)"
    using other(1)
  proof cases
    case (request env r callerRuntime caller isPlugin req ext x r' cs)
    with quiet_begin [OF request(3)] other(3) show ?thesis by (simp add: orphan_def fed_def)
  next
    case (finish c cs r outcome newID res r')
    with other(3) show ?thesis
      by (auto simp: orphan_def fed_def invoke_end_def finish_call_def split: call_outcome.splits)
  qed (use other(3) quiet_forward quiet_remove in \<open>simp_all add: sending_frame fed_def orphan_def AddClient_def\<close>)
  ultimately show ?case by simp
qed (auto simp: orphan_def fed_def)

text \<open>Every step of the router is one by someone else, unless it begins a call with this channel.\<close>

lemma forward_streams: "set (rtStreams (forwardStream r rid e newID accepted)) \<subseteq> set (rtStreams r)"
proof -
  have d: "set (AList.delete k xs) \<subseteq> set xs" for k and xs :: "(string \<times> streamRoute) list"
    by (auto simp: AList.delete_eq)
  have s: "rtStreams (send_to k f q) = rtStreams q" for k f q by (simp add: send_to_def split: option.split)
  show ?thesis
    using d by (auto simp: forwardStream_def Let_def frame_simps delete_stream_def s split: option.splits)
qed

lemma remove_streams: "set (rtStreams (RemoveClient r rid ids accepts)) \<subseteq> set (rtStreams r)"
proof -
  have s: "rtStreams (send_to k f q) = rtStreams q" for k f q by (simp add: send_to_def split: option.split)
  have "rtStreams (cancel_lost ids x q) = rtStreams q" "rtStreams (close_affected ids accepts x q) = rtStreams q" for x q
    by (simp_all add: cancel_lost_def close_affected_def Let_def s frame_simps split: option.split)
  then show ?thesis
    by (auto simp: RemoveClient_def Let_def fold_frame [of rtStreams "cancel_lost ids"] fold_frame [of rtStreams "close_affected ids accepts"])
qed

lemma sending_streams:
  "rtStreams (forwardCancel r rid e) = rtStreams r"
  "rtStreams (snd (CancelExternalStream r i sid newID)) = rtStreams r"
  "rtStreams (snd (CancelExternalRequest r i mid newID)) = rtStreams r"
  by (simp_all add: forwardCancel_def CancelExternalStream_def CancelExternalRequest_def send_to_def Let_def
      split: option.splits)

lemma step_elsewhere:
  assumes "route_step s s'"
  shows "elsewhere ch s s'
    \<or> (\<exists>env rt caller isPlugin req x. invoke_begin env (fst s) rt caller isPlugin req (Some ch) = (x, fst s'))"
  using assms
proof cases
  case (request env r callerRuntime caller isPlugin req ext x r' cs)
  then show ?thesis by (cases "ext = Some ch") (auto intro: elsewhere.call)
next
  case (finish c cs r outcome newID res r')
  then have "rtStreams r' = rtStreams r" by (auto simp: invoke_end_def finish_call_def split: call_outcome.splits)
  with finish elsewhere.other [OF assms] show ?thesis by simp
qed (use elsewhere.other [OF assms] forward_streams remove_streams in
     \<open>simp_all add: sending_streams publish_frame AddClient_def\<close>)

text \<open>
  C39: a client that asks for a stream of a capability of the other kind (a query where its contract says command, or the other way round) costs
  the kernel a connection for good: it is answered KIND_MISMATCH, but the gateway then waits for the frames of a
  stream whose channel is in no route and not closed, and whatever calls, streams, events, cancels, connections
  and failures follow, nothing is ever sent into it and it is never closed.
\<close>

theorem mismatched_stream_waits_for_ever:
  assumes "serve_request hexsum render payload newID cancelID env ch g wire r = (Told e (Some ch'), r1)"
    and "orphan ch r" and "(elsewhere ch')\<^sup>*\<^sup>* (r1, cs) (r2, cs2)"
  shows "ch' = ch \<and> eKind e = KindError \<and> map_option errCode (eError e) = Some ''KIND_MISMATCH''
    \<and> ch \<notin> rtClosed r2 \<and> fed ch r2 = fed ch r \<and> Some ch \<notin> srExternal ` snd ` set (rtStreams r2)"
proof -
  obtain w resp where w: "wire = Inr w" "ch' = ch" "e = reply_envelope newID (wrEnvelope w\<lparr> eCaller := wrIdentity w \<rparr>) resp"
    and b: "InvokeExternalStream env r (wrIdentity w) (wrEnvelope w\<lparr> eCaller := wrIdentity w \<rparr>) [] ch = (Replied resp, r1)"
    using assms(1) by (auto simp: serve_request_def serve_cancel_def Let_def split: sum.splits if_splits prod.splits invoke_start.splits)
  then obtain req where i: "invoke_begin env r [] (wrIdentity w) False req (Some ch) = (Replied resp, r1)"
    by (auto simp: InvokeExternalStream_def Let_def split: prod.splits invoke_start.splits)
  have "\<exists>p md. resp = kind_mismatch p md req"
    using i by (auto simp: invoke_begin_def open_call_def Let_def split: option.splits sum.splits prod.splits if_splits)
  then have "eKind e = KindError \<and> map_option errCode (eError e) = Some ''KIND_MISMATCH''"
    by (auto simp: w(3) reply_envelope_def kind_mismatch_def)
  moreover have "orphan ch (fst (r1, cs)) \<and> fed ch (fst (r1, cs)) = fed ch r"
    using invoke_begin_not_Calling [OF i] quiet_begin [OF i] assms(2) by (auto simp: orphan_def fed_def)
  moreover have "orphan ch (fst (r2, cs2)) \<and> fed ch (fst (r2, cs2)) = fed ch (fst (r1, cs))"
    using assms(3) calculation(2) unfolding w(2)
    by (induction rule: rtranclp_induct) (auto dest: quiet_step)
  ultimately show ?thesis using w(2) by (auto simp: orphan_def)
qed

text \<open>The sample router with a contract that makes \<open>wf\<close> a query, and a client that sends it as a command.\<close>

definition query_router :: Router where
  "query_router =
     route_connected\<lparr> rtReg := SetContractCatalog route_registry
       \<lparr> ByCapability = Map.empty,
         ByContract = [canonical ''wf'' 1 \<mapsto> \<lparr> mdContract = canonical ''wf'' 1, mdVersion = [], mdKind = KindQuery \<rparr>] \<rparr> \<rparr>"

definition alice_line :: "(string, WireRequest) result" where
  "alice_line = Inr \<lparr> wrIdentity = ''alice'', wrToken = ''t'', wrEnvelope = wf_request\<lparr> eStreamID := ''s1'' \<rparr> \<rparr>"

definition query_start :: "serve_start \<times> Router" where
  "query_start = serve_request (\<lambda>t. t) (\<lambda>_. []) (\<lambda>_. []) ''n'' ''c'' (route_env ''d1'') 7
     (gateway_New [''alice'' \<mapsto> ''t'']) alice_line query_router"

lemma query_start_eval: "\<exists>e. fst query_start = Told e (Some 7)"
  by (simp add: query_start_def serve_request_def authenticate_def gateway_New_def alice_line_def query_router_def
      SetContractCatalog_def InvokeExternalStream_def route_sample_defs route_eval resolve_defs sample_defs)

theorem mismatched_stream_waits_for_ever_witness:
  "\<exists>e. fst query_start = Told e (Some 7) \<and> map_option errCode (eError e) = Some ''KIND_MISMATCH''
     \<and> 7 \<notin> rtClosed (RemoveClient (snd query_start) ''rt-a'' (\<lambda>s. s) (\<lambda>_. True))
     \<and> fed 7 (RemoveClient (snd query_start) ''rt-a'' (\<lambda>s. s) (\<lambda>_. True)) = []"
proof -
  obtain e where e: "fst query_start = Told e (Some 7)" using query_start_eval by blast
  then have s: "serve_request (\<lambda>t. t) (\<lambda>_. []) (\<lambda>_. []) ''n'' ''c'' (route_env ''d1'') 7
      (gateway_New [''alice'' \<mapsto> ''t'']) alice_line query_router = (Told e (Some 7), snd query_start)"
    by (simp add: query_start_def prod_eq_iff)
  have o: "orphan 7 query_router" "fed 7 query_router = []"
    by (simp_all add: orphan_def fed_def query_router_def route_connected_def router_New_def AddClient_def)
  have "elsewhere 7 (snd query_start, []) (RemoveClient (snd query_start) ''rt-a'' (\<lambda>s. s) (\<lambda>_. True), [])"
    by (rule elsewhere.other [OF route_step.disconnect]) (simp add: remove_streams)
  then have "(elsewhere 7)\<^sup>*\<^sup>* (snd query_start, []) (RemoveClient (snd query_start) ''rt-a'' (\<lambda>s. s) (\<lambda>_. True), [])"
    by (rule r_into_rtranclp)
  from mismatched_stream_waits_for_ever [OF s o(1) this] e o(2) show ?thesis by auto
qed

text \<open>
  A provider's answer leaves the route and the channel as they are, an error included: then too the gateway waits
  for a close that the provider has no reason to send.
\<close>

lemma answered_stream_stays_open:
  "InvokeExternalStream_end r c (CallReturned resp) newID ch = (res, r') \<Longrightarrow>
     rtStreams r' = rtStreams r \<and> rtClosed r' = rtClosed r \<and> res = Ok resp"
  by (auto simp: InvokeExternalStream_end_def invoke_end_def finish_call_def)

end
