(* ===== verification/GatewayClient.thy ===== *)
theory GatewayClient
  imports GatewayServe
begin

text \<open>
  The client's side of the gateway's socket, whole (\<open>DialInvoke\<close>, \<open>DialOpenStream\<close>, \<open>ClientStream\<close>, \<open>DialCancel\<close>,
  \<open>DialInvokeStream\<close> of \<open>kernel/internal/clientgateway/gateway.go\<close>), and the two sides together: what a call comes back with
  is the gateway's answer to it. Whether the socket can be dialled and written is an argument; \<open>exchange\<close> is what
  comes back for the line that is written, None when no answer can be read.
\<close>

datatype dial_error = DialFailed | DialWriteFailed | DialReadFailed | RemoteError Error

record client_ids =
  ciClient :: string
  ciTrace :: string
  ciCorr :: string

record link =
  lkDial :: bool
  lkWrite :: bool

definition over_link :: "link \<Rightarrow> (WireRequest \<Rightarrow> 'a option) \<Rightarrow> WireRequest \<Rightarrow> (dial_error, 'a) result" where
  "over_link l exchange w =
     (if \<not> lkDial l then Err DialFailed
      else if \<not> lkWrite l then Err DialWriteFailed
      else (case exchange w of None \<Rightarrow> Err DialReadFailed | Some a \<Rightarrow> Ok a))"

definition DialInvoke ::
  "client_ids \<Rightarrow> link \<Rightarrow> (WireRequest \<Rightarrow> envelope option) \<Rightarrow> string \<Rightarrow> string \<Rightarrow> envelope \<Rightarrow> (dial_error, envelope) result" where
  "DialInvoke ids l exchange identity token req =
     (case over_link l exchange (client_request identity token (prepare (ciClient ids) (ciTrace ids) (ciCorr ids) req)) of
        Inl e \<Rightarrow> Err e
      | Inr resp \<Rightarrow> (case client_result resp of Inl er \<Rightarrow> Err (RemoteError er) | Inr r \<Rightarrow> Ok r))"

text \<open>A stream that is open, with the frames that are still to come.\<close>

record ClientStream =
  csIdentity :: string
  csToken :: string
  csRequestID :: string
  csStreamID :: string
  csFrames :: "envelope list"

definition DialOpenStream ::
  "client_ids \<Rightarrow> string \<Rightarrow> link \<Rightarrow> (WireRequest \<Rightarrow> (envelope \<times> envelope list) option) \<Rightarrow> string \<Rightarrow> string \<Rightarrow> envelope
   \<Rightarrow> (dial_error, envelope \<times> ClientStream) result" where
  "DialOpenStream ids newStream l exchange identity token req =
     (let q = open_stream_request (ciClient ids) (ciTrace ids) (ciCorr ids) newStream req
      in case over_link l exchange (client_request identity token q) of
           Inl e \<Rightarrow> Err e
         | Inr (resp, frames) \<Rightarrow>
             (case client_result resp of
                Inl er \<Rightarrow> Err (RemoteError er)
              | Inr r \<Rightarrow> Ok (r, \<lparr> csIdentity = identity, csToken = token, csRequestID = eMessageID q,
                                 csStreamID = eStreamID q, csFrames = frames \<rparr>)))"

definition Next :: "ClientStream \<Rightarrow> (dial_error, envelope) result \<times> ClientStream" where
  "Next s = (case csFrames s of [] \<Rightarrow> (Err DialReadFailed, s) | f # fs \<Rightarrow> (Ok f, s\<lparr> csFrames := fs \<rparr>))"

text \<open>A cancel's answer is not looked into.\<close>

definition DialCancel ::
  "client_ids \<Rightarrow> link \<Rightarrow> (WireRequest \<Rightarrow> envelope option) \<Rightarrow> string \<Rightarrow> string \<Rightarrow> envelope \<Rightarrow> (dial_error, envelope) result" where
  "DialCancel ids l exchange identity token req =
     over_link l exchange (client_request identity token (cancel_request (ciClient ids) (ciTrace ids) (ciCorr ids) req))"

definition ClientStream_Cancel ::
  "client_ids \<Rightarrow> string \<Rightarrow> link \<Rightarrow> (WireRequest \<Rightarrow> envelope option) \<Rightarrow> ClientStream \<Rightarrow> dial_error option" where
  "ClientStream_Cancel ids newID l exchange s =
     (case DialCancel ids l exchange (csIdentity s) (csToken s)
        (nil_envelope\<lparr> eProtocol := 1, eMessageID := newID, eKind := KindCancel, eStreamID := csStreamID s, eReplyTo := csRequestID s \<rparr>) of
        Inl e \<Rightarrow> Some e
      | Inr _ \<Rightarrow> None)"

text \<open>The answer, the frames read, and whether they ended with a close.\<close>

definition DialInvokeStream ::
  "client_ids \<Rightarrow> string \<Rightarrow> link \<Rightarrow> (WireRequest \<Rightarrow> (envelope \<times> envelope list) option) \<Rightarrow> string \<Rightarrow> string \<Rightarrow> envelope
   \<Rightarrow> (dial_error, envelope \<times> envelope list \<times> bool) result" where
  "DialInvokeStream ids newStream l exchange identity token req =
     (case DialOpenStream ids newStream l exchange identity token req of
        Inl e \<Rightarrow> Err e
      | Inr (resp, s) \<Rightarrow> (case client_frames (csFrames s) of (frames, closed) \<Rightarrow> Ok (resp, frames, closed)))"

section \<open>Both sides\<close>

text \<open>The gateway's answer to a line, in the world \<open>l\<close> around it.\<close>

definition gateway_answer ::
  "(string \<Rightarrow> string) \<Rightarrow> (route_error \<Rightarrow> string) \<Rightarrow> (bool \<Rightarrow> string) \<Rightarrow> Gateway \<Rightarrow> line_world \<Rightarrow> Router \<Rightarrow> WireRequest
   \<Rightarrow> envelope \<times> envelope list" where
  "gateway_answer hexsum render payload g l r w =
     (case serve_line hexsum render payload g (l\<lparr> lwWire := Inr w \<rparr>) r of (e, fs, _, _) \<Rightarrow> (e, fs))"

lemma gateway_answers: "answers (l\<lparr> lwWire := Inr w \<rparr>) (gateway_answer hexsum render payload g l r w)"
  by (cases "serve_line hexsum render payload g (l\<lparr> lwWire := Inr w \<rparr>) r")
    (simp add: gateway_answer_def serve_line_answers)

lemma unauthenticated_answer:
  "\<not> authenticate hexsum g (wrIdentity w) (wrToken w) \<Longrightarrow>
     client_result (fst (gateway_answer hexsum render payload g l r w))
       = Err \<lparr> errCode = ''UNAUTHENTICATED'', errMessage = ''invalid client credentials'', errRetryable = False, errDetails = [] \<rparr>"
  by (simp add: gateway_answer_def serve_line_def serve_request_def client_result_def error_envelope_def)

text \<open>
  A call over the socket that comes back without an error was made by an authenticated client, and is the answer
  to this very request, under whatever identifier it was sent.
\<close>

theorem dialled_call_answered:
  assumes "DialInvoke ids lk (\<lambda>w. Some (fst (gateway_answer hexsum render payload g l r w))) identity token req = Ok resp"
  shows "authenticate hexsum g identity token
    \<and> eReplyTo resp = (if eMessageID req = [] then ciClient ids else eMessageID req)
    \<and> (eKind resp = KindError \<longrightarrow> eError resp = None)"
proof -
  let ?w = "client_request identity token (prepare (ciClient ids) (ciTrace ids) (ciCorr ids) req)"
  have c: "client_result (fst (gateway_answer hexsum render payload g l r ?w)) = Ok resp"
    using assms by (auto simp: DialInvoke_def over_link_def split: if_splits sum.splits)
  then have r: "resp = fst (gateway_answer hexsum render payload g l r ?w)" "eKind resp = KindError \<longrightarrow> eError resp = None"
    by (auto simp: client_result_def split: if_splits option.splits)
  have "authenticate hexsum g identity token"
    using c unauthenticated_answer [where hexsum = hexsum and g = g and w = ?w and render = render and payload = payload and l = l and r = r] by (auto simp: client_request_def)
  moreover have "eReplyTo resp = eMessageID (wrEnvelope ?w)"
    using gateway_answers [where l = l and w = ?w] by (simp add: answers_def r(1))
  ultimately show ?thesis using r(2) by (simp add: client_request_def prepare_def)
qed

text \<open>A stream read to its end is what the gateway wrote, up to its first close.\<close>

lemma client_frames_prefix: "client_frames fs = (out, closed) \<Longrightarrow> \<exists>rest. fs = out @ rest"
  by (induction fs arbitrary: out) (auto split: if_splits prod.splits)

lemma dialled_stream_frames:
  assumes "DialInvokeStream ids sid lk (\<lambda>w. Some (gateway_answer hexsum render payload g l r w)) identity token req = Ok (resp, frames, closed)"
  shows "\<exists>w rest. snd (gateway_answer hexsum render payload g l r w) = frames @ rest \<and> wrIdentity w = identity
    \<and> eStreamID (wrEnvelope w) = (if eStreamID req = [] then sid else eStreamID req)"
proof -
  let ?q = "open_stream_request (ciClient ids) (ciTrace ids) (ciCorr ids) sid req"
  let ?w = "client_request identity token ?q"
  have "client_frames (snd (gateway_answer hexsum render payload g l r ?w)) = (frames, closed)"
    using assms by (auto simp: DialInvokeStream_def DialOpenStream_def Let_def over_link_def split: if_splits sum.splits prod.splits)
  then show ?thesis
    using client_frames_prefix by (intro exI [of _ ?w]) (auto simp: client_request_def open_stream_request_def prepare_def Let_def)
qed

end
