(* ===== verification/Residency.thy ===== *)
theory Residency
  imports SupervisorProps CliCommands
begin

text \<open>
  How much memory a plugin's process holds, as the supervisor reads it (\<open>residentBytes\<close> of
  \<open>kernel/internal/supervisor/supervisor.go\<close>): from the status file of the process, or else from \<open>ps\<close>. What the
  file holds and \<open>ps\<close> prints are arguments, None when they cannot be had. Also \<open>Stop\<close>.
\<close>

text \<open>\<open>strconv.ParseInt(s, 10, 64)\<close>.\<close>

definition ParseInt :: "string \<Rightarrow> int option" where
  "ParseInt s =
     (let neg = (s \<noteq> [] \<and> hd s = CHR ''-'');
          body = (if s \<noteq> [] \<and> (hd s = CHR ''-'' \<or> hd s = CHR ''+'') then tl s else s)
      in if body = [] then None
         else (case digits_val 0 body of
                 None \<Rightarrow> None
               | Some n \<Rightarrow>
                   let i = (if neg then - int n else int n)
                   in if min_int \<le> i \<and> i \<le> max_int then Some i else None))"

fun status_rss :: "string list \<Rightarrow> int option" where
  "status_rss [] = None"
| "status_rss (line # rest) =
     (if hasPrefix line ''VmRSS:''
      then (let f = fields_from [] line
            in case (if length f \<ge> 2 then ParseInt (f ! 1) else None) of
                 Some kb \<Rightarrow> Some (wrap64 (kb * 1024))
               | None \<Rightarrow> status_rss rest)
      else status_rss rest)"

definition residentBytes :: "string option \<Rightarrow> string option \<Rightarrow> int option" where
  "residentBytes status ps =
     (case (case status of None \<Rightarrow> None | Some b \<Rightarrow> status_rss (split_on (CHR 0x0A) b)) of
        Some b \<Rightarrow> Some b
      | None \<Rightarrow>
          (case ps of
             None \<Rightarrow> None
           | Some out \<Rightarrow> map_option (\<lambda>kb. wrap64 (kb * 1024)) (ParseInt (TrimSpace out))))"

text \<open>\<open>Stop\<close>: Some if a process is to be killed, and how that goes; the bookkeeping follows its exit.\<close>

datatype stop_outcome = UnknownRuntime | NoProcess | Killed bool

definition sup_Stop :: "bool \<Rightarrow> bool \<Rightarrow> string \<Rightarrow> Supervisor \<Rightarrow> stop_outcome" where
  "sup_Stop has_process kill_ok rid sv =
     (case map_of (svRuns sv) rid of
        None \<Rightarrow> UnknownRuntime
      | Some _ \<Rightarrow> if has_process then Killed kill_ok else NoProcess)"

section \<open>What is read is what the system wrote\<close>

lemma digit_start: "hd (digits n) \<noteq> CHR ''-''" "hd (digits n) \<noteq> CHR ''+''"
  by (rule hd_digits)+

lemma ParseInt_digits: "int n \<le> max_int \<Longrightarrow> ParseInt (digits n) = Some (int n)"
  using digit_start [of n] by (simp add: ParseInt_def Let_def digits_val_digits min_int_def)

lemma fields_word: "list_all (\<lambda>c. \<not> is_space c) w \<Longrightarrow> fields_from acc (w @ rest) = fields_from (acc @ w) rest"
  by (induction w arbitrary: acc) auto

lemma fields_blank: "list_all is_space ws \<Longrightarrow> fields_from [] (ws @ rest) = fields_from [] rest"
  by (induction ws) auto

lemma fields_next:
  assumes "list_all is_space ws" and "ws \<noteq> []" and "acc \<noteq> []"
  shows "fields_from acc (ws @ rest) = acc # fields_from [] rest"
  using assms by (cases ws) (auto simp: fields_blank)

lemma digits_not_space: "list_all (\<lambda>c. \<not> is_space c) (digits n)"
proof -
  have "(of_char c :: nat) < 48" if "is_space c" for c using that by (auto simp: is_space_def)
  moreover have "(of_char (digit d) :: nat) \<ge> 48" if "d < 10" for d using that by (simp add: digit_def)
  ultimately have "\<not> is_space (digit d)" if "d < 10" for d using that by (metis not_less)
  then show ?thesis using digits_chars by (fastforce simp: list_all_iff)
qed

lemma rss_fields:
  assumes "list_all is_space ws" and "ws \<noteq> []"
  shows "fields_from [] (''VmRSS:'' @ ws @ digits kb @ '' kB'') = [''VmRSS:'', digits kb, ''kB'']"
proof -
  have "fields_from [] (''VmRSS:'' @ ws @ digits kb @ '' kB'') = fields_from ''VmRSS:'' (ws @ digits kb @ '' kB'')"
    using fields_word [of "''VmRSS:''" "[]"] by (simp add: is_space_def)
  also have "\<dots> = ''VmRSS:'' # fields_from (digits kb) ('' '' @ ''kB'')"
    using fields_next [OF assms] fields_word [OF digits_not_space, of "[]"] by simp
  also have "\<dots> = [''VmRSS:'', digits kb, ''kB'']" by (simp add: is_space_def)
  finally show ?thesis .
qed

text \<open>
  A status file as Linux writes it, wherever the line stands in it: the supervisor reads the kilobytes it holds.
\<close>

theorem resident_bytes_read:
  assumes "split_on (CHR 0x0A) b = before @ (''VmRSS:'' @ ws @ digits kb @ '' kB'') # rest"
    and "list_all (\<lambda>l. \<not> hasPrefix l ''VmRSS:'') before" and "list_all is_space ws" and "ws \<noteq> []"
    and "int kb * 1024 \<le> max_int"
  shows "residentBytes (Some b) ps = Some (int kb * 1024)"
proof -
  have "hasPrefix (''VmRSS:'' @ ws @ digits kb @ '' kB'') ''VmRSS:''" by (simp add: hasPrefix_def)
  moreover have "ParseInt (digits kb) = Some (int kb)" "wrap64 (int kb * 1024) = int kb * 1024"
    using assms(5) by (simp_all add: ParseInt_digits wrap64_id min_int_def max_int_def)
  ultimately have "status_rss ((''VmRSS:'' @ ws @ digits kb @ '' kB'') # rest) = Some (int kb * 1024)"
    using rss_fields [OF assms(3,4), of kb] by (simp only: status_rss.simps Let_def) simp
  moreover have "status_rss (xs @ ys) = status_rss ys" if "list_all (\<lambda>l. \<not> hasPrefix l ''VmRSS:'') xs" for xs ys
    using that by (induction xs) auto
  ultimately show ?thesis using assms(1,2) by (simp add: residentBytes_def)
qed

text \<open>
  The limit of the manifest is multiplied in 64 bits: from 2 ^ 43 megabytes on it can turn negative, and the
  process is killed at its first beat, however little it holds.
\<close>

lemma huge_limit_kills: "resMemoryMB (mResources m) = 2 ^ 43 \<Longrightarrow> rss \<ge> 0 \<Longrightarrow> memory_exceeded (Some rss) m"
  by (simp add: memory_exceeded_def wrap64_def)

lemma modest_limit_holds:
  "0 < resMemoryMB (mResources m) \<Longrightarrow> resMemoryMB (mResources m) < 2 ^ 43 \<Longrightarrow>
     memory_exceeded (Some rss) m \<longleftrightarrow> rss > 1048576 * resMemoryMB (mResources m)"
  by (simp add: memory_exceeded_def wrap64_id min_int_def max_int_def)

end
