(* ===== verification/HostStreams.thy ===== *)
theory HostStreams
  imports PluginHost
begin

text \<open>
  Registration by kind and requests for streams, whole (\<open>HandleCommand\<close>, \<open>HandleQuery\<close>, both \<open>CommandStream\<close> of
  \<open>kernel/sdk/go/pluginhost/host.go\<close>).
\<close>

definition HandleContext :: "string \<Rightarrow> int \<Rightarrow> Host \<Rightarrow> Host" where
  "HandleContext name major h = h\<lparr> hoHandlers := (hoHandlers h)(key name major := True) \<rparr>"

definition HandleCommand :: "string \<Rightarrow> int \<Rightarrow> Host \<Rightarrow> Host" where
  "HandleCommand name major h = HandleContextCommand name major h"

definition HandleQuery :: "string \<Rightarrow> int \<Rightarrow> Host \<Rightarrow> Host" where
  "HandleQuery name major h = HandleContextQuery name major h"

record Stream =
  smID :: string
  smChannel :: nat
  smTraceID :: string
  smCorrelationID :: string
  smRequestID :: string

text \<open>
  Up to the request, which is then sent and waited for (\<open>invoke_send\<close>, \<open>invoke_wait\<close>), and from its outcome on. The
  host's own requests have no parent.
\<close>

definition CommandStream_begin ::
  "host_env \<Rightarrow> envelope \<Rightarrow> string \<Rightarrow> nat \<Rightarrow> string \<Rightarrow> int \<Rightarrow> string \<Rightarrow> int \<Rightarrow> Host \<Rightarrow> envelope \<times> Host" where
  "CommandStream_begin env parent sid ch cap major payload timeout h =
     (CommandStream_request env h parent sid cap major payload timeout, open_stream sid ch h)"

definition CommandStream_end ::
  "string \<Rightarrow> nat \<Rightarrow> envelope \<Rightarrow> (host_error, envelope) result \<Rightarrow> Host \<Rightarrow> (host_error, Stream \<times> envelope) result \<times> Host" where
  "CommandStream_end sid ch e outcome h =
     (case outcome of
        Inl er \<Rightarrow> (Err er, abandon_stream sid ch h)
      | Inr resp \<Rightarrow>
          (Ok (\<lparr> smID = sid, smChannel = ch, smTraceID = eTraceID e, smCorrelationID = eCorrelationID e,
                 smRequestID = eMessageID e \<rparr>, resp), h))"

definition host_CommandStream ::
  "host_env \<Rightarrow> string \<Rightarrow> nat \<Rightarrow> string \<Rightarrow> int \<Rightarrow> string \<Rightarrow> int \<Rightarrow> Host \<Rightarrow> envelope \<times> Host" where
  "host_CommandStream env sid ch cap major payload timeout h =
     CommandStream_begin env nil_envelope sid ch cap major payload timeout h"

text \<open>
  Sending and waiting touch neither the streams nor the stream's channel, so the frames that overtake the reply
  are kept for its reader: at the end the stream is there, under its own identifier, or it is gone and closed.
\<close>

lemma send_keeps_streams:
  "invoke_send env written ch' e timeout h = (x, h') \<Longrightarrow> ch' \<noteq> ch \<Longrightarrow>
     hoStreams h' = hoStreams h \<and> hoChannels h' ch = hoChannels h ch"
  by (auto simp: invoke_send_def split: sum.splits if_splits)

lemma wait_keeps_streams:
  "invoke_wait cancelID e h = (x, out, h') \<Longrightarrow> hoStreams h' = hoStreams h \<and> hoChannels h' = hoChannels h"
  by (auto simp: invoke_wait_def Let_def split: list.splits if_splits option.splits)

theorem stream_open_or_gone:
  assumes "CommandStream_begin env parent sid ch cap major payload timeout h = (e, h1)"
    and "CommandStream_end sid ch e outcome h2 = (res, h3)" and "hoStreams h2 = hoStreams h1"
  shows "eStreamID e = sid \<and> eKind e = KindCommand
    \<and> (case res of
         Inr (s, resp) \<Rightarrow> outcome = Ok resp \<and> smID s = sid \<and> hoStreams h3 sid = Some (smChannel s) \<and> smRequestID s = eMessageID e
       | Inl er \<Rightarrow> outcome = Err er \<and> hoStreams h3 sid = None \<and> chClosed (hoChannels h3 ch))"
  using assms
  by (auto simp: CommandStream_begin_def CommandStream_request_def CommandStream_end_def open_stream_def abandon_stream_def
      rc_request_def childEnvelope_def Let_def split: sum.splits)

end
