(* ===== verification/KernelCli.thy ===== *)
theory KernelCli
  imports Gateway GoFlags
begin

text \<open>
  The kernel's own client (\<open>kernel/cmd/vibe/main.go\<close>): one request made of flags, or a stream that is watched and,
  on demand, cancelled after some frames. The socket, the clock, random identifiers and the parsing of JSON are arguments; its
  exit code is the result.
\<close>

definition kernel_flags :: "string \<Rightarrow> flags" where
  "kernel_flags token =
     [(''socket'', VText ''/tmp/vibe-kernel.sock''), (''identity'', VText ''local-cli''), (''token'', VText token),
      (''cap'', VText []), (''major'', VInt 1), (''kind'', VText ''query''), (''payload'', VText ''{}''),
      (''service'', VText []), (''authority'', VText []), (''provider'', VText []), (''idempotency'', VText []),
      (''timeout'', VDuration (10 * 10 ^ 9)), (''stream'', VBool False), (''cancel-after'', VInt 0)]"

record kernel_call =
  kcSocket :: string
  kcIdentity :: string
  kcToken :: string
  kcRequest :: envelope
  kcStream :: bool
  kcCancelAfter :: int

text \<open>The exit code of a client that does not get to its call, or the call.\<close>

definition kernel_request ::
  "flag_world \<Rightarrow> (string \<Rightarrow> string option) \<Rightarrow> (int \<Rightarrow> string) \<Rightarrow> string \<Rightarrow> string \<Rightarrow> string \<Rightarrow> string list
   \<Rightarrow> (nat, kernel_call) result" where
  "kernel_request fw raw_json deadline cliID streamID token args =
     (case parse_flags fw (kernel_flags token) args of
        Inl e \<Rightarrow> Err (if e = HelpWanted then 0 else 2)
      | Inr (fs, _) \<Rightarrow>
          if text_flag fs ''token'' = [] then Err 1
          else if text_flag fs ''cap'' = [] then Err 1
          else (case raw_json (text_flag fs ''payload'') of
                  None \<Rightarrow> Err 1
                | Some raw \<Rightarrow>
                    let stream = bool_flag fs ''stream'';
                        req = nil_envelope\<lparr> eProtocol := 1, eMessageID := cliID,
                          eKind := (if text_flag fs ''kind'' = ''command'' then KindCommand else KindQuery),
                          eCapability := text_flag fs ''cap'', eMajor := int_flag fs ''major'',
                          eService := text_flag fs ''service'', eAuthority := text_flag fs ''authority'',
                          eProviderHint := text_flag fs ''provider'', eIdempotencyKey := text_flag fs ''idempotency'',
                          eDeadline := deadline (int_flag fs ''timeout''), ePayload := raw \<rparr>
                    in Ok \<lparr> kcSocket = text_flag fs ''socket'', kcIdentity = text_flag fs ''identity'',
                            kcToken = text_flag fs ''token'',
                            kcRequest = (if stream then req\<lparr> eStreamID := streamID \<rparr> else req),
                            kcStream = stream, kcCancelAfter = int_flag fs ''cancel-after'' \<rparr>))"

text \<open>What is printed of a frame.\<close>

datatype shown = ShownError kind string string | ShownFrame kind string

definition show_frame :: "envelope \<Rightarrow> shown" where
  "show_frame f =
     (case eError f of
        Some er \<Rightarrow> ShownError (eKind f) (errCode er) (errMessage er)
      | None \<Rightarrow> ShownFrame (eKind f) (ePayload f))"

text \<open>
  The loop over the frames: those printed, how many cancels were sent, and the exit code. \<open>cancel_ok\<close>
  is how the cancel goes; the frames end where reading the next one fails.
\<close>

fun watch_stream :: "int \<Rightarrow> bool \<Rightarrow> int \<Rightarrow> bool \<Rightarrow> envelope list \<Rightarrow> shown list \<times> nat \<times> nat" where
  "watch_stream after cancel_ok n requested [] = ([], 0, 1)"
| "watch_stream after cancel_ok n requested (f # fs) =
     (let data = (eKind f = KindStreamData);
          n' = (if data then n + 1 else n);
          ask = (data \<and> after > 0 \<and> n' \<ge> after \<and> \<not> requested);
          asked = (if ask then 1 else 0);
          requested' = (requested \<or> ask);
          closing = (eKind f = KindStreamClose)
      in if ask \<and> \<not> cancel_ok then ([], asked, 1)
         else if closing
         then ([show_frame f], asked,
               case eError f of
                 None \<Rightarrow> 0
               | Some er \<Rightarrow> if requested' \<and> errCode er = ''CANCELLED'' then 0 else 2)
         else (case watch_stream after cancel_ok n' requested' fs of
                 (out, cancels, code) \<Rightarrow> (show_frame f # out, asked + cancels, code)))"

text \<open>How the exchange with the gateway goes: an error, or the answer with the frames after it.\<close>

definition kernel_cli :: "kernel_call \<Rightarrow> bool \<Rightarrow> (string, envelope \<times> envelope list) result \<Rightarrow> string list \<times> shown list \<times> nat" where
  "kernel_cli c cancel_ok x =
     (case x of
        Inl _ \<Rightarrow> ([], [], 1)
      | Inr (resp, frames) \<Rightarrow>
          if kcStream c
          then (case watch_stream (kcCancelAfter c) cancel_ok 0 False frames of (out, _, code) \<Rightarrow> ([ePayload resp], out, code))
          else ([ePayload resp], [], 0))"

section \<open>What the exit code means\<close>

definition counted :: "int \<Rightarrow> envelope \<Rightarrow> int" where
  "counted n f = (if eKind f = KindStreamData then n + 1 else n)"

definition asks :: "int \<Rightarrow> int \<Rightarrow> bool \<Rightarrow> envelope \<Rightarrow> bool" where
  "asks after n requested f \<longleftrightarrow> eKind f = KindStreamData \<and> after > 0 \<and> counted n f \<ge> after \<and> \<not> requested"

lemma watch_close:
  "eKind f = KindStreamClose \<Longrightarrow> watch_stream after ok n requested (f # fs) =
     ([show_frame f], 0, case eError f of None \<Rightarrow> 0 | Some er \<Rightarrow> if requested \<and> errCode er = ''CANCELLED'' then 0 else 2)"
  by (simp add: Let_def split: option.split)

lemma watch_next:
  "eKind f \<noteq> KindStreamClose \<Longrightarrow> watch_stream after ok n requested (f # fs) =
     (if asks after n requested f \<and> \<not> ok then ([], 1, 1)
      else (case watch_stream after ok (counted n f) (requested \<or> asks after n requested f) fs of
              (out, cancels, code) \<Rightarrow> (show_frame f # out, (if asks after n requested f then 1 else 0) + cancels, code)))"
  by (simp add: Let_def asks_def counted_def)

declare watch_stream.simps(2) [simp del]

lemma watch_cancels:
  "watch_stream after ok n requested fs = (out, cancels, code) \<Longrightarrow> cancels \<le> 1 \<and> (requested \<longrightarrow> cancels = 0)"
proof (induction fs arbitrary: n requested out cancels code)
  case (Cons f fs)
  show ?case
  proof (cases "eKind f = KindStreamClose")
    case False
    obtain o1 c1 k where r: "watch_stream after ok (counted n f) (requested \<or> asks after n requested f) fs = (o1, c1, k)"
      by (metis prod_cases3)
    from Cons.IH [OF r] Cons.prems r show ?thesis
      by (auto simp: watch_next [OF False] asks_def split: if_splits)
  qed (use Cons.prems in \<open>simp add: watch_close\<close>)
qed simp

text \<open>
  Exit code 0 means that the stream was seen to its close, which carries no error or the cancellation this client
  asked for; it sends at most one cancel.
\<close>

theorem watched_to_the_end:
  assumes "watch_stream after ok n requested fs = (out, cancels, 0)"
  shows "\<exists>pre f post. fs = pre @ f # post \<and> eKind f = KindStreamClose \<and> list_all (\<lambda>g. eKind g \<noteq> KindStreamClose) pre
    \<and> out = map show_frame (pre @ [f])
    \<and> (eError f = None \<or> (map_option errCode (eError f) = Some ''CANCELLED'' \<and> (requested \<or> cancels = 1)))"
  using assms
proof (induction fs arbitrary: n requested out cancels)
  case (Cons f fs)
  show ?case
  proof (cases "eKind f = KindStreamClose")
    case True
    with Cons.prems show ?thesis
      by (intro exI [of _ "[]"]) (auto simp: watch_close split: if_splits option.splits)
  next
    case False
    let ?ask = "asks after n requested f"
    obtain o1 c1 where r: "watch_stream after ok (counted n f) (requested \<or> ?ask) fs = (o1, c1, 0)"
      and out: "out = show_frame f # o1" "cancels = (if ?ask then 1 else 0) + c1"
      using Cons.prems by (auto simp: watch_next [OF False] split: if_splits prod.splits)
    from Cons.IH [OF r] obtain pre g post where
      g: "fs = pre @ g # post" "eKind g = KindStreamClose" "list_all (\<lambda>g. eKind g \<noteq> KindStreamClose) pre"
        "o1 = map show_frame (pre @ [g])"
        "eError g = None \<or> (map_option errCode (eError g) = Some ''CANCELLED'' \<and> ((requested \<or> ?ask) \<or> c1 = 1))"
      by blast
    have "c1 = 0" if ?ask using watch_cancels [OF r] that by auto
    with g out False show ?thesis by (intro exI [of _ "f # pre"] exI [of _ g] exI [of _ post]) auto
  qed
qed simp

end
