(* ===== verification/GitWorktree.thy ===== *)
theory GitWorktree
  imports WorkspaceFacts
begin

text \<open>
  The git commands of the workspace plugin (\<open>plugins/workspace/gitworktree.go\<close>). A command is run by \<open>run\<close>, which is given its
  arguments and the state of the repositories, and answers what it printed, whether it succeeded, and the
  state after it.
\<close>

type_synonym 'w git_runner = "string list \<Rightarrow> 'w \<Rightarrow> (string \<times> bool) \<times> 'w"

datatype git_failure = GitFailure "string list" string | WorktreeDirFailed

definition git :: "'w git_runner \<Rightarrow> string \<Rightarrow> string list \<Rightarrow> 'w \<Rightarrow> (git_failure, string) result \<times> 'w" where
  "git run repo args w =
     (case run (''-C'' # repo # args) w of
        ((out, ok), w') \<Rightarrow> (if ok then Ok (TrimSpace out) else Err (GitFailure args (TrimSpace out)), w'))"

definition no_output :: "(git_failure, string) result \<times> 'w \<Rightarrow> (git_failure, unit) result \<times> 'w" where
  "no_output = (\<lambda>(r, w). (case r of Inl e \<Rightarrow> Err e | Inr _ \<Rightarrow> Ok (), w))"

definition ensureRepo :: "'w git_runner \<Rightarrow> string \<Rightarrow> 'w \<Rightarrow> (git_failure, unit) result \<times> 'w" where
  "ensureRepo run repo w = no_output (git run repo [''rev-parse'', ''--git-dir''] w)"

definition resolveCommit :: "'w git_runner \<Rightarrow> string \<Rightarrow> string \<Rightarrow> 'w \<Rightarrow> (git_failure, string) result \<times> 'w" where
  "resolveCommit run repo ref w =
     (let ref' = (if ref = [] then ''HEAD'' else ref)
      in git run repo [''rev-parse'', ''--verify'', ref' @ ''^{commit}''] w)"

text \<open>\<open>mkdir_ok\<close> is whether the directory above the worktree can be made.\<close>

definition addWorktree ::
  "'w git_runner \<Rightarrow> bool \<Rightarrow> string \<Rightarrow> string \<Rightarrow> string \<Rightarrow> string \<Rightarrow> 'w \<Rightarrow> (git_failure, unit) result \<times> 'w" where
  "addWorktree run mkdir_ok repo path branch commit w =
     (if \<not> mkdir_ok then (Err WorktreeDirFailed, w)
      else no_output (git run repo [''worktree'', ''add'', ''-b'', branch, path, commit] w))"

definition removeWorktree :: "'w git_runner \<Rightarrow> string \<Rightarrow> string \<Rightarrow> 'w \<Rightarrow> (git_failure, unit) result \<times> 'w" where
  "removeWorktree run repo path w =
     (case git run repo [''worktree'', ''remove'', ''--force'', path] w of
        (Inl e, w') \<Rightarrow> (Err e, w')
      | (Inr _, w') \<Rightarrow> (Ok (), snd (git run repo [''worktree'', ''prune''] w')))"

definition deleteBranch :: "'w git_runner \<Rightarrow> string \<Rightarrow> string \<Rightarrow> 'w \<Rightarrow> (git_failure, unit) result \<times> 'w" where
  "deleteBranch run repo branch w = no_output (git run repo [''branch'', ''-D'', branch] w)"

section \<open>The handlers' actions as commands\<close>

text \<open>What an action of the workspace handlers runs; their results are in \<open>git_env\<close>.\<close>

fun perform :: "'w git_runner \<Rightarrow> bool \<Rightarrow> git_action \<Rightarrow> 'w \<Rightarrow> (git_failure, unit) result \<times> 'w" where
  "perform run mkdir_ok (AddWorktree repo path branch commit) w = addWorktree run mkdir_ok repo path branch commit w"
| "perform run mkdir_ok (RemoveWorktree repo path) w = removeWorktree run repo path w"
| "perform run mkdir_ok (DeleteBranch repo branch) w = deleteBranch run repo branch w"

fun perform_all :: "'w git_runner \<Rightarrow> bool \<Rightarrow> git_action list \<Rightarrow> 'w \<Rightarrow> 'w" where
  "perform_all run mkdir_ok [] w = w"
| "perform_all run mkdir_ok (a # as) w = perform_all run mkdir_ok as (snd (perform run mkdir_ok a w))"

text \<open>A runner that keeps the commands it was given, and lets those succeed that \<open>ok\<close> says.\<close>

definition logging :: "(string list \<Rightarrow> bool) \<Rightarrow> string list list git_runner" where
  "logging ok args w = (([], ok args), w @ [args])"

lemma perform_all_append: "perform_all run m (as @ bs) w = perform_all run m bs (perform_all run m as w)"
  by (induction as arbitrary: w) simp_all

text \<open>Every command names the repository of its action, and none is run for another one.\<close>

fun action_repo :: "git_action \<Rightarrow> string" where
  "action_repo (AddWorktree repo _ _ _) = repo"
| "action_repo (RemoveWorktree repo _) = repo"
| "action_repo (DeleteBranch repo _) = repo"

lemma perform_addresses:
  "\<exists>cs. snd (perform (logging ok) m a w) = w @ cs \<and> list_all (\<lambda>c. take 2 c = [''-C'', action_repo a]) cs"
  by (cases a)
    (auto simp: addWorktree_def removeWorktree_def deleteBranch_def git_def no_output_def logging_def)

lemma perform_all_addresses:
  "\<exists>cs. perform_all (logging ok) m as w = w @ cs \<and> list_all (\<lambda>c. \<exists>a \<in> set as. take 2 c = [''-C'', action_repo a]) cs"
proof (induction as arbitrary: w)
  case (Cons a as)
  obtain c1 where c1: "snd (perform (logging ok) m a w) = w @ c1" "list_all (\<lambda>c. take 2 c = [''-C'', action_repo a]) c1"
    using perform_addresses by blast
  obtain c2 where c2: "perform_all (logging ok) m as (w @ c1) = (w @ c1) @ c2"
    "list_all (\<lambda>c. \<exists>a \<in> set as. take 2 c = [''-C'', action_repo a]) c2"
    using Cons.IH by blast
  show ?case
    using c1 c2 by (intro exI [of _ "c1 @ c2"]) (auto simp: list_all_iff)
qed simp

text \<open>
  The commands of an allocation whose record could not be written: the worktree is added, removed by force, git
  forgets it, and its branch goes; and of one whose worktree could not be added, where no branch is deleted.
\<close>

lemma failed_record_commands:
  "perform_all (logging (\<lambda>_. True)) True
      [AddWorktree repo path branch commit, RemoveWorktree repo path, DeleteBranch repo branch] [] =
    [[''-C'', repo, ''worktree'', ''add'', ''-b'', branch, path, commit],
     [''-C'', repo, ''worktree'', ''remove'', ''--force'', path],
     [''-C'', repo, ''worktree'', ''prune''],
     [''-C'', repo, ''branch'', ''-D'', branch]]"
  by (simp add: addWorktree_def removeWorktree_def deleteBranch_def git_def no_output_def logging_def)

lemma failed_add_commands:
  "perform_all (logging (\<lambda>_. False)) True [AddWorktree repo path branch commit, RemoveWorktree repo path] [] =
    [[''-C'', repo, ''worktree'', ''add'', ''-b'', branch, path, commit],
     [''-C'', repo, ''worktree'', ''remove'', ''--force'', path]]"
  by (simp add: addWorktree_def removeWorktree_def git_def no_output_def logging_def)

end
