(* ===== verification/BootLive.thy ===== *)
theory BootLive
  imports SupervisorLife RegistryProps
begin

text \<open>
  The kernel's start-up brings a sound system up: if every admitted program answers the handshake as its manifest
  says, and what the plugins require of each other has no cycle and no gap, all of them end ready, in
  whatever order the files are read and Go's maps are visited.
\<close>

section \<open>A registry in which nothing is amiss\<close>

definition fit :: "Provider \<Rightarrow> bool" where
  "fit p \<longleftrightarrow> pHealthy p \<and> mark_dependencies True p = p"

definition all_fit :: "Registry \<Rightarrow> bool" where
  "all_fit reg \<longleftrightarrow> (\<forall>(k, ps) \<in> set (rProviders reg). \<forall>p \<in> set ps. fit p)"

lemma fit_new: "fit (new_provider m rid c)"
  by (simp add: fit_def new_provider_def mark_dependencies_def recomputeHealth_def)

lemma all_fit_providers: "all_fit reg \<Longrightarrow> p \<in> set (providers_at reg k) \<Longrightarrow> fit p"
  by (cases "map_of (rProviders reg) k") (auto simp: all_fit_def providers_at_def dest: map_of_SomeD)

lemma all_fit_add:
  assumes "all_fit r"
  shows "all_fit (add_provider m rid c r)"
proof -
  have "fit p" if "p \<in> set (providers_at r k @ [new_provider m rid c])" for p k
    using that all_fit_providers [OF assms, of p k] fit_new [of m rid c] by auto
  then show ?thesis
    using assms by (auto simp: all_fit_def add_provider_def Let_def dest!: update_elems)
qed

lemma all_fit_calm:
  assumes "all_fit reg"
  shows "MarkDependencyHealth reg rid True = (False, reg)"
proof -
  have f: "fit p" if "p \<in> set (runtime_providers reg rid)" for p
    using assms that by (fastforce simp: all_fit_def runtime_providers_def all_providers_def)
  have dep: "pDependenciesHealthy p" if "fit p" for p
    using that by (cases p) (auto simp: fit_def mark_dependencies_def recomputeHealth_def)
  have "map (\<lambda>(k, ps). (k, map (\<lambda>p. if pRuntimeID p = rid then mark_dependencies True p else p) ps)) (rProviders reg)
      = rProviders reg"
    using assms by (intro map_idI) (auto simp: all_fit_def fit_def intro!: map_idI)
  then have "on_runtime rid (mark_dependencies True) reg = reg" by (simp add: on_runtime_def)
  moreover have "\<not> list_ex (\<lambda>p. \<not> pDependenciesHealthy p) (runtime_providers reg rid)"
    "\<not> list_ex (\<lambda>p. pHealthy p \<and> \<not> pHealthy (mark_dependencies True p)) (runtime_providers reg rid)"
    using f dep by (auto simp: list_ex_iff fit_def)
  ultimately show ?thesis by (simp add: MarkDependencyHealth_def Let_def)
qed

text \<open>Adding providers takes none away.\<close>

lemma healthy_add: "healthy_provider r need \<Longrightarrow> healthy_provider (add_provider m rid c r) need"
  by (auto simp: healthy_provider_def list_ex_iff set_providers_at_add)

lemma healthy_fold: "healthy_provider r need \<Longrightarrow> healthy_provider (fold (add_provider m rid) cs r) need"
  by (induction cs arbitrary: r) (simp_all add: healthy_add)

lemma all_fit_fold: "all_fit r \<Longrightarrow> all_fit (fold (add_provider m rid) cs r)"
  by (induction cs arbitrary: r) (simp_all add: all_fit_add)

lemma fold_provides:
  "HasCapability cs (cName need) (cMajor need) \<Longrightarrow> healthy_provider (fold (add_provider m rid) cs r) need"
proof (induction cs arbitrary: r)
  case (Cons c cs)
  show ?case
  proof (cases "cName c = cName need \<and> cMajor c = cMajor need")
    case True
    then have "healthy_provider (add_provider m rid c r) need"
      using fit_new [of m rid c] by (simp add: healthy_provider_def set_providers_at_add list_ex_iff fit_def)
    then show ?thesis by (simp add: healthy_fold)
  next
    case False
    with Cons show ?thesis by (auto simp: HasCapability_iff)
  qed
qed (simp add: HasCapability_def)

section \<open>Reconciling it\<close>

text \<open>Ready, or degraded for want of something optional.\<close>

definition up :: "Manifest \<Rightarrow> PluginStatus option \<Rightarrow> bool" where
  "up m st \<longleftrightarrow> map_option psState st = Some StateReady
     \<or> (map_option psState st = Some StateDegraded \<and> mOptional m \<noteq> [])"

definition calm :: "Supervisor \<Rightarrow> bool" where
  "calm sv \<longleftrightarrow> all_fit (svReg sv)
     \<and> (\<forall>run \<in> snd ` set (svRuns sv). MissingHealthyRequired (svReg sv) (suManifest run) = [])"

lemma calm_run:
  assumes "calm sv" and "run \<in> snd ` set (svRuns sv)"
  shows "\<exists>st why. reconcile_run run (c, sv) = (c, setStatus (run_plugin run) st (suID run) why sv)
    \<and> (st = StateReady \<or> st = StateDegraded \<and> mOptional (suManifest run) \<noteq> [])"
proof -
  have m: "MissingHealthyRequired (svReg sv) (suManifest run) = []" "all_fit (svReg sv)"
    using assms by (auto simp: calm_def)
  have s: "set_reg (svReg sv) sv = sv" by (simp add: set_reg_def svReg_def)
  have "MissingHealthyOptional (svReg sv) (suManifest run) \<noteq> [] \<Longrightarrow> mOptional (suManifest run) \<noteq> []"
    by (auto simp: MissingHealthyOptional_def)
  then show ?thesis
    using m by (auto simp: reconcile_run_def all_fit_calm s run_plugin_def Let_def)
qed

definition same_but :: "Supervisor \<Rightarrow> SupRun set \<Rightarrow> Supervisor \<Rightarrow> bool" where
  "same_but sv runs sv' \<longleftrightarrow> svReg sv' = svReg sv \<and> svRuns sv' = svRuns sv \<and> svRouter sv' = svRouter sv
     \<and> (\<forall>q. sup_Status sv' q = sup_Status sv q \<or> (\<exists>run \<in> runs. run_plugin run = q \<and> up (suManifest run) (sup_Status sv' q)))
     \<and> (\<forall>run \<in> runs. \<exists>run' \<in> runs. run_plugin run' = run_plugin run \<and> up (suManifest run') (sup_Status sv' (run_plugin run)))"

lemma calm_fold:
  assumes "calm sv" and "set runs \<subseteq> snd ` set (svRuns sv)"
  shows "\<exists>sv'. foldl (\<lambda>p run. reconcile_run run p) (c, sv) runs = (c, sv') \<and> same_but sv (set runs) sv'"
  using assms
proof (induction runs arbitrary: sv)
  case (Cons run runs)
  obtain st why where r: "reconcile_run run (c, sv) = (c, setStatus (run_plugin run) st (suID run) why sv)"
    and st: "st = StateReady \<or> st = StateDegraded \<and> mOptional (suManifest run) \<noteq> []"
    using calm_run [OF Cons.prems(1), of run c] Cons.prems(2) by auto
  let ?sv = "setStatus (run_plugin run) st (suID run) why sv"
  have "calm ?sv" "set runs \<subseteq> snd ` set (svRuns ?sv)" using Cons.prems by (simp_all add: calm_def)
  then obtain sv' where f: "foldl (\<lambda>p run. reconcile_run run p) (c, ?sv) runs = (c, sv')" and b: "same_but ?sv (set runs) sv'"
    using Cons.IH by blast
  have u: "up (suManifest run) (sup_Status ?sv (run_plugin run))" using st by (auto simp: up_def)
  have "same_but sv (set (run # runs)) sv'"
    unfolding same_but_def
  proof (intro conjI allI ballI)
    show "svReg sv' = svReg sv" "svRuns sv' = svRuns sv" "svRouter sv' = svRouter sv"
      using b by (simp_all add: same_but_def)
  next
    fix q
    have "sup_Status sv' q = sup_Status ?sv q \<or> (\<exists>run' \<in> set runs. run_plugin run' = q \<and> up (suManifest run') (sup_Status sv' q))"
      using b by (simp add: same_but_def)
    then show "sup_Status sv' q = sup_Status sv q
        \<or> (\<exists>run' \<in> set (run # runs). run_plugin run' = q \<and> up (suManifest run') (sup_Status sv' q))"
      using u by (cases "q = run_plugin run") auto
  next
    fix run'
    assume r': "run' \<in> set (run # runs)"
    have q: "sup_Status sv' q = sup_Status ?sv q \<or> (\<exists>x \<in> set runs. run_plugin x = q \<and> up (suManifest x) (sup_Status sv' q))" for q
      using b by (simp add: same_but_def)
    show "\<exists>x \<in> set (run # runs). run_plugin x = run_plugin run' \<and> up (suManifest x) (sup_Status sv' (run_plugin run'))"
    proof (cases "run' \<in> set runs")
      case True
      with b show ?thesis by (auto simp: same_but_def)
    next
      case False
      with r' q [of "run_plugin run"] u show ?thesis by auto
    qed
  qed
  with r f show ?case by auto
qed (simp add: same_but_def)

lemma calm_reconcile:
  assumes "calm sv" and "\<forall>pass xs. mset (ords pass xs) = mset xs"
  shows "same_but sv (snd ` set (svRuns sv)) (reconcileDependencies ords sv)"
proof -
  let ?runs = "ords 0 (map snd (svRuns sv))"
  have s: "set ?runs = snd ` set (svRuns sv)" using assms(2) mset_eq_setD by (metis list.set_map)
  obtain sv' where "foldl (\<lambda>p run. reconcile_run run p) (False, sv) ?runs = (False, sv')" "same_but sv (set ?runs) sv'"
    using calm_fold [OF assms(1), of ?runs False] s by auto
  then show ?thesis
    by (simp add: reconcileDependencies_def reconcile_pass_def s numeral_eq_Suc)
qed

section \<open>Starting one plugin\<close>

text \<open>What the start-up keeps, when the plugins of \<open>D\<close> of those loaded are up.\<close>

definition boot_inv :: "Registry \<Rightarrow> Loaded set \<Rightarrow> Loaded set \<Rightarrow> Supervisor \<Rightarrow> bool" where
  "boot_inv reg0 L D sv \<longleftrightarrow> calm sv
     \<and> rAuthorityStorage (svReg sv) = rAuthorityStorage reg0 \<and> rContracts (svReg sv) = rContracts reg0
     \<and> ldManifest ` D \<subseteq> ldManifest ` L \<and> suManifest ` snd ` set (svRuns sv) \<subseteq> ldManifest ` L
     \<and> (\<forall>x \<in> D. up (ldManifest x) (sup_Status sv (loaded_id x)))
     \<and> (\<forall>x \<in> D. \<forall>need. HasCapability (mExports (ldManifest x)) (cName need) (cMajor need) \<longrightarrow> healthy_provider (svReg sv) need)"

text \<open>A loaded plugin whose program is as its manifest says, and whose storage admission has reserved.\<close>

definition startable :: "(Loaded \<Rightarrow> launch) \<Rightarrow> Registry \<Rightarrow> Loaded \<Rightarrow> bool" where
  "startable launches reg x \<longleftrightarrow>
     handshake reg (ldManifest x) (ldHash x) (launches x) = None
     \<and> (\<forall>c \<in> set (mExports (ldManifest x)). stateful c \<longrightarrow>
          rAuthorityStorage reg (authority_of c) = Some (rtDataNamespace (mRuntime (ldManifest x))))"

lemma handshake_contracts: "rContracts r = rContracts r' \<Longrightarrow> handshake r m hash la = handshake r' m hash la"
proof -
  assume e: "rContracts r = rContracts r'"
  have "check_handler r = check_handler r'"
    by (simp add: fun_eq_iff check_handler_def ContractMetadata_def e)
  then show ?thesis by (simp only: handshake_def)
qed

lemma reserved_storage:
  assumes "\<forall>c \<in> set cs. stateful c \<longrightarrow> st (authority_of c) = Some (rtDataNamespace (mRuntime m))"
  shows "fold (reserve_storage m) cs st = st"
  using assms
proof (induction cs)
  case (Cons c cs)
  then have "reserve_storage m c st = st"
    by (auto simp: reserve_storage_def stateful_def authority_of_def fun_upd_triv)
  with Cons show ?case by simp
qed simp

lemma register_startable:
  assumes "startable launches reg0 x" and "rAuthorityStorage r = rAuthorityStorage reg0"
  shows "RegisterRuntime r (ldManifest x) rid = Ok (fold (add_provider (ldManifest x) rid) (mExports (ldManifest x)) r)"
proof -
  have "storage_conflict r (ldManifest x) c = None" if "c \<in> set (mExports (ldManifest x))" for c
    using assms that by (auto simp: startable_def storage_conflict_def stateful_def authority_of_def)
  then have "first_err (storage_conflict r (ldManifest x)) (mExports (ldManifest x)) = None" by (simp add: first_err_None)
  moreover have "fold (reserve_storage (ldManifest x)) (mExports (ldManifest x)) (rAuthorityStorage r) = rAuthorityStorage r"
    using assms by (intro reserved_storage) (simp add: startable_def)
  ultimately show ?thesis by (simp add: RegisterRuntime_def)
qed

lemma add_providers_contracts: "rContracts (fold (add_provider m rid) cs r) = rContracts r"
  by (induction cs arbitrary: r) (simp_all add: add_provider_def Let_def)

lemma missing_mono:
  assumes "\<And>need. healthy_provider r need \<Longrightarrow> healthy_provider r' need" and "MissingHealthyRequired r m = []"
  shows "MissingHealthyRequired r' m = []"
  using assms by (auto simp: MissingHealthyRequired_def filter_empty_conv)

text \<open>Two loaded plugins with one identifier have one manifest.\<close>

definition ids_unique :: "Loaded set \<Rightarrow> bool" where
  "ids_unique L \<longleftrightarrow> (\<forall>x \<in> L. \<forall>y \<in> L. loaded_id x = loaded_id y \<longrightarrow> ldManifest x = ldManifest y)"

lemma Track_status: "q \<noteq> mPluginID m \<Longrightarrow> sup_Status (Track m sv) q = sup_Status sv q"
  by (simp add: Track_def Let_def) (simp add: sup_Status_def)

lemma status_router: "sup_Status (sv\<lparr> svRouter := rt \<rparr>) q = sup_Status sv q" "sup_Status (sv\<lparr> svRuns := rs \<rparr>) q = sup_Status sv q"
  by (simp_all add: sup_Status_def)

lemma start_ok:
  assumes "handshake (svReg sv) m hash la = None" and "RegisterRuntime (svReg sv) m (laRuntimeID la) = Ok reg"
  shows "\<exists>run sv'. sup_Start ords la m path hash sv = (Ok run, reconcileDependencies ords sv')
    \<and> svReg sv' = reg \<and> suManifest run = m \<and> svRuns sv' = AList.update (laRuntimeID la) run (svRuns sv)
    \<and> (\<forall>q. q \<noteq> mPluginID m \<longrightarrow> sup_Status sv' q = sup_Status sv q)
    \<and> map_option psState (sup_Status sv' (mPluginID m)) = Some StateReady"
proof -
  let ?sv0 = "setStatus (mPluginID m) StateStarting [] NoReason (Track m sv)"
  define run where "run = \<lparr> suID = laRuntimeID la, suManifest = m, suPath = path, suHash = hash, suAttempts = 0 \<rparr>"
  define sv1 where "sv1 = set_reg reg (?sv0\<lparr> svRuns := AList.update (laRuntimeID la) run (svRuns ?sv0) \<rparr>)"
  define sv2 where "sv2 = sv1\<lparr> svRouter := AddClient (svRouter sv1) (laRuntimeID la) (mPluginID m) \<rparr>"
  have r: "svReg sv2 = reg" "svRuns sv2 = AList.update (laRuntimeID la) run (svRuns sv)"
    by (simp_all add: sv2_def sv1_def AddClient_def set_reg_def)
  have q: "sup_Status sv2 q = sup_Status sv q" if "q \<noteq> mPluginID m" for q
    using that by (simp add: sv2_def sv1_def status_router Track_status)
  have "sup_Start ords la m path hash sv
      = (Ok run, reconcileDependencies ords (setStatus (mPluginID m) StateReady (laRuntimeID la) NoReason sv2))"
    using assms by (simp add: sup_Start_def sup_start_def Let_def run_def sv1_def sv2_def)
  then show ?thesis using r q by (intro exI conjI) (assumption, simp_all add: run_def)
qed

lemma add_providers_storage: "rAuthorityStorage (fold (add_provider m rid) cs r) = rAuthorityStorage r"
  by (induction cs arbitrary: r) (simp_all add: add_provider_def Let_def)

lemma start_calm:
  assumes inv: "boot_inv reg0 L D sv" and x: "x \<in> L" "startable launches reg0 x" and u: "ids_unique L"
    and ready: "MissingHealthyRequired (svReg sv) (ldManifest x) = []"
    and ords: "\<forall>pass xs. mset (ords pass xs) = mset xs"
  shows "\<exists>run sv'. sup_Start ords (launches x) (ldManifest x) (ldPath x) (ldHash x) sv = (Ok run, sv')
    \<and> boot_inv reg0 L (insert x D) sv'
    \<and> (\<forall>need. healthy_provider (svReg sv) need \<longrightarrow> healthy_provider (svReg sv') need)"
proof -
  let ?m = "ldManifest x" and ?rid = "laRuntimeID (launches x)"
  define reg where "reg = fold (add_provider ?m ?rid) (mExports ?m) (svReg sv)"
  have i: "ldManifest ` D \<subseteq> ldManifest ` L" "suManifest ` snd ` set (svRuns sv) \<subseteq> ldManifest ` L"
    "\<And>y. y \<in> D \<Longrightarrow> up (ldManifest y) (sup_Status sv (loaded_id y))"
    "\<And>y need. y \<in> D \<Longrightarrow> HasCapability (mExports (ldManifest y)) (cName need) (cMajor need)
       \<Longrightarrow> healthy_provider (svReg sv) need"
    using inv by (simp_all add: boot_inv_def)
  have h: "handshake (svReg sv) ?m (ldHash x) (launches x) = None"
    using x(2) inv handshake_contracts [of "svReg sv" reg0] by (simp add: startable_def boot_inv_def)
  have r: "RegisterRuntime (svReg sv) ?m ?rid = Ok reg"
    using register_startable [OF x(2)] inv by (simp add: boot_inv_def reg_def)
  obtain run sv3 where s: "sup_Start ords (launches x) ?m (ldPath x) (ldHash x) sv = (Ok run, reconcileDependencies ords sv3)"
    and sv3: "svReg sv3 = reg" "suManifest run = ?m" "svRuns sv3 = AList.update ?rid run (svRuns sv)"
      "\<And>q. q \<noteq> mPluginID ?m \<Longrightarrow> sup_Status sv3 q = sup_Status sv q"
      "map_option psState (sup_Status sv3 (mPluginID ?m)) = Some StateReady"
    using start_ok [OF h r, of ords "ldPath x"] by blast
  have more: "healthy_provider (svReg sv) need \<Longrightarrow> healthy_provider reg need" for need
    unfolding reg_def by (rule healthy_fold)
  have runs: "suManifest ` snd ` set (svRuns sv3) \<subseteq> insert ?m (suManifest ` snd ` set (svRuns sv))"
    using sv3(2) by (auto simp: sv3(3) dest!: update_elems)
  have miss: "MissingHealthyRequired reg m = []" if "m \<in> insert ?m (suManifest ` snd ` set (svRuns sv))" for m
  proof (rule missing_mono [OF more])
    show "MissingHealthyRequired (svReg sv) m = []"
      using that ready inv by (auto simp: boot_inv_def calm_def)
  qed
  have "all_fit reg" using inv by (simp add: boot_inv_def calm_def all_fit_fold reg_def)
  then have c: "calm sv3" using runs miss unfolding calm_def sv3(1) by blast
  define sv' where "sv' = reconcileDependencies ords sv3"
  have b: "same_but sv3 (snd ` set (svRuns sv3)) sv'" unfolding sv'_def by (rule calm_reconcile [OF c ords])
  then have b': "svReg sv' = reg" "svRuns sv' = svRuns sv3" by (simp_all add: same_but_def sv3(1))
  have inL: "suManifest ` snd ` set (svRuns sv3) \<subseteq> ldManifest ` L"
    using runs i(2) x(1) by blast
  have ups: "up (ldManifest y) (sup_Status sv' (loaded_id y))" if y: "y \<in> insert x D" for y
  proof -
    obtain y' where y': "y' \<in> L" "ldManifest y' = ldManifest y" using y x(1) i(1) by (metis image_iff insertE subsetD)
    consider "sup_Status sv' (loaded_id y) = sup_Status sv3 (loaded_id y)"
      | run' where "run' \<in> snd ` set (svRuns sv3)" "run_plugin run' = loaded_id y" "up (suManifest run') (sup_Status sv' (loaded_id y))"
      using b unfolding same_but_def by blast
    then show ?thesis
    proof cases
      case 1
      show ?thesis
      proof (cases "loaded_id y = mPluginID ?m")
        case True
        with 1 sv3(5) show ?thesis by (simp add: up_def)
      next
        case False
        then have "y \<in> D" using y by (auto simp: loaded_id_def)
        with 1 sv3(4) [OF False] i(3) show ?thesis by simp
      qed
    next
      case (2 run')
      then obtain z where z: "z \<in> L" "suManifest run' = ldManifest z" using inL by blast
      then have "loaded_id z = loaded_id y'" using 2(2) y'(2) by (simp add: run_plugin_def loaded_id_def)
      then have "ldManifest z = ldManifest y'" using u z(1) y'(1) unfolding ids_unique_def by blast
      with 2(3) z(2) y'(2) show ?thesis by simp
    qed
  qed
  have "calm sv'" using c by (simp add: calm_def b' sv3(1))
  moreover have "rAuthorityStorage reg = rAuthorityStorage reg0" "rContracts reg = rContracts reg0"
    using inv by (simp_all add: boot_inv_def reg_def add_providers_storage add_providers_contracts)
  moreover have "healthy_provider reg need"
    if "y \<in> insert x D" "HasCapability (mExports (ldManifest y)) (cName need) (cMajor need)" for y need
  proof (cases "y = x")
    case True
    with that(2) fold_provides show ?thesis unfolding reg_def by blast
  next
    case False
    with that i(4) show ?thesis by (blast intro: more)
  qed
  moreover have "ldManifest ` insert x D \<subseteq> ldManifest ` L" using i(1) x(1) by blast
  ultimately have "boot_inv reg0 L (insert x D) sv'"
    using ups inL by (simp add: boot_inv_def b')
  then show ?thesis using s more b'(1) unfolding sv'_def by blast
qed

section \<open>A pass, and all of them\<close>

definition sound_start :: "(nat \<Rightarrow> SupRun list \<Rightarrow> SupRun list) \<Rightarrow> (Loaded \<Rightarrow> launch) \<Rightarrow> Registry \<Rightarrow> Loaded set \<Rightarrow> bool" where
  "sound_start ords launches reg0 L \<longleftrightarrow>
     (\<forall>x \<in> L. startable launches reg0 x) \<and> ids_unique L \<and> (\<forall>pass xs. mset (ords pass xs) = mset xs)"

lemma pass_calm:
  assumes "sound_start ords launches reg0 L" and "set xs \<subseteq> L" and "boot_inv reg0 L D sv"
    and "boot_pass ords launches xs sv = (next, progress, sv')"
  shows "\<exists>E. boot_inv reg0 L (D \<union> E) sv' \<and> E \<subseteq> set xs \<and> set xs \<subseteq> E \<union> set next
    \<and> ((\<exists>x \<in> set xs. MissingHealthyRequired (svReg sv) (ldManifest x) = []) \<longrightarrow> progress)"
  using assms(2-4)
proof (induction xs arbitrary: sv D "next" progress)
  case Nil
  then show ?case by (intro exI [of _ "{}"]) simp
next
  case (Cons x xs)
  show ?case
  proof (cases "MissingHealthyRequired (svReg sv) (ldManifest x) = []")
    case False
    with Cons.prems(3) obtain n where n: "boot_pass ords launches xs sv = (n, progress, sv')" "next = x # n"
      by (auto split: prod.splits)
    obtain E where "boot_inv reg0 L (D \<union> E) sv'" "E \<subseteq> set xs" "set xs \<subseteq> E \<union> set n"
      "(\<exists>x \<in> set xs. MissingHealthyRequired (svReg sv) (ldManifest x) = []) \<longrightarrow> progress"
      using Cons.IH [OF _ Cons.prems(2) n(1)] Cons.prems(1) by auto
    with False n(2) show ?thesis by (intro exI [of _ E]) auto
  next
    case True
    have x: "x \<in> L" "startable launches reg0 x" "ids_unique L" "\<forall>pass xs. mset (ords pass xs) = mset xs"
      using assms(1) Cons.prems(1) by (simp_all add: sound_start_def)
    obtain run sv1 where s: "sup_Start ords (launches x) (ldManifest x) (ldPath x) (ldHash x) sv = (Ok run, sv1)"
      and b: "boot_inv reg0 L (insert x D) sv1"
      using start_calm [OF Cons.prems(2) x(1-3) True x(4)] by blast
    obtain pr where p: "boot_pass ords launches xs sv1 = (next, pr, sv')" and progress
      using Cons.prems(3) True s by (auto split: prod.splits)
    obtain E where "boot_inv reg0 L (insert x D \<union> E) sv'" "E \<subseteq> set xs" "set xs \<subseteq> E \<union> set next"
      using Cons.IH [OF _ b p] Cons.prems(1) by auto
    with \<open>progress\<close> show ?thesis by (intro exI [of _ "insert x E"]) auto
  qed
qed

text \<open>
  What the plugins require of each other has no gap and no cycle: each requirement is offered by one that comes
  earlier.
\<close>

definition well_founded_needs :: "(Manifest \<Rightarrow> nat) \<Rightarrow> Manifest list \<Rightarrow> bool" where
  "well_founded_needs rank ms \<longleftrightarrow>
     list_all (\<lambda>m. list_all (\<lambda>need.
        list_ex (\<lambda>n. rank n < rank m \<and> HasCapability (mExports n) (cName need) (cMajor need)) ms) (mRequired m)) ms"

lemma someone_can_start:
  assumes "boot_inv reg0 L D sv" and "well_founded_needs rank ms" and "set ms = ldManifest ` L"
    and "L = D \<union> set pending" and "pending \<noteq> []"
  shows "\<exists>x \<in> set pending. MissingHealthyRequired (svReg sv) (ldManifest x) = []"
proof -
  let ?r = "\<lambda>x. rank (ldManifest x)"
  obtain x where x: "x \<in> set pending" "\<And>y. y \<in> set pending \<Longrightarrow> ?r x \<le> ?r y"
    using ex_has_least_nat [of "\<lambda>x. x \<in> set pending" "hd pending" ?r] assms(5) by auto
  have "healthy_provider (svReg sv) need" if need: "need \<in> set (mRequired (ldManifest x))" for need
  proof -
    obtain y where y: "y \<in> L" "?r y < ?r x" "HasCapability (mExports (ldManifest y)) (cName need) (cMajor need)"
      using assms(2) x(1) need unfolding well_founded_needs_def list_all_iff list_ex_iff assms(3) assms(4) by blast
    then have "y \<in> D" using x(2) [of y] assms(4) by force
    with y(3) assms(1) show ?thesis unfolding boot_inv_def by blast
  qed
  then have "MissingHealthyRequired (svReg sv) (ldManifest x) = []"
    by (simp add: MissingHealthyRequired_def filter_empty_conv)
  with x(1) show ?thesis by blast
qed

lemma loop_calm:
  assumes "sound_start ords launches reg0 L" and "well_founded_needs rank ms" and "set ms = ldManifest ` L"
  shows "boot_inv reg0 L D sv \<Longrightarrow> L = D \<union> set pending \<Longrightarrow>
     boot_inv reg0 L L (boot_loop ords launches pending sv)"
  using assms(1)
proof (induction ords launches pending sv arbitrary: D rule: boot_loop.induct)
  case (1 ords launches pending sv)
  show ?case
  proof (cases "pending = []")
    case True
    with 1(2,3) show ?thesis by (simp add: boot_loop.simps)
  next
    case False
    obtain nxt progress sv' where p: "boot_pass ords launches pending sv = (nxt, progress, sv')" by (metis prod_cases3)
    obtain E where E: "boot_inv reg0 L (D \<union> E) sv'" "E \<subseteq> set pending" "set pending \<subseteq> E \<union> set nxt"
      and progress: progress
      using pass_calm [OF 1(4) _ 1(2) p] someone_can_start [OF 1(2) assms(2,3) 1(3) False] 1(3) by auto
    have e: "boot_loop ords launches pending sv = boot_loop ords launches nxt sv'"
      using False progress p by (subst boot_loop.simps) simp
    have "L = (D \<union> E) \<union> set nxt" using boot_pass_launches [OF p] E(2,3) 1(3) by blast
    then show ?thesis
      unfolding e by (rule 1(1) [OF False p [symmetric] refl progress E(1) _ 1(4)])
  qed
qed

text \<open>What admission leaves for the start.\<close>

lemma admitted_facts:
  assumes "LoadAndAdmit r files = (loaded, rejected, reg)" and "admission_inv r"
  shows "admission_inv reg \<and> rProviders reg = rProviders r \<and> set (rByPlugin r) \<subseteq> set (rByPlugin reg)
    \<and> (\<forall>x \<in> set loaded. (loaded_id x, ldManifest x) \<in> set (rByPlugin reg))"
  using assms
proof (induction r files arbitrary: loaded rejected rule: LoadAndAdmit.induct)
  case (2 r path f rest)
  show ?case
  proof (cases "manifest_Load f")
    case (Inl e)
    with 2 show ?thesis by (auto split: prod.splits)
  next
    case (Inr mh)
    obtain m hash where mh: "mh = (m, hash)" by fastforce
    show ?thesis
    proof (cases "AddManifest r m")
      case (Inl e)
      with 2(2-) Inr mh show ?thesis by (auto split: prod.splits)
    next
      case ad: (Inr r1)
      obtain ls where l: "LoadAndAdmit r1 rest = (ls, rejected, reg)"
        and loaded: "loaded = \<lparr> ldManifest = m, ldPath = path, ldHash = hash \<rparr> # ls"
        using 2(4) Inr mh ad by (auto split: prod.splits)
      have "admission_inv r1" using admission_inv_AddManifest [OF 2(5) ad] by blast
      moreover have "rProviders r1 = rProviders r" "(mPluginID m, m) \<in> set (rByPlugin r1)"
        "set (rByPlugin r) \<subseteq> set (rByPlugin r1)"
        using ad by (auto elim!: AddManifest_Ok)
      ultimately show ?thesis
        using 2(3) [OF Inr mh [symmetric] ad l] loaded by (auto simp: loaded_id_def)
    qed
  qed
qed simp

lemma marked_runs: "svRuns (foldl (\<lambda>s f. MarkManifestRejected (g f) (h f) (i f) s) sv fs) = svRuns sv
    \<and> svReg (foldl (\<lambda>s f. MarkManifestRejected (g f) (h f) (i f) s) sv fs) = svReg sv"
  by (induction fs arbitrary: sv) (simp_all add: MarkManifestRejected_def)

lemma tracked_runs: "svRuns (foldl (\<lambda>s x. Track (f x) s) sv xs) = svRuns sv \<and> svReg (foldl (\<lambda>s x. Track (f x) s) sv xs) = svReg sv"
  by (induction xs arbitrary: sv) simp_all

lemma boot_starts:
  assumes l: "LoadAndAdmit (rtReg rt) files = (loaded, rejected, reg)"
    and fresh: "admission_inv (rtReg rt)" "rProviders (rtReg rt) = []"
    and needs: "well_founded_needs rank (map ldManifest loaded)"
    and hand: "\<forall>x \<in> set loaded. handshake reg (ldManifest x) (ldHash x) (launches x) = None"
    and ords: "\<forall>pass xs. mset (ords pass xs) = mset xs"
  shows "boot_inv reg (set loaded) (set loaded) (kernel_boot ords launches render files rt)"
proof -
  note a = admitted_facts [OF l fresh(1)]
  define sv2 where "sv2 = foldl (\<lambda>s x. Track (ldManifest x) s)
      (foldl (\<lambda>s f. MarkManifestRejected (flPluginID f) (flPath f) (render (flReason f)) s)
         (Supervisor_New (rt\<lparr> rtReg := reg \<rparr>)) rejected) loaded"
  have k: "kernel_boot ords launches render files rt = boot_loop ords launches loaded sv2"
    by (simp add: kernel_boot_def l sv2_def Let_def)
  have "svRuns sv2 = []" "svReg sv2 = reg"
    by (simp_all add: sv2_def tracked_runs marked_runs) (simp_all add: Supervisor_New_def svReg_def)
  then have "boot_inv reg (set loaded) {} sv2"
    using a fresh(2) by (simp add: boot_inv_def calm_def all_fit_def)
  moreover have "sound_start ords launches reg (set loaded)"
    unfolding sound_start_def
  proof (intro conjI ballI ords)
    fix x
    assume x: "x \<in> set loaded"
    then have "plugin_ok (rAuthorityStorage reg) (loaded_id x, ldManifest x)"
      using a unfolding admission_inv_def by blast
    with x hand show "startable launches reg x" by (simp add: startable_def plugin_ok_def)
  next
    show "ids_unique (set loaded)"
      unfolding ids_unique_def
    proof (intro ballI impI)
      fix x y
      assume "x \<in> set loaded" "y \<in> set loaded" "loaded_id x = loaded_id y"
      then have "(loaded_id x, ldManifest x) \<in> set (rByPlugin reg)" "(loaded_id x, ldManifest y) \<in> set (rByPlugin reg)"
        using a by fastforce+
      moreover have "distinct (map fst (rByPlugin reg))" using a by (simp add: admission_inv_def)
      ultimately show "ldManifest x = ldManifest y" by (simp add: eq_key_imp_eq_value)
    qed
  qed
  ultimately show ?thesis
    unfolding k using loop_calm [OF _ needs list.set_map, where D = "{}"] by simp
qed

end
