(* ===== verification/Admission.thy ===== *)
theory Admission
  imports BootLive
begin

text \<open>
  Which sets of manifests are admitted as a whole, whatever the order of the files, and that a kernel whose
  configuration is sound in this sense brings every plugin up.
\<close>

section \<open>What admission lets in\<close>

text \<open>
  A set of manifests that can live together: each is valid and alone in its name, whatever it declares has a contract,
  one capability has one mode, and what is stateful has a service, an authority and a storage of its own.
\<close>

definition declared_in :: "Catalog \<Rightarrow> Capability \<Rightarrow> Metadata option" where
  "declared_in cat c =
     (case ByContract cat (cContract c) of
        None \<Rightarrow> None
      | Some md \<Rightarrow>
          if cContract c = canonical (cName c) (cMajor c) \<and> mdContract md = canonical (cName c) (cMajor c) then Some md else None)"

definition declares :: "Catalog \<Rightarrow> Manifest \<Rightarrow> bool" where
  "declares cat m \<longleftrightarrow>
     Validate m = None
     \<and> list_all (\<lambda>c. declared_in cat c \<noteq> None) (mExports m)
     \<and> list_all (\<lambda>c. case declared_in cat c of None \<Rightarrow> False | Some md \<Rightarrow> mdKind md \<noteq> KindEvent) (mRequired m @ mOptional m)
     \<and> list_all (\<lambda>c. case declared_in cat c of None \<Rightarrow> False | Some md \<Rightarrow> mdKind md = KindEvent) (mPublishes m @ mSubscribes m)
     \<and> list_all (\<lambda>c. stateful c \<longrightarrow> cService c \<noteq> [] \<and> cAuthority c \<noteq> [] \<and> rtDataNamespace (mRuntime m) \<noteq> []) (mExports m)"

definition same_storage :: "Manifest \<Rightarrow> Manifest \<Rightarrow> bool" where
  "same_storage m n \<longleftrightarrow>
     list_all (\<lambda>c. list_all (\<lambda>d. stateful c \<and> stateful d \<and> authority_of c = authority_of d \<longrightarrow>
        rtDataNamespace (mRuntime m) = rtDataNamespace (mRuntime n)) (mExports n)) (mExports m)"

text \<open>Symmetric in the two, so that every order of the files is covered.\<close>

definition compatible :: "Manifest \<Rightarrow> Manifest \<Rightarrow> bool" where
  "compatible m n \<longleftrightarrow>
     same_storage m n
     \<and> list_all (\<lambda>c. list_all (\<lambda>d. cName c = cName d \<and> cMajor c = cMajor d \<longrightarrow>
          norm_mode (cMode c) = norm_mode (cMode d)) (mExports n)) (mExports m)"

definition consistent :: "Catalog \<Rightarrow> Manifest list \<Rightarrow> bool" where
  "consistent cat ms \<longleftrightarrow>
     list_all (declares cat) ms \<and> distinct (map mPluginID ms) \<and> sorted_wrt compatible ms"

lemma compatible_sym: "compatible m n \<Longrightarrow> compatible n m"
  by (fastforce simp: compatible_def same_storage_def list_all_iff)

text \<open>What the registry holds when the manifests of \<open>seen\<close> have been admitted.\<close>

definition holds :: "Catalog \<Rightarrow> Manifest list \<Rightarrow> Registry \<Rightarrow> bool" where
  "holds cat seen r \<longleftrightarrow>
     rContracts r = Some cat \<and> rByPlugin r = map (\<lambda>m. (mPluginID m, m)) seen
     \<and> (\<forall>ak ns. rAuthorityStorage r ak = Some ns \<longrightarrow>
          (\<exists>m \<in> set seen. \<exists>c \<in> set (mExports m). stateful c \<and> authority_of c = ak \<and> ns = rtDataNamespace (mRuntime m)))"

lemma admit_exports_passes:
  assumes "rContracts r = Some cat" and "ns = rtDataNamespace (mRuntime m)"
    and "\<And>c. c \<in> set cs \<Longrightarrow> declared_in cat c \<noteq> None \<and> \<not> mixed_mode r c"
    and "\<And>c. c \<in> set cs \<Longrightarrow> stateful c \<Longrightarrow>
      cService c \<noteq> [] \<and> cAuthority c \<noteq> [] \<and> ns \<noteq> [] \<and> rAuthorityStorage r (authority_of c) \<in> {None, Some ns}"
    and "ran pending \<subseteq> {ns}"
  shows "\<exists>p. admit_exports r m pending cs = Ok p \<and> ran p \<subseteq> {ns}
    \<and> (\<forall>ak. p ak \<noteq> None \<longrightarrow> pending ak \<noteq> None \<or> (\<exists>c \<in> set cs. stateful c \<and> authority_of c = ak))"
  using assms(3-)
proof (induction cs arbitrary: pending)
  case (Cons c cs)
  obtain md where md: "ContractMetadata r (cContract c) = Some md" "cContract c = canonical (cName c) (cMajor c)"
    "mdContract md = canonical (cName c) (cMajor c)" "\<not> mixed_mode r c"
    using Cons.prems(1) [of c] assms(1)
    by (auto simp: declared_in_def ContractMetadata_def catalog_Metadata_def split: option.splits if_splits)
  show ?case
  proof (cases "stateful c")
    case False
    with md Cons.IH [of pending] Cons.prems show ?thesis by (auto simp: stateful_def)
  next
    case True
    have s: "cService c \<noteq> []" "cAuthority c \<noteq> []" "ns \<noteq> []" "rAuthorityStorage r (cService c, cAuthority c) \<in> {None, Some ns}"
      using Cons.prems(2) [of c] True by (auto simp: authority_of_def)
    have p: "pending (cService c, cAuthority c) \<in> {None, Some ns}"
      using Cons.prems(3) by (cases "pending (cService c, cAuthority c)") (auto simp: ran_def)
    have "ran (pending(authority_of c \<mapsto> ns)) \<subseteq> {ns}" using Cons.prems(3) by (auto simp: ran_def)
    then have "\<exists>q. admit_exports r m (pending(authority_of c \<mapsto> ns)) cs = Ok q \<and> ran q \<subseteq> {ns}
      \<and> (\<forall>ak. q ak \<noteq> None \<longrightarrow> (pending(authority_of c \<mapsto> ns)) ak \<noteq> None \<or> (\<exists>c \<in> set cs. stateful c \<and> authority_of c = ak))"
      by (rule Cons.IH [rotated 2]) (use Cons.prems(1,2) in auto)
    then obtain q where q: "admit_exports r m (pending(authority_of c \<mapsto> ns)) cs = Ok q" "ran q \<subseteq> {ns}"
      "\<forall>ak. q ak \<noteq> None \<longrightarrow> (pending(authority_of c \<mapsto> ns)) ak \<noteq> None \<or> (\<exists>c \<in> set cs. stateful c \<and> authority_of c = ak)"
      by blast
    have "admit_exports r m pending (c # cs) = Ok q"
      using md s p True q(1) assms(2) by (auto simp: stateful_def Let_def authority_of_def)
    moreover have "pending ak \<noteq> None \<or> (\<exists>d \<in> set (c # cs). stateful d \<and> authority_of d = ak)" if "q ak \<noteq> None" for ak
      using q(3) [rule_format, OF that] True by (cases "ak = authority_of c") auto
    ultimately show ?thesis using q(2) by blast
  qed
qed simp

lemma admit_groups_passes:
  assumes "rContracts r = Some cat" and "declares cat m"
  shows "admit_groups r m = None"
proof -
  have "admit_declared r e c = None"
    if "case declared_in cat c of None \<Rightarrow> False | Some md \<Rightarrow> (mdKind md = KindEvent) = e" for e c
    using that assms(1)
    by (auto simp: admit_declared_def declared_in_def ContractMetadata_def catalog_Metadata_def split: option.splits if_splits)
  then show ?thesis
    using assms(2)
    by (auto simp: admit_groups_def first_err_None declares_def list_all_iff ball_Un split: option.splits)
qed

lemma AddManifest_passes:
  assumes "holds cat seen r" and "declares cat m" and "\<forall>n \<in> set seen. compatible n m \<and> mPluginID n \<noteq> mPluginID m"
  shows "\<exists>r'. AddManifest r m = Ok r' \<and> holds cat (m # seen) r' \<and> rProviders r' = rProviders r"
proof -
  let ?ns = "rtDataNamespace (mRuntime m)"
  have r: "rContracts r = Some cat" "rByPlugin r = map (\<lambda>m. (mPluginID m, m)) seen"
    using assms(1) by (simp_all add: holds_def)
  have "\<not> mixed_mode r c" if "c \<in> set (mExports m)" for c
    using that assms(3) by (fastforce simp: mixed_mode_def r(2) list_ex_iff compatible_def list_all_iff)
  moreover have "rAuthorityStorage r (authority_of c) \<in> {None, Some ?ns}" if c: "c \<in> set (mExports m)" "stateful c" for c
  proof (cases "rAuthorityStorage r (authority_of c)")
    case (Some ns)
    then obtain n d where "n \<in> set seen" "d \<in> set (mExports n)" "stateful d" "authority_of d = authority_of c"
      "ns = rtDataNamespace (mRuntime n)"
      using assms(1) unfolding holds_def by blast
    with assms(3) c Some show ?thesis by (fastforce simp: compatible_def same_storage_def list_all_iff)
  qed simp
  moreover have d: "\<And>c. c \<in> set (mExports m) \<Longrightarrow> declared_in cat c \<noteq> None"
    "\<And>c. c \<in> set (mExports m) \<Longrightarrow> stateful c \<Longrightarrow> cService c \<noteq> [] \<and> cAuthority c \<noteq> [] \<and> ?ns \<noteq> []"
    using assms(2) by (auto simp: declares_def list_all_iff)
  ultimately obtain p where p: "admit_exports r m Map.empty (mExports m) = Ok p" "ran p \<subseteq> {?ns}"
    "\<forall>ak. p ak \<noteq> None \<longrightarrow> (\<exists>c \<in> set (mExports m). stateful c \<and> authority_of c = ak)"
    using admit_exports_passes [OF r(1) refl, of "mExports m" m Map.empty] by auto
  have "map_of (rByPlugin r) (mPluginID m) = None"
    using assms(3) by (auto simp: r(2) map_of_eq_None_iff)
  then have "AddManifest r m = Ok (r\<lparr> rByPlugin := (mPluginID m, m) # rByPlugin r, rAuthorityStorage := rAuthorityStorage r ++ p \<rparr>)"
    using r(1) p(1) admit_groups_passes [OF r(1) assms(2)] by (simp add: AddManifest_def)
  moreover have "\<exists>n \<in> set (m # seen). \<exists>c \<in> set (mExports n). stateful c \<and> authority_of c = ak \<and> ns = rtDataNamespace (mRuntime n)"
    if "(rAuthorityStorage r ++ p) ak = Some ns" for ak ns
  proof (cases "p ak")
    case None
    with that have "rAuthorityStorage r ak = Some ns" by (simp add: map_add_def)
    with assms(1) show ?thesis unfolding holds_def by (meson list.set_intros(2))
  next
    case (Some x)
    then have "x \<in> ran p" by (rule ranI)
    then have "x = ?ns" using p(2) by blast
    moreover have "x = ns" using that Some by simp
    ultimately show ?thesis using Some p(3) by (metis list.set_intros(1) option.distinct(1))
  qed
  ultimately show ?thesis using r by (auto simp: holds_def)
qed

definition as_files :: "(string \<times> Manifest \<times> string) list \<Rightarrow> (string \<times> (Manifest \<times> string) option) list" where
  "as_files fs = map (\<lambda>(path, m, h). (path, Some (m, h))) fs"

definition as_loaded :: "(string \<times> Manifest \<times> string) list \<Rightarrow> Loaded list" where
  "as_loaded fs = map (\<lambda>(path, m, h). \<lparr> ldManifest = m, ldPath = path, ldHash = h \<rparr>) fs"

text \<open>Every file of a consistent directory is admitted, in the order in which they are read.\<close>

lemma all_admitted:
  assumes "consistent cat (map (fst \<circ> snd) fs)" and "holds cat seen r"
    and "\<forall>n \<in> set seen. \<forall>m \<in> set (map (fst \<circ> snd) fs). compatible n m \<and> mPluginID n \<noteq> mPluginID m"
  shows "\<exists>reg. LoadAndAdmit r (as_files fs) = (as_loaded fs, [], reg)
    \<and> rContracts reg = Some cat \<and> rProviders reg = rProviders r"
  using assms
proof (induction fs arbitrary: seen r)
  case Nil
  then show ?case by (simp add: holds_def as_files_def as_loaded_def)
next
  case (Cons f fs)
  obtain path m h where f: "f = (path, m, h)" by (cases f) auto
  have c: "declares cat m" "consistent cat (map (fst \<circ> snd) fs)"
    "\<forall>n \<in> set (map (fst \<circ> snd) fs). compatible m n \<and> mPluginID m \<noteq> mPluginID n"
    using Cons.prems(1) f by (auto simp: consistent_def o_def)
  obtain r' where r': "AddManifest r m = Ok r'" "holds cat (m # seen) r'" "rProviders r' = rProviders r"
    using AddManifest_passes [OF Cons.prems(2) c(1)] Cons.prems(3) f by auto
  have "manifest_Load (Some (m, h)) = Ok (m, h)" using c(1) by (simp add: manifest_Load_def declares_def)
  moreover obtain reg where "LoadAndAdmit r' (as_files fs) = (as_loaded fs, [], reg)"
    "rContracts reg = Some cat" "rProviders reg = rProviders r'"
    using Cons.IH [OF c(2) r'(2)] c(3) Cons.prems(3) f by auto
  ultimately show ?case using f r' by (simp add: as_files_def as_loaded_def)
qed

section \<open>A sound configuration comes up\<close>

lemma sound_boot:
  assumes "rContracts (rtReg rt) = Some cat" "rByPlugin (rtReg rt) = []" "rAuthorityStorage (rtReg rt) = Map.empty"
    "rProviders (rtReg rt) = []"
    and "consistent cat (map (fst \<circ> snd) fs)" and "well_founded_needs rank (map (fst \<circ> snd) fs)"
    and "list_all (\<lambda>(path, m, h). handshake (rtReg rt) m h
           (launches \<lparr> ldManifest = m, ldPath = path, ldHash = h \<rparr>) = None) fs"
    and "\<forall>pass xs. mset (ords pass xs) = mset xs"
  shows "list_all (\<lambda>(path, m, h). up m (sup_Status (kernel_boot ords launches render (as_files fs) rt) (mPluginID m))) fs"
proof -
  have "holds cat [] (rtReg rt)" using assms(1-3) by (simp add: holds_def)
  from all_admitted [OF assms(5) this] obtain reg where l: "LoadAndAdmit (rtReg rt) (as_files fs) = (as_loaded fs, [], reg)"
    and c: "rContracts reg = rContracts (rtReg rt)"
    using assms(1) by auto
  let ?loaded = "as_loaded fs"
  have ms: "map ldManifest ?loaded = map (fst \<circ> snd) fs" by (auto simp: as_loaded_def)
  have "boot_inv reg (set ?loaded) (set ?loaded) (kernel_boot ords launches render (as_files fs) rt)"
  proof (rule boot_starts [OF l _ assms(4) _ _ assms(8)])
    show "admission_inv (rtReg rt)" using assms(2) by (simp add: admission_inv_def)
    show "well_founded_needs rank (map ldManifest ?loaded)" unfolding ms by (rule assms(6))
    show "\<forall>x \<in> set ?loaded. handshake reg (ldManifest x) (ldHash x) (launches x) = None"
      using assms(7) handshake_contracts [OF c] by (auto simp: list_all_iff as_loaded_def)
  qed
  then show ?thesis by (fastforce simp: boot_inv_def list_all_iff loaded_id_def as_loaded_def)
qed

end
