(* ===== verification/Deployment.thy ===== *)
theory Deployment
  imports PluginHost Json "HOL-Library.Monad_Syntax"
begin

text \<open>
  The system as it is shipped: the kernel's set-up from its files (\<open>kernel/cmd/kernel/main.go\<close>,
  \<open>kernel/internal/registry/bindings.go\<close>), what each plugin's \<open>main\<close> registers, and the contents of \<open>plugins/manifests\<close>,
  \<open>contracts\<close>, \<open>config/m1-policy.json\<close> and \<open>config/m1-bindings.json\<close>.
\<close>

section \<open>The kernel's set-up\<close>

record BindingRecord =
  bdCapability :: string
  bdMajor :: int
  bdService :: string
  bdAuthority :: string
  bdProvider :: string

definition as_BindingRecord :: "json \<Rightarrow> BindingRecord option" where
  "as_BindingRecord j = do {
     b \<leftarrow> as_struct j;
     cap \<leftarrow> as_text (member ''capability'' b); major \<leftarrow> as_int (member ''major'' b); sv \<leftarrow> as_text (member ''service'' b);
     au \<leftarrow> as_text (member ''authority'' b); pr \<leftarrow> as_text (member ''provider'' b);
     Some \<lparr> bdCapability = cap, bdMajor = major, bdService = sv, bdAuthority = au, bdProvider = pr \<rparr> }"

text \<open>The file is given as read and parsed: None when either fails.\<close>

definition LoadBindings :: "json option \<Rightarrow> BindingRecord list option" where
  "LoadBindings file = do {
     j \<leftarrow> file; f \<leftarrow> as_struct j; bs \<leftarrow> as_list (member ''bindings'' f); all_of as_BindingRecord bs }"

definition bind_all :: "BindingRecord list \<Rightarrow> Registry \<Rightarrow> Registry" where
  "bind_all bs reg =
     foldl (\<lambda>r b. SetBinding r (bdCapability b) (bdMajor b)
        \<lparr> bService = bdService b, bAuthority = bdAuthority b, bProvider = bdProvider b \<rparr>) reg bs"

datatype setup_error = CatalogFailed catalog_error | FenceRootFailed fence_root_error | PolicyFailed policy_load_error

text \<open>
  From the start of \<open>main\<close> to the router, and the gateway's credentials. Bindings that cannot be loaded are
  logged and passed over; \<open>leases\<close> are the lease files as they are on disk.
\<close>

definition kernel_setup ::
  "(string \<times> schema_file) list option \<Rightarrow> string \<Rightarrow> bool \<Rightarrow> (string \<times> fence_file) list \<Rightarrow> fences \<Rightarrow> PolicyFile option
   \<Rightarrow> BindingRecord list option \<Rightarrow> (setup_error, Router \<times> (string \<rightharpoonup> string)) result" where
  "kernel_setup contracts root mkdir_ok lease_files leases policy bindings =
     (case catalog_Load contracts of
        Inl e \<Rightarrow> Err (CatalogFailed e)
      | Inr c \<Rightarrow>
          (case SetFenceRoot (SetContractCatalog registry_New c) root mkdir_ok lease_files of
             (Some e, _) \<Rightarrow> Err (FenceRootFailed e)
           | (None, reg) \<Rightarrow>
               (case policy_Load policy of
                  Inl e \<Rightarrow> Err (PolicyFailed e)
                | Inr pf \<Rightarrow>
                    Ok (router_New (case bindings of None \<Rightarrow> reg | Some bs \<Rightarrow> bind_all bs reg) leases (engine_of_policy pf),
                        ClientTokens pf))))"

section \<open>The manifests\<close>

definition stateful_at :: "string \<Rightarrow> string \<Rightarrow> string \<Rightarrow> Capability" where
  "stateful_at service authority name =
     \<lparr> cName = name, cMajor = 1, cContract = name @ ''@1'', cMode = ''stateful'', cService = service,
       cAuthority = authority, cPriority = 100 \<rparr>"

definition stateless_at :: "string \<Rightarrow> Capability" where
  "stateless_at name =
     \<lparr> cName = name, cMajor = 1, cContract = name @ ''@1'', cMode = ''stateless'', cService = [], cAuthority = [],
       cPriority = 100 \<rparr>"

definition required_cap :: "string \<Rightarrow> Capability" where
  "required_cap name =
     \<lparr> cName = name, cMajor = 1, cContract = name @ ''@1'', cMode = [], cService = [], cAuthority = [], cPriority = 0 \<rparr>"

text \<open>What all ten have in common.\<close>

definition shipped ::
  "string \<Rightarrow> string \<Rightarrow> string \<Rightarrow> Capability list \<Rightarrow> string list \<Rightarrow> string list \<Rightarrow> int \<Rightarrow> int \<Rightarrow> int \<Rightarrow> Manifest" where
  "shipped pid executable namespace exports required permissions cooldown memory weight =
     \<lparr> mManifestVersion = 1, mPluginID = pid, mPluginVersion = ''1.0.0'',
       mRuntime = \<lparr> rtProtocol = ''vibe-plugin/1'', rtExecutable = executable, rtArgs = [], rtIsolation = ''process'',
                    rtDataNamespace = namespace \<rparr>,
       mExports = exports, mRequired = map required_cap required, mOptional = [], mPublishes = [], mSubscribes = [],
       mPermissions = permissions,
       mRestart = \<lparr> rpMode = ''on_failure'', rpMaxAttempts = 2, rpCooldownMS = cooldown \<rparr>,
       mResources = \<lparr> resMemoryMB = memory, resCPUWeight = weight \<rparr> \<rparr>"

definition agent_manifest :: Manifest where
  "agent_manifest =
     shipped ''org.vibe.agent.harness'' ''../bin/agent-harness'' ''state-authority/agent-runs-main''
       (map (stateful_at ''default-agent-harness'' ''agent-runs-main'') [''agent.run'', ''agent.run.get'',
         ''agent.run.query'', ''agent.run.cancel''])
       [''blob.put'']
       [''exec:agent'', ''fs:write''] 200 256 30"

definition artifact_manifest :: Manifest where
  "artifact_manifest =
     shipped ''org.vibe.artifact'' ''../bin/artifact'' ''state-authority/artifact-main''
       (map (stateful_at ''default-artifact'' ''artifact-main'') [''artifact.collect_diff'', ''artifact.get'',
         ''artifact.query''])
       [''blob.put'']
       [''exec:git'', ''fs:read''] 200 128 20"

definition blob_manifest :: Manifest where
  "blob_manifest =
     shipped ''org.vibe.blob'' ''../bin/blob'' ''state-authority/blob-main''
       (map (stateful_at ''default-blob'' ''blob-main'') [''blob.put'', ''blob.get'', ''blob.stat''])
       []
       [] 100 128 20"

definition workflow_manifest :: Manifest where
  "workflow_manifest =
     shipped ''org.vibe.workflow.engineering'' ''../bin/engineering-workflow'' []
       (map stateless_at [''workflow.engineering.run'', ''workflow.engineering.get''])
       [''work.get'', ''work.transition'', ''work.attach_evidence'', ''workspace.allocate'', ''workspace.release'',
         ''agent.run'', ''agent.run.get'', ''artifact.collect_diff'', ''tool.run'', ''review.request'',
         ''review.get'', ''session.seal'', ''event.journal.append'', ''event.journal.replay'']
       [] 200 256 30"

definition journal_manifest :: Manifest where
  "journal_manifest =
     shipped ''org.vibe.event.journal'' ''../bin/event-journal'' ''state-authority/journal-main''
       (map (stateful_at ''default-event-journal'' ''journal-main'') [''event.journal.append'',
         ''event.journal.replay''])
       []
       [] 100 128 20"

definition review_manifest :: Manifest where
  "review_manifest =
     shipped ''org.vibe.review'' ''../bin/review'' ''state-authority/reviews-main''
       (map (stateful_at ''default-review'' ''reviews-main'') [''review.request'', ''review.decide'', ''review.get'',
         ''review.query''])
       []
       [] 200 128 10"

definition session_manifest :: Manifest where
  "session_manifest =
     shipped ''org.vibe.session'' ''../bin/session'' ''state-authority/sessions-main''
       (map (stateful_at ''default-session'' ''sessions-main'') [''session.seal'', ''session.get'',
         ''session.query''])
       [''event.journal.replay'', ''blob.put'']
       [''exec:git'', ''fs:read''] 200 256 20"

definition tool_manifest :: Manifest where
  "tool_manifest =
     shipped ''org.vibe.tool.runner'' ''../bin/tool-runner'' ''state-authority/toolruns-main''
       (map (stateful_at ''default-tool-runner'' ''toolruns-main'') [''tool.run'', ''tool.run.get'',
         ''tool.run.query''])
       [''blob.put'']
       [''exec:command'', ''fs:write''] 200 512 40"

definition work_registry_manifest :: Manifest where
  "work_registry_manifest =
     shipped ''org.vibe.work.registry'' ''../bin/work-registry'' ''state-authority/work-main''
       (map (stateful_at ''default-work-registry'' ''work-main'') [''work.create'', ''work.get'', ''work.transition'',
         ''work.attach_evidence''])
       []
       [] 100 128 20"

definition workspace_manifest :: Manifest where
  "workspace_manifest =
     shipped ''org.vibe.workspace'' ''../bin/workspace'' ''state-authority/workspace-main''
       (map (stateful_at ''default-workspace'' ''workspace-main'') [''workspace.allocate'', ''workspace.release'',
         ''workspace.get''])
       []
       [''exec:git'', ''fs:write''] 100 128 20"

text \<open>The directory, in the order its files are read, each with a hash.\<close>

definition shipped_manifests :: "(string \<times> Manifest) list" where
  "shipped_manifests =
     [(''agent-harness.manifest.json'', agent_manifest), (''artifact.manifest.json'', artifact_manifest),
      (''blob.manifest.json'', blob_manifest), (''engineering-workflow.manifest.json'', workflow_manifest),
      (''event-journal.manifest.json'', journal_manifest), (''review.manifest.json'', review_manifest),
      (''session.manifest.json'', session_manifest), (''tool-runner.manifest.json'', tool_manifest),
      (''work-registry.manifest.json'', work_registry_manifest), (''workspace.manifest.json'', workspace_manifest)]"

section \<open>Contracts, policy and bindings\<close>

definition commands_of_m1 :: "string list" where
  "commands_of_m1 =
     [''event.journal.append'', ''blob.put'', ''work.create'', ''work.transition'', ''work.attach_evidence'',
      ''workspace.allocate'', ''workspace.release'', ''agent.run'', ''agent.run.cancel'',
      ''artifact.collect_diff'', ''tool.run'', ''review.request'', ''review.decide'', ''session.seal'',
      ''workflow.engineering.run'']"

definition queries_of_m1 :: "string list" where
  "queries_of_m1 =
     [''event.journal.replay'', ''blob.get'', ''blob.stat'', ''work.get'', ''workspace.get'', ''agent.run.get'',
      ''agent.run.query'', ''artifact.get'', ''artifact.query'', ''tool.run.get'', ''tool.run.query'',
      ''review.get'', ''review.query'', ''session.get'', ''session.query'', ''workflow.engineering.get'']"

definition contract_of :: "kind \<Rightarrow> string \<Rightarrow> string \<times> schema_file" where
  "contract_of k name =
     (name @ ''@1'',
      Schema \<lparr> mdContract = name @ ''@1'',
               mdVersion = (if name \<in> {''event.journal.append'', ''event.journal.replay''} then ''1.1.0'' else ''1.0.0''), mdKind = k \<rparr>)"

definition shipped_contracts :: "(string \<times> schema_file) list" where
  "shipped_contracts = map (contract_of KindCommand) commands_of_m1 @ map (contract_of KindQuery) queries_of_m1"

definition capabilities :: "string list \<Rightarrow> Grant" where
  "capabilities cs = zero_grant\<lparr> gCapabilities := cs \<rparr>"

definition shipped_policy :: PolicyFile where
  "shipped_policy =
     \<lparr> pfGrants =
         [(''local-cli'', (capabilities [''work.create@1'', ''work.get@1'', ''workflow.engineering.run@1'',
           ''workflow.engineering.get@1'',
            ''review.request@1'', ''review.decide@1'', ''review.get@1'', ''review.query@1'', ''agent.run.get@1'',
            ''agent.run.query@1'', ''artifact.get@1'', ''artifact.query@1'', ''tool.run.get@1'',
            ''tool.run.query@1'', ''workspace.get@1'', ''session.get@1'', ''session.query@1'', ''blob.get@1'',
            ''blob.stat@1'', ''event.journal.replay@1''])
            \<lparr> gDelegations := [(''workflow.engineering.run@1'',
              [''work.get@1'', ''work.transition@1'', ''workspace.allocate@1'', ''workspace.release@1'',
               ''agent.run@1'', ''agent.run.get@1'', ''artifact.collect_diff@1'', ''tool.run@1'',
               ''work.attach_evidence@1'', ''review.request@1'', ''review.get@1'', ''session.seal@1'',
               ''event.journal.append@1'', ''event.journal.replay@1'', ''blob.put@1''])] \<rparr>),
          (''m1-dev'', capabilities [''event.journal.append@1'', ''event.journal.replay@1'', ''blob.put@1'',
            ''blob.get@1'', ''blob.stat@1'',
            ''work.create@1'', ''work.get@1'', ''work.transition@1'', ''work.attach_evidence@1'',
            ''workspace.allocate@1'', ''workspace.release@1'', ''workspace.get@1'', ''agent.run@1'',
            ''agent.run.get@1'', ''agent.run.query@1'', ''agent.run.cancel@1'', ''artifact.collect_diff@1'',
            ''artifact.get@1'', ''artifact.query@1'', ''tool.run@1'', ''tool.run.get@1'', ''tool.run.query@1'',
            ''review.request@1'', ''review.decide@1'', ''review.get@1'', ''review.query@1'', ''session.seal@1'',
            ''session.get@1'', ''session.query@1'', ''workflow.engineering.run@1'', ''workflow.engineering.get@1'']),
          (''org.vibe.event.journal'', capabilities []),
          (''org.vibe.blob'', capabilities []),
          (''org.vibe.work.registry'', capabilities []),
          (''org.vibe.workspace'', capabilities []),
          (''org.vibe.agent.harness'', (capabilities [''blob.put@1''])\<lparr> gServiceAuthority := True \<rparr>),
          (''org.vibe.artifact'', capabilities [''blob.put@1'']),
          (''org.vibe.tool.runner'', capabilities [''blob.put@1'']),
          (''org.vibe.review'', capabilities []),
          (''org.vibe.session'', capabilities [''event.journal.replay@1'', ''blob.put@1'']),
          (''org.vibe.workflow.engineering'', capabilities [''work.get@1'', ''work.transition@1'',
            ''work.attach_evidence@1'', ''workspace.allocate@1'',
            ''workspace.release@1'', ''agent.run@1'', ''agent.run.get@1'', ''artifact.collect_diff@1'',
            ''tool.run@1'', ''review.request@1'', ''review.get@1'', ''session.seal@1'', ''event.journal.append@1'',
            ''event.journal.replay@1''])],
       pfClients = [(''local-cli'', ''fae22dea5494a204ef9f3f28dcf76fb431426172eb885afb7929aa725986d77b''),
         (''m1-dev'', ''68d2b53bd7b2ecf95c36eeb6761d112d32d3387ef7c9e563cf8ff3cc8d01317d'')] \<rparr>"

definition bound :: "string \<Rightarrow> string \<Rightarrow> string \<Rightarrow> BindingRecord" where
  "bound service authority name =
     \<lparr> bdCapability = name, bdMajor = 1, bdService = service, bdAuthority = authority, bdProvider = [] \<rparr>"

definition shipped_bindings :: "BindingRecord list" where
  "shipped_bindings =
     concat
       [map (bound ''default-event-journal'' ''journal-main'') [''event.journal.append'', ''event.journal.replay''],
        map (bound ''default-blob'' ''blob-main'') [''blob.put'', ''blob.get'', ''blob.stat''],
        map (bound ''default-work-registry'' ''work-main'') [''work.create'', ''work.get'', ''work.transition'',
          ''work.attach_evidence''],
        map (bound ''default-workspace'' ''workspace-main'') [''workspace.allocate'', ''workspace.release'',
          ''workspace.get''],
        map (bound ''default-agent-harness'' ''agent-runs-main'') [''agent.run'', ''agent.run.get'',
          ''agent.run.query'', ''agent.run.cancel''],
        map (bound ''default-artifact'' ''artifact-main'') [''artifact.collect_diff'', ''artifact.get'',
          ''artifact.query''],
        map (bound ''default-tool-runner'' ''toolruns-main'') [''tool.run'', ''tool.run.get'', ''tool.run.query''],
        map (bound ''default-review'' ''reviews-main'') [''review.request'', ''review.decide'', ''review.get'',
          ''review.query''],
        map (bound ''default-session'' ''sessions-main'') [''session.seal'', ''session.get'', ''session.query'']]"

section \<open>What the plugins register\<close>

definition registers :: "(kind \<times> string) list \<Rightarrow> Host \<Rightarrow> Host" where
  "registers hs h =
     foldl (\<lambda>h (k, name). if k = KindCommand then HandleContextCommand name 1 h else HandleContextQuery name 1 h) h hs"

definition agent_main :: Host where
  "agent_main =
     registers [(KindCommand, ''agent.run''), (KindQuery, ''agent.run.get''),
        (KindQuery, ''agent.run.query''), (KindCommand, ''agent.run.cancel'')]
       (host_New ''org.vibe.agent.harness'' ''1.0.0'' [])"

definition artifact_main :: Host where
  "artifact_main =
     registers [(KindCommand, ''artifact.collect_diff''), (KindQuery, ''artifact.get''),
        (KindQuery, ''artifact.query'')]
       (host_New ''org.vibe.artifact'' ''1.0.0'' [])"

definition blob_main :: Host where
  "blob_main =
     registers [(KindCommand, ''blob.put''), (KindQuery, ''blob.get''),
        (KindQuery, ''blob.stat'')]
       (host_New ''org.vibe.blob'' ''1.0.0'' [])"

definition workflow_main :: Host where
  "workflow_main =
     registers [(KindCommand, ''workflow.engineering.run''), (KindQuery, ''workflow.engineering.get'')]
       (host_New ''org.vibe.workflow.engineering'' ''1.0.0'' [])"

definition journal_main :: Host where
  "journal_main =
     registers [(KindCommand, ''event.journal.append''), (KindQuery, ''event.journal.replay'')]
       (host_New ''org.vibe.event.journal'' ''1.0.0'' [])"

definition review_main :: Host where
  "review_main =
     registers [(KindCommand, ''review.request''), (KindCommand, ''review.decide''),
        (KindQuery, ''review.get''), (KindQuery, ''review.query'')]
       (host_New ''org.vibe.review'' ''1.0.0'' [])"

definition session_main :: Host where
  "session_main =
     registers [(KindCommand, ''session.seal''), (KindQuery, ''session.get''),
        (KindQuery, ''session.query'')]
       (host_New ''org.vibe.session'' ''1.0.0'' [])"

definition tool_main :: Host where
  "tool_main =
     registers [(KindCommand, ''tool.run''), (KindQuery, ''tool.run.get''),
        (KindQuery, ''tool.run.query'')]
       (host_New ''org.vibe.tool.runner'' ''1.0.0'' [])"

definition work_main :: Host where
  "work_main =
     registers [(KindCommand, ''work.create''), (KindQuery, ''work.get''),
        (KindCommand, ''work.transition''), (KindCommand, ''work.attach_evidence'')]
       (host_New ''org.vibe.work.registry'' ''1.0.0'' [])"

definition workspace_main :: Host where
  "workspace_main =
     registers [(KindCommand, ''workspace.allocate''), (KindCommand, ''workspace.release''),
        (KindQuery, ''workspace.get'')]
       (host_New ''org.vibe.workspace'' ''1.0.0'' [])"

definition shipped_mains :: "Host list" where
  "shipped_mains =
     [agent_main, artifact_main, blob_main, workflow_main, journal_main, review_main, session_main, tool_main, work_main, workspace_main]"

end
