(* ===== verification/DeploymentProps.thy ===== *)
theory DeploymentProps
  imports Admission Deployment
begin

text \<open>
  The shipped configuration is sound: the kernel can be set up from its files, every manifest is admitted, every
  plugin registers what its manifest exports, and so, whatever the order of the directory, of Go's maps and of the starts,
  all ten plugins are brought up. The shipped policy lets the workflow do its work, and nothing more to those who start it.
\<close>

section \<open>The catalog of a list of contracts\<close>

definition metadata_of :: "schema_file \<Rightarrow> Metadata list" where
  "metadata_of sf = (case sf of Schema m \<Rightarrow> [m] | _ \<Rightarrow> [])"

definition by_contract :: "(string \<times> schema_file) list \<Rightarrow> (string \<times> Metadata) list" where
  "by_contract ps = concat (map (\<lambda>(_, sf). map (\<lambda>m. (mdContract m, m)) (metadata_of sf)) ps)"

definition by_capability :: "(string \<times> schema_file) list \<Rightarrow> (string \<times> Metadata) list" where
  "by_capability ps = concat (map (\<lambda>(k, sf). map (Pair k) (metadata_of sf)) ps)"

definition usable :: "schema_file \<Rightarrow> bool" where
  "usable sf = (case sf of
     Schema m \<Rightarrow> mdContract m \<noteq> [] \<and> (mdKind m = KindCommand \<or> mdKind m = KindQuery \<or> mdKind m = KindEvent)
   | _ \<Rightarrow> False)"

lemma load_schemas_all:
  assumes "list_all (usable \<circ> snd) ps" and "distinct (map fst (by_contract ps))"
    and "\<forall>k \<in> fst ` set (by_contract ps). ByContract c k = None"
  shows "load_schemas c ps = Ok \<lparr> ByCapability = ByCapability c ++ map_of (rev (by_capability ps)),
                                 ByContract = ByContract c ++ map_of (rev (by_contract ps)) \<rparr>"
  using assms
proof (induction ps arbitrary: c)
  case Nil
  then show ?case by (simp add: by_contract_def by_capability_def)
next
  case (Cons p ps)
  obtain k m where p: "p = (k, Schema m)" using Cons.prems(1) by (cases p; cases "snd p") (auto simp: usable_def)
  let ?c = "c\<lparr> ByCapability := (ByCapability c)(k \<mapsto> m), ByContract := (ByContract c)(mdContract m \<mapsto> m) \<rparr>"
  have b: "by_contract (p # ps) = (mdContract m, m) # by_contract ps" "by_capability (p # ps) = (k, m) # by_capability ps"
    by (simp_all add: p by_contract_def by_capability_def metadata_of_def)
  have "load_schemas c (p # ps) = load_schemas ?c ps"
    using Cons.prems(1,3) b by (auto simp: p usable_def)
  also have "\<dots> = Ok \<lparr> ByCapability = ByCapability ?c ++ map_of (rev (by_capability ps)),
                        ByContract = ByContract ?c ++ map_of (rev (by_contract ps)) \<rparr>"
  proof (rule Cons.IH)
    show "list_all (usable \<circ> snd) ps" "distinct (map fst (by_contract ps))" using Cons.prems(1,2) b by (simp_all add: o_def)
    show "\<forall>j \<in> fst ` set (by_contract ps). ByContract ?c j = None"
    proof
      fix j
      assume j: "j \<in> fst ` set (by_contract ps)"
      moreover have "mdContract m \<notin> fst ` set (by_contract ps)" using Cons.prems(2) b by simp
      ultimately have "j \<noteq> mdContract m" by blast
      moreover have "ByContract c j = None" using Cons.prems(3) j unfolding b by auto
      ultimately show "ByContract ?c j = None" by simp
    qed
  qed
  finally show ?case using b by simp
qed

definition shipped_catalog :: Catalog where
  "shipped_catalog =
     \<lparr> ByCapability = map_of (rev (by_capability shipped_contracts)), ByContract = map_of (rev (by_contract shipped_contracts)) \<rparr>"

lemma contracts_usable: "list_all (usable \<circ> snd) shipped_contracts"
  by code_simp

lemma contracts_distinct: "distinct (map fst (by_contract shipped_contracts))"
  by code_simp

lemma shipped_catalog: "catalog_Load (Some shipped_contracts) = Ok shipped_catalog"
  by (simp add: catalog_Load_def shipped_catalog_def load_schemas_all contracts_usable contracts_distinct)

section \<open>The manifests live together\<close>

lemma shipped_valid: "list_all (\<lambda>m. Validate m = None) (map snd shipped_manifests)"
  by code_simp

lemma shipped_ids: "distinct (map mPluginID (map snd shipped_manifests))"
  by code_simp

lemma shipped_compatible: "sorted_wrt compatible (map snd shipped_manifests)"
  by code_simp

text \<open>Every contract of the directory has its metadata; so do the capabilities that are called by these names.\<close>

definition shipped_kind :: "string \<Rightarrow> kind option" where
  "shipped_kind name =
     (if name \<in> set commands_of_m1 then Some KindCommand else if name \<in> set queries_of_m1 then Some KindQuery else None)"

definition m1_capability :: "Capability \<Rightarrow> bool" where
  "m1_capability c \<longleftrightarrow> cMajor c = 1 \<and> cContract c = cName c @ ''@1'' \<and> shipped_kind (cName c) \<noteq> None"

lemma canonical_1: "canonical name 1 = name @ ''@1''"
proof -
  have "show_int 1 = ''1''" by code_simp
  then show ?thesis by (simp add: canonical_def)
qed

lemma shipped_metadata:
  assumes "shipped_kind name = Some k"
  shows "\<exists>md. ByContract shipped_catalog (name @ ''@1'') = Some md \<and> mdContract md = name @ ''@1'' \<and> mdKind md = k"
proof -
  have "contract_of k name \<in> set shipped_contracts"
    using assms by (auto simp: shipped_kind_def shipped_contracts_def split: if_splits)
  moreover obtain v where "contract_of k name = (name @ ''@1'', Schema \<lparr> mdContract = name @ ''@1'', mdVersion = v, mdKind = k \<rparr>)"
    by (simp add: contract_of_def)
  ultimately have "(name @ ''@1'', \<lparr> mdContract = name @ ''@1'', mdVersion = v, mdKind = k \<rparr>) \<in> set (rev (by_contract shipped_contracts))"
    by (force simp: by_contract_def metadata_of_def)
  moreover have "distinct (map fst (rev (by_contract shipped_contracts)))"
    using contracts_distinct by (simp flip: rev_map)
  ultimately show ?thesis by (auto simp: shipped_catalog_def)
qed

lemma declared_m1:
  assumes "m1_capability c"
  shows "\<exists>md. declared_in shipped_catalog c = Some md \<and> shipped_kind (cName c) = Some (mdKind md)"
proof -
  obtain k where k: "shipped_kind (cName c) = Some k" using assms by (auto simp: m1_capability_def)
  from shipped_metadata [OF this] assms k show ?thesis
    by (auto simp: declared_in_def m1_capability_def canonical_1)
qed

lemma shipped_kind_call: "shipped_kind name \<noteq> Some KindEvent"
  by (simp add: shipped_kind_def)

definition well_declared :: "Manifest \<Rightarrow> bool" where
  "well_declared m \<longleftrightarrow>
     list_all m1_capability (mExports m @ mRequired m) \<and> mOptional m = [] \<and> mPublishes m = [] \<and> mSubscribes m = []
     \<and> list_all (\<lambda>c. stateful c \<longrightarrow> cService c \<noteq> [] \<and> cAuthority c \<noteq> [] \<and> rtDataNamespace (mRuntime m) \<noteq> []) (mExports m)"

lemma shipped_well_declared: "list_all well_declared (map snd shipped_manifests)"
  by code_simp

lemma well_declared_declares: "well_declared m \<Longrightarrow> Validate m = None \<Longrightarrow> declares shipped_catalog m"
  using declared_m1 shipped_kind_call
  by (fastforce simp: declares_def well_declared_def list_all_iff)

lemma shipped_consistent: "consistent shipped_catalog (map snd shipped_manifests)"
proof -
  have "declares shipped_catalog m" if "m \<in> set (map snd shipped_manifests)" for m
    using shipped_valid shipped_well_declared that by (intro well_declared_declares) (simp_all only: list_all_iff)
  then show ?thesis
    unfolding consistent_def list_all_iff using shipped_ids shipped_compatible by blast
qed

text \<open>Blobs and the journal first, then the services, then the workflow.\<close>

definition boot_rank :: "Manifest \<Rightarrow> nat" where
  "boot_rank m = (if mRequired m = [] then 0 else if length (mRequired m) \<le> 2 then 1 else 2)"

lemma shipped_needs: "well_founded_needs boot_rank (map snd shipped_manifests)"
  by code_simp

section \<open>The programs do what the manifests say\<close>

lemma registers_plugin:
  "hoPluginID (registers hs h) = hoPluginID h \<and> hoManifestHash (registers hs h) = hoManifestHash h"
  unfolding registers_def
  by (induction hs arbitrary: h) (auto simp: HandleContextCommand_def HandleContextQuery_def)

lemma registers_proper:
  "list_all (\<lambda>(_, name). name \<noteq> []) hs \<Longrightarrow> proper_keys (hoHandlerKinds h) \<Longrightarrow> proper_keys (hoHandlerKinds (registers hs h))"
  unfolding registers_def
  by (induction hs arbitrary: h) (auto simp: proper_keys_register min_int_def max_int_def)

text \<open>The manifests with the programs they name.\<close>

definition shipped_pairs :: "(Manifest \<times> Host) list" where
  "shipped_pairs = zip (map snd shipped_manifests) shipped_mains"

lemma shipped_pairs_manifests: "map fst shipped_pairs = map snd shipped_manifests"
  by (simp add: shipped_pairs_def shipped_manifests_def shipped_mains_def)

definition registers_exports :: "Manifest \<times> Host \<Rightarrow> bool" where
  "registers_exports = (\<lambda>(m, h).
     hoPluginID h = mPluginID m \<and> hoManifestHash h = []
     \<and> list_all (\<lambda>c. m1_capability c \<and> map_of (hoHandlerKinds h) (cContract c) = shipped_kind (cName c)) (mExports m))"

lemma shipped_registers: "list_all registers_exports shipped_pairs"
  by code_simp

lemma shipped_proper: "list_all (\<lambda>h. proper_keys (hoHandlerKinds h)) shipped_mains"
proof -
  have "proper_keys (hoHandlerKinds (host_New i v n))" for i v n by (simp add: host_New_def proper_keys_def)
  then show ?thesis
    by (simp add: shipped_mains_def agent_main_def artifact_main_def blob_main_def workflow_main_def journal_main_def
        review_main_def session_main_def tool_main_def work_main_def workspace_main_def registers_proper)
qed

text \<open>A launch that goes well, of a program that answers hello with what it has registered.\<close>

definition launched_well :: "Host \<Rightarrow> launch \<Rightarrow> bool" where
  "launched_well h la \<longleftrightarrow> laExecutable la \<and> laPipes la \<and> laSpawn la \<and> laPriority la
     \<and> laReply la = Some (KindReady, Some (host_ready h))"

lemma shipped_handshake:
  assumes "(m, h) \<in> set shipped_pairs" and "launched_well h la" and "rContracts reg = Some shipped_catalog"
  shows "handshake reg m hash la = None"
proof -
  have r: "registers_exports (m, h)" using shipped_registers assms(1) by (simp only: list_all_iff)
  have p: "proper_keys (hoHandlerKinds h)"
    using shipped_proper assms(1) unfolding list_all_iff shipped_pairs_def by (blast dest: set_zip_rightD)
  have "case ContractMetadata reg (cContract c) of
         None \<Rightarrow> False
       | Some md \<Rightarrow> map_of (hoHandlerKinds h) (key (cName c) (cMajor c)) = Some (mdKind md)" if c: "c \<in> set (mExports m)" for c
  proof -
    have c1: "m1_capability c" "map_of (hoHandlerKinds h) (cContract c) = shipped_kind (cName c)"
      using r c by (simp_all add: registers_exports_def list_all_iff)
    then obtain k where k: "shipped_kind (cName c) = Some k" by (auto simp: m1_capability_def)
    from shipped_metadata [OF this] c1 k assms(3) show ?thesis
      by (auto simp: m1_capability_def ContractMetadata_def catalog_Metadata_def key_def canonical_1)
  qed
  then show ?thesis
    using r assms(2) by (subst ready_passes [OF p]) (auto simp: registers_exports_def launched_well_def list_all_iff)
qed

section \<open>The system comes up\<close>

text \<open>The kernel as it is set up, over any lease files that can be read; the bindings do not matter for the start.\<close>

lemma bind_all_frame:
  "rContracts (bind_all bs r) = rContracts r \<and> rByPlugin (bind_all bs r) = rByPlugin r
   \<and> rAuthorityStorage (bind_all bs r) = rAuthorityStorage r \<and> rProviders (bind_all bs r) = rProviders r"
  unfolding bind_all_def by (induction bs arbitrary: r) (simp_all add: SetBinding_def)

lemma shipped_setup:
  assumes "kernel_setup (Some shipped_contracts) root mkdir_ok lease_files leases policy bindings = Ok (rt, tokens)"
  shows "rContracts (rtReg rt) = Some shipped_catalog" "rByPlugin (rtReg rt) = []"
    "rAuthorityStorage (rtReg rt) = Map.empty" "rProviders (rtReg rt) = []"
proof -
  obtain reg where reg: "SetFenceRoot (SetContractCatalog registry_New shipped_catalog) root mkdir_ok lease_files = (None, reg)"
    and rt: "rtReg rt = (case bindings of None \<Rightarrow> reg | Some bs \<Rightarrow> bind_all bs reg)"
    using assms by (auto simp: kernel_setup_def shipped_catalog router_New_def split: prod.splits option.splits sum.splits)
  have "rContracts reg = Some shipped_catalog \<and> rByPlugin reg = [] \<and> rAuthorityStorage reg = Map.empty \<and> rProviders reg = []"
    using reg by (auto simp: SetFenceRoot_def Let_def SetContractCatalog_def registry_New_def split: if_splits prod.splits)
  then show "rContracts (rtReg rt) = Some shipped_catalog" "rByPlugin (rtReg rt) = []"
    "rAuthorityStorage (rtReg rt) = Map.empty" "rProviders (rtReg rt) = []"
    by (simp_all add: rt bind_all_frame split: option.split)
qed

text \<open>The directory with a hash for every file.\<close>

definition hashed :: "(string \<Rightarrow> string) \<Rightarrow> (string \<times> Manifest \<times> string) list" where
  "hashed hash = map (\<lambda>(path, m). (path, m, hash path)) shipped_manifests"

lemma hashed_manifests: "map (fst \<circ> snd) (hashed hash) = map snd shipped_manifests"
  by (auto simp: hashed_def)

lemma shipped_launches_pass:
  assumes "\<And>m h path hsh. (m, h) \<in> set shipped_pairs \<Longrightarrow>
      launched_well h (launches \<lparr> ldManifest = m, ldPath = path, ldHash = hsh \<rparr>)"
    and "rContracts reg = Some shipped_catalog"
  shows "list_all (\<lambda>(path, m, h). handshake reg m h (launches \<lparr> ldManifest = m, ldPath = path, ldHash = h \<rparr>) = None) (hashed hash)"
proof -
  have "\<exists>h. (m, h) \<in> set shipped_pairs" if "(path, m) \<in> set shipped_manifests" for path m
  proof -
    have "m \<in> fst ` set shipped_pairs" using that shipped_pairs_manifests by (metis image_eqI list.set_map snd_conv)
    then show ?thesis by auto
  qed
  then have "handshake reg m hsh (launches \<lparr> ldManifest = m, ldPath = path, ldHash = hsh \<rparr>) = None"
    if "(path, m) \<in> set shipped_manifests" for path m hsh
    using that assms shipped_handshake by meson
  then show ?thesis by (auto simp: hashed_def list_all_iff)
qed

lemma ups_ready:
  assumes "list_all (\<lambda>(path, m, h). up m (st (mPluginID m))) (hashed hash)"
  shows "list_all (\<lambda>(path, m). map_option psState (st (mPluginID m)) = Some StateReady) shipped_manifests"
proof -
  have "mOptional m = []" if "(path, m) \<in> set shipped_manifests" for path m
  proof -
    have "m \<in> set (map snd shipped_manifests)" using that by force
    then have "well_declared m" using shipped_well_declared by (simp only: list_all_iff)
    then show ?thesis by (simp add: well_declared_def)
  qed
  with assms show ?thesis by (fastforce simp: hashed_def list_all_iff up_def)
qed

text \<open>
  The shipped system starts: whatever the hashes, the lease files, the bindings, the order in which Go visits
  its maps, if each program can be launched and answers hello with what its \<open>main\<close> has registered, all ten
  plugins end ready.
\<close>

theorem shipped_system_starts:
  assumes "kernel_setup (Some shipped_contracts) root mkdir_ok lease_files leases policy bindings = Ok (rt, tokens)"
    and "\<And>m h path hsh. (m, h) \<in> set shipped_pairs \<Longrightarrow>
      launched_well h (launches \<lparr> ldManifest = m, ldPath = path, ldHash = hsh \<rparr>)"
    and "\<forall>pass xs. mset (ords pass xs) = mset xs"
  shows "list_all (\<lambda>(path, m). map_option psState
      (sup_Status (kernel_boot ords launches render (as_files (hashed hash)) rt) (mPluginID m)) = Some StateReady) shipped_manifests"
proof (rule ups_ready [where hash = hash], rule sound_boot)
  show "consistent shipped_catalog (map (fst \<circ> snd) (hashed hash))" unfolding hashed_manifests by (rule shipped_consistent)
  show "well_founded_needs boot_rank (map (fst \<circ> snd) (hashed hash))" unfolding hashed_manifests by (rule shipped_needs)
  show "list_all (\<lambda>(path, m, h). handshake (rtReg rt) m h (launches \<lparr> ldManifest = m, ldPath = path, ldHash = h \<rparr>) = None) (hashed hash)"
    using assms(2) shipped_setup(1) [OF assms(1)] by (rule shipped_launches_pass)
qed (use shipped_setup [OF assms(1)] assms(3) in simp_all)

text \<open>
  C20: a sound configuration comes up as a whole. When the manifests of the plugin directory live together (valid,
  alone in their names, everything they declare under contract, one mode per capability, one storage per authority), what they
  require of each other has no gap and no cycle, and every program answers hello as its manifest says, then every
  plugin is ready at the end of the kernel's start, or degraded for want of something optional, in whatever order
  the files are read and Go's maps are visited.
\<close>

theorem sound_configuration_starts:
  assumes "rContracts (rtReg rt) = Some cat" "rByPlugin (rtReg rt) = []" "rAuthorityStorage (rtReg rt) = Map.empty"
    "rProviders (rtReg rt) = []"
    and "consistent cat (map (fst \<circ> snd) fs)" and "well_founded_needs rank (map (fst \<circ> snd) fs)"
    and "list_all (\<lambda>(path, m, h). handshake (rtReg rt) m h
           (launches \<lparr> ldManifest = m, ldPath = path, ldHash = h \<rparr>) = None) fs"
    and "\<forall>pass xs. mset (ords pass xs) = mset xs"
  shows "list_all (\<lambda>(path, m, h). up m (sup_Status (kernel_boot ords launches render (as_files fs) rt) (mPluginID m))) fs"
  using assms by (rule sound_boot)

text \<open>The shipped configuration is one: here is a start of it.\<close>

definition shipped_setup_result :: "(setup_error, Router \<times> (string \<rightharpoonup> string)) result" where
  "shipped_setup_result =
     kernel_setup (Some shipped_contracts) ''data/.vibe-fences'' True [] Map.empty (Some shipped_policy) (Some shipped_bindings)"

definition shipped_router :: Router where
  "shipped_router = (case shipped_setup_result of Inl _ \<Rightarrow> undefined | Inr (rt, _) \<Rightarrow> rt)"

definition shipped_launch :: "Loaded \<Rightarrow> launch" where
  "shipped_launch x =
     \<lparr> laRuntimeID = ''rt-'' @ loaded_id x, laExecutable = True, laPipes = True, laSpawn = True, laPriority = True,
       laReply = map_option (\<lambda>h. (KindReady, Some (host_ready h))) (map_of (map (\<lambda>h. (hoPluginID h, h)) shipped_mains) (loaded_id x)) \<rparr>"

lemma shipped_policy_loads: "policy_Load (Some shipped_policy) = Ok shipped_policy"
proof -
  have "policy_Validate shipped_policy = None" by code_simp
  then show ?thesis by (simp add: policy_Load_def)
qed

lemma shipped_router: "\<exists>tokens. shipped_setup_result = Ok (shipped_router, tokens)"
  by (simp add: shipped_router_def shipped_setup_result_def kernel_setup_def shipped_catalog shipped_policy_loads
      SetFenceRoot_def Let_def)

lemma main_ids: "distinct (map hoPluginID shipped_mains)"
  by code_simp

lemma shipped_launch_well:
  assumes "(m, h) \<in> set shipped_pairs"
  shows "launched_well h (shipped_launch \<lparr> ldManifest = m, ldPath = path, ldHash = hsh \<rparr>)"
proof -
  have "registers_exports (m, h)" using shipped_registers assms by (simp only: list_all_iff)
  then have "hoPluginID h = mPluginID m" by (simp add: registers_exports_def)
  moreover have "h \<in> set shipped_mains" using assms unfolding shipped_pairs_def by (rule set_zip_rightD)
  ultimately have "(mPluginID m, h) \<in> set (map (\<lambda>h. (hoPluginID h, h)) shipped_mains)" by force
  moreover have "distinct (map fst (map (\<lambda>h. (hoPluginID h, h)) shipped_mains))" using main_ids by (simp add: o_def)
  ultimately have "map_of (map (\<lambda>h. (hoPluginID h, h)) shipped_mains) (mPluginID m) = Some h" by (simp add: map_of_eq_Some_iff)
  then show ?thesis by (simp add: launched_well_def shipped_launch_def loaded_id_def)
qed

theorem sound_configuration_starts_witness:
  "list_all (\<lambda>(path, m). map_option psState (sup_Status
      (kernel_boot (\<lambda>_ xs. xs) shipped_launch (\<lambda>_. []) (as_files (hashed (\<lambda>path. path))) shipped_router) (mPluginID m))
      = Some StateReady) shipped_manifests"
proof -
  obtain tokens where s: "shipped_setup_result = Ok (shipped_router, tokens)" using shipped_router by blast
  note ready = shipped_setup [OF s [unfolded shipped_setup_result_def]]
  have l: "list_all (\<lambda>(path, m, h). handshake (rtReg shipped_router) m h
      (shipped_launch \<lparr> ldManifest = m, ldPath = path, ldHash = h \<rparr>) = None) (hashed (\<lambda>path. path))"
    using shipped_launch_well ready(1) by (rule shipped_launches_pass)
  show ?thesis
    by (rule ups_ready, rule sound_configuration_starts [where rank = boot_rank, OF ready _ _ l])
      (simp_all only: hashed_manifests shipped_consistent shipped_needs simp_thms)
qed

section \<open>Who may do what\<close>

text \<open>What the local client may ask for itself.\<close>

definition local_calls :: "string list" where
  "local_calls =
     [''work.create'', ''work.get'', ''workflow.engineering.run'', ''workflow.engineering.get'', ''review.request'',
      ''review.decide'', ''review.get'', ''review.query'', ''agent.run.get'', ''agent.run.query'', ''artifact.get'',
      ''artifact.query'', ''tool.run.get'', ''tool.run.query'', ''workspace.get'', ''session.get'', ''session.query'',
      ''blob.get'', ''blob.stat'', ''event.journal.replay'']"

lemma local_grant:
  "\<exists>g. engine_of_policy shipped_policy ''local-cli'' = Some g \<and> gCapabilities g = map (\<lambda>n. canonical n 1) local_calls"
proof -
  have "distinct (map fst (pfGrants shipped_policy))" by code_simp
  then have "engine_of_policy shipped_policy = map_of (pfGrants shipped_policy)" by (rule engine_of_policy_eq)
  moreover have "map_option gCapabilities (map_of (pfGrants shipped_policy) ''local-cli'') = Some (map (\<lambda>n. n @ ''@1'') local_calls)"
    by code_simp
  ultimately show ?thesis by (auto simp: canonical_1)
qed

lemma local_literal: "list_all literal local_calls"
  by code_simp

lemma local_granted:
  "granted (engine_of_policy shipped_policy) ''local-cli'' cap major \<longleftrightarrow> major = 1 \<and> cap \<in> set local_calls"
  using local_grant local_literal
  by (auto simp: granted_def list_ex_iff list_all_iff pattern_match_canonical)

definition needs_met :: "engine \<Rightarrow> string \<Rightarrow> Manifest \<Rightarrow> bool" where
  "needs_met en user m \<longleftrightarrow> list_all (\<lambda>c. CanConsume en m (cName c) (cMajor c) = None
     \<and> (CanExternal en user (cName c) (cMajor c) = None
        \<or> ScopeAllows (DelegationScope en user ''workflow.engineering.run'' 1) (cName c) (cMajor c))) (mRequired m)"

lemma shipped_needs_met:
  "list_all (\<lambda>user. CanExternal (engine_of_policy shipped_policy) user ''workflow.engineering.run'' 1 = None
      \<and> list_all (needs_met (engine_of_policy shipped_policy) user) (map snd shipped_manifests)) [''local-cli'', ''m1-dev'']"
  by code_simp

text \<open>
  C9: the shipped policy fits the shipped system. Both clients may start the workflow, and under the delegation this
  gives, every call that any of the ten plugins is built to make is authorized: the plugin may consume it, and the
  client may make it or has delegated it. The local client itself may make just the twenty calls of its list; so it cannot move
  a task, attach evidence, run a tool or an agent or seal a session but through the workflow and its gate.
\<close>

theorem shipped_policy_fits:
  "list_all (\<lambda>user. CanExternal (engine_of_policy shipped_policy) user ''workflow.engineering.run'' 1 = None
      \<and> list_all (needs_met (engine_of_policy shipped_policy) user) (map snd shipped_manifests)) [''local-cli'', ''m1-dev'']
   \<and> ((\<exists>who. authorize_call (engine_of_policy shipped_policy) reg ds rt ''local-cli'' False req = Ok who)
       \<longleftrightarrow> eMajor req = 1 \<and> eCapability req \<in> set local_calls)"
  using shipped_needs_met
  by (auto simp: authorize_call_def CanExternal_def local_granted)

text \<open>So a call a plugin makes for such a run passes the router's check.\<close>

lemma delegated_call_authorized:
  assumes "needs_met en user m" and "need \<in> set (mRequired m)"
    and "registry_Manifest reg (mPluginID m) = Some m"
    and "delegations (eDelegationID req) = Some d" "eDelegationID req \<noteq> []" "dcRuntimeID d = rid" "rid \<noteq> []"
    and "dcPrincipal d = user" "dcScope d = DelegationScope en user ''workflow.engineering.run'' 1"
    and "eCapability req = cName need" "eMajor req = cMajor need"
  shows "authorize_call en reg delegations rid (mPluginID m) True req
     = Ok (user, dcActorChain d @ [mPluginID m], dcScope d)"
  using assms by (auto simp: needs_met_def list_all_iff authorize_call_def request_identity_def)

end
