(* ===== verification/BlobClient.thy ===== *)
theory BlobClient
  imports ArtifactStore Blob Json
begin

text \<open>
  How the plugins keep bytes: the call of \<open>blob.put\<close> that the \<open>main\<close> functions of the artifact, tool-runner, session and
  agent plugins hand to their handlers, and the blob plugin on the other side of the wire. Proved: the
  patch of a collected diff can be fetched under the URI of its artifact.
\<close>

section \<open>The call\<close>

text \<open>\<open>call\<close> is the host's command, given payload and timeout; \<open>parse\<close> is the parsing of JSON text.\<close>

definition blobPut ::
  "(string \<Rightarrow> json option) \<Rightarrow> (string \<Rightarrow> int \<Rightarrow> json \<Rightarrow> int \<Rightarrow> (Error, string) result) \<Rightarrow> string \<Rightarrow> string option" where
  "blobPut parse call b =
     (case call ''blob.put'' 1 (JObject [(''content_base64'', JText (EncodeToString b))]) (30 * 10 ^ 9) of
        Inl _ \<Rightarrow> None
      | Inr payload \<Rightarrow>
          (case Option.bind (parse payload) as_struct of
             None \<Rightarrow> None
           | Some r \<Rightarrow> as_text (member ''uri'' r)))"

section \<open>The answer\<close>

definition decode_putRequest :: "json \<Rightarrow> string option" where
  "decode_putRequest j = Option.bind (as_struct j) (\<lambda>q. as_text (member ''content_base64'' q))"

definition put_json :: "putResponse \<Rightarrow> json" where
  "put_json p = JObject [(''uri'', JText (prURI p)), (''sha256'', JText (prSHA256 p)), (''size'', JInt (prSize p)),
     (''existed'', JBool (prExisted p))]"

text \<open>A put as the blob plugin serves it: \<open>e\<close> is the envelope the router hands it, without its payload.\<close>

definition serve_put ::
  "(put_disk write_error \<Rightarrow> string) \<Rightarrow> (string \<Rightarrow> string) \<Rightarrow> store_env \<Rightarrow> put_disk \<Rightarrow> string option Envelope
   \<Rightarrow> json \<Rightarrow> blob_store \<Rightarrow> putResponse reply \<times> blob_store" where
  "serve_put render digest env d e payload s = putHandler render digest env d (e\<lparr> ePayload := decode_putRequest payload \<rparr>) s"

definition blob_call ::
  "(json \<Rightarrow> string) \<Rightarrow> (json \<Rightarrow> putResponse reply) \<Rightarrow> string \<Rightarrow> int \<Rightarrow> json \<Rightarrow> int \<Rightarrow> (Error, string) result" where
  "blob_call print_json serve cap major payload timeout =
     (if cap = ''blob.put'' \<and> major = 1
      then (case serve payload of Inl er \<Rightarrow> Err er | Inr p \<Rightarrow> Ok (print_json (put_json p)))
      else Err (proto_error ''NO_HANDLER'' cap))"

definition put_payload :: "string \<Rightarrow> json" where
  "put_payload b = JObject [(''content_base64'', JText (EncodeToString b))]"

lemma decode_put_payload: "decode_putRequest (put_payload b) = Some (EncodeToString b)"
  by (simp add: decode_putRequest_def put_payload_def as_struct_def member_def as_text_def)

lemma blobPut_Some:
  assumes "\<forall>p. serve (put_payload b) = Ok p \<longrightarrow> parse (print_json (put_json p)) = Some (put_json p)"
    and "blobPut parse (blob_call print_json serve) b = Some uri"
  shows "\<exists>p. serve (put_payload b) = Ok p \<and> prURI p = uri"
  using assms
  by (auto simp: blobPut_def blob_call_def put_payload_def put_json_def as_struct_def member_def as_text_def
      split: sum.splits)

section \<open>What is kept can be read\<close>

lemma stored_bytes:
  assumes "\<forall>p. serve (put_payload b) = Ok p \<longrightarrow> parse (print_json (put_json p)) = Some (put_json p)"
    and "serve = (\<lambda>j. fst (serve_put render digest env d e j s))"
    and "blobPut parse (blob_call print_json serve) b = Some uri"
    and "content_addressed digest s" and "length (digest b) = 64" and "list_all hex_char (digest b)"
    and "inj_on digest (insert b (ran s))"
    and "snd (serve_put render digest env d e (put_payload b) s) \<subseteq>\<^sub>m s''"
  shows "blob_getHandler uri s'' = Ok \<lparr> grContentBase64 = EncodeToString b, grSize = int (length b) \<rparr>
    \<and> s \<subseteq>\<^sub>m snd (serve_put render digest env d e (put_payload b) s)
    \<and> content_addressed digest (snd (serve_put render digest env d e (put_payload b) s))"
proof -
  obtain p where "serve (put_payload b) = Ok p" and u: "prURI p = uri"
    using blobPut_Some [OF assms(1,3)] by blast
  then obtain s' where p: "serve_put render digest env d e (put_payload b) s = (Ok p, s')"
    unfolding assms(2) by (metis prod.collapse)
  then have "putHandler render digest env d (e\<lparr> ePayload := Some (EncodeToString b) \<rparr>) s = (Inr p, s')"
    by (simp add: serve_put_def decode_put_payload)
  from put_then_get [OF assms(4) _ this assms(5-7)] assms(8) p u show ?thesis by simp
qed

lemma collected_uri:
  assumes "collectDiffHandler render env git put newID e st = (Ok a, st')" and "ePayload e = Some q"
    and "collectDiff (git (cdWorkspacePath q) (if cdBaseRef q = [] then ''HEAD'' else cdBaseRef q)) = Some (patch, sm)"
  shows "put patch = Some (atBlobURI a)"
  using assms by (auto simp: collectDiffHandler_def fenced_Ok store_diff_def Let_def split: if_splits prod.splits sum.splits option.splits)

text \<open>
  C29: what the artifact service has collected can be fetched. When a diff is collected with success, its patch sent
  to the blob service in base64 over the wire, then the URI in the artifact leads, after whatever further puts, to
  exactly the bytes of the patch; no object that was there has changed, and each is still addressed by
  its contents. Hash collisions among the stored bytes apart.
\<close>

theorem collected_patch_readable:
  assumes "collectDiffHandler render env git (blobPut parse (blob_call print_json serve)) newID e st = (Ok a, st')"
    and "ePayload e = Some q"
    and "collectDiff (git (cdWorkspacePath q) (if cdBaseRef q = [] then ''HEAD'' else cdBaseRef q)) = Some (patch, sm)"
    and "serve = (\<lambda>j. fst (serve_put rd digest benv d be j s))"
    and "\<forall>p. serve (put_payload patch) = Ok p \<longrightarrow> parse (print_json (put_json p)) = Some (put_json p)"
    and "content_addressed digest s" and "length (digest patch) = 64" and "list_all hex_char (digest patch)"
    and "inj_on digest (insert patch (ran s))"
    and "s' = snd (serve_put rd digest benv d be (put_payload patch) s)" and "s' \<subseteq>\<^sub>m s''"
  shows "(case blob_getHandler (atBlobURI a) s'' of
      Inl _ \<Rightarrow> False
    | Inr r \<Rightarrow> DecodeString (grContentBase64 r) = Some patch \<and> grSize r = int (length patch))
    \<and> s \<subseteq>\<^sub>m s' \<and> content_addressed digest s'"
proof -
  have "blobPut parse (blob_call print_json serve) patch = Some (atBlobURI a)" using assms(1-3) by (rule collected_uri)
  from stored_bytes [OF assms(5,4) this assms(6-9)] assms(10,11) show ?thesis by (simp add: decode_encode)
qed

definition sample_put :: "json \<Rightarrow> putResponse reply \<times> blob_store" where
  "sample_put j = serve_put (\<lambda>_. []) (\<lambda>_. replicate 64 (CHR ''a'')) (sample_store_env Written) PutDone
     (sample_request None) j (\<lambda>_. None)"

definition sample_put_response :: putResponse where
  "sample_put_response =
     \<lparr> prURI = uriPrefix @ replicate 64 (CHR ''a''), prSHA256 = replicate 64 (CHR ''a''), prSize = 1, prExisted = False \<rparr>"

definition sample_collect :: "Artifact reply \<times> artifact_store" where
  "sample_collect = collectDiffHandler (\<lambda>_. []) (sample_store_env Written) (\<lambda>_ _. sample_diff)
     (blobPut (\<lambda>_. Some (put_json sample_put_response)) (blob_call (\<lambda>_. []) (\<lambda>j. fst (sample_put j)))) ''a-1''
     (sample_request (Some \<lparr> cdWorkContextID = ''c'', cdWorkspacePath = ''/w'', cdBaseRef = [] \<rparr>)) (fresh_store empty_index)"

lemma sample_put_eval: "fst (sample_put (put_payload ''p'')) = Ok sample_put_response"
proof -
  have "(sample_request None)\<lparr> ePayload := Some c \<rparr> = sample_request (Some c)" for c :: string
    by (simp add: sample_request_def zero_envelope_def)
  then show ?thesis
    by (simp add: sample_put_def serve_put_def decode_put_payload putHandler_def decode_encode put_object_def
        sample_put_response_def Let_def del: EncodeToString.simps)
qed

lemma sample_collect_eval:
  "\<exists>a. fst sample_collect = Ok a \<and> atBlobURI a = uriPrefix @ replicate 64 (CHR ''a'')"
proof -
  have "blobPut (\<lambda>_. Some (put_json sample_put_response)) (blob_call (\<lambda>_. []) (\<lambda>j. fst (sample_put j))) ''p''
      = Some (prURI sample_put_response)"
    using sample_put_eval
    by (simp add: blobPut_def blob_call_def put_payload_def put_json_def as_struct_def member_def as_text_def
        del: EncodeToString.simps)
  then show ?thesis
    by (simp add: sample_collect_def collectDiffHandler_def sample_diff_collected store_diff_def Let_def
        artifact_Record_def artifact_append_def append_log_def sample_put_response_def del: EncodeToString.simps)
qed

theorem collected_patch_readable_witness:
  "case fst sample_collect of
     Inl er \<Rightarrow> False
   | Inr a \<Rightarrow> (case blob_getHandler (atBlobURI a) (snd (sample_put (put_payload ''p''))) of
       Inl _ \<Rightarrow> False
     | Inr r \<Rightarrow> DecodeString (grContentBase64 r) = Some ''p'')"
proof -
  obtain a where a: "fst sample_collect = Ok a" using sample_collect_eval by blast
  then obtain st' where c: "sample_collect = (Ok a, st')" by (metis prod.collapse)
  have "list_all hex_char (replicate 64 (CHR ''a''))" by (simp add: hex_char_def list_all_length)
  with collected_patch_readable [OF c [unfolded sample_collect_def] _ _ _ _ _ _ _ _ refl map_le_refl,
      where patch = "''p''" and sm = "\<lparr> dsFilesChanged = 1, dsInsertions = 1, dsDeletions = 0, dsFiles = [''a.go''] \<rparr>"
        and q = "\<lparr> cdWorkContextID = ''c'', cdWorkspacePath = ''/w'', cdBaseRef = [] \<rparr>"
        and rd = "\<lambda>_. []" and digest = "\<lambda>_. replicate 64 (CHR ''a'')" and benv = "sample_store_env Written"
        and d = PutDone and be = "sample_request None" and s = "\<lambda>_. None"]
  show ?thesis
    using sample_put_eval a
    by (auto simp: sample_put_def sample_diff_collected content_addressed_def split: sum.splits)
qed

end
